(* ===== verification/Float64.thy ===== *)
theory Float64
  imports Complex_Main
begin

text \<open>
  IEEE 754 binary64, the Go type \<^verbatim>\<open>float64\<close>, as far as the service computes with it.
  A value is a finite rational, the negative zero, one of the two infinities or NaN; every
  arithmetic operation is the exact rational operation followed by \<open>round64\<close>, the rounding to
  53 significant bits, ties to even, with gradual underflow and overflow to an infinity.  The
  conversions from and to integers are those of the Go specification (truncation towards zero).
  Decimal parsing and printing (\<^verbatim>\<open>strconv\<close>) and the transcendental functions of \<^verbatim>\<open>math\<close>
  are arguments of the definitions that use them.

  The lemmas show what the components need: the binary logarithm brackets its argument, and
  \<open>round64\<close> is exact on every half-integer below \<open>2^52\<close>.
\<close>

section \<open>Values\<close>

datatype f64 = Fin rat | NegZero | PInf | NInf | NaN

fun f64_val :: "f64 \<Rightarrow> rat" where
  "f64_val (Fin q) = q"
| "f64_val _ = 0"

fun f64_is_nan :: "f64 \<Rightarrow> bool" where
  "f64_is_nan NaN = True"
| "f64_is_nan _ = False"

fun f64_finite :: "f64 \<Rightarrow> bool" where
  "f64_finite (Fin _) = True"
| "f64_finite NegZero = True"
| "f64_finite _ = False"

fun f64_neg :: "f64 \<Rightarrow> bool" where
  "f64_neg (Fin q) = (q < 0)"
| "f64_neg NegZero = True"
| "f64_neg NInf = True"
| "f64_neg _ = False"

section \<open>Rounding\<close>

definition pow2 :: "int \<Rightarrow> rat" where
  "pow2 e = (if 0 \<le> e then 2 ^ nat e else 1 / 2 ^ nat (- e))"

lemma pow2_pos [simp]: "0 < pow2 e"
  by (simp add: pow2_def)

lemma pow2_0 [simp]: "pow2 0 = 1"
  by (simp add: pow2_def)

lemma pow2_conv: "pow2 e = 2 powi e"
  by (simp add: pow2_def power_int_def inverse_eq_divide power_divide)

lemma pow2_add: "pow2 (a + b) = pow2 a * pow2 b"
  by (simp add: pow2_conv power_int_add)

lemma pow2_mono: "a \<le> b \<Longrightarrow> pow2 a \<le> pow2 b"
  unfolding pow2_conv by (rule power_int_increasing) simp_all

lemma pow2_less_iff: "pow2 a < pow2 b \<longleftrightarrow> a < b"
proof
  show "pow2 a < pow2 b \<Longrightarrow> a < b"
    using pow2_mono [of b a] by (metis linorder_not_le)
  show "a < b \<Longrightarrow> pow2 a < pow2 b"
    unfolding pow2_conv by (rule power_int_strict_increasing) simp_all
qed

lemma pow2_nat: "0 \<le> e \<Longrightarrow> pow2 e = of_int (2 ^ nat e)"
  by (simp add: pow2_def)

text \<open>The exponent of a positive rational: \<open>2^k \<le> x < 2^(k+1)\<close>.\<close>

function ilog2 :: "rat \<Rightarrow> int" where
  "ilog2 x =
     (if x \<le> 0 then 0
      else if 2 \<le> x then 1 + ilog2 (x / 2)
      else if x < 1 then ilog2 (2 * x) - 1
      else 0)"
  by pat_completeness auto

termination
proof (relation "measure (\<lambda>x. if 1 \<le> x then nat \<lfloor>x\<rfloor> else Suc (nat \<lceil>1 / x\<rceil>))")
  show "wf (measure (\<lambda>x::rat. if 1 \<le> x then nat \<lfloor>x\<rfloor> else Suc (nat \<lceil>1 / x\<rceil>)))"
    by simp
next
  fix x :: rat
  assume x: "\<not> x \<le> 0" "2 \<le> x"
  have "\<lfloor>x / 2\<rfloor> < \<lfloor>x\<rfloor>"
  proof -
    have "x / 2 + 1 \<le> x" using x by simp
    then have "\<lfloor>x / 2 + 1\<rfloor> \<le> \<lfloor>x\<rfloor>" by (rule floor_mono)
    then show ?thesis by simp
  qed
  moreover have "0 < \<lfloor>x\<rfloor>" using x by (simp add: less_floor_iff)
  ultimately show "(x / 2, x) \<in> measure (\<lambda>x. if 1 \<le> x then nat \<lfloor>x\<rfloor> else Suc (nat \<lceil>1 / x\<rceil>))"
    using x by (simp add: nat_less_eq_zless)
next
  fix x :: rat
  assume x: "\<not> x \<le> 0" "\<not> 2 \<le> x" "x < 1"
  show "(2 * x, x) \<in> measure (\<lambda>x. if 1 \<le> x then nat \<lfloor>x\<rfloor> else Suc (nat \<lceil>1 / x\<rceil>))"
  proof (cases "1 \<le> 2 * x")
    case True
    then have "\<lfloor>2 * x\<rfloor> = 1" using x by (simp add: floor_eq_iff)
    moreover have "0 < \<lceil>1 / x\<rceil>" using x by (simp add: field_simps)
    ultimately show ?thesis using x True by simp
  next
    case False
    have "1 / (2 * x) + 1 \<le> 1 / x" using x False by (simp add: field_simps)
    then have "\<lceil>1 / (2 * x) + 1\<rceil> \<le> \<lceil>1 / x\<rceil>" by (rule ceiling_mono)
    then have "\<lceil>1 / (2 * x)\<rceil> < \<lceil>1 / x\<rceil>" by simp
    moreover have "0 < \<lceil>1 / x\<rceil>" using x by (simp add: field_simps)
    ultimately show ?thesis using x False by simp
  qed
qed

declare ilog2.simps [simp del]

lemma ilog2_bounds: "0 < x \<Longrightarrow> pow2 (ilog2 x) \<le> x \<and> x < pow2 (ilog2 x + 1)"
proof (induction x rule: ilog2.induct)
  case (1 x)
  consider "2 \<le> x" | "x < 1" | "1 \<le> x" "x < 2" by linarith
  then show ?case
  proof cases
    case 1
    with "1.IH"(1) "1.prems"
    have "pow2 (ilog2 (x / 2)) \<le> x / 2" and "x / 2 < pow2 (ilog2 (x / 2) + 1)" by auto
    with 1 show ?thesis
      by (simp add: ilog2.simps [of x] pow2_add) (simp add: pow2_def)
  next
    case 2
    with "1.IH"(2) "1.prems"
    have "pow2 (ilog2 (2 * x)) \<le> 2 * x" and "2 * x < pow2 (ilog2 (2 * x) + 1)" by auto
    moreover have "pow2 (ilog2 (2 * x)) = 2 * pow2 (ilog2 (2 * x) - 1)"
      using pow2_add [of "ilog2 (2 * x) - 1" 1] by (simp add: pow2_def [of 1])
    moreover have "pow2 (ilog2 (2 * x) + 1) = 2 * pow2 (ilog2 (2 * x))"
      using pow2_add [of "ilog2 (2 * x)" 1] by (simp add: pow2_def [of 1])
    ultimately show ?thesis
      using 2 "1.prems" by (simp add: ilog2.simps [of x])
  next
    case 3
    then show ?thesis by (simp add: ilog2.simps [of x] pow2_def)
  qed
qed

definition round_half_even :: "rat \<Rightarrow> int" where
  "round_half_even x =
     (let f = \<lfloor>x\<rfloor>; r = x - of_int f
      in if r < 1 / 2 then f else if 1 / 2 < r then f + 1 else if even f then f else f + 1)"

lemma round_half_even_of_int [simp]: "round_half_even (of_int n) = n"
  by (simp add: round_half_even_def)

definition round64 :: "rat \<Rightarrow> f64" where
  "round64 x =
     (if x = 0 then Fin 0
      else let e = max (ilog2 \<bar>x\<bar> - 52) (- 1074);
               v = of_int (round_half_even (x / pow2 e)) * pow2 e
           in if v < 2 ^ 1024 \<and> - (2 ^ 1024) < v then Fin v
              else if 0 < v then PInf else NInf)"

text \<open>Every half-integer below \<open>2^52\<close> is a float, so rounding leaves it alone.\<close>

lemma round64_half_int:
  assumes m: "\<bar>m\<bar> < 2 ^ 53"
  shows "round64 (of_int m / 2) = Fin (of_int m / 2)"
proof (cases "m = 0")
  case True
  then show ?thesis by (simp add: round64_def)
next
  case False
  define x :: rat where "x = of_int m / 2"
  define e where "e = max (ilog2 \<bar>x\<bar> - 52) (- 1074)"
  have x0: "x \<noteq> 0" using False by (simp add: x_def)
  have xb: "\<bar>x\<bar> < 2 ^ 52"
  proof -
    have "(of_int \<bar>m\<bar> :: rat) < of_int (2 ^ 53)" using m by (simp only: of_int_less_iff)
    then show ?thesis by (simp add: x_def)
  qed
  have "pow2 (ilog2 \<bar>x\<bar>) < pow2 52"
    using ilog2_bounds [of "\<bar>x\<bar>"] x0 xb by (simp add: pow2_def [of 52] order_le_less_trans)
  then have e1: "e \<le> - 1" by (simp add: pow2_less_iff e_def)
  then have "x / pow2 e = of_int (m * 2 ^ nat (- e - 1))"
  proof -
    have "pow2 (- 1 + (e + 1)) = pow2 (- 1) * pow2 (e + 1)" by (rule pow2_add)
    then have p: "pow2 e = pow2 (e + 1) / 2" by (simp add: pow2_def [of "- 1"])
    have "pow2 (e + 1) * 2 ^ nat (- e - 1) = 1"
      using pow2_add [of "e + 1" "- e - 1"] pow2_nat [of "- e - 1"] e1 by simp
    then have "1 / pow2 (e + 1) = 2 ^ nat (- e - 1)"
      by (metis nonzero_mult_div_cancel_left pow2_pos less_irrefl)
    moreover have "x / pow2 e = of_int m * (1 / pow2 (e + 1))" by (simp add: x_def p)
    ultimately show ?thesis by simp
  qed
  then have v: "of_int (round_half_even (x / pow2 e)) * pow2 e = x"
    by (metis round_half_even_of_int nonzero_eq_divide_eq pow2_pos less_irrefl)
  have "x < 2 ^ 1024 \<and> - (2 ^ 1024) < x"
  proof -
    have "(2::rat) ^ 52 \<le> 2 ^ 1024" by (rule power_increasing) auto
    then show ?thesis using xb by linarith
  qed
  then have "round64 x = Fin x"
    using x0 v by (simp add: round64_def Let_def flip: e_def)
  then show ?thesis by (simp add: x_def)
qed

lemma round64_int: "\<bar>n\<bar> < 2 ^ 52 \<Longrightarrow> round64 (of_int n) = Fin (of_int n)"
  using round64_half_int [of "2 * n"] by simp

section \<open>Arithmetic\<close>

definition round_signed :: "bool \<Rightarrow> rat \<Rightarrow> f64" where
  "round_signed neg q = (let r = round64 q in if r = Fin 0 \<and> neg then NegZero else r)"

definition inf_of :: "bool \<Rightarrow> f64" where
  "inf_of neg = (if neg then NInf else PInf)"

definition f64_uminus :: "f64 \<Rightarrow> f64" where
  "f64_uminus x = (case x of
       Fin q \<Rightarrow> if q = 0 then NegZero else Fin (- q)
     | NegZero \<Rightarrow> Fin 0 | PInf \<Rightarrow> NInf | NInf \<Rightarrow> PInf | NaN \<Rightarrow> NaN)"

definition f64_add :: "f64 \<Rightarrow> f64 \<Rightarrow> f64" where
  "f64_add x y =
     (if x = NaN \<or> y = NaN then NaN
      else if \<not> f64_finite x then (if \<not> f64_finite y \<and> x \<noteq> y then NaN else x)
      else if \<not> f64_finite y then y
      else if x = NegZero \<and> y = NegZero then NegZero
      else round64 (f64_val x + f64_val y))"

definition f64_sub :: "f64 \<Rightarrow> f64 \<Rightarrow> f64" where
  "f64_sub x y = f64_add x (f64_uminus y)"

definition f64_mul :: "f64 \<Rightarrow> f64 \<Rightarrow> f64" where
  "f64_mul x y =
     (let neg = (f64_neg x \<noteq> f64_neg y)
      in if x = NaN \<or> y = NaN then NaN
         else if \<not> f64_finite x \<or> \<not> f64_finite y then
           (if (f64_finite x \<and> f64_val x = 0) \<or> (f64_finite y \<and> f64_val y = 0) then NaN
            else inf_of neg)
         else round_signed neg (f64_val x * f64_val y))"

definition f64_div :: "f64 \<Rightarrow> f64 \<Rightarrow> f64" where
  "f64_div x y =
     (let neg = (f64_neg x \<noteq> f64_neg y)
      in if x = NaN \<or> y = NaN then NaN
         else if \<not> f64_finite x then (if \<not> f64_finite y then NaN else inf_of neg)
         else if \<not> f64_finite y then (if neg then NegZero else Fin 0)
         else if f64_val y = 0 then (if f64_val x = 0 then NaN else inf_of neg)
         else round_signed neg (f64_val x / f64_val y))"

definition f64_less :: "f64 \<Rightarrow> f64 \<Rightarrow> bool" where
  "f64_less x y =
     (if x = NaN \<or> y = NaN then False
      else if x = y then False
      else if x = NInf \<or> y = PInf then True
      else if x = PInf \<or> y = NInf then False
      else f64_val x < f64_val y)"

definition f64_of_int :: "int \<Rightarrow> f64" where
  "f64_of_int n = round64 (of_int n)"

text \<open>
  \<^verbatim>\<open>int64(x)\<close>.  The language leaves the result unspecified when \<open>x\<close> does not fit; the
  model returns the least \<^verbatim>\<open>int64\<close> there, and no theorem depends on that choice.
\<close>

definition trunc_rat :: "rat \<Rightarrow> int" where
  "trunc_rat q = (if 0 \<le> q then \<lfloor>q\<rfloor> else \<lceil>q\<rceil>)"

definition f64_to_int64 :: "f64 \<Rightarrow> int" where
  "f64_to_int64 x =
     (let n = trunc_rat (f64_val x)
      in if f64_finite x \<and> - (2 ^ 63) \<le> n \<and> n < 2 ^ 63 then n else - (2 ^ 63))"

lemma trunc_rat_of_int [simp]: "trunc_rat (of_int n) = n"
  by (simp add: trunc_rat_def)

lemma f64_to_int64_of_int:
  "- (2 ^ 63) \<le> n \<Longrightarrow> n < 2 ^ 63 \<Longrightarrow> f64_to_int64 (Fin (of_int n)) = n"
  by (simp add: f64_to_int64_def)

lemma f64_less_irrefl [simp]: "\<not> f64_less x x"
  by (simp add: f64_less_def)

lemma f64_of_int_small: "\<bar>n\<bar> < 2 ^ 52 \<Longrightarrow> f64_of_int n = Fin (of_int n)"
  by (simp add: f64_of_int_def round64_int)

end
