(* ===== verification/Prelude.thy ===== *)
theory Prelude
  imports Float64 "HOL-Library.AList" "HOL-Library.Char_ord" "HOL-Library.List_Lexorder"
begin

text \<open>
  What every component of the service shares: the collections of simplification rules, Go maps,
  byte strings, decimal printing, the dynamic type \<^verbatim>\<open>any\<close>, instants and durations.

  \<^item> A Go map is an association list with distinct keys; the list order is one of the iteration
    orders the runtime may choose, so theorems about maps are stated through \<open>map_of\<close>.
  \<^item> A Go string is a list of bytes (\<open>string\<close>); \<^verbatim>\<open>error\<close> values are their texts.
  \<^item> \<open>any\<close> holds the dynamically typed values decoded from JSON or YAML.
  \<^item> An instant is the number of nanoseconds since the zero \<^verbatim>\<open>time.Time\<close>; a duration is an
    \<^verbatim>\<open>int64\<close> number of nanoseconds.
\<close>

named_theorems gm_simps \<open>look-ups in updated Go maps\<close>
named_theorems str_simps \<open>prefixes and splitting of strings\<close>
named_theorems conn_defs \<open>definitions of the connection manager\<close>

type_synonym go_error = string
type_synonym ('k, 'v) go_map = "('k \<times> 'v) list"
type_synonym instant = int
type_synonym duration = int

section \<open>Go maps\<close>

abbreviation gm_put :: "'k \<Rightarrow> 'v \<Rightarrow> ('k, 'v) go_map \<Rightarrow> ('k, 'v) go_map" where
  "gm_put \<equiv> AList.update"

abbreviation gm_del :: "'k \<Rightarrow> ('k, 'v) go_map \<Rightarrow> ('k, 'v) go_map" where
  "gm_del \<equiv> AList.delete"

abbreviation gm_wf :: "('k, 'v) go_map \<Rightarrow> bool" where
  "gm_wf m \<equiv> distinct (map fst m)"

text \<open>Reading a missing key of a \<^verbatim>\<open>map[string]string\<close> yields the zero value.\<close>

definition gm_str :: "('k, string) go_map \<Rightarrow> 'k \<Rightarrow> string" where
  "gm_str m k = (case map_of m k of None \<Rightarrow> '''' | Some v \<Rightarrow> v)"

definition gm_has :: "('k, 'v) go_map \<Rightarrow> 'k \<Rightarrow> bool" where
  "gm_has m k = (map_of m k \<noteq> None)"

lemmas [gm_simps] = update_conv' delete_conv'

lemma gm_str_put [gm_simps]: "gm_str (gm_put k v m) k' = (if k' = k then v else gm_str m k')"
  by (simp add: gm_str_def update_conv')

lemma gm_wf_put [simp]: "gm_wf m \<Longrightarrow> gm_wf (gm_put k v m)"
  by (rule distinct_update)

lemma gm_wf_del [simp]: "gm_wf m \<Longrightarrow> gm_wf (gm_del k m)"
  by (rule distinct_delete)

lemma gm_has_iff: "gm_has m k \<longleftrightarrow> k \<in> fst ` set m"
  by (simp add: gm_has_def map_of_eq_None_iff)

lemma gm_put_length:
  "length (gm_put k v m) = (if gm_has m k then length m else Suc (length m))"
  by (induction m) (auto simp: gm_has_def)

lemma set_put: "set (gm_put k v m) \<subseteq> insert (k, v) (set m)"
  by (induction m) auto

lemma gm_wf_filter: "gm_wf m \<Longrightarrow> gm_wf (filter P m)"
  by (induction m) auto

lemma map_of_filter_key:
  "map_of (filter (\<lambda>(k, v). P k) m) k = (if P k then map_of m k else None)"
  by (induction m) auto

lemma map_of_fold_put:
  "map_of (fold (\<lambda>(k, v). gm_put k v) kvs m) = map_of m ++ map_of (rev kvs)"
proof (induction kvs arbitrary: m)
  case (Cons kv kvs)
  then show ?case
    by (cases kv) (auto simp: update_conv' fun_eq_iff map_add_def split: option.splits)
qed simp

lemma gm_wf_fold_put: "gm_wf m \<Longrightarrow> gm_wf (fold (\<lambda>(k, v). gm_put k v) kvs m)"
  by (induction kvs arbitrary: m) auto

lemma map_of_rev_wf: "gm_wf m \<Longrightarrow> map_of (rev m) = map_of m"
  by (rule map_of_inject_set [THEN iffD2]) (auto simp: rev_map [symmetric])

section \<open>Strings\<close>

definition HasPrefix :: "string \<Rightarrow> string \<Rightarrow> bool" where
  "HasPrefix s p = (take (length p) s = p)"

definition TrimPrefix :: "string \<Rightarrow> string \<Rightarrow> string" where
  "TrimPrefix s p = (if HasPrefix s p then drop (length p) s else s)"

lemma HasPrefix_append [simp, str_simps]: "HasPrefix (p @ s) p"
  by (simp add: HasPrefix_def)

lemma TrimPrefix_append [simp, str_simps]: "TrimPrefix (p @ s) p = s"
  by (simp add: TrimPrefix_def)

lemma HasPrefixE: "HasPrefix s p \<Longrightarrow> (\<And>r. s = p @ r \<Longrightarrow> P) \<Longrightarrow> P"
  by (metis HasPrefix_def append_take_drop_id)

text \<open>\<^verbatim>\<open>strings.Split(s, sep)\<close> for a one-byte separator; the empty string gives one empty part.\<close>

fun Split :: "char \<Rightarrow> string \<Rightarrow> string list" where
  "Split c [] = [[]]"
| "Split c (x # xs) =
     (if x = c then [] # Split c xs
      else (case Split c xs of [] \<Rightarrow> [[x]] | y # ys \<Rightarrow> (x # y) # ys))"

fun Join :: "string list \<Rightarrow> string \<Rightarrow> string" where
  "Join [] sep = []"
| "Join [x] sep = x"
| "Join (x # y # ys) sep = x @ sep @ Join (y # ys) sep"

lemma Split_not_Nil [simp]: "Split c s \<noteq> []"
  by (induction s) (auto split: list.splits)

lemma Join_Split: "Join (Split c s) [c] = s"
proof (induction s)
  case (Cons x xs)
  then show ?case
    by (cases "Split c xs") (auto simp: neq_Nil_conv split: list.splits, (metis Join.simps(2,3) neq_Nil_conv append_Cons)+)
qed simp

text \<open>\<^verbatim>\<open>strings.Index(s, sep)\<close> for a one-byte separator, as the split at its first occurrence.\<close>

fun cut_at :: "char \<Rightarrow> string \<Rightarrow> (string \<times> string) option" where
  "cut_at c [] = None"
| "cut_at c (x # xs) =
     (if x = c then Some ([], xs)
      else (case cut_at c xs of None \<Rightarrow> None | Some (a, b) \<Rightarrow> Some (x # a, b)))"

lemma cut_at_Some: "cut_at c s = Some (a, b) \<Longrightarrow> s = a @ c # b"
  by (induction s arbitrary: a b) (auto split: if_splits option.splits)

lemma cut_at_append: "c \<notin> set a \<Longrightarrow> cut_at c (a @ c # b) = Some (a, b)"
  by (induction a) auto

lemma cut_at_fst: "cut_at c s = Some (a, b) \<Longrightarrow> c \<notin> set a"
  by (induction s arbitrary: a b) (auto split: if_splits option.splits)

lemma cut_at_None: "cut_at c s = None \<longleftrightarrow> c \<notin> set s"
  by (induction s) (auto split: option.splits)

text \<open>
  \<^verbatim>\<open>strings.TrimSpace\<close>: the UTF-8 encodings of the white space characters of Unicode are
  stripped from both ends.
\<close>

definition white_space :: "string list" where
  "white_space =
     [[CHR 0x09], [CHR 0x0A], [CHR 0x0B], [CHR 0x0C], [CHR 0x0D], [CHR 0x20],
      [CHR 0xC2, CHR 0x85], [CHR 0xC2, CHR 0xA0], [CHR 0xE1, CHR 0x9A, CHR 0x80],
      [CHR 0xE2, CHR 0x80, CHR 0xA8], [CHR 0xE2, CHR 0x80, CHR 0xA9], [CHR 0xE2, CHR 0x80, CHR 0xAF],
      [CHR 0xE2, CHR 0x81, CHR 0x9F], [CHR 0xE3, CHR 0x80, CHR 0x80]]
     @ map (\<lambda>b. [CHR 0xE2, CHR 0x80, b])
         [CHR 0x80, CHR 0x81, CHR 0x82, CHR 0x83, CHR 0x84, CHR 0x85, CHR 0x86, CHR 0x87,
          CHR 0x88, CHR 0x89, CHR 0x8A]"

text \<open>Each pattern is at most as long as the string it matches, so the string itself is the fuel.\<close>

fun strip_patterns :: "nat \<Rightarrow> string list \<Rightarrow> string \<Rightarrow> string" where
  "strip_patterns 0 ps s = s"
| "strip_patterns (Suc n) ps s =
     (case filter (HasPrefix s) ps of
        [] \<Rightarrow> s
      | p # _ \<Rightarrow> strip_patterns n ps (drop (length p) s))"

definition TrimSpace :: "string \<Rightarrow> string" where
  "TrimSpace s =
     (let l = strip_patterns (length s) white_space s
      in rev (strip_patterns (length l) (map rev white_space) (rev l)))"

section \<open>Decimal numbers\<close>

definition digit :: "nat \<Rightarrow> char" where
  "digit d = ''0123456789'' ! d"

fun show_nat :: "nat \<Rightarrow> string" where
  "show_nat n = (if n < 10 then [digit n] else show_nat (n div 10) @ [digit (n mod 10)])"

declare show_nat.simps [simp del]

definition show_int :: "int \<Rightarrow> string" where
  "show_int n = (if n < 0 then CHR ''-'' # show_nat (nat (- n)) else show_nat (nat n))"

definition digit_val :: "char \<Rightarrow> nat option" where
  "digit_val c = (let n = of_char c :: nat in if 48 \<le> n \<and> n \<le> 57 then Some (n - 48) else None)"

fun read_digits :: "nat \<Rightarrow> string \<Rightarrow> nat option" where
  "read_digits acc [] = Some acc"
| "read_digits acc (c # cs) =
     (case digit_val c of None \<Rightarrow> None | Some d \<Rightarrow> read_digits (10 * acc + d) cs)"

text \<open>
  \<^verbatim>\<open>strconv.ParseInt(s, 10, bits)\<close>: an optional sign and at least one decimal digit, in range.
  \<open>None\<close> is the error (syntax or range).
\<close>

definition ParseInt :: "nat \<Rightarrow> string \<Rightarrow> int option" where
  "ParseInt bits s =
     (let (neg, ds) = (case s of
            [] \<Rightarrow> (False, [])
          | c # cs \<Rightarrow> if c = CHR ''-'' then (True, cs) else if c = CHR ''+'' then (False, cs) else (False, s))
      in if ds = [] then None
         else (case read_digits 0 ds of
             None \<Rightarrow> None
           | Some n \<Rightarrow> (let v = (if neg then - int n else int n)
                       in if - (2 ^ (bits - 1)) \<le> v \<and> v < 2 ^ (bits - 1) then Some v else None)))"

text \<open>
  \<^verbatim>\<open>val, _ := strconv.Atoi(s)\<close>: the error is dropped, so a syntax error reads as zero and a number
  out of range as the nearest extreme of the type.  The scan stops with the range error as soon as
  the digits read exceed the unsigned type.
\<close>

fun atoi_digits :: "nat \<Rightarrow> nat \<Rightarrow> string \<Rightarrow> nat option" where
  "atoi_digits mx acc [] = Some acc"
| "atoi_digits mx acc (c # cs) =
     (case digit_val c of
        None \<Rightarrow> None
      | Some d \<Rightarrow> (let a = 10 * acc + d in if a > mx then Some a else atoi_digits mx a cs))"

definition Atoi_val :: "nat \<Rightarrow> string \<Rightarrow> int" where
  "Atoi_val bits s =
     (let (neg, ds) = (case s of
            [] \<Rightarrow> (False, [])
          | c # cs \<Rightarrow> if c = CHR ''-'' then (True, cs) else if c = CHR ''+'' then (False, cs) else (False, s))
      in if ds = [] then 0
         else (case atoi_digits (2 ^ bits - 1) 0 ds of
             None \<Rightarrow> 0
           | Some n \<Rightarrow> (let v = (if neg then - int n else int n)
                       in max (- (2 ^ (bits - 1))) (min (2 ^ (bits - 1) - 1) v))))"

lemma read_digits_mono: "read_digits acc s = Some n \<Longrightarrow> acc \<le> n"
  by (induction s arbitrary: acc) (fastforce split: option.splits)+

lemma atoi_digits_read: "read_digits acc s = Some n \<Longrightarrow> n \<le> mx \<Longrightarrow> atoi_digits mx acc s = Some n"
proof (induction s arbitrary: acc)
  case (Cons c cs)
  then obtain d where d: "digit_val c = Some d" "read_digits (10 * acc + d) cs = Some n"
    by (auto split: option.splits)
  then have "10 * acc + d \<le> mx" using read_digits_mono Cons.prems(2) order_trans by blast
  then show ?case using Cons.IH d Cons.prems(2) by simp
qed simp

lemma Atoi_val_ParseInt:
  assumes "ParseInt bits s = Some v" and "0 < bits"
  shows "Atoi_val bits s = v"
proof -
  obtain neg ds where nd: "(case s of [] \<Rightarrow> (False, [])
      | c # cs \<Rightarrow> if c = CHR ''-'' then (True, cs) else if c = CHR ''+'' then (False, cs) else (False, s))
      = (neg, ds)" by fastforce
  with assms(1) obtain n where n: "ds \<noteq> []" "read_digits 0 ds = Some n"
      "v = (if neg then - int n else int n)" "- (2 ^ (bits - 1)) \<le> v" "v < 2 ^ (bits - 1)"
    by (auto simp: ParseInt_def Let_def split: option.splits if_splits)
  have "int n \<le> 2 ^ (bits - 1)" using n(3,4,5) by (auto split: if_splits)
  then have "n \<le> 2 ^ (bits - 1)" by (metis of_nat_le_iff of_nat_numeral of_nat_power)
  moreover have "(2::nat) ^ (bits - 1) \<le> 2 ^ bits - 1"
    using assms(2) by (cases bits) (auto simp: le_diff_conv2)
  ultimately have "n \<le> 2 ^ bits - 1" by (rule order_trans)
  then show ?thesis
    using nd n atoi_digits_read [OF n(2)] by (auto simp: Atoi_val_def Let_def split: if_splits)
qed

lemma less_10_cases:
  "d < 10 \<Longrightarrow> d \<in> {0, 1, 2, 3, 4, 5, 6, 7, 8, 9 :: nat}"
  by auto

lemma digit_val_digit: "d < 10 \<Longrightarrow> digit_val (digit d) = Some d"
  by (drule less_10_cases) (auto simp: digit_val_def digit_def)

lemma read_digits_append:
  "read_digits acc (xs @ ys) = (case read_digits acc xs of None \<Rightarrow> None | Some a \<Rightarrow> read_digits a ys)"
  by (induction xs arbitrary: acc) (auto split: option.splits)

lemma read_digits_show_nat: "read_digits 0 (show_nat n) = Some n"
proof (induction n rule: show_nat.induct)
  case (1 n)
  show ?case
  proof (cases "n < 10")
    case True
    then show ?thesis by (simp add: show_nat.simps [of n] digit_val_digit)
  next
    case False
    then have "read_digits 0 (show_nat (n div 10)) = Some (n div 10)" by (rule "1.IH")
    then show ?thesis
      using False by (simp add: show_nat.simps [of n] read_digits_append digit_val_digit)
  qed
qed

lemma show_nat_not_Nil [simp]: "show_nat n \<noteq> []"
  by (subst show_nat.simps) simp

lemma digit_not_sign: "d < 10 \<Longrightarrow> digit d \<noteq> CHR ''-'' \<and> digit d \<noteq> CHR ''+''"
  using digit_val_digit [of d] by (auto simp: digit_val_def)

lemma hd_show_nat: "\<exists>d < 10. hd (show_nat n) = digit d"
proof (induction n rule: show_nat.induct)
  case (1 n)
  then show ?case by (cases "n < 10") (auto simp: show_nat.simps [of n])
qed

lemma ParseInt_show_int:
  assumes "- (2 ^ (bits - 1)) \<le> v" and "v < 2 ^ (bits - 1)"
  shows "ParseInt bits (show_int v) = Some v"
proof (cases "v < 0")
  case True
  then show ?thesis
    using assms by (simp add: ParseInt_def show_int_def read_digits_show_nat)
next
  case False
  obtain d where d: "d < 10" "hd (show_nat (nat v)) = digit d" using hd_show_nat by blast
  obtain c cs where c: "show_nat (nat v) = c # cs" by (metis neq_Nil_conv show_nat_not_Nil)
  with d have "c \<noteq> CHR ''-''" and "c \<noteq> CHR ''+''" using digit_not_sign [of d] by auto
  then show ?thesis
    using assms False c read_digits_show_nat [of "nat v"] by (simp add: ParseInt_def show_int_def)
qed

section \<open>Library functions on floats\<close>

text \<open>
  The float conversions of \<^verbatim>\<open>strconv\<close> and \<^verbatim>\<open>fmt\<close>, duration parsing and the transcendental functions of
  \<^verbatim>\<open>math\<close>, as one argument of the definitions that call them, with the width of \<^verbatim>\<open>int\<close> on the
  target (32 on the vehicle's ARMv7, 64 on a host), the quoting of \<^verbatim>\<open>%q\<close>, the text of a \<^verbatim>\<open>*strconv.NumError\<close> of a function and
  its input: \<^verbatim>\<open>ParseFloat(s, 64)\<close>
  (\<open>None\<close> is the error), \<^verbatim>\<open>FormatFloat(x, 'f', -1, 64)\<close>, the verb \<^verbatim>\<open>%v\<close>, the verb
  \<^verbatim>\<open>%.3f\<close>, the number \<^verbatim>\<open>encoding/json\<close> writes for a finite float, \<^verbatim>\<open>time.ParseDuration\<close>, and \<^verbatim>\<open>Sin\<close>, \<^verbatim>\<open>Cos\<close>, \<^verbatim>\<open>Sqrt\<close>, \<^verbatim>\<open>Atan2\<close>.
\<close>

record golib =
  lib_IntSize :: nat
  lib_Quote :: "string \<Rightarrow> string"
  lib_NumError :: "string \<Rightarrow> string \<Rightarrow> go_error"
  lib_ParseFloat :: "string \<Rightarrow> f64 option"
  lib_FormatF :: "f64 \<Rightarrow> string"
  lib_FormatV :: "f64 \<Rightarrow> string"
  lib_Format3 :: "f64 \<Rightarrow> string"
  lib_JSONFloat :: "f64 \<Rightarrow> string"
  lib_ParseDuration :: "string \<Rightarrow> duration option"
  lib_Sin :: "f64 \<Rightarrow> f64"
  lib_Cos :: "f64 \<Rightarrow> f64"
  lib_Sqrt :: "f64 \<Rightarrow> f64"
  lib_Atan2 :: "f64 \<Rightarrow> f64 \<Rightarrow> f64"

section \<open>Dynamic values\<close>

datatype any =
    ANil
  | ABool bool
  | AInt int
  | AFloat f64
  | AStr string
  | AArr "any list"
  | AObj "(string \<times> any) list"

type_synonym obj = "(string, any) go_map"

text \<open>Type assertions \<^verbatim>\<open>v.(T)\<close>; a missing map entry reads as the nil interface.\<close>

definition gm_any :: "obj \<Rightarrow> string \<Rightarrow> any" where
  "gm_any m k = (case map_of m k of None \<Rightarrow> ANil | Some v \<Rightarrow> v)"

fun as_str :: "any \<Rightarrow> string option" where
  "as_str (AStr s) = Some s"
| "as_str _ = None"

fun as_float :: "any \<Rightarrow> f64 option" where
  "as_float (AFloat x) = Some x"
| "as_float _ = None"

fun as_obj :: "any \<Rightarrow> obj option" where
  "as_obj (AObj m) = Some m"
| "as_obj _ = None"

fun as_arr :: "any \<Rightarrow> any list option" where
  "as_arr (AArr xs) = Some xs"
| "as_arr _ = None"

text \<open>The two-valued assertion discards the second result: \<^verbatim>\<open>s, _ := v.(string)\<close>.\<close>

definition str_or_empty :: "any \<Rightarrow> string" where
  "str_or_empty v = (case as_str v of None \<Rightarrow> '''' | Some s \<Rightarrow> s)"

text \<open>\<^verbatim>\<open>fmt.Sprint\<close>; floats print by the library's \<^verbatim>\<open>%v\<close>.\<close>

fun Sprint :: "golib \<Rightarrow> any \<Rightarrow> string" where
  "Sprint L ANil = ''<nil>''"
| "Sprint L (ABool b) = (if b then ''true'' else ''false'')"
| "Sprint L (AInt n) = show_int n"
| "Sprint L (AFloat x) = lib_FormatV L x"
| "Sprint L (AStr s) = s"
| "Sprint L (AArr xs) = ''['' @ Join (map (Sprint L) xs) '' '' @ '']''"
| "Sprint L (AObj m) =
     ''map['' @ Join (map (\<lambda>(k, s). k @ '':'' @ s)
                     (sort_key fst (map (\<lambda>(k, v). (k, Sprint L v)) m))) '' '' @ '']''"

text \<open>\<^verbatim>\<open>json.Marshal\<close> of such a value fails exactly on a NaN or an infinity.\<close>

fun encodable :: "any \<Rightarrow> bool" where
  "encodable (AFloat x) = f64_finite x"
| "encodable (AArr xs) = list_all encodable xs"
| "encodable (AObj m) = list_all (\<lambda>(k, v). encodable v) m"
| "encodable _ = True"

definition obj_encodable :: "obj \<Rightarrow> bool" where
  "obj_encodable m = encodable (AObj m)"

section \<open>Atomic file replacement\<close>

text \<open>
  How the replacement of a file through a temporary file ends: the temporary file is complete and
  closed, it is renamed over the target, the directory is synced.  A file is its content, \<open>None\<close>
  when it does not exist.
\<close>

record waio =
  wa_prepare :: bool
  wa_rename :: bool
  wa_dirsync :: bool

definition replace_file :: "waio \<Rightarrow> string \<Rightarrow> string option \<Rightarrow> bool \<times> string option" where
  "replace_file io data file =
     (if wa_prepare io \<and> wa_rename io then (wa_dirsync io, Some data) else (False, file))"

section \<open>Instants and durations\<close>

abbreviation (input) Millisecond :: duration where "Millisecond \<equiv> 1000000"
abbreviation (input) Second :: duration where "Second \<equiv> 1000000000"
abbreviation (input) Minute :: duration where "Minute \<equiv> 60000000000"
abbreviation (input) Hour :: duration where "Hour \<equiv> 3600000000000"

definition maxInt64 :: int where "maxInt64 = 2 ^ 63 - 1"
definition minInt64 :: int where "minInt64 = - (2 ^ 63)"

text \<open>\<^verbatim>\<open>t.Sub(u)\<close> saturates at the extreme durations.\<close>

definition time_Sub :: "instant \<Rightarrow> instant \<Rightarrow> duration" where
  "time_Sub t u = (if t - u > maxInt64 then maxInt64 else if t - u < minInt64 then minInt64 else t - u)"

definition time_IsZero :: "instant \<Rightarrow> bool" where
  "time_IsZero t = (t = 0)"

lemma time_Sub_nonneg: "0 \<le> time_Sub t u \<longleftrightarrow> u \<le> t"
  by (auto simp: time_Sub_def maxInt64_def minInt64_def)

lemma time_Sub_less: "d \<le> maxInt64 \<Longrightarrow> minInt64 < d \<Longrightarrow> time_Sub t u < d \<longleftrightarrow> t < u + d"
  by (auto simp: time_Sub_def)

text \<open>Two's complement wrap-around of a 64-bit signed result.\<close>

definition wrap64 :: "int \<Rightarrow> int" where
  "wrap64 n = (n + 2 ^ 63) mod 2 ^ 64 - 2 ^ 63"

lemma wrap64_id: "minInt64 \<le> n \<Longrightarrow> n \<le> maxInt64 \<Longrightarrow> wrap64 n = n"
  by (simp add: wrap64_def minInt64_def maxInt64_def)

text \<open>Integer division truncates towards zero.\<close>

definition go_quot :: "int \<Rightarrow> int \<Rightarrow> int" where
  "go_quot a b = sgn a * sgn b * (\<bar>a\<bar> div \<bar>b\<bar>)"

definition go_rem :: "int \<Rightarrow> int \<Rightarrow> int" where
  "go_rem a b = a - b * go_quot a b"

section \<open>Bounded channels\<close>

text \<open>
  A buffered channel is the list of its elements.  \<open>chan_try cap x c\<close> is the non-blocking send
  \<^verbatim>\<open>select { case c <- x: default: }\<close>: \<open>None\<close> when the channel is full.
\<close>

definition chan_try :: "nat \<Rightarrow> 'a \<Rightarrow> 'a list \<Rightarrow> 'a list option" where
  "chan_try cap x c = (if length c < cap then Some (c @ [x]) else None)"

lemma chan_try_Some: "chan_try cap x c = Some c' \<longleftrightarrow> length c < cap \<and> c' = c @ [x]"
  by (auto simp: chan_try_def)

lemma chan_try_None: "chan_try cap x c = None \<longleftrightarrow> cap \<le> length c"
  by (auto simp: chan_try_def)

end
