(* ===== verification/Messages.thy ===== *)
theory Messages
  imports Prelude
begin

text \<open>
  The wire messages of \<^verbatim>\<open>internal/protocol/messages.go\<close>.  Messages from the client are the
  constructors of \<open>message\<close>, one per Go struct with the struct's fields as arguments; the constant
  \<^verbatim>\<open>type\<close> field is \<open>msg_type\<close>.  Messages from the server are records.
\<close>

record TelemetrySnapshot =
  ts_Data :: obj
  ts_Timestamp :: string

record CommandResponse =
  resp_RequestID :: string
  resp_Status :: string
  resp_Result :: "obj option"
  resp_Error :: string
  resp_Timestamp :: string

datatype message =
    AuthMessage (auth_Client: string) (auth_Version: string) (auth_Identifier: string)
      (auth_Token: string) (auth_ProtocolVersion: int) (auth_Timestamp: string)
  | StateMessage (state_Data: obj) (state_Timestamp: string)
  | ChangeMessage (change_Changes: obj) (change_Timestamp: string)
  | TelemetryDeltaMessage (delta_Changes: obj) (delta_Removed: "string list")
      (delta_Timestamp: string)
  | TelemetryBatchMessage (batch_Snapshots: "TelemetrySnapshot list") (batch_Timestamp: string)
  | EventMessage (event_Event: string) (event_Data: obj) (event_Timestamp: string)
  | KeepaliveMessage (keepalive_Timestamp: string)
  | CommandResponseMessage (resp_of: CommandResponse)

fun msg_type :: "message \<Rightarrow> string" where
  "msg_type (AuthMessage _ _ _ _ _ _) = ''auth''"
| "msg_type (StateMessage _ _) = ''state''"
| "msg_type (ChangeMessage _ _) = ''change''"
| "msg_type (TelemetryDeltaMessage _ _ _) = ''telemetry_delta''"
| "msg_type (TelemetryBatchMessage _ _) = ''telemetry_batch''"
| "msg_type (EventMessage _ _ _) = ''event''"
| "msg_type (KeepaliveMessage _) = ''keepalive''"
| "msg_type (CommandResponseMessage _) = ''command_response''"

text \<open>
  \<^verbatim>\<open>json.Marshal\<close> of a message succeeds exactly when its dynamic payload holds no NaN and no
  infinity: the other fields are strings, integers and string lists.
\<close>

fun marshal_ok :: "message \<Rightarrow> bool" where
  "marshal_ok (StateMessage d _) = obj_encodable d"
| "marshal_ok (ChangeMessage d _) = obj_encodable d"
| "marshal_ok (TelemetryDeltaMessage d _ _) = obj_encodable d"
| "marshal_ok (TelemetryBatchMessage ss _) = list_all (\<lambda>s. obj_encodable (ts_Data s)) ss"
| "marshal_ok (EventMessage _ d _) = obj_encodable d"
| "marshal_ok (CommandResponseMessage r) =
     (case resp_Result r of None \<Rightarrow> True | Some d \<Rightarrow> obj_encodable d)"
| "marshal_ok _ = True"

record AuthResponse =
  ar_Status :: string
  ar_Error :: string

record CommandMessage =
  cmd_RequestID :: string
  cmd_Command :: string
  cmd_Params :: obj

record ConfigUpdateMessage =
  upd_Deltas :: "(string, string) go_map"
  upd_Restart :: bool

end
