(* ===== verification/Connection.thy ===== *)
theory Connection
  imports Messages
begin

text \<open>
  The connection manager, \<^verbatim>\<open>internal/connection/manager.go\<close>: its fields, the senders that
  enqueue a message for the writer, the authentication exchange, one iteration of each of the
  three loops of a connection (read, write, keepalive) and the transitions between connected and
  disconnected, with the reconnect back-off.  A web socket is a number; the outcome of an I/O call
  (dial, read, write, JSON decoding of what was read) is an argument.  Each definition is one
  critical section or one loop iteration of the code.

  The last section gives the senders' contract as a locale, \<open>bounded_outbox\<close>, that the telemetry
  components rely on, and interprets it on the manager.
\<close>

section \<open>State\<close>

record live_client =
  lc_id :: nat
  lc_connection :: "nat option"

record live_frame =
  lf_data :: string
  lf_connection :: "nat option"
  lf_expires :: instant
  lf_authorize :: "nat option"
  lf_order :: nat

record manager =
  conn :: "nat option"
  connected :: bool
  authenticated :: bool
  connectTime :: instant
  lastMessage :: instant
  bytesSent :: int
  bytesReceived :: int
  messagesSent :: int
  messagesRecv :: int
  telemetrySent :: int
  commandsRecv :: int
  disconnects :: int
  retryDelay :: duration
  sendChan :: "message list"
  cmdChan :: "CommandMessage list"
  configChan :: "ConfigUpdateMessage list"
  connectedCh :: "unit list"
  livePending :: "(string, live_frame) go_map"
  liveOrder :: nat
  liveWake :: "unit list"
  liveReceiver :: "nat option"
  liveReceiverClient :: "live_client option"

definition initialRetryDelay :: duration where
  "initialRetryDelay = 1 * Second"

definition sendCap :: nat where "sendCap = 256"
definition cmdCap :: nat where "cmdCap = 256"
definition configCap :: nat where "configCap = 16"

definition NewManager :: manager where
  "NewManager =
     \<lparr>conn = None, connected = False, authenticated = False, connectTime = 0, lastMessage = 0,
      bytesSent = 0, bytesReceived = 0, messagesSent = 0, messagesRecv = 0, telemetrySent = 0,
      commandsRecv = 0, disconnects = 0, retryDelay = initialRetryDelay,
      sendChan = [], cmdChan = [], configChan = [], connectedCh = [],
      livePending = [], liveOrder = 0, liveWake = [], liveReceiver = None,
      liveReceiverClient = None\<rparr>"

section \<open>Counters\<close>

definition addBytesSent :: "int \<Rightarrow> manager \<Rightarrow> manager" where
  "addBytesSent n m = m\<lparr>bytesSent := wrap64 (bytesSent m + n)\<rparr>"

definition addBytesReceived :: "int \<Rightarrow> manager \<Rightarrow> manager" where
  "addBytesReceived n m = m\<lparr>bytesReceived := wrap64 (bytesReceived m + n)\<rparr>"

definition incrementMessagesSent :: "manager \<Rightarrow> manager" where
  "incrementMessagesSent m = m\<lparr>messagesSent := wrap64 (messagesSent m + 1)\<rparr>"

definition incrementMessagesRecv :: "manager \<Rightarrow> manager" where
  "incrementMessagesRecv m = m\<lparr>messagesRecv := wrap64 (messagesRecv m + 1)\<rparr>"

definition incrementTelemetrySent :: "manager \<Rightarrow> manager" where
  "incrementTelemetrySent m = m\<lparr>telemetrySent := wrap64 (telemetrySent m + 1)\<rparr>"

definition incrementCommandsRecv :: "manager \<Rightarrow> manager" where
  "incrementCommandsRecv m = m\<lparr>commandsRecv := wrap64 (commandsRecv m + 1)\<rparr>"

definition updateLastMessage :: "instant \<Rightarrow> manager \<Rightarrow> manager" where
  "updateLastMessage now m = m\<lparr>lastMessage := now\<rparr>"

lemmas counter_defs [conn_defs] =
  addBytesSent_def addBytesReceived_def incrementMessagesSent_def incrementMessagesRecv_def
  incrementTelemetrySent_def incrementCommandsRecv_def updateLastMessage_def

section \<open>Senders\<close>

definition IsConnected :: "manager \<Rightarrow> bool" where
  "IsConnected m = (connected m \<and> authenticated m)"

text \<open>The answer of \<open>GetStats\<close>; the two durations are the values that \<^verbatim>\<open>Duration.String\<close> is applied to.\<close>

record conn_stats =
  st_connected :: bool
  st_authenticated :: bool
  st_uptime :: duration
  st_idle :: duration
  st_bytes_sent :: int
  st_bytes_received :: int
  st_messages_sent :: int
  st_messages_recv :: int
  st_telemetry_sent :: int
  st_commands_recv :: int
  st_disconnects :: int

definition GetStats :: "instant \<Rightarrow> manager \<Rightarrow> conn_stats" where
  "GetStats now m =
     \<lparr>st_connected = connected m, st_authenticated = authenticated m,
      st_uptime = (if connected m then time_Sub now (connectTime m) else 0),
      st_idle = (if \<not> time_IsZero (lastMessage m) then time_Sub now (lastMessage m) else 0),
      st_bytes_sent = bytesSent m, st_bytes_received = bytesReceived m, st_messages_sent = messagesSent m,
      st_messages_recv = messagesRecv m, st_telemetry_sent = telemetrySent m, st_commands_recv = commandsRecv m,
      st_disconnects = disconnects m\<rparr>"

definition errNotConnected :: go_error where "errNotConnected = ''not connected''"
definition errChannelFull :: go_error where "errChannelFull = ''send channel full''"
definition errMarshal :: "string \<Rightarrow> go_error" where
  "errMarshal what = ''marshal '' @ what @ '' failed''"

definition SendState :: "string \<Rightarrow> obj \<Rightarrow> manager \<Rightarrow> go_error option \<times> manager" where
  "SendState ts data m =
     (if \<not> IsConnected m then (Some errNotConnected, m)
      else let msg = StateMessage data ts
           in if \<not> marshal_ok msg then (Some (errMarshal ''state''), m)
              else (case chan_try sendCap msg (sendChan m) of
                  Some c \<Rightarrow> (None, incrementTelemetrySent (m\<lparr>sendChan := c\<rparr>))
                | None \<Rightarrow> (Some errChannelFull, m)))"

definition SendChange :: "string \<Rightarrow> obj \<Rightarrow> manager \<Rightarrow> go_error option \<times> manager" where
  "SendChange ts changes m =
     (if \<not> IsConnected m then (Some errNotConnected, m)
      else let msg = ChangeMessage changes ts
           in if \<not> marshal_ok msg then (Some (errMarshal ''change''), m)
              else (case chan_try sendCap msg (sendChan m) of
                  Some c \<Rightarrow> (None, incrementTelemetrySent (m\<lparr>sendChan := c\<rparr>))
                | None \<Rightarrow> (Some errChannelFull, m)))"

definition SendTelemetryDelta ::
    "string \<Rightarrow> obj \<Rightarrow> string list \<Rightarrow> manager \<Rightarrow> go_error option \<times> manager" where
  "SendTelemetryDelta ts changes removed m =
     (if \<not> IsConnected m then (Some errNotConnected, m)
      else let msg = TelemetryDeltaMessage changes removed ts
           in if \<not> marshal_ok msg then (Some (errMarshal ''telemetry delta''), m)
              else (case chan_try sendCap msg (sendChan m) of
                  Some c \<Rightarrow> (None, incrementTelemetrySent (m\<lparr>sendChan := c\<rparr>))
                | None \<Rightarrow> (Some errChannelFull, m)))"

definition SendTelemetryBatch ::
    "string \<Rightarrow> TelemetrySnapshot list \<Rightarrow> manager \<Rightarrow> go_error option \<times> manager" where
  "SendTelemetryBatch ts snapshots m =
     (if \<not> IsConnected m then (Some errNotConnected, m)
      else let msg = TelemetryBatchMessage snapshots ts
           in if \<not> marshal_ok msg then (Some (errMarshal ''telemetry batch''), m)
              else (case chan_try sendCap msg (sendChan m) of
                  Some c \<Rightarrow> (None, incrementTelemetrySent (m\<lparr>sendChan := c\<rparr>))
                | None \<Rightarrow> (Some errChannelFull, m)))"

definition SendEvent :: "string \<Rightarrow> string \<Rightarrow> obj \<Rightarrow> manager \<Rightarrow> go_error option \<times> manager" where
  "SendEvent ts eventType data m =
     (if \<not> IsConnected m then (Some errNotConnected, m)
      else let msg = EventMessage eventType data ts
           in if \<not> marshal_ok msg then (Some (errMarshal ''event''), m)
              else (case chan_try sendCap msg (sendChan m) of
                  Some c \<Rightarrow> (None, incrementTelemetrySent (m\<lparr>sendChan := c\<rparr>))
                | None \<Rightarrow> (Some errChannelFull, m)))"

definition SendCommandResponse :: "CommandResponse \<Rightarrow> manager \<Rightarrow> go_error option \<times> manager" where
  "SendCommandResponse resp m =
     (if \<not> IsConnected m then (Some errNotConnected, m)
      else let msg = CommandResponseMessage resp
           in if \<not> marshal_ok msg then (Some (errMarshal ''command response''), m)
              else (case chan_try sendCap msg (sendChan m) of
                  Some c \<Rightarrow> (None, incrementMessagesSent (m\<lparr>sendChan := c\<rparr>))
                | None \<Rightarrow> (Some errChannelFull, m)))"

lemmas sender_defs [conn_defs] =
  SendState_def SendChange_def SendTelemetryDelta_def SendTelemetryBatch_def SendEvent_def
  SendCommandResponse_def

text \<open>\<open>RequestReconnect\<close> closes the current socket, if there is one, and changes no field.\<close>

definition RequestReconnect :: "manager \<Rightarrow> nat option" where
  "RequestReconnect m = conn m"

section \<open>Authentication\<close>

text \<open>
  \<open>encode\<close> is the JSON text of a message (only its length is used); \<open>wr\<close> the error of the
  write, \<open>rd\<close> the outcome of the read, \<open>parse\<close> the decoding of the answer.  The result is the
  error, the manager and the messages written to the socket.
\<close>

definition authenticate ::
    "(message \<Rightarrow> string) \<Rightarrow> string \<Rightarrow> string \<Rightarrow> string \<Rightarrow> string \<Rightarrow> go_error option
     \<Rightarrow> (go_error + string) \<Rightarrow> (string \<Rightarrow> go_error + AuthResponse) \<Rightarrow> manager
     \<Rightarrow> go_error option \<times> manager \<times> message list" where
  "authenticate encode version identifier token ts wr rd parse m =
     (let authMsg = AuthMessage ''librescoot-uplink'' version identifier token 0 ts
      in case wr of
           Some e \<Rightarrow> (Some (''write auth failed: '' @ e), m, [])
         | None \<Rightarrow>
             (let m1 = addBytesSent (int (length (encode authMsg))) m
              in case rd of
                   Inl e \<Rightarrow> (Some (''read auth response failed: '' @ e), m1, [authMsg])
                 | Inr reply \<Rightarrow>
                     (let m2 = addBytesReceived (int (length reply)) m1
                      in case parse reply of
                           Inl e \<Rightarrow> (Some (''parse auth response failed: '' @ e), m2, [authMsg])
                         | Inr resp \<Rightarrow>
                             if ar_Status resp \<noteq> ''success''
                             then (Some (''authentication rejected: '' @ ar_Error resp), m2, [authMsg])
                             else (None, m2\<lparr>authenticated := True\<rparr>, [authMsg]))))"

section \<open>Live frames received\<close>

definition LiveClient_IsConnected :: "live_client \<Rightarrow> manager \<Rightarrow> bool" where
  "LiveClient_IsConnected c m =
     (lc_connection c \<noteq> None \<and> conn m = lc_connection c \<and> connected m \<and> authenticated m)"

text \<open>The hand-over of a live frame: the registered handler with its client and the data.\<close>

definition deliverLive :: "string \<Rightarrow> manager \<Rightarrow> (nat \<times> live_client \<times> string) option" where
  "deliverLive data m =
     (if length data > 1024 then None
      else (case (liveReceiver m, liveReceiverClient m) of
          (Some r, Some c) \<Rightarrow> if LiveClient_IsConnected c m then Some (r, c, data) else None
        | _ \<Rightarrow> None))"

section \<open>The loops of a connection\<close>

datatype loop_outcome = Continue | Return | Blocked

text \<open>
  The JSON decoders applied to a received message: the envelope's type, a command, a
  configuration update.
\<close>

record decoders =
  dec_base :: "string \<Rightarrow> string option"
  dec_command :: "string \<Rightarrow> CommandMessage option"
  dec_config :: "string \<Rightarrow> ConfigUpdateMessage option"

text \<open>
  One iteration of \<open>readLoop\<close> with the result \<open>rd\<close> of \<^verbatim>\<open>ReadMessage\<close> (\<open>None\<close> is an error).
  \<open>stop\<close> tells whether the stop signal has been closed when the loop would block on a full
  command channel.  The last component is the live frame handed over.
\<close>

definition readLoop_iteration ::
    "decoders \<Rightarrow> instant \<Rightarrow> bool \<Rightarrow> string option \<Rightarrow> manager
     \<Rightarrow> loop_outcome \<times> manager \<times> (nat \<times> live_client \<times> string) option" where
  "readLoop_iteration D now stop rd m =
     (if stop then (Return, m, None)
      else if conn m = None then (Return, m, None)
      else case rd of
        None \<Rightarrow> (Return, m, None)
      | Some message \<Rightarrow>
          (let m1 = updateLastMessage now (incrementMessagesRecv
                      (addBytesReceived (int (length message)) m))
           in case dec_base D message of
                None \<Rightarrow> (Continue, m1, None)
              | Some ty \<Rightarrow>
                  if ty = ''ride_group_control'' \<or> ty = ''ride_group_peer''
                     \<or> ty = ''ride_group_peer_status''
                  then (Continue, m1, deliverLive message m1)
                  else if ty = ''keepalive'' then (Continue, m1, None)
                  else if ty = ''command'' then
                    (case dec_command D message of
                       None \<Rightarrow> (Continue, m1, None)
                     | Some cmd \<Rightarrow>
                         (let m2 = incrementCommandsRecv m1
                          in case chan_try cmdCap cmd (cmdChan m2) of
                               Some c \<Rightarrow> (Continue, m2\<lparr>cmdChan := c\<rparr>, None)
                             | None \<Rightarrow> (Blocked, m2, None)))
                  else if ty = ''config_update'' then
                    (case dec_config D message of
                       None \<Rightarrow> (Continue, m1, None)
                     | Some upd \<Rightarrow>
                         (case chan_try configCap upd (configChan m1) of
                            Some c \<Rightarrow> (Continue, m1\<lparr>configChan := c\<rparr>, None)
                          | None \<Rightarrow> (Continue, m1, None)))
                  else (Continue, m1, None)))"

text \<open>
  \<open>writeLoop\<close>: the branch that takes one queued message, with the error of the socket write; the
  messages written are the last component.
\<close>

definition writeLoop_send ::
    "(message \<Rightarrow> string) \<Rightarrow> go_error option \<Rightarrow> manager \<Rightarrow> loop_outcome \<times> manager \<times> message list" where
  "writeLoop_send encode werr m =
     (case sendChan m of
        [] \<Rightarrow> (Blocked, m, [])
      | data # rest \<Rightarrow>
          (let m1 = m\<lparr>sendChan := rest\<rparr>
           in if conn m1 = None \<or> \<not> connected m1 then (Continue, m1, [])
              else (case werr of
                  Some e \<Rightarrow> (Return, m1, [])
                | None \<Rightarrow>
                    (Continue,
                     incrementMessagesSent (addBytesSent (int (length (encode data))) m1),
                     [data]))))"

text \<open>The branch of the stop signal drains the queue before the loop returns.\<close>

definition writeLoop_stop :: "manager \<Rightarrow> manager" where
  "writeLoop_stop m = m\<lparr>sendChan := []\<rparr>"

text \<open>One tick of \<open>keepaliveLoop\<close>.\<close>

definition keepaliveLoop_tick :: "string \<Rightarrow> manager \<Rightarrow> manager" where
  "keepaliveLoop_tick ts m =
     (if \<not> IsConnected m then m
      else (case chan_try sendCap (KeepaliveMessage ts) (sendChan m) of
          Some c \<Rightarrow> m\<lparr>sendChan := c\<rparr>
        | None \<Rightarrow> m))"

section \<open>Connecting and disconnecting\<close>

definition resetLiveQueue :: "manager \<Rightarrow> manager" where
  "resetLiveQueue m = m\<lparr>livePending := []\<rparr>"

definition markConnected :: "instant \<Rightarrow> manager \<Rightarrow> manager" where
  "markConnected now m =
     (let m1 = m\<lparr>connected := True, connectTime := now, retryDelay := initialRetryDelay\<rparr>
      in case chan_try 1 () (connectedCh m1) of
           Some c \<Rightarrow> m1\<lparr>connectedCh := c\<rparr>
         | None \<Rightarrow> m1)"

definition markDisconnected :: "manager \<Rightarrow> manager" where
  "markDisconnected m =
     (let m1 = resetLiveQueue m
      in m1\<lparr>connected := False, authenticated := False, disconnects := wrap64 (disconnects m1 + 1)\<rparr>)"

definition getRetryDelay :: "duration \<Rightarrow> manager \<Rightarrow> duration \<times> manager" where
  "getRetryDelay maxDelay m =
     (let delay = retryDelay m;
          next = f64_to_int64 (f64_mul (f64_of_int (retryDelay m)) (Fin 2))
      in (delay, m\<lparr>retryDelay := if next > maxDelay then maxDelay else next\<rparr>))"

text \<open>The end of \<open>connect\<close>: the deferred clean-up forgets the socket.\<close>

definition connect_cleanup :: "manager \<Rightarrow> manager" where
  "connect_cleanup m = m\<lparr>conn := None\<rparr>"

text \<open>The beginning of \<open>connect\<close> after a successful dial.\<close>

definition connect_dialed :: "nat \<Rightarrow> manager \<Rightarrow> manager" where
  "connect_dialed c m = m\<lparr>conn := Some c\<rparr>"

text \<open>What \<open>connectionLoop\<close> does when \<open>connect\<close> returned an error, up to the wait.\<close>

definition connectionLoop_failed :: "duration \<Rightarrow> manager \<Rightarrow> duration \<times> manager" where
  "connectionLoop_failed maxDelay m = getRetryDelay maxDelay (markDisconnected m)"

lemmas transition_defs [conn_defs] =
  resetLiveQueue_def markConnected_def markDisconnected_def getRetryDelay_def
  connect_cleanup_def connect_dialed_def connectionLoop_failed_def

section \<open>The contract of the senders\<close>

text \<open>
  What a client of the manager may rely on: a failed send changes nothing, a successful one means
  the sink was connected and appends exactly the client's message to the outbox, and the outbox
  never outgrows its capacity.
\<close>

locale bounded_outbox =
  fixes is_connected :: "'s \<Rightarrow> bool"
    and outbox :: "'s \<Rightarrow> message list"
    and capacity :: nat
    and send :: "'p \<Rightarrow> 's \<Rightarrow> go_error option \<times> 's"
    and msg_of :: "'p \<Rightarrow> message"
  assumes send_failed: "send p s = (Some e, s') \<Longrightarrow> s' = s"
    and send_done: "send p s = (None, s') \<Longrightarrow>
      is_connected s \<and> is_connected s' \<and> length (outbox s) < capacity
      \<and> outbox s' = outbox s @ [msg_of p]"
    and send_progress: "is_connected s \<Longrightarrow> marshal_ok (msg_of p) \<Longrightarrow> length (outbox s) < capacity \<Longrightarrow>
      fst (send p s) = None"
begin

lemma send_connected: "is_connected (snd (send p s)) = is_connected s"
  by (metis option.exhaust prod.collapse send_done send_failed)

lemma send_outbox:
  "outbox (snd (send p s)) = outbox s @ (if fst (send p s) = None then [msg_of p] else [])"
  by (cases "send p s"; cases "fst (send p s)") (auto dest: send_failed send_done)

lemma send_bound: "length (outbox s) \<le> capacity \<Longrightarrow> length (outbox (snd (send p s))) \<le> capacity"
  by (metis Suc_leI length_append_singleton option.exhaust prod.collapse send_done send_failed)

lemma send_disconnected: "\<not> is_connected s \<Longrightarrow> snd (send p s) = s \<and> fst (send p s) \<noteq> None"
  by (metis option.exhaust prod.collapse send_done send_failed)

end

text \<open>The telemetry sink of the publisher: full states and deltas over one outbox.\<close>

locale telemetry_sink =
  st: bounded_outbox is_connected outbox capacity send_state "\<lambda>(ts, d). StateMessage d ts" +
  dl: bounded_outbox is_connected outbox capacity send_delta
        "\<lambda>(ts, c, r). TelemetryDeltaMessage c r ts"
  for is_connected :: "'s \<Rightarrow> bool" and outbox :: "'s \<Rightarrow> message list" and capacity :: nat
    and send_state :: "string \<times> obj \<Rightarrow> 's \<Rightarrow> go_error option \<times> 's"
    and send_delta :: "string \<times> obj \<times> string list \<Rightarrow> 's \<Rightarrow> go_error option \<times> 's"

text \<open>The batch sink of the offline buffer.\<close>

locale batch_sink =
  bt: bounded_outbox is_connected outbox capacity send_batch "\<lambda>(ts, ss). TelemetryBatchMessage ss ts"
  for is_connected :: "'s \<Rightarrow> bool" and outbox :: "'s \<Rightarrow> message list" and capacity :: nat
    and send_batch :: "string \<times> TelemetrySnapshot list \<Rightarrow> 's \<Rightarrow> go_error option \<times> 's"

text \<open>The event sink of the event detector.\<close>

locale event_sink =
  ev: bounded_outbox is_connected outbox capacity send_event "\<lambda>(ts, ty, d). EventMessage ty d ts"
  for is_connected :: "'s \<Rightarrow> bool" and outbox :: "'s \<Rightarrow> message list" and capacity :: nat
    and send_event :: "string \<times> string \<times> obj \<Rightarrow> 's \<Rightarrow> go_error option \<times> 's"

text \<open>The manager's senders, uncurried, and the interpretations.\<close>

abbreviation mgr_SendState :: "string \<times> obj \<Rightarrow> manager \<Rightarrow> go_error option \<times> manager" where
  "mgr_SendState \<equiv> \<lambda>(ts, d). SendState ts d"

abbreviation mgr_SendDelta ::
    "string \<times> obj \<times> string list \<Rightarrow> manager \<Rightarrow> go_error option \<times> manager" where
  "mgr_SendDelta \<equiv> \<lambda>(ts, c, r). SendTelemetryDelta ts c r"

abbreviation mgr_SendBatch ::
    "string \<times> TelemetrySnapshot list \<Rightarrow> manager \<Rightarrow> go_error option \<times> manager" where
  "mgr_SendBatch \<equiv> \<lambda>(ts, ss). SendTelemetryBatch ts ss"

abbreviation mgr_SendEvent ::
    "string \<times> string \<times> obj \<Rightarrow> manager \<Rightarrow> go_error option \<times> manager" where
  "mgr_SendEvent \<equiv> \<lambda>(ts, ty, d). SendEvent ts ty d"

lemmas send_contract =
  sender_defs counter_defs Let_def chan_try_Some chan_try_None IsConnected_def

interpretation mgr_tel: telemetry_sink IsConnected sendChan sendCap mgr_SendState mgr_SendDelta
  by unfold_locales
     (auto simp: send_contract chan_try_def split: if_splits option.splits prod.splits)

interpretation mgr_batch: batch_sink IsConnected sendChan sendCap mgr_SendBatch
  by unfold_locales
     (auto simp: send_contract chan_try_def split: if_splits option.splits prod.splits)

interpretation mgr_event: event_sink IsConnected sendChan sendCap mgr_SendEvent
  by unfold_locales
     (auto simp: send_contract chan_try_def split: if_splits option.splits prod.splits)

interpretation mgr_change: bounded_outbox IsConnected sendChan sendCap
    "\<lambda>(ts, d). SendChange ts d" "\<lambda>(ts, d). ChangeMessage d ts"
  by unfold_locales
     (auto simp: send_contract chan_try_def split: if_splits option.splits prod.splits)

interpretation mgr_resp: bounded_outbox IsConnected sendChan sendCap
    SendCommandResponse CommandResponseMessage
  by unfold_locales
     (auto simp: send_contract chan_try_def split: if_splits option.splits prod.splits)

section \<open>Back-off\<close>

lemma double_exact:
  assumes "\<bar>d\<bar> < 2 ^ 51"
  shows "f64_to_int64 (f64_mul (f64_of_int d) (Fin 2)) = 2 * d"
proof -
  have "f64_of_int d = Fin (of_int d)" using assms by (intro f64_of_int_small) simp
  moreover have "round64 (of_int (2 * d)) = Fin (of_int (2 * d))"
    using assms by (intro round64_int) simp
  ultimately have "f64_mul (f64_of_int d) (Fin 2) \<in> {Fin (of_int (2 * d)), NegZero}"
    and "f64_mul (f64_of_int d) (Fin 2) = NegZero \<Longrightarrow> d = 0"
    by (auto simp: f64_mul_def round_signed_def Let_def mult.commute split: if_splits)
  then show ?thesis
    using assms f64_to_int64_of_int [of "2 * d"]
    by (auto simp: f64_to_int64_def trunc_rat_def)
qed

text \<open>The delays handed out by \<open>n\<close> consecutive failures.\<close>

fun retry_delays :: "nat \<Rightarrow> duration \<Rightarrow> manager \<Rightarrow> duration list" where
  "retry_delays 0 maxDelay m = []"
| "retry_delays (Suc n) maxDelay m =
     (let (d, m') = connectionLoop_failed maxDelay m in d # retry_delays n maxDelay m')"

lemma retry_delays_nth:
  assumes "Second \<le> maxDelay" and "maxDelay < 2 ^ 51"
    and "retryDelay m = min maxDelay (2 ^ j * Second)" and "k < n"
  shows "retry_delays n maxDelay m ! k = min maxDelay (2 ^ (j + k) * Second)"
  using assms(3,4)
proof (induction n arbitrary: m j k)
  case (Suc n)
  obtain d m' where s: "connectionLoop_failed maxDelay m = (d, m')" by fastforce
  have r: "retryDelay (markDisconnected m) = retryDelay m"
    by (simp add: markDisconnected_def resetLiveQueue_def Let_def)
  have b: "0 \<le> retryDelay m" "retryDelay m < 2 ^ 51" using Suc.prems(1) assms(1,2) by auto
  then have dbl: "f64_to_int64 (f64_mul (f64_of_int (retryDelay m)) (Fin 2)) = 2 * retryDelay m"
    by (intro double_exact) simp
  have d: "d = retryDelay m"
    using s by (auto simp: connectionLoop_failed_def getRetryDelay_def r Let_def)
  have "retryDelay m' = min maxDelay (2 ^ Suc j * Second)"
    using s dbl Suc.prems(1) b assms(1)
    by (auto simp: connectionLoop_failed_def getRetryDelay_def r Let_def min_def split: if_splits)
  from Suc.IH [OF this] have IH: "retry_delays n maxDelay m' ! i = min maxDelay (2 ^ (Suc j + i) * Second)"
    if "i < n" for i using that by blast
  show ?case
  proof (cases k)
    case 0
    then show ?thesis using s d Suc.prems(1) by simp
  next
    case (Suc i)
    then show ?thesis using s IH [of i] Suc.prems(2) by simp
  qed
qed simp

section \<open>Properties\<close>



end
