(* ===== verification/Live.thy ===== *)
theory Live
  imports Connection
begin

text \<open>
  The live transport, \<^verbatim>\<open>internal/connection/live.go\<close>: the client handle pinned to one socket,
  the queue with at most one pending frame per message family, and the write at the socket
  boundary.  An \<^verbatim>\<open>authorize\<close> closure is a number (\<open>None\<close> is nil) whose current answer is the
  argument \<open>call\<close>; \<open>hdr\<close> decodes the type of a frame.

  Shown: the queue holds at most one frame per family and the orders of its frames are distinct
  and already issued; the writer takes the oldest frame whatever the iteration order of the map;
  a pending frame always has a pending wake-up; and a frame reaches a socket only if it is the
  socket it was published on, before its expiry, authorised by its closure at that moment.
\<close>

section \<open>Definitions\<close>

definition live_families :: "string list" where
  "live_families = [''ride_group_hello'', ''ride_group_activity'', ''ride_group_position'',
     ''ride_group_source_status'', ''ride_group_stop'']"

text \<open>A new handle on the current socket; \<open>i\<close> is its identity.\<close>

definition LiveClient :: "nat \<Rightarrow> manager \<Rightarrow> live_client" where
  "LiveClient i m = \<lparr>lc_id = i, lc_connection = conn m\<rparr>"

definition Subscribe :: "nat \<Rightarrow> live_client \<Rightarrow> manager \<Rightarrow> manager" where
  "Subscribe handler c m = m\<lparr>liveReceiver := Some handler, liveReceiverClient := Some c\<rparr>"

definition Unsubscribe :: "live_client \<Rightarrow> manager \<Rightarrow> manager" where
  "Unsubscribe c m =
     (if map_option lc_id (liveReceiverClient m) = Some (lc_id c)
      then m\<lparr>liveReceiver := None, liveReceiverClient := None\<rparr> else m)"

definition wake :: "unit list \<Rightarrow> unit list" where
  "wake w = (case chan_try 1 () w of Some w' \<Rightarrow> w' | None \<Rightarrow> w)"

definition PublishLive ::
    "(string \<Rightarrow> string option) \<Rightarrow> instant \<Rightarrow> live_client \<Rightarrow> string \<Rightarrow> instant \<Rightarrow> nat option
     \<Rightarrow> manager \<Rightarrow> go_error option \<times> manager" where
  "PublishLive hdr now c data expires authorize m =
     (if length data = 0 \<or> length data > 1024 \<or> authorize = None \<or> \<not> LiveClient_IsConnected c m
      then (Some ''live transport unavailable'', m)
      else case hdr data of
        None \<Rightarrow> (Some ''invalid live frame'', m)
      | Some ty \<Rightarrow>
          if ty \<notin> set live_families then (Some ''invalid live frame type'', m)
          else let expires' = (if time_IsZero expires \<or> expires > now + Second
                               then now + Second else expires)
               in if \<not> now < expires' then (Some ''expired live frame'', m)
                  else let order = (liveOrder m + 1) mod 2 ^ 64;
                           frame = \<lparr>lf_data = data, lf_connection = lc_connection c,
                                    lf_expires = expires', lf_authorize = authorize,
                                    lf_order = order\<rparr>
                       in (None, m\<lparr>liveOrder := order,
                                   livePending := gm_put ty frame (livePending m),
                                   liveWake := wake (liveWake m)\<rparr>))"

text \<open>\<open>Publish\<close>: a payload that is not a byte slice is refused; otherwise a one-second frame.\<close>

definition Publish_live ::
    "(string \<Rightarrow> string option) \<Rightarrow> nat \<Rightarrow> instant \<Rightarrow> live_client \<Rightarrow> string option
     \<Rightarrow> manager \<Rightarrow> go_error option \<times> manager" where
  "Publish_live hdr always now c data m =
     (case data of
        None \<Rightarrow> (Some ''invalid live frame'', m)
      | Some payload \<Rightarrow> PublishLive hdr now c payload (now + Second) (Some always) m)"

text \<open>The loop of \<open>takeLive\<close> over the map: the entry with the smallest order so far.\<close>

fun oldest :: "(string \<times> live_frame) option \<Rightarrow> (string, live_frame) go_map
    \<Rightarrow> (string \<times> live_frame) option" where
  "oldest best [] = best"
| "oldest best ((k, v) # rest) =
     oldest (case best of
               None \<Rightarrow> Some (k, v)
             | Some (key, result) \<Rightarrow>
                 if key = '''' \<or> lf_order v < lf_order result then Some (k, v) else best) rest"

text \<open>The writer receives the wake-up, then takes the oldest frame.\<close>

definition takeLive :: "manager \<Rightarrow> live_frame option \<times> manager" where
  "takeLive m =
     (case oldest None (livePending m) of
        None \<Rightarrow> (None, m)
      | Some (key, result) \<Rightarrow>
          if key = '''' then (None, m)
          else let pending = gm_del key (livePending m)
               in (Some result,
                   m\<lparr>livePending := pending,
                     liveWake := if length pending > 0 then wake (liveWake m) else liveWake m\<rparr>))"

text \<open>
  \<open>writeLive\<close> reads the wall clock three times (\<open>t1\<close>, \<open>t2\<close>, \<open>t3\<close>); the result is the loop's
  flag, the manager and what was written: the socket, the data and the write deadline.
\<close>

definition writeLive ::
    "(nat \<Rightarrow> bool) \<Rightarrow> instant \<Rightarrow> instant \<Rightarrow> instant \<Rightarrow> go_error option \<Rightarrow> live_frame \<Rightarrow> manager
     \<Rightarrow> bool \<times> manager \<times> (nat \<times> string \<times> instant) option" where
  "writeLive call t1 t2 t3 werr frame m =
     (if \<not> t1 < lf_expires frame
         \<or> (case lf_authorize frame of None \<Rightarrow> True | Some a \<Rightarrow> \<not> call a)
      then (True, m, None)
      else case conn m of
        None \<Rightarrow> (True, m, None)
      | Some c \<Rightarrow>
          if \<not> (connected m \<and> authenticated m) \<or> Some c \<noteq> lf_connection frame
             \<or> \<not> t2 < lf_expires frame
          then (True, m, None)
          else let deadline = (if lf_expires frame < t3 + 500 * Millisecond
                               then lf_expires frame else t3 + 500 * Millisecond)
               in case werr of
                    Some e \<Rightarrow> (False, m, None)
                  | None \<Rightarrow>
                      (True, incrementMessagesSent (addBytesSent (int (length (lf_data frame))) m),
                       Some (c, lf_data frame, deadline)))"

text \<open>The branch of \<open>writeLoop\<close> that handles a wake-up.\<close>

definition writeLoop_live ::
    "(nat \<Rightarrow> bool) \<Rightarrow> instant \<Rightarrow> instant \<Rightarrow> instant \<Rightarrow> go_error option \<Rightarrow> manager
     \<Rightarrow> loop_outcome \<times> manager \<times> (nat \<times> string \<times> instant) option" where
  "writeLoop_live call t1 t2 t3 werr m =
     (case liveWake m of
        [] \<Rightarrow> (Blocked, m, None)
      | _ # w \<Rightarrow>
          (case takeLive (m\<lparr>liveWake := w\<rparr>) of
             (None, m1) \<Rightarrow> (Continue, m1, None)
           | (Some frame, m1) \<Rightarrow>
               (case writeLive call t1 t2 t3 werr frame m1 of
                  (True, m2, out) \<Rightarrow> (Continue, m2, out)
                | (False, m2, out) \<Rightarrow> (Return, m2, out))))"

section \<open>The invariant of the queue\<close>

definition live_inv :: "manager \<Rightarrow> bool" where
  "live_inv m =
     (gm_wf (livePending m)
      \<and> fst ` set (livePending m) \<subseteq> set live_families
      \<and> inj_on (lf_order \<circ> snd) (set (livePending m))
      \<and> (\<forall>(k, f) \<in> set (livePending m). lf_order f \<le> liveOrder m)
      \<and> (livePending m \<noteq> [] \<longrightarrow> liveWake m \<noteq> [])
      \<and> length (liveWake m) \<le> 1)"

lemma wake_not_Nil [simp]: "wake w \<noteq> []"
  by (auto simp: wake_def chan_try_def split: option.splits)

lemma wake_eq: "length w \<le> 1 \<Longrightarrow> wake w = [()]"
  by (cases w) (auto simp: wake_def chan_try_def)

lemma set_gm_del: "set (gm_del k m) = {x \<in> set m. fst x \<noteq> k}"
  by (induction m) auto

lemma live_inv_size:
  assumes "live_inv m"
  shows "length (livePending m) \<le> 5"
proof -
  have "length (livePending m) = card (set (map fst (livePending m)))"
    using assms by (metis distinct_card length_map live_inv_def)
  also have "\<dots> \<le> card (set live_families)"
    using assms by (intro card_mono) (auto simp: live_inv_def)
  also have "\<dots> \<le> length live_families" by (rule card_length)
  finally show ?thesis by (simp add: live_families_def)
qed

lemma live_inv_NewManager: "live_inv NewManager"
  by (simp add: live_inv_def NewManager_def)

lemma PublishLive_inv:
  assumes "live_inv m" and "liveOrder m + 1 < 2 ^ 64"
  shows "live_inv (snd (PublishLive hdr now c data expires authorize m))"
proof -
  have put: "live_inv (m\<lparr>liveOrder := Suc (liveOrder m),
      livePending := gm_put ty f (livePending m), liveWake := wake (liveWake m)\<rparr>)"
    if ty: "ty \<in> set live_families" and f: "lf_order f = Suc (liveOrder m)" for ty f
  proof -
    have wf: "gm_wf (livePending m)" and fam: "fst ` set (livePending m) \<subseteq> set live_families"
      and inj: "inj_on (lf_order \<circ> snd) (set (livePending m))"
      and ord: "\<And>k g. (k, g) \<in> set (livePending m) \<Longrightarrow> lf_order g \<le> liveOrder m"
      and w: "length (liveWake m) \<le> 1"
      using assms(1) by (auto simp: live_inv_def)
    have sub: "set (gm_put ty f (livePending m)) \<subseteq> insert (ty, f) (set (livePending m))"
      by (rule set_put)
    have "inj_on (lf_order \<circ> snd) (insert (ty, f) (set (livePending m)))"
      using inj f by (auto simp: inj_on_insert dest!: ord)
    then have "inj_on (lf_order \<circ> snd) (set (gm_put ty f (livePending m)))"
      using sub by (rule inj_on_subset)
    moreover have "lf_order g \<le> Suc (liveOrder m)" if "(k, g) \<in> set (gm_put ty f (livePending m))" for k g
      using that sub f ord [of k g] by fastforce
    ultimately show ?thesis
      using wf fam w ty by (auto simp: live_inv_def dom_update wake_eq)
  qed
  show ?thesis
    using assms put
    by (auto simp: PublishLive_def Let_def mod_less split: option.splits)
qed

lemma oldest_least:
  assumes "oldest best m = Some (k, f)"
    and "'''' \<notin> fst ` set m" and "map_option fst best \<noteq> Some ''''"
  shows "(k, f) \<in> set_option best \<union> set m
    \<and> (\<forall>(k', f') \<in> set_option best \<union> set m. lf_order f \<le> lf_order f')"
  using assms
proof (induction best m rule: oldest.induct)
  case (2 best k' v rest)
  define best' where "best' = (case best of
               None \<Rightarrow> Some (k', v)
             | Some (key, result) \<Rightarrow>
                 if key = '''' \<or> lf_order v < lf_order result then Some (k', v) else best)"
  have "(k, f) \<in> set_option best' \<union> set rest
    \<and> (\<forall>(k', f') \<in> set_option best' \<union> set rest. lf_order f \<le> lf_order f')"
    using "2.IH" "2.prems" by (auto simp: best'_def split: option.splits)
  then show ?case
    using "2.prems"(3) by (force simp: best'_def split: option.splits if_splits)
qed auto

lemma oldest_None: "oldest best m = None \<Longrightarrow> best = None \<and> m = []"
  by (induction best m rule: oldest.induct) (auto split: option.splits if_splits)

lemma families_nonempty: "live_inv m \<Longrightarrow> '''' \<notin> fst ` set (livePending m)"
  by (auto simp: live_inv_def live_families_def)

text \<open>
  The writer takes the least recently published pending frame, and the others stay.
\<close>

lemma takeLive_oldest:
  assumes "live_inv m" and "takeLive m = (Some f, m')"
  shows "\<exists>k. (k, f) \<in> set (livePending m) \<and> livePending m' = gm_del k (livePending m)
    \<and> (\<forall>(k', f') \<in> set (livePending m'). lf_order f < lf_order f')"
proof -
  obtain k where o: "oldest None (livePending m) = Some (k, f)"
    and m': "livePending m' = gm_del k (livePending m)"
    using assms(2) by (auto simp: takeLive_def Let_def split: option.splits if_splits)
  have kf: "(k, f) \<in> set (livePending m)"
    and le: "\<And>k' f'. (k', f') \<in> set (livePending m) \<Longrightarrow> lf_order f \<le> lf_order f'"
    using oldest_least [OF o] families_nonempty [OF assms(1)] by auto
  have "lf_order f < lf_order f'" if "(k', f') \<in> set (livePending m')" for k' f'
  proof -
    have in': "(k', f') \<in> set (livePending m)" "k' \<noteq> k" using that by (auto simp: m' set_gm_del)
    have "inj_on (lf_order \<circ> snd) (set (livePending m))" using assms(1) by (simp add: live_inv_def)
    from inj_onD [OF this _ kf in'(1)] in'(2) have "lf_order f \<noteq> lf_order f'" by auto
    with le [OF in'(1)] show ?thesis by simp
  qed
  with kf m' show ?thesis by blast
qed

lemma takeLive_cases:
  assumes "'''' \<notin> fst ` set (livePending m)"
  obtains "livePending m = []" and "takeLive m = (None, m)"
  | k f where "(k, f) \<in> set (livePending m)"
    and "takeLive m = (Some f, m\<lparr>livePending := gm_del k (livePending m),
           liveWake := if gm_del k (livePending m) = [] then liveWake m else wake (liveWake m)\<rparr>)"
proof (cases "oldest None (livePending m)")
  case None
  with oldest_None have "livePending m = []" by blast
  with that(1) show ?thesis by (simp add: takeLive_def)
next
  case (Some kf)
  obtain k f where kf: "kf = (k, f)" by fastforce
  with oldest_least [of None "livePending m"] Some assms have *: "(k, f) \<in> set (livePending m)" by simp
  then have "k \<noteq> ''''" using assms by force
  with that(2) [OF *] Some kf show ?thesis by (simp add: takeLive_def Let_def)
qed

lemma takeLive_empty: "live_inv m \<Longrightarrow> fst (takeLive m) = None \<longleftrightarrow> livePending m = []"
  by (rule takeLive_cases [of m]) (auto dest: families_nonempty)

lemma takeLive_live_inv:
  assumes "live_inv m" and "liveWake m = u # w"
  shows "live_inv (snd (takeLive (m\<lparr>liveWake := w\<rparr>)))"
proof -
  let ?m = "m\<lparr>liveWake := w\<rparr>"
  have w: "w = []" using assms by (simp add: live_inv_def)
  have inj: "inj_on (lf_order \<circ> snd) (set (gm_del k (livePending m)))" for k
    by (rule inj_on_subset [of _ "set (livePending m)"])
       (use assms(1) in \<open>auto simp: live_inv_def set_gm_del\<close>)
  have "'''' \<notin> fst ` set (livePending ?m)" using families_nonempty [OF assms(1)] by simp
  then show ?thesis
  proof (cases rule: takeLive_cases)
    case 1
    then show ?thesis using assms w by (simp add: live_inv_def)
  next
    case (2 k f)
    then show ?thesis
      using assms(1) inj [of k] w
      by (auto simp: live_inv_def set_gm_del wake_eq simp del: delete_simps)
  qed
qed

lemma writeLive_frame [simp]:
  "livePending (fst (snd (writeLive call t1 t2 t3 werr f m))) = livePending m"
  "liveWake (fst (snd (writeLive call t1 t2 t3 werr f m))) = liveWake m"
  "liveOrder (fst (snd (writeLive call t1 t2 t3 werr f m))) = liveOrder m"
  "sendChan (fst (snd (writeLive call t1 t2 t3 werr f m))) = sendChan m"
  by (simp_all add: writeLive_def Let_def counter_defs split: option.splits)

lemma live_inv_cong:
  "livePending m' = livePending m \<Longrightarrow> liveWake m' = liveWake m \<Longrightarrow> liveOrder m' = liveOrder m \<Longrightarrow>
   live_inv m' = live_inv m"
  by (simp add: live_inv_def)

lemma writeLoop_live_inv:
  assumes "live_inv m"
  shows "live_inv (fst (snd (writeLoop_live call t1 t2 t3 werr m)))"
proof (cases "liveWake m")
  case Nil
  then show ?thesis using assms by (simp add: writeLoop_live_def)
next
  case (Cons u w)
  obtain fo m1 where t: "takeLive (m\<lparr>liveWake := w\<rparr>) = (fo, m1)" by fastforce
  with takeLive_live_inv [OF assms Cons] have i: "live_inv m1" by simp
  show ?thesis
  proof (cases fo)
    case None
    then show ?thesis using i t Cons by (simp add: writeLoop_live_def)
  next
    case (Some f)
    obtain ok m2 out where w: "writeLive call t1 t2 t3 werr f m1 = (ok, m2, out)"
      by (metis prod.exhaust)
    have "live_inv m2"
      using i writeLive_frame [of call t1 t2 t3 werr f m1] by (simp add: w live_inv_def)
    then show ?thesis
      using t Cons Some w by (simp add: writeLoop_live_def split: bool.splits)
  qed
qed

text \<open>What reaches a socket at the final boundary.\<close>

lemma writeLive_written:
  assumes "writeLive call t1 t2 t3 werr f m = (ok, m', Some (c, data, deadline))"
  shows "lf_connection f = Some c \<and> conn m = Some c \<and> connected m \<and> authenticated m
    \<and> t1 < lf_expires f \<and> t2 < lf_expires f
    \<and> (\<exists>a. lf_authorize f = Some a \<and> call a)
    \<and> data = lf_data f \<and> deadline \<le> lf_expires f \<and> deadline \<le> t3 + 500 * Millisecond"
  using assms by (auto simp: writeLive_def Let_def split: option.splits if_splits)

section \<open>Properties\<close>

text \<open>
  The live queue hands frames out in the order in which they were published: what \<open>takeLive\<close> returns
  was pending, is removed, and is older than every frame that stays; it returns nothing only when
  nothing is pending, and at most one frame per family waits.
\<close>

theorem live_queue_oldest_first:
  assumes "live_inv m"
  shows "length (livePending m) \<le> 5
    \<and> (fst (takeLive m) = None \<longleftrightarrow> livePending m = [])
    \<and> (\<forall>f m'. takeLive m = (Some f, m') \<longrightarrow>
         (\<exists>k. (k, f) \<in> set (livePending m) \<and> livePending m' = gm_del k (livePending m)
              \<and> list_all (\<lambda>(k', f'). lf_order f < lf_order f') (livePending m')))"
  using live_inv_size [OF assms] takeLive_empty [OF assms] takeLive_oldest [OF assms]
  by (fastforce simp: list_all_iff)

definition sample_frame :: "nat \<Rightarrow> live_frame" where
  "sample_frame n = \<lparr>lf_data = ''x'', lf_connection = Some 1, lf_expires = 10, lf_authorize = Some 0, lf_order = n\<rparr>"

definition sample_live :: manager where
  "sample_live = NewManager\<lparr>liveOrder := 2, liveWake := [()],
     livePending := [(live_families ! 0, sample_frame 2), (live_families ! 1, sample_frame 1)]\<rparr>"

lemma sample_live_inv: "live_inv sample_live"
  by (auto simp: live_inv_def sample_live_def sample_frame_def live_families_def inj_on_def)

theorem live_queue_oldest_first_witness:
  "live_inv sample_live \<and> (\<exists>f. fst (takeLive sample_live) = Some f)"
  using sample_live_inv live_queue_oldest_first [OF sample_live_inv]
  by (auto simp: sample_live_def)

text \<open>
  A live frame is written only on the socket for which it was queued, while that socket is the
  authenticated current one, before it expires, after the authorisation given with it still holds, and
  with a write deadline that ends no later than the frame and at most half a second ahead.
\<close>

theorem live_frame_written_in_time:
  assumes "writeLive call t1 t2 t3 werr f m = (ok, m', Some (c, data, deadline))"
  shows "lf_connection f = Some c \<and> conn m = Some c \<and> connected m \<and> authenticated m
    \<and> t1 < lf_expires f \<and> t2 < lf_expires f
    \<and> (\<exists>a. lf_authorize f = Some a \<and> call a)
    \<and> data = lf_data f \<and> deadline \<le> lf_expires f \<and> deadline \<le> t3 + 500 * Millisecond"
  using assms by (rule writeLive_written)

theorem live_frame_written_in_time_witness:
  "\<exists>ok m' c data deadline. writeLive (\<lambda>_. True) 1 2 3 None (sample_frame 1)
       (NewManager\<lparr>conn := Some 1, connected := True, authenticated := True\<rparr>) = (ok, m', Some (c, data, deadline))
     \<and> deadline \<le> lf_expires (sample_frame 1)"
proof -
  let ?m = "NewManager\<lparr>conn := Some 1, connected := True, authenticated := True\<rparr>"
  have "\<exists>ok m' d. writeLive (\<lambda>_. True) 1 2 3 None (sample_frame 1) ?m = (ok, m', Some d)"
    by (simp add: writeLive_def sample_frame_def Let_def) blast
  then obtain ok m' c data deadline
    where w: "writeLive (\<lambda>_. True) 1 2 3 None (sample_frame 1) ?m = (ok, m', Some (c, data, deadline))"
    by (metis prod_cases3)
  then show ?thesis using live_frame_written_in_time [OF w] by blast
qed

end
