(* ===== verification/Session.thy ===== *)
theory Session
  imports Live
begin

text \<open>
  The life of the connection manager as a step relation: \<open>connectionLoop\<close> dials, authenticates,
  runs the three loops of a connection, tears it down and waits, while the senders, the live
  transport and the consumers of the channels run concurrently.  Every rule is one critical
  section or loop iteration of the code (theories Connection and Live); \<open>wire\<close> records what was
  written on the current socket, \<open>writer\<close> whether \<open>writeLoop\<close> is still running.

  Shown: in every reachable state the flags agree with the phase, the channels respect their
  capacities, the live queue satisfies its invariant, the first thing on a socket is the
  authentication message, and nothing else is written before the server accepted it.
\<close>

datatype phase = Waiting | Dialed | Running | Stopping

datatype wire_item = Sent message | SentLive string

record session =
  mgr :: manager
  phase :: phase
  writer :: bool
  wire :: "wire_item list"

definition init_session :: session where
  "init_session = \<lparr>mgr = NewManager, phase = Waiting, writer = False, wire = []\<rparr>"

text \<open>What the other goroutines may do with the manager at any time.\<close>

inductive client_step :: "manager \<Rightarrow> manager \<Rightarrow> bool" where
  send_state: "client_step m (snd (SendState ts d m))"
| send_change: "client_step m (snd (SendChange ts d m))"
| send_delta: "client_step m (snd (SendTelemetryDelta ts d r m))"
| send_batch: "client_step m (snd (SendTelemetryBatch ts ss m))"
| send_event: "client_step m (snd (SendEvent ts ty d m))"
| send_response: "client_step m (snd (SendCommandResponse resp m))"
| publish_live: "liveOrder m + 1 < 2 ^ 64 \<Longrightarrow>
    client_step m (snd (PublishLive hdr now c data expires authorize m))"
| subscribe: "client_step m (Subscribe h c m)"
| unsubscribe: "client_step m (Unsubscribe c m)"
| take_command: "cmdChan m = c # cs \<Longrightarrow> client_step m (m\<lparr>cmdChan := cs\<rparr>)"
| take_config: "configChan m = u # us \<Longrightarrow> client_step m (m\<lparr>configChan := us\<rparr>)"
| take_connected: "connectedCh m = u # us \<Longrightarrow> client_step m (m\<lparr>connectedCh := us\<rparr>)"

text \<open>
  The rules of \<open>connectionLoop\<close> and of the three loops.  Closing the stop signal does not end the
  loops at once: a \<^verbatim>\<open>select\<close> that finds several cases ready takes any of them.  A read that blocks
  on the full command channel takes place when there is room, or gives its command up when the
  connection is stopping.
\<close>

inductive link_step :: "session \<Rightarrow> session \<Rightarrow> bool" where
  dial_failed: "phase s = Waiting \<Longrightarrow>
    link_step s (s\<lparr>mgr := snd (connectionLoop_failed maxDelay (mgr s))\<rparr>)"
| dial_ok: "phase s = Waiting \<Longrightarrow>
    link_step s (s\<lparr>mgr := connect_dialed c (mgr s), phase := Dialed, wire := []\<rparr>)"
| auth_failed: "phase s = Dialed \<Longrightarrow>
    authenticate encode version ident token ts wr rd parse (mgr s) = (Some e, m, w) \<Longrightarrow>
    link_step s (s\<lparr>mgr := snd (connectionLoop_failed maxDelay (connect_cleanup m)),
                  phase := Waiting, wire := map Sent w\<rparr>)"
| auth_ok: "phase s = Dialed \<Longrightarrow>
    authenticate encode version ident token ts wr rd parse (mgr s) = (None, m, w) \<Longrightarrow>
    link_step s (s\<lparr>mgr := markConnected now m, phase := Running, writer := True,
                  wire := map Sent w\<rparr>)"
| read: "phase s \<in> {Running, Stopping} \<Longrightarrow>
    readLoop_iteration D now False rd (mgr s) = (out, m, handed) \<Longrightarrow>
    out \<noteq> Blocked \<or> phase s = Stopping \<Longrightarrow>
    link_step s (s\<lparr>mgr := m, phase := if out = Return then Stopping else phase s\<rparr>)"
| write_queued: "phase s \<in> {Running, Stopping} \<Longrightarrow> writer s \<Longrightarrow>
    writeLoop_send encode werr (mgr s) = (out, m, w) \<Longrightarrow>
    link_step s (s\<lparr>mgr := m, writer := out \<noteq> Return, wire := wire s @ map Sent w\<rparr>)"
| write_live: "phase s \<in> {Running, Stopping} \<Longrightarrow> writer s \<Longrightarrow>
    writeLoop_live call t1 t2 t3 werr (mgr s) = (out, m, w) \<Longrightarrow>
    link_step s (s\<lparr>mgr := m, writer := out \<noteq> Return,
                  wire := wire s @ (case w of None \<Rightarrow> [] | Some (c, data, dl) \<Rightarrow> [SentLive data])\<rparr>)"
| keepalive: "phase s \<in> {Running, Stopping} \<Longrightarrow>
    link_step s (s\<lparr>mgr := keepaliveLoop_tick ts (mgr s)\<rparr>)"
| cancelled: "phase s = Running \<Longrightarrow> link_step s (s\<lparr>phase := Stopping\<rparr>)"
| drained: "phase s = Stopping \<Longrightarrow> writer s \<Longrightarrow>
    link_step s (s\<lparr>mgr := writeLoop_stop (mgr s), writer := False\<rparr>)"
| stopped: "phase s = Stopping \<Longrightarrow> \<not> writer s \<Longrightarrow>
    link_step s (s\<lparr>mgr := snd (connectionLoop_failed maxDelay (connect_cleanup (mgr s))),
                  phase := Waiting\<rparr>)"

inductive conn_step :: "session \<Rightarrow> session \<Rightarrow> bool" where
  client: "client_step (mgr s) m \<Longrightarrow> conn_step s (s\<lparr>mgr := m\<rparr>)"
| link: "link_step s t \<Longrightarrow> conn_step s t"

inductive reachable :: "session \<Rightarrow> bool" where
  start: "reachable init_session"
| step: "reachable s \<Longrightarrow> conn_step s t \<Longrightarrow> reachable t"

section \<open>The invariant\<close>

definition caps_inv :: "manager \<Rightarrow> bool" where
  "caps_inv m = (length (sendChan m) \<le> sendCap \<and> length (cmdChan m) \<le> cmdCap
     \<and> length (configChan m) \<le> configCap \<and> length (connectedCh m) \<le> 1)"

definition phase_inv :: "session \<Rightarrow> bool" where
  "phase_inv s =
     (case phase s of
        Waiting \<Rightarrow> \<not> connected (mgr s) \<and> \<not> authenticated (mgr s) \<and> conn (mgr s) = None
      | Dialed \<Rightarrow> \<not> connected (mgr s) \<and> \<not> authenticated (mgr s) \<and> conn (mgr s) \<noteq> None
            \<and> wire s = []
      | _ \<Rightarrow> connected (mgr s) \<and> authenticated (mgr s) \<and> conn (mgr s) \<noteq> None
            \<and> (\<exists>client ver ident token pv ts rest.
                 wire s = Sent (AuthMessage client ver ident token pv ts) # rest))"

text \<open>The part of the manager a client step may never touch.\<close>

definition flags :: "manager \<Rightarrow> nat option \<times> bool \<times> bool \<times> duration" where
  "flags m = (conn m, connected m, authenticated m, retryDelay m)"

text \<open>The part of the manager the live invariant is about.\<close>

definition live_part :: "manager \<Rightarrow> (string, live_frame) go_map \<times> unit list \<times> nat" where
  "live_part m = (livePending m, liveWake m, liveOrder m)"

lemma live_inv_part: "live_part m' = live_part m \<Longrightarrow> live_inv m' = live_inv m"
  by (simp add: live_part_def live_inv_def)

lemmas frame_defs = flags_def live_part_def counter_defs Let_def

lemma sender_frame:
  "flags (snd (SendState ts d m)) = flags m"
  "flags (snd (SendChange ts d m)) = flags m"
  "flags (snd (SendTelemetryDelta ts d r m)) = flags m"
  "flags (snd (SendTelemetryBatch ts ss m)) = flags m"
  "flags (snd (SendEvent ts ty d m)) = flags m"
  "flags (snd (SendCommandResponse resp m)) = flags m"
  "flags (snd (PublishLive hdr now c data expires authorize m)) = flags m"
  by (simp_all add: frame_defs sender_defs PublishLive_def split: option.splits)

lemma sender_live_part:
  "live_part (snd (SendState ts d m)) = live_part m"
  "live_part (snd (SendChange ts d m)) = live_part m"
  "live_part (snd (SendTelemetryDelta ts d r m)) = live_part m"
  "live_part (snd (SendTelemetryBatch ts ss m)) = live_part m"
  "live_part (snd (SendEvent ts ty d m)) = live_part m"
  "live_part (snd (SendCommandResponse resp m)) = live_part m"
  by (simp_all add: frame_defs sender_defs split: option.splits)

lemmas sender_live_frame = sender_live_part [THEN live_inv_part, THEN iffD2]

lemma sender_chan_frame:
  "caps_inv m \<Longrightarrow> caps_inv (snd (SendState ts d m))"
  "caps_inv m \<Longrightarrow> caps_inv (snd (SendChange ts d m))"
  "caps_inv m \<Longrightarrow> caps_inv (snd (SendTelemetryDelta ts d r m))"
  "caps_inv m \<Longrightarrow> caps_inv (snd (SendTelemetryBatch ts ss m))"
  "caps_inv m \<Longrightarrow> caps_inv (snd (SendEvent ts ty d m))"
  "caps_inv m \<Longrightarrow> caps_inv (snd (SendCommandResponse resp m))"
  "caps_inv m \<Longrightarrow> caps_inv (snd (PublishLive hdr now c data expires authorize m))"
  by (auto simp: caps_inv_def sender_defs counter_defs PublishLive_def Let_def chan_try_def
      split: option.splits if_splits)

lemma client_step_inv:
  assumes "client_step m m'" and "live_inv m" and "caps_inv m"
  shows "live_inv m' \<and> caps_inv m' \<and> flags m' = flags m"
  using assms
proof (induction rule: client_step.induct)
  case (publish_live m hdr now c data expires authorize)
  then show ?case by (simp add: PublishLive_inv sender_chan_frame sender_frame)
next
  case (subscribe m h c)
  then show ?case by (simp add: Subscribe_def live_inv_def caps_inv_def flags_def)
next
  case (unsubscribe m c)
  then show ?case by (simp add: Unsubscribe_def live_inv_def caps_inv_def flags_def)
next
  case (take_command m c cs)
  then show ?case by (simp add: live_inv_def caps_inv_def flags_def)
next
  case (take_config m u us)
  then show ?case by (simp add: live_inv_def caps_inv_def flags_def)
next
  case (take_connected m u us)
  then show ?case by (simp add: live_inv_def caps_inv_def flags_def)
qed (simp_all add: sender_frame sender_live_frame sender_chan_frame)

lemma readLoop_frame:
  assumes "readLoop_iteration D now stop rd m = (out, m', handed)"
  shows "live_part m' = live_part m \<and> flags m' = flags m \<and> (caps_inv m \<longrightarrow> caps_inv m')"
  using assms
  by (auto simp: readLoop_iteration_def frame_defs caps_inv_def chan_try_def
      split: if_splits option.splits)

lemma writeLoop_send_frame:
  assumes "writeLoop_send encode werr m = (out, m', w)"
  shows "live_part m' = live_part m \<and> flags m' = flags m \<and> (caps_inv m \<longrightarrow> caps_inv m')"
  using assms
  by (auto simp: writeLoop_send_def frame_defs caps_inv_def
      split: if_splits option.splits list.splits)

lemma takeLive_frame: "flags (snd (takeLive m)) = flags m \<and> caps_inv (snd (takeLive m)) = caps_inv m"
  by (simp add: takeLive_def frame_defs caps_inv_def split: option.splits prod.splits)

lemma writeLive_flags:
  "flags (fst (snd (writeLive call t1 t2 t3 werr f m))) = flags m
   \<and> caps_inv (fst (snd (writeLive call t1 t2 t3 werr f m))) = caps_inv m"
  by (simp add: writeLive_def frame_defs caps_inv_def split: option.splits)

lemma writeLoop_live_frame:
  assumes "writeLoop_live call t1 t2 t3 werr m = (out, m', w)"
  shows "caps_inv m' = caps_inv m \<and> flags m' = flags m"
proof (cases "liveWake m")
  case Nil
  then show ?thesis using assms by (simp add: writeLoop_live_def)
next
  case (Cons u ws)
  obtain fo m1 where t: "takeLive (m\<lparr>liveWake := ws\<rparr>) = (fo, m1)" by fastforce
  with takeLive_frame [of "m\<lparr>liveWake := ws\<rparr>"]
  have 1: "flags m1 = flags m \<and> caps_inv m1 = caps_inv m" by (simp add: flags_def caps_inv_def)
  show ?thesis
  proof (cases fo)
    case None
    then show ?thesis using assms Cons t 1 by (simp add: writeLoop_live_def)
  next
    case (Some f)
    then have "m' = fst (snd (writeLive call t1 t2 t3 werr f m1))"
      using assms Cons t by (auto simp: writeLoop_live_def split: prod.splits bool.splits)
    then show ?thesis using writeLive_flags 1 by simp
  qed
qed

lemma failed_inv:
  assumes "live_inv m" and "caps_inv m"
  shows "live_inv (snd (connectionLoop_failed d m)) \<and> caps_inv (snd (connectionLoop_failed d m))
   \<and> \<not> connected (snd (connectionLoop_failed d m)) \<and> \<not> authenticated (snd (connectionLoop_failed d m))
   \<and> conn (snd (connectionLoop_failed d m)) = conn m"
  using assms by (simp add: transition_defs live_inv_def caps_inv_def Let_def)

lemma authenticate_result:
  assumes "authenticate encode version ident token ts wr rd parse m = (err, m', w)"
  shows "live_part m' = live_part m \<and> caps_inv m' = caps_inv m \<and> conn m' = conn m
    \<and> connected m' = connected m
    \<and> authenticated m' = (authenticated m \<or> err = None)
    \<and> (err = None \<longrightarrow> w = [AuthMessage ''librescoot-uplink'' version ident token 0 ts])"
  using assms
  by (auto simp: authenticate_def frame_defs caps_inv_def
      split: option.splits sum.splits if_splits)

lemma cleanup_inv:
  "live_inv m \<Longrightarrow> caps_inv m \<Longrightarrow> live_inv (connect_cleanup m) \<and> caps_inv (connect_cleanup m)
   \<and> conn (connect_cleanup m) = None"
  by (simp add: connect_cleanup_def live_inv_def caps_inv_def)

definition session_inv :: "session \<Rightarrow> bool" where
  "session_inv s = (live_inv (mgr s) \<and> caps_inv (mgr s) \<and> phase_inv s)"

lemma phase_inv_frame:
  "flags m = flags (mgr s) \<Longrightarrow> phase_inv (s\<lparr>mgr := m\<rparr>) = phase_inv s"
  by (simp add: phase_inv_def flags_def split: phase.splits)

lemma link_step_inv: "link_step s t \<Longrightarrow> session_inv s \<Longrightarrow> session_inv t"
proof (induction rule: link_step.induct)
  case (dial_failed s d)
  then show ?case
    using failed_inv [of "mgr s" d] by (auto simp: session_inv_def phase_inv_def)
next
  case (dial_ok s c)
  then show ?case
    by (simp add: session_inv_def phase_inv_def connect_dialed_def live_inv_def caps_inv_def)
next
  case (auth_failed s encode version ident token ts wr rd parse e m w d)
  have "live_inv m" "caps_inv m"
    using authenticate_result [OF auth_failed(2)] auth_failed(3) live_inv_part [of m "mgr s"]
    by (auto simp: session_inv_def)
  then show ?case
    using failed_inv [of "connect_cleanup m" d] cleanup_inv
    by (simp add: session_inv_def phase_inv_def)
next
  case (auth_ok s encode version ident token ts wr rd parse m w now)
  have r: "live_inv m" "caps_inv m" "authenticated m" "conn m = conn (mgr s)"
    "w = [AuthMessage ''librescoot-uplink'' version ident token 0 ts]"
    using authenticate_result [OF auth_ok(2)] auth_ok(3) live_inv_part [of m "mgr s"]
    by (auto simp: session_inv_def)
  have "live_inv (markConnected now m)" "caps_inv (markConnected now m)"
    using r(1,2) by (auto simp: markConnected_def live_inv_def caps_inv_def Let_def chan_try_def)
  then show ?case
    using auth_ok(1,3) r
    by (auto simp: session_inv_def phase_inv_def markConnected_def Let_def split: option.splits)
next
  case (read s D now rd out m handed)
  then show ?case
    using readLoop_frame [OF read(2)] live_inv_part [of m "mgr s"]
    by (auto simp: session_inv_def phase_inv_def flags_def)
next
  case (write_queued s encode werr out m w)
  then show ?case
    using writeLoop_send_frame [OF write_queued(3)] live_inv_part [of m "mgr s"]
    by (auto simp: session_inv_def phase_inv_def flags_def)
next
  case (write_live s call t1 t2 t3 werr out m w)
  then show ?case
    using writeLoop_live_frame [OF write_live(3)] writeLoop_live_inv [of "mgr s" call t1 t2 t3 werr]
    by (auto simp: session_inv_def phase_inv_def flags_def)
next
  case (keepalive s ts)
  have "live_inv (keepaliveLoop_tick ts (mgr s))" "caps_inv (keepaliveLoop_tick ts (mgr s))"
    using keepalive(2)
    by (auto simp: session_inv_def keepaliveLoop_tick_def caps_inv_def chan_try_def
        intro: live_inv_part [THEN iffD2] simp: live_part_def)
  moreover have "flags (keepaliveLoop_tick ts (mgr s)) = flags (mgr s)"
    by (simp add: keepaliveLoop_tick_def flags_def split: option.splits)
  ultimately show ?case using keepalive(2) by (simp add: session_inv_def phase_inv_frame)
next
  case (cancelled s)
  then show ?case by (auto simp: session_inv_def phase_inv_def)
next
  case (drained s)
  have "live_inv (writeLoop_stop (mgr s))" "caps_inv (writeLoop_stop (mgr s))"
    using drained(3)
    by (auto simp: session_inv_def writeLoop_stop_def caps_inv_def
        intro: live_inv_part [THEN iffD2] simp: live_part_def)
  then show ?case
    using drained(1,3) by (simp add: session_inv_def phase_inv_def writeLoop_stop_def)
next
  case (stopped s d)
  then show ?case
    using failed_inv [of "connect_cleanup (mgr s)" d] cleanup_inv [of "mgr s"]
    by (simp add: session_inv_def phase_inv_def)
qed

lemma conn_step_inv: "conn_step s t \<Longrightarrow> session_inv s \<Longrightarrow> session_inv t"
proof (induction rule: conn_step.induct)
  case (client s m)
  then show ?case
    using client_step_inv [of "mgr s" m] by (auto simp: session_inv_def phase_inv_frame)
qed (rule link_step_inv)

lemma init_session_inv: "session_inv init_session"
  by (simp add: session_inv_def init_session_def live_inv_NewManager phase_inv_def)
     (simp add: caps_inv_def NewManager_def)

lemma reachable_inv: "reachable s \<Longrightarrow> session_inv s"
  by (induction rule: reachable.induct) (auto intro: init_session_inv conn_step_inv)

section \<open>Properties\<close>

text \<open>
  C2: The connection behaves as a state machine: in every reachable interleaving of the connection loop,
  the three loops of a connection and the clients, the manager reports a connection exactly between
  the accepted authentication and the end of the clean-up, the channels hold no more than their
  capacities, the live queue is well formed, and the first item written on an accepted socket is the
  authentication message, before which nothing was written.
\<close>

theorem session_state_machine:
  assumes "reachable s"
  shows "(IsConnected (mgr s) \<longleftrightarrow> phase s = Running \<or> phase s = Stopping)
    \<and> (conn (mgr s) = None \<longleftrightarrow> phase s = Waiting)
    \<and> length (sendChan (mgr s)) \<le> 256 \<and> length (cmdChan (mgr s)) \<le> 256
    \<and> length (configChan (mgr s)) \<le> 16 \<and> length (connectedCh (mgr s)) \<le> 1 \<and> live_inv (mgr s)
    \<and> (phase s = Dialed \<longrightarrow> wire s = [])
    \<and> (IsConnected (mgr s) \<longrightarrow> (\<exists>client ver ident token pv ts rest.
          wire s = Sent (AuthMessage client ver ident token pv ts) # rest))"
  using reachable_inv [OF assms]
  by (cases "phase s")
     (simp_all add: session_inv_def phase_inv_def caps_inv_def IsConnected_def sendCap_def cmdCap_def configCap_def)

text \<open>A session whose authentication has just been accepted.\<close>

definition sample_auth_ok :: "manager \<Rightarrow> go_error option \<times> manager \<times> message list" where
  "sample_auth_ok m = authenticate (\<lambda>_. ''{}'') ''1.0'' ''id'' ''token'' ''t'' None (Inr ''ok'')
     (\<lambda>_. Inr \<lparr>ar_Status = ''success'', ar_Error = ''''\<rparr>) m"

definition sample_dialed :: session where
  "sample_dialed = init_session\<lparr>mgr := connect_dialed 1 (mgr init_session), phase := Dialed, wire := []\<rparr>"

definition sample_up :: session where
  "sample_up = sample_dialed\<lparr>mgr := markConnected 0 (fst (snd (sample_auth_ok (mgr sample_dialed)))),
     phase := Running, writer := True, wire := map Sent (snd (snd (sample_auth_ok (mgr sample_dialed))))\<rparr>"

lemma sample_steps: "link_step init_session sample_dialed" "link_step sample_dialed sample_up"
proof -
  show "link_step init_session sample_dialed"
    unfolding sample_dialed_def by (rule dial_ok) (simp add: init_session_def)
  have "sample_auth_ok (mgr sample_dialed)
      = (None, fst (snd (sample_auth_ok (mgr sample_dialed))), snd (snd (sample_auth_ok (mgr sample_dialed))))"
    by (simp add: sample_auth_ok_def authenticate_def Let_def)
  then show "link_step sample_dialed sample_up"
    unfolding sample_up_def sample_auth_ok_def by (intro auth_ok) (simp_all add: sample_dialed_def)
qed

lemma sample_up_simps [simp]:
  "phase sample_up = Running" "writer sample_up" "IsConnected (mgr sample_up)" "sendChan (mgr sample_up) = []"
  "phase sample_dialed = Dialed" "\<not> writer sample_dialed"
  by (simp_all add: sample_up_def sample_dialed_def sample_auth_ok_def authenticate_def init_session_def
      markConnected_def connect_dialed_def counter_defs IsConnected_def NewManager_def chan_try_def Let_def)

lemma sample_up_reachable: "reachable sample_up"
  using sample_steps start step link by blast

theorem session_state_machine_witness:
  "reachable sample_up \<and> (\<exists>client ver ident token pv ts rest.
     wire sample_up = Sent (AuthMessage client ver ident token pv ts) # rest)"
  using sample_up_reachable session_state_machine [OF sample_up_reachable] by simp

end
