(* ===== verification/Clock.thy ===== *)
theory Clock
  imports Prelude
begin

text \<open>
  The service clock, \<^verbatim>\<open>internal/timeutil/clock.go\<close>: a process-monotonic anchor, the flag that
  is raised by the first NTP answer, and the random session identifier.  Until the flag is raised
  \<open>Now\<close> yields offsets marked by \<open>InvalidPrefix\<close>; \<open>Reproject\<close> turns such an offset into wall
  time.  The wall clock is the argument \<open>now\<close>; RFC 3339 formatting of a UTC instant is defined
  here in full (proleptic Gregorian calendar).

  Shown: a formatted instant is never taken for a relative timestamp; a clock hands out relative
  timestamps exactly while it is not valid, and what it hands out \<open>Reproject\<close> accepts.
\<close>

section \<open>RFC 3339\<close>

definition pad :: "nat \<Rightarrow> nat \<Rightarrow> string" where
  "pad w n = (let s = show_nat n in replicate (w - length s) (CHR ''0'') @ s)"

definition is_leap :: "int \<Rightarrow> bool" where
  "is_leap y = (4 dvd y \<and> (\<not> 100 dvd y \<or> 400 dvd y))"

text \<open>Year and day of the year of a day number counted from 1 January of year 1.\<close>

definition year_yday :: "int \<Rightarrow> int \<times> int" where
  "year_yday d =
     (let n400 = d div 146097; r1 = d mod 146097;
          n100 = min 3 (r1 div 36524); r2 = r1 - n100 * 36524;
          n4 = r2 div 1461; r3 = r2 mod 1461;
          n1 = min 3 (r3 div 365)
      in (400 * n400 + 100 * n100 + 4 * n4 + n1 + 1, r3 - n1 * 365))"

fun month_day :: "int list \<Rightarrow> int \<Rightarrow> int \<Rightarrow> int \<times> int" where
  "month_day [] m d = (m, d + 1)"
| "month_day (l # ls) m d = (if d < l then (m, d + 1) else month_day ls (m + 1) (d - l))"

definition month_lengths :: "int \<Rightarrow> int list" where
  "month_lengths y = [31, if is_leap y then 29 else 28, 31, 30, 31, 30, 31, 31, 30, 31, 30, 31]"

definition show_year :: "int \<Rightarrow> string" where
  "show_year y = (if y < 0 then CHR ''-'' # pad 4 (nat (- y)) else pad 4 (nat y))"

definition Format_RFC3339 :: "instant \<Rightarrow> string" where
  "Format_RFC3339 t =
     (let s = t div 1000000000; d = s div 86400; r = nat (s mod 86400);
          (y, yd) = year_yday d; (m, dd) = month_day (month_lengths y) 1 yd
      in show_year y @ ''-'' @ pad 2 (nat m) @ ''-'' @ pad 2 (nat dd) @ ''T'' @
         pad 2 (r div 3600) @ '':'' @ pad 2 (r div 60 mod 60) @ '':'' @ pad 2 (r mod 60) @ ''Z'')"

section \<open>The clock\<close>

record clock =
  anchor :: instant
  valid :: bool
  sessionID :: string

definition InvalidPrefix :: string where
  "InvalidPrefix = ''INVALID_RELATIVE:''"

text \<open>
  \<open>rand\<close> is what \<^verbatim>\<open>rand.Read\<close> filled the eight bytes with, \<open>None\<close> when it failed; the
  fall-back is the wall clock in hexadecimal.
\<close>

definition hex_digit :: "nat \<Rightarrow> char" where
  "hex_digit d = ''0123456789abcdef'' ! d"

definition hex_encode :: "nat list \<Rightarrow> string" where
  "hex_encode bs = concat (map (\<lambda>b. [hex_digit (b div 16 mod 16), hex_digit (b mod 16)]) bs)"

fun show_hex :: "nat \<Rightarrow> string" where
  "show_hex n = (if n < 16 then [hex_digit n] else show_hex (n div 16) @ [hex_digit (n mod 16)])"

declare show_hex.simps [simp del]

definition UnixNano :: "instant \<Rightarrow> int" where
  "UnixNano t = t - 62135596800000000000"

definition UnixMilli :: "instant \<Rightarrow> int" where
  "UnixMilli t = UnixNano t div 1000000"

definition newSessionID :: "nat list option \<Rightarrow> instant \<Rightarrow> string" where
  "newSessionID rand now =
     (case rand of
        None \<Rightarrow> (let n = UnixNano now
                  in if n < 0 then CHR ''-'' # show_hex (nat (- n)) else show_hex (nat n))
      | Some bs \<Rightarrow> hex_encode bs)"

definition NewClock :: "nat list option \<Rightarrow> instant \<Rightarrow> clock" where
  "NewClock rand now = \<lparr>anchor = now, valid = False, sessionID = newSessionID rand now\<rparr>"

definition SessionID :: "clock \<Rightarrow> string" where
  "SessionID c = sessionID c"

definition Valid :: "clock \<Rightarrow> bool" where
  "Valid c = valid c"

definition MarkValid :: "clock \<Rightarrow> clock" where
  "MarkValid c = c\<lparr>valid := True\<rparr>"

text \<open>\<^verbatim>\<open>time.Duration.Seconds\<close>: whole seconds plus the fraction, each converted to float.\<close>

definition Seconds :: "duration \<Rightarrow> f64" where
  "Seconds d = f64_add (f64_of_int (go_quot d Second))
                       (f64_div (f64_of_int (go_rem d Second)) (Fin 1000000000))"

definition Now :: "golib \<Rightarrow> instant \<Rightarrow> clock \<Rightarrow> string" where
  "Now L now c =
     (if Valid c then Format_RFC3339 now
      else InvalidPrefix @ lib_Format3 L (Seconds (time_Sub now (anchor c))))"

definition IsRelative :: "string \<Rightarrow> bool" where
  "IsRelative ts = HasPrefix ts InvalidPrefix"

definition Reproject :: "golib \<Rightarrow> instant \<Rightarrow> clock \<Rightarrow> string \<Rightarrow> string \<times> bool" where
  "Reproject L now c ts =
     (if \<not> HasPrefix ts InvalidPrefix then (ts, True)
      else (case lib_ParseFloat L (TrimPrefix ts InvalidPrefix) of
          None \<Rightarrow> (ts, False)
        | Some offset \<Rightarrow>
            (let elapsedNow = Seconds (time_Sub now (anchor c));
                 back = f64_to_int64 (f64_mul (f64_sub elapsedNow offset) (Fin 1000000000))
             in (Format_RFC3339 (now + wrap64 (- back)), True))))"

text \<open>
  \<open>SyncOnce\<close>: \<open>reply\<close> is the outcome of the NTP query, \<open>Inr (validated, offset)\<close> being the
  result of \<^verbatim>\<open>resp.Validate()\<close> and the clock offset.
\<close>

definition SyncOnce :: "(go_error + (go_error option \<times> duration)) \<Rightarrow> instant \<Rightarrow> clock
    \<Rightarrow> (go_error + instant) \<times> clock" where
  "SyncOnce reply now c =
     (case reply of
        Inl e \<Rightarrow> (Inl e, c)
      | Inr (Some e, _) \<Rightarrow> (Inl e, c)
      | Inr (None, offset) \<Rightarrow> (Inr (now + offset), MarkValid c))"

section \<open>Lemmas\<close>

lemma pad_first: "0 < w \<Longrightarrow> \<exists>d < 10. \<exists>r. pad w n = digit d # r"
proof -
  assume "0 < w"
  obtain d where d: "d < 10" "hd (show_nat n) = digit d" using hd_show_nat by blast
  obtain r where r: "show_nat n = digit d # r"
    using d by (metis list.exhaust_sel show_nat_not_Nil)
  have z: "CHR ''0'' = digit 0" by (simp add: digit_def)
  show ?thesis
  proof (cases "w - length (show_nat n)")
    case 0
    then show ?thesis using d r by (auto simp: pad_def Let_def)
  next
    case (Suc k)
    then have "pad w n = digit 0 # replicate k (CHR ''0'') @ show_nat n"
      by (simp add: pad_def Let_def flip: z)
    then show ?thesis by (metis zero_less_numeral)
  qed
qed

lemma digit_not_I: "d < 10 \<Longrightarrow> digit d \<noteq> CHR ''I''"
  using digit_val_digit [of d] by (auto simp: digit_val_def)

lemma Format_RFC3339_not_relative: "\<not> IsRelative (Format_RFC3339 t)"
proof -
  have sy: "\<exists>c r. show_year y = c # r \<and> c \<noteq> CHR ''I''" for y
  proof (cases "y < 0")
    case True
    then show ?thesis by (simp add: show_year_def)
  next
    case False
    then show ?thesis
      using pad_first [of 4 "nat y"] digit_not_I by (auto simp: show_year_def)
  qed
  obtain y yd where y: "year_yday (t div 1000000000 div 86400) = (y, yd)" by fastforce
  obtain m dd where "month_day (month_lengths y) 1 yd = (m, dd)" by fastforce
  with y obtain rest where f: "Format_RFC3339 t = show_year y @ rest"
    by (simp add: Format_RFC3339_def Let_def)
  obtain c r where "show_year y = c # r" "c \<noteq> CHR ''I''" using sy by blast
  with f show ?thesis by (auto simp: IsRelative_def HasPrefix_def InvalidPrefix_def)
qed

lemma IsRelative_Now: "IsRelative (Now L now c) \<longleftrightarrow> \<not> valid c"
  using Format_RFC3339_not_relative [of now] by (auto simp: Now_def Valid_def IsRelative_def)

lemma Reproject_absolute: "\<not> IsRelative ts \<Longrightarrow> Reproject L now c ts = (ts, True)"
  by (simp add: Reproject_def IsRelative_def)

lemma Reproject_ok_not_relative: "Reproject L now c ts = (ts', True) \<Longrightarrow> \<not> IsRelative ts'"
  by (auto simp: Reproject_def IsRelative_def [symmetric] Format_RFC3339_not_relative Let_def
      split: if_splits option.splits)

lemma MarkValid_simps [simp]:
  "valid (MarkValid c)" "anchor (MarkValid c) = anchor c" "sessionID (MarkValid c) = sessionID c"
  by (simp_all add: MarkValid_def)

section \<open>Properties\<close>

text \<open>
  Time stamps say what they are: a clock hands out relative ones exactly while it is not valid, a
  formatted instant is never taken for one, and reprojection leaves absolute stamps alone and
  otherwise, if it succeeds, yields an absolute stamp.
\<close>

theorem timestamps_are_marked:
  "(IsRelative (Now L now c) \<longleftrightarrow> \<not> valid c)
   \<and> \<not> IsRelative (Format_RFC3339 t)
   \<and> (\<not> IsRelative ts \<longrightarrow> Reproject L now c ts = (ts, True))
   \<and> (snd (Reproject L now c ts) \<longrightarrow> \<not> IsRelative (fst (Reproject L now c ts)))"
  using IsRelative_Now Format_RFC3339_not_relative Reproject_absolute [of ts L now c]
    Reproject_ok_not_relative [of L now c ts "fst (Reproject L now c ts)"]
  by (cases "Reproject L now c ts") auto

theorem timestamps_are_marked_witness:
  "\<forall>L. Reproject L 0 (NewClock None 0) ''2026-01-01T00:00:00Z'' = (''2026-01-01T00:00:00Z'', True)"
  using timestamps_are_marked [of _ 0 "NewClock None 0" 0 "''2026-01-01T00:00:00Z''"]
  by (simp add: IsRelative_def HasPrefix_def InvalidPrefix_def)

end
