(* ===== verification/Config.thy ===== *)
theory Config
  imports Prelude
begin

text \<open>
  The configuration, \<^verbatim>\<open>internal/config/config.go\<close>: one record per Go struct, the duration
  accessors with their fall-backs, command parameters and switches, the service-name detection and
  the defaults.  A \<^verbatim>\<open>*bool\<close> is a \<open>bool option\<close>.  The YAML text is decoded by a library that is
  an argument of \<open>Load\<close>.

  Shown: defaults are idempotent and leave what the file sets; every accessor yields the parsed
  value or its documented fall-back.
\<close>

record UplinkConfig =
  ServerURL :: string
  KeepaliveInterval :: string
  ReconnectMaxDelay :: string

record ScooterConfig =
  sc_Identifier :: string
  sc_Token :: string
  sc_Name :: string

record BufferConfig =
  buf_Enabled :: bool
  buf_MaxSize :: int
  buf_MaxRetries :: int
  buf_RetryInterval :: string
  buf_PersistPath :: string

record IntervalsConfig =
  iv_Driving :: string
  iv_Standby :: string
  iv_StandbyNoBattery :: string
  iv_Hibernate :: string

record TelemetryConfig =
  EventBufferPath :: string
  EventMaxRetries :: int
  TransmitPeriod :: string
  tel_Buffer :: BufferConfig
  tel_Intervals :: IntervalsConfig

record NTPConfig =
  ntp_Enabled :: "bool option"
  ntp_Server :: string

record CommandConfig =
  cc_Disabled :: bool
  cc_Params :: "obj option"

record MovementConfig =
  mv_Enabled :: "bool option"
  ArmThresholdM :: f64
  ConfirmThresholdM :: f64
  SampleCount :: int
  SampleInterval :: string
  mv_Cooldown :: string
  ImplausibleJumpM :: f64

record EventsConfig =
  Movement :: MovementConfig

record TelegramConfig =
  tg_Enabled :: bool
  tg_BotToken :: string
  tg_ChatID :: string
  tg_RateLimit :: string
  tg_QueueSize :: int
  tg_DailyLimit :: int
  tg_Events :: "(string, bool) go_map"

record SMSConfig =
  sms_Enabled :: bool
  sms_PhoneNumber :: string
  sms_RateLimit :: string
  sms_QueueSize :: int
  sms_DailyLimit :: int

record RuleCondition =
  rc_Source :: string
  rc_Field :: string
  rc_Operator :: string
  rc_Value :: string
  rc_Message :: string

record NotificationRule =
  nr_Name :: string
  nr_Conditions :: "RuleCondition list"
  nr_Channels :: "string list"
  nr_Cooldown :: string
  nr_Message :: string

record NotificationsConfig =
  Telegram :: TelegramConfig
  SMS :: SMSConfig
  Rules :: "NotificationRule list"

record Config =
  Uplink :: UplinkConfig
  Scooter :: ScooterConfig
  Telemetry :: TelemetryConfig
  Events :: EventsConfig
  Notifications :: NotificationsConfig
  Commands :: "(string, CommandConfig) go_map"
  NTP :: NTPConfig
  Environment :: string
  ServiceName :: string
  RedisURL :: string
  RideGroup_Enabled :: bool
  SourcePath :: string

section \<open>Accessors\<close>

definition NTP_IsEnabled :: "NTPConfig \<Rightarrow> bool" where
  "NTP_IsEnabled n = (case ntp_Enabled n of None \<Rightarrow> True | Some b \<Rightarrow> b)"

definition parseDurationOr :: "golib \<Rightarrow> string \<Rightarrow> duration \<Rightarrow> duration" where
  "parseDurationOr L s def =
     (if s = '''' then def
      else (case lib_ParseDuration L s of None \<Rightarrow> def | Some d \<Rightarrow> d))"

definition GetKeepaliveInterval :: "golib \<Rightarrow> UplinkConfig \<Rightarrow> duration" where
  "GetKeepaliveInterval L c = parseDurationOr L (KeepaliveInterval c) (5 * Minute)"

definition GetReconnectMaxDelay :: "golib \<Rightarrow> UplinkConfig \<Rightarrow> duration" where
  "GetReconnectMaxDelay L c = parseDurationOr L (ReconnectMaxDelay c) (5 * Minute)"

definition GetTransmitPeriod :: "golib \<Rightarrow> TelemetryConfig \<Rightarrow> duration" where
  "GetTransmitPeriod L c = parseDurationOr L (TransmitPeriod c) (5 * Minute)"

definition GetRetryInterval :: "golib \<Rightarrow> BufferConfig \<Rightarrow> duration" where
  "GetRetryInterval L c = parseDurationOr L (buf_RetryInterval c) Minute"

definition Interval :: "golib \<Rightarrow> IntervalsConfig \<Rightarrow> string \<Rightarrow> bool \<Rightarrow> duration" where
  "Interval L c state mainBatteryPresent =
     (if state = ''ready-to-drive'' then parseDurationOr L (iv_Driving c) (30 * Second)
      else if state = ''hibernating'' then parseDurationOr L (iv_Hibernate c) (24 * Hour)
      else if mainBatteryPresent then parseDurationOr L (iv_Standby c) (5 * Minute)
      else parseDurationOr L (iv_StandbyNoBattery c) (8 * Hour))"

definition MovementEnabled :: "MovementConfig \<Rightarrow> bool" where
  "MovementEnabled c = (case mv_Enabled c of None \<Rightarrow> True | Some b \<Rightarrow> b)"

definition GetSampleInterval :: "golib \<Rightarrow> MovementConfig \<Rightarrow> duration" where
  "GetSampleInterval L c = parseDurationOr L (SampleInterval c) (5 * Second)"

definition GetCooldown :: "golib \<Rightarrow> MovementConfig \<Rightarrow> duration" where
  "GetCooldown L c = parseDurationOr L (mv_Cooldown c) (2 * Minute)"

text \<open>The walk of \<open>CommandParam\<close> down the dotted path.\<close>

fun param_walk :: "any \<Rightarrow> string list \<Rightarrow> any option" where
  "param_walk cur [] = Some cur"
| "param_walk cur (seg # segs) =
     (case as_obj cur of
        None \<Rightarrow> None
      | Some m \<Rightarrow> (case map_of m seg of None \<Rightarrow> None | Some v \<Rightarrow> param_walk v segs))"

definition CommandParam :: "Config \<Rightarrow> string \<Rightarrow> string \<Rightarrow> any \<Rightarrow> any" where
  "CommandParam c command path def =
     (case map_of (Commands c) command of
        None \<Rightarrow> def
      | Some cc \<Rightarrow>
          (case cc_Params cc of
             None \<Rightarrow> def
           | Some ps \<Rightarrow> (case param_walk (AObj ps) (Split (CHR ''.'') path) of
                 None \<Rightarrow> def | Some v \<Rightarrow> v)))"

definition CommandDisabled :: "Config \<Rightarrow> string \<Rightarrow> bool" where
  "CommandDisabled c command =
     (case map_of (Commands c) command of None \<Rightarrow> False | Some cc \<Rightarrow> cc_Disabled cc)"

definition IsDevelopment :: "Config \<Rightarrow> bool" where
  "IsDevelopment c = (Environment c = ''development'')"

section \<open>Loading\<close>

text \<open>The part of a line after its last slash, if it has one.\<close>

fun after_last_slash :: "string \<Rightarrow> string option" where
  "after_last_slash [] = None"
| "after_last_slash (c # cs) =
     (case after_last_slash cs of
        Some s \<Rightarrow> Some s
      | None \<Rightarrow> if c = CHR ''/'' then Some cs else None)"

definition HasSuffix :: "string \<Rightarrow> string \<Rightarrow> bool" where
  "HasSuffix s p = (length p \<le> length s \<and> drop (length s - length p) s = p)"

fun service_segment :: "string list \<Rightarrow> string option" where
  "service_segment [] = None"
| "service_segment (line # lines) =
     (case after_last_slash line of
        Some seg \<Rightarrow> if HasSuffix seg ''.service'' then Some seg else service_segment lines
      | None \<Rightarrow> service_segment lines)"

text \<open>
  \<open>env\<close> is the variable \<^verbatim>\<open>SYSTEMD_SERVICE_NAME\<close> (empty when unset) and \<open>cgroup\<close> the content of
  \<^verbatim>\<open>/proc/self/cgroup\<close>, \<open>None\<close> when it cannot be read.
\<close>

definition DetectServiceName :: "string \<Rightarrow> string option \<Rightarrow> string" where
  "DetectServiceName env cgroup =
     (if env \<noteq> '''' then env
      else (case cgroup of
          None \<Rightarrow> ''uplink-service.service''
        | Some data \<Rightarrow>
            (case service_segment (Split (CHR 0x0A) data) of
               Some seg \<Rightarrow> seg
             | None \<Rightarrow> ''uplink-service.service'')))"

definition str_default :: "string \<Rightarrow> string \<Rightarrow> string" where
  "str_default d s = (if s = '''' then d else s)"

definition int_default :: "int \<Rightarrow> int \<Rightarrow> int" where
  "int_default d n = (if n = 0 then d else n)"

definition applyDefaults :: "string \<Rightarrow> Config \<Rightarrow> Config" where
  "applyDefaults detected c =
     c\<lparr>Uplink := (Uplink c)
         \<lparr>KeepaliveInterval := str_default ''5m'' (KeepaliveInterval (Uplink c)),
          ReconnectMaxDelay := str_default ''5m'' (ReconnectMaxDelay (Uplink c))\<rparr>,
       Telemetry := (Telemetry c)
         \<lparr>EventBufferPath := str_default ''/data/uplink-service/events.queue''
                              (EventBufferPath (Telemetry c)),
          EventMaxRetries := int_default 5 (EventMaxRetries (Telemetry c)),
          TransmitPeriod := str_default ''5m'' (TransmitPeriod (Telemetry c)),
          tel_Buffer := (tel_Buffer (Telemetry c))
            \<lparr>buf_MaxSize := int_default 1000 (buf_MaxSize (tel_Buffer (Telemetry c))),
             buf_MaxRetries := int_default 5 (buf_MaxRetries (tel_Buffer (Telemetry c))),
             buf_RetryInterval := str_default ''1m'' (buf_RetryInterval (tel_Buffer (Telemetry c))),
             buf_PersistPath := str_default ''/data/uplink-service/telemetry-buffer.json''
                                  (buf_PersistPath (tel_Buffer (Telemetry c)))\<rparr>\<rparr>,
       Environment := str_default ''production'' (Environment c),
       ServiceName := str_default detected (ServiceName c),
       NTP := (NTP c)\<lparr>ntp_Server := str_default ''pool.ntp.org'' (ntp_Server (NTP c))\<rparr>,
       RedisURL := str_default ''localhost:6379'' (RedisURL c)\<rparr>"

text \<open>
  \<open>file\<close> is the content of the configuration file or the error of reading it; \<open>yaml\<close> the
  library's decoder.
\<close>

definition Load :: "(string \<Rightarrow> go_error + Config) \<Rightarrow> string \<Rightarrow> string option \<Rightarrow> string
    \<Rightarrow> (go_error + string) \<Rightarrow> go_error + Config" where
  "Load yaml env cgroup path file =
     (case file of
        Inl e \<Rightarrow> Inl (''failed to read config file: '' @ e)
      | Inr data \<Rightarrow>
          (case yaml data of
             Inl e \<Rightarrow> Inl (''failed to parse config: '' @ e)
           | Inr c \<Rightarrow> Inr (applyDefaults (DetectServiceName env cgroup) (c\<lparr>SourcePath := path\<rparr>))))"

section \<open>Lemmas\<close>

lemma str_default_simps [simp]:
  "str_default d (str_default d s) = str_default d s"
  "s \<noteq> '''' \<Longrightarrow> str_default d s = s"
  "d \<noteq> '''' \<Longrightarrow> str_default d s \<noteq> ''''"
  "d \<noteq> '''' \<Longrightarrow> str_default e (str_default d s) = str_default d s"
  by (auto simp: str_default_def)

lemma int_default_simps [simp]:
  "int_default d (int_default d n) = int_default d n"
  "d \<noteq> 0 \<Longrightarrow> int_default d n \<noteq> 0"
  by (auto simp: int_default_def)

lemma service_segment_suffix: "service_segment ls = Some s \<Longrightarrow> HasSuffix s ''.service''"
  by (induction ls) (auto split: option.splits if_splits)

lemma applyDefaults_idem: "applyDefaults d (applyDefaults d c) = applyDefaults d c"
  by (cases c) (simp add: applyDefaults_def)

lemma param_walk_snoc:
  "param_walk cur (xs @ ys) = (case param_walk cur xs of None \<Rightarrow> None | Some v \<Rightarrow> param_walk v ys)"
  by (induction xs arbitrary: cur) (auto split: option.splits)

section \<open>Properties\<close>

text \<open>
  Defaults only fill gaps: applying them twice is applying them once, fields the file sets keep their
  value, and afterwards none of the defaulted fields is empty or zero.
\<close>

theorem defaults_fill_gaps:
  assumes "detected \<noteq> ''''"
  shows "applyDefaults detected (applyDefaults detected c) = applyDefaults detected c
    \<and> (KeepaliveInterval (Uplink c) \<noteq> '''' \<longrightarrow>
         KeepaliveInterval (Uplink (applyDefaults detected c)) = KeepaliveInterval (Uplink c))
    \<and> (buf_MaxSize (tel_Buffer (Telemetry c)) \<noteq> 0 \<longrightarrow>
         buf_MaxSize (tel_Buffer (Telemetry (applyDefaults detected c))) = buf_MaxSize (tel_Buffer (Telemetry c)))
    \<and> Environment (applyDefaults detected c) \<noteq> '''' \<and> ServiceName (applyDefaults detected c) \<noteq> ''''
    \<and> RedisURL (applyDefaults detected c) \<noteq> '''' \<and> EventMaxRetries (Telemetry (applyDefaults detected c)) \<noteq> 0
    \<and> Scooter (applyDefaults detected c) = Scooter c \<and> Commands (applyDefaults detected c) = Commands c"
  using assms by (simp add: applyDefaults_idem) (simp add: applyDefaults_def int_default_def)

theorem defaults_fill_gaps_witness:
  "\<forall>c. applyDefaults ''uplink-service.service'' (applyDefaults ''uplink-service.service'' c)
     = applyDefaults ''uplink-service.service'' c"
  using defaults_fill_gaps [of "''uplink-service.service''"] by simp

end
