(* ===== verification/Buffer.thy ===== *)
theory Buffer
  imports Connection Clock Config "HOL-Library.Sublist"
begin

text \<open>
  The offline telemetry buffer, \<^verbatim>\<open>internal/telemetry/buffer.go\<close>.  The buffer is the list of its
  items; its two copies (the Redis key and the file) are the record \<open>bstore\<close>.  The sink is the Go
  interface \<^verbatim>\<open>BatchSink\<close>: its two methods are arguments, and the lemmas about \<open>Flush\<close> are proved
  in the locale \<open>batch_sink\<close> that the connection manager interprets.  The JSON codec of the item list
  is a pair of arguments.

  Shown: thinning keeps both end points, the order and half of the interior; the buffer stays within
  its bound; a flush sends everything that still has a meaning, in order, or changes nothing; what
  was persisted is what the next process loads.
\<close>

record bufferedSnapshot =
  bs_Data :: obj
  bs_Timestamp :: string
  bs_Session :: string

type_synonym items = "bufferedSnapshot list"

record bstore =
  redis_copy :: "string option"
  disk_copy :: "string option"

text \<open>
  The outcome of the I/O calls of \<open>persistLocked\<close>: whether there is a Redis client, whether its
  \<^verbatim>\<open>SET\<close> succeeds, whether the temporary file is written and whether it is renamed.
\<close>

record bio =
  io_client :: bool
  io_set :: bool
  io_write :: bool
  io_rename :: bool

section \<open>Operations\<close>

fun every_other :: "'a list \<Rightarrow> 'a list" where
  "every_other [] = []"
| "every_other [x] = [x]"
| "every_other (x # y # zs) = x # every_other zs"

text \<open>The loop of \<open>subsample\<close> visits the indices 1, 3, 5, ... below the last one.\<close>

definition subsample :: "'a list \<Rightarrow> 'a list" where
  "subsample xs =
     (if length xs < 3 then xs
      else hd xs # every_other (butlast (tl xs)) @ [last xs])"

definition persistLocked ::
    "(items \<Rightarrow> string option) \<Rightarrow> bio \<Rightarrow> BufferConfig \<Rightarrow> items \<Rightarrow> bstore \<Rightarrow> bstore" where
  "persistLocked enc io cfg xs st =
     (case enc xs of
        None \<Rightarrow> st
      | Some data \<Rightarrow>
          (let st1 = (if io_client io \<and> io_set io then st\<lparr>redis_copy := Some data\<rparr> else st)
           in if buf_PersistPath cfg \<noteq> '''' \<and> io_write io \<and> io_rename io
              then st1\<lparr>disk_copy := Some data\<rparr> else st1))"

definition Add :: "(items \<Rightarrow> string option) \<Rightarrow> bio \<Rightarrow> BufferConfig \<Rightarrow> clock \<Rightarrow> obj \<Rightarrow> string
    \<Rightarrow> items \<times> bstore \<Rightarrow> items \<times> bstore" where
  "Add enc io cfg c snapshot timestamp b =
     (if \<not> buf_Enabled cfg then b
      else let xs1 = fst b @ [\<lparr>bs_Data = snapshot, bs_Timestamp = timestamp,
                               bs_Session = SessionID c\<rparr>];
               xs2 = (if buf_MaxSize cfg > 0 \<and> int (length xs1) > buf_MaxSize cfg
                      then subsample xs1 else xs1)
           in (xs2, persistLocked enc io cfg xs2 (snd b)))"

text \<open>One iteration of the loop of \<open>Flush\<close>: \<open>None\<close> is the \<^verbatim>\<open>continue\<close>.\<close>

definition flush_item :: "golib \<Rightarrow> instant \<Rightarrow> clock \<Rightarrow> bufferedSnapshot \<Rightarrow> TelemetrySnapshot option" where
  "flush_item L now c it =
     (let ts = bs_Timestamp it
      in if IsRelative ts then
           if bs_Session it \<noteq> SessionID c then None
           else Some \<lparr>ts_Data = bs_Data it,
                      ts_Timestamp = (if Valid c
                         then (case Reproject L now c ts of (r, ok) \<Rightarrow> if ok then r else ts)
                         else ts)\<rparr>
         else Some \<lparr>ts_Data = bs_Data it, ts_Timestamp = ts\<rparr>)"

definition Flush :: "('s \<Rightarrow> bool) \<Rightarrow> (string \<times> TelemetrySnapshot list \<Rightarrow> 's \<Rightarrow> go_error option \<times> 's)
    \<Rightarrow> (items \<Rightarrow> string option) \<Rightarrow> bio \<Rightarrow> golib \<Rightarrow> instant \<Rightarrow> string \<Rightarrow> clock \<Rightarrow> BufferConfig
    \<Rightarrow> items \<times> bstore \<Rightarrow> 's \<Rightarrow> (items \<times> bstore) \<times> 's" where
  "Flush isconn sendb enc io L now stamp c cfg b s =
     (if \<not> buf_Enabled cfg then (b, s)
      else if fst b = [] \<or> \<not> isconn s then (b, s)
      else let snapshots = List.map_filter (flush_item L now c) (fst b)
           in if snapshots = [] then (([], persistLocked enc io cfg [] (snd b)), s)
              else (case sendb (stamp, snapshots) s of
                  (Some e, s') \<Rightarrow> (b, s')
                | (None, s') \<Rightarrow> (([], persistLocked enc io cfg [] (snd b)), s')))"

text \<open>\<open>unmarshalInto\<close> yields the items on success.\<close>

definition unmarshalInto :: "(string \<Rightarrow> items option) \<Rightarrow> string \<Rightarrow> items \<Rightarrow> bool \<times> items" where
  "unmarshalInto dec s xs = (case dec s of None \<Rightarrow> (False, xs) | Some ys \<Rightarrow> (True, ys))"

definition load :: "(string \<Rightarrow> items option) \<Rightarrow> bool \<Rightarrow> BufferConfig \<Rightarrow> bstore \<Rightarrow> items \<Rightarrow> items" where
  "load dec client cfg st xs =
     (let from_disk = (\<lambda>ys. if buf_PersistPath cfg \<noteq> ''''
                       then (case disk_copy st of
                               None \<Rightarrow> ys
                             | Some data \<Rightarrow> snd (unmarshalInto dec data ys))
                       else ys)
      in case (if client then redis_copy st else None) of
           Some s \<Rightarrow>
             if s \<noteq> '''' then
               (case unmarshalInto dec s xs of
                  (True, ys) \<Rightarrow> ys
                | (False, ys) \<Rightarrow> from_disk ys)
             else from_disk xs
         | None \<Rightarrow> from_disk xs)"

definition NewBuffer :: "(string \<Rightarrow> items option) \<Rightarrow> bool \<Rightarrow> BufferConfig \<Rightarrow> duration \<Rightarrow> bstore
    \<Rightarrow> duration \<times> items" where
  "NewBuffer dec client cfg drainInterval st =
     (if drainInterval \<le> 0 then 5 * Minute else drainInterval, load dec client cfg st [])"

section \<open>Thinning\<close>

lemma every_other_length: "length (every_other xs) = (length xs + 1) div 2"
  by (induction xs rule: every_other.induct) auto

lemma every_other_subseq: "subseq (every_other xs) xs"
  by (induction xs rule: every_other.induct) auto

lemma every_other_nth: "i < length (every_other xs) \<Longrightarrow> every_other xs ! i = xs ! (2 * i)"
  by (induction xs arbitrary: i rule: every_other.induct) (auto simp: nth_Cons split: nat.splits)

lemma split_ends: "3 \<le> length xs \<Longrightarrow> xs = hd xs # butlast (tl xs) @ [last xs]"
  by (cases xs) (auto simp: Suc_le_eq)

lemma subsample_length:
  "length (subsample xs) = (if length xs < 3 then length xs else 2 + (length xs - 1) div 2)"
  by (auto simp: subsample_def every_other_length)

lemma subsample_le: "length (subsample xs) \<le> length xs"
  by (auto simp: subsample_length)

lemma subsample_subseq: "subseq (subsample xs) xs"
proof (cases "length xs < 3")
  case False
  then have "subseq (subsample xs) (hd xs # butlast (tl xs) @ [last xs])"
    by (auto simp: subsample_def intro: list_emb_append_mono every_other_subseq)
  then show ?thesis using split_ends [of xs] False by simp
qed (simp add: subsample_def)

lemma subsample_last: "xs \<noteq> [] \<Longrightarrow> last (subsample xs) = last xs"
  by (simp add: subsample_def)

lemma subsample_hd: "xs \<noteq> [] \<Longrightarrow> hd (subsample xs) = hd xs"
  by (simp add: subsample_def)

lemma subsample_not_Nil [simp]: "subsample xs = [] \<longleftrightarrow> xs = []"
  by (auto simp: subsample_def)

section \<open>The bound\<close>

definition buf_bound :: "BufferConfig \<Rightarrow> items \<Rightarrow> bool" where
  "buf_bound cfg xs = (buf_MaxSize cfg > 0 \<longrightarrow> int (length xs) \<le> max 3 (buf_MaxSize cfg))"

lemma Add_bound: "buf_bound cfg (fst b) \<Longrightarrow> buf_bound cfg (fst (Add enc io cfg c d ts b))"
  by (auto simp: Add_def buf_bound_def Let_def subsample_length)

lemma Flush_items:
  "fst (fst (Flush isconn sendb enc io L now stamp c cfg b s)) = fst b
   \<or> fst (fst (Flush isconn sendb enc io L now stamp c cfg b s)) = []"
  by (auto simp: Flush_def Let_def split: option.splits prod.splits)

lemma Flush_bound:
  "buf_bound cfg (fst b) \<Longrightarrow> buf_bound cfg (fst (fst (Flush isconn sendb enc io L now stamp c cfg b s)))"
  using Flush_items [of isconn sendb enc io L now stamp c cfg b s] by (auto simp: buf_bound_def)

lemma Add_newest:
  "buf_Enabled cfg \<Longrightarrow> last (fst (Add enc io cfg c d ts b))
     = \<lparr>bs_Data = d, bs_Timestamp = ts, bs_Session = SessionID c\<rparr>"
  by (auto simp: Add_def Let_def subsample_last)

section \<open>Flushing through a sink that keeps its contract\<close>

text \<open>A snapshot is stale when its time is relative to an anchor of an earlier process.\<close>

definition stale :: "clock \<Rightarrow> bufferedSnapshot \<Rightarrow> bool" where
  "stale c it = (IsRelative (bs_Timestamp it) \<and> bs_Session it \<noteq> SessionID c)"

lemma flush_item_None: "flush_item L now c it = None \<longleftrightarrow> stale c it"
  by (simp add: flush_item_def stale_def Let_def)

lemma flush_item_Data: "flush_item L now c it = Some t \<Longrightarrow> ts_Data t = bs_Data it"
  by (auto simp: flush_item_def Let_def split: if_splits)

lemma flush_item_absolute:
  "flush_item L now c it = Some t \<Longrightarrow> \<not> IsRelative (bs_Timestamp it) \<Longrightarrow> ts_Timestamp t = bs_Timestamp it"
  by (auto simp: flush_item_def Let_def)

lemma map_filter_Data:
  "map ts_Data (List.map_filter (flush_item L now c) xs) = map bs_Data (filter (\<lambda>it. \<not> stale c it) xs)"
  by (induction xs)
     (auto simp: List.map_filter_simps flush_item_None [of L now, symmetric] dest: flush_item_Data
           split: option.splits)

lemma map_filter_Nil:
  "List.map_filter (flush_item L now c) xs = [] \<longleftrightarrow> (\<forall>it \<in> set xs. stale c it)"
  by (induction xs)
     (auto simp: List.map_filter_simps flush_item_None [of L now, symmetric] split: option.splits)

context batch_sink
begin

lemma Flush_cases:
  assumes "Flush is_connected send_batch enc io L now stamp c cfg b s = (b', s')"
    and "buf_Enabled cfg"
  shows "(b' = b \<and> s' = s)
    \<or> (fst b' = [] \<and> snd b' = persistLocked enc io cfg [] (snd b) \<and> is_connected s \<and> fst b \<noteq> []
       \<and> (if \<forall>it \<in> set (fst b). stale c it then s' = s
          else outbox s' = outbox s @
                 [TelemetryBatchMessage (List.map_filter (flush_item L now c) (fst b)) stamp]))"
  using assms bt.send_failed [of "(stamp, List.map_filter (flush_item L now c) (fst b))" s]
    bt.send_done [of "(stamp, List.map_filter (flush_item L now c) (fst b))" s]
  by (auto simp: Flush_def Let_def map_filter_Nil split: if_splits option.splits prod.splits)

lemma Flush_progress:
  assumes "buf_Enabled cfg" and "is_connected s" and "length (outbox s) < capacity"
    and "\<And>it. it \<in> set (fst b) \<Longrightarrow> obj_encodable (bs_Data it)"
  shows "fst (fst (Flush is_connected send_batch enc io L now stamp c cfg b s)) = []"
proof -
  let ?ss = "List.map_filter (flush_item L now c) (fst b)"
  have "\<forall>t \<in> set ?ss. obj_encodable (ts_Data t)"
    using assms(4) by (auto simp: List.map_filter_def flush_item_Data)
  then have "marshal_ok (TelemetryBatchMessage ?ss stamp)" by (simp add: list_all_iff)
  then have "fst (send_batch (stamp, ?ss) s) = None"
    using bt.send_progress [of s "(stamp, ?ss)"] assms(2,3) by simp
  then show ?thesis
    using assms(1,2) by (auto simp: Flush_def Let_def split: option.splits prod.splits)
qed

end

section \<open>Persistence\<close>

text \<open>The copies on which \<open>load\<close> relies agree with the items.\<close>

lemma load_persisted:
  assumes "enc xs = Some data" and "dec data = Some xs" and "data \<noteq> ''''"
    and "io_client io" and "io_set io"
  shows "load dec True cfg (persistLocked enc io cfg xs st) [] = xs"
  using assms by (auto simp: load_def persistLocked_def unmarshalInto_def Let_def)

lemma load_disk_fallback:
  assumes "enc xs = Some data" and "dec data = Some xs"
    and "buf_PersistPath cfg \<noteq> ''''" and "io_write io \<and> io_rename io"
  shows "load dec client cfg ((persistLocked enc io cfg xs st)\<lparr>redis_copy := None\<rparr>) [] = xs"
  using assms by (auto simp: load_def persistLocked_def unmarshalInto_def Let_def)

section \<open>Properties\<close>

text \<open>
  C19: Thinning a full buffer keeps the first and the last snapshot, keeps the order (the result is a
  subsequence), and of a list of \<open>n >= 3\<close> items leaves \<open>2 + (n - 1) div 2\<close>; shorter lists are unchanged.
\<close>

theorem subsample_correct:
  "subseq (subsample xs) xs
   \<and> length (subsample xs) = (if length xs < 3 then length xs else 2 + (length xs - 1) div 2)
   \<and> (xs = [] \<or> hd (subsample xs) = hd xs \<and> last (subsample xs) = last xs)
   \<and> (\<forall>i < length (subsample xs) - 2. 3 \<le> length xs \<longrightarrow> subsample xs ! Suc i = xs ! (2 * i + 1))"
proof -
  have "subsample xs ! Suc i = xs ! (2 * i + 1)" if i: "i < length (subsample xs) - 2" and n: "3 \<le> length xs" for i
  proof -
    let ?mid = "every_other (butlast (tl xs))"
    have l: "i < length ?mid" using i n by (simp add: subsample_length every_other_length)
    then have "subsample xs ! Suc i = butlast (tl xs) ! (2 * i)"
      using n every_other_nth [OF l] by (simp add: subsample_def nth_append)
    also have "\<dots> = xs ! (2 * i + 1)"
      using l by (simp add: every_other_length nth_butlast nth_tl)
    finally show ?thesis .
  qed
  then show ?thesis
    by (auto simp: subsample_subseq subsample_length subsample_hd subsample_last)
qed

theorem subsample_correct_witness:
  "subsample [1::nat, 2, 3, 4, 5, 6] = [1, 2, 4, 6]
   \<and> subseq (subsample [1::nat, 2, 3, 4, 5, 6]) [1, 2, 3, 4, 5, 6]
   \<and> subsample [1::nat, 2, 3, 4, 5, 6] ! Suc 1 = [1, 2, 3, 4, 5, 6] ! 3"
  using subsample_correct [of "[1::nat, 2, 3, 4, 5, 6]"] by (simp add: subsample_def)

text \<open>
  C20: A bounded buffer stays bounded: with a positive \<^verbatim>\<open>max_size\<close> neither \<open>Add\<close> nor \<open>Flush\<close> ever
  leaves more than \<open>max 3 max_size\<close> snapshots, and the snapshot just added is the last one kept.
\<close>

theorem buffer_bounded:
  assumes "buf_bound cfg (fst b)"
  shows "buf_bound cfg (fst (Add enc io cfg c d ts b))
    \<and> buf_bound cfg (fst (fst (Flush isconn sendb enc io L now stamp c cfg b s)))
    \<and> (buf_Enabled cfg \<longrightarrow> last (fst (Add enc io cfg c d ts b))
         = \<lparr>bs_Data = d, bs_Timestamp = ts, bs_Session = SessionID c\<rparr>)"
  using assms by (simp add: Add_bound Flush_bound Add_newest)

definition sample_cfg :: BufferConfig where
  "sample_cfg = \<lparr>buf_Enabled = True, buf_MaxSize = 3, buf_MaxRetries = 5, buf_RetryInterval = ''1m'',
                 buf_PersistPath = ''/data/buffer.json''\<rparr>"

definition sample_clock :: clock where
  "sample_clock = \<lparr>anchor = 0, valid = False, sessionID = ''s1''\<rparr>"

definition sample_item :: "string \<Rightarrow> bufferedSnapshot" where
  "sample_item ts = \<lparr>bs_Data = [], bs_Timestamp = ts, bs_Session = ''s1''\<rparr>"

definition sample_io :: bio where
  "sample_io = \<lparr>io_client = True, io_set = True, io_write = True, io_rename = True\<rparr>"

definition sample_store :: bstore where
  "sample_store = \<lparr>redis_copy = None, disk_copy = None\<rparr>"

lemmas sample_defs = sample_cfg_def sample_clock_def sample_item_def sample_io_def sample_store_def

theorem buffer_bounded_witness:
  "buf_bound sample_cfg [sample_item ''1'', sample_item ''2'', sample_item ''3'']
   \<and> buf_bound sample_cfg (fst (Add (\<lambda>_. None) sample_io sample_cfg sample_clock [] ''4''
        ([sample_item ''1'', sample_item ''2'', sample_item ''3''], sample_store)))
   \<and> last (fst (Add (\<lambda>_. None) sample_io sample_cfg sample_clock [] ''4''
        ([sample_item ''1'', sample_item ''2'', sample_item ''3''], sample_store))) = sample_item ''4''"
proof -
  let ?b = "([sample_item ''1'', sample_item ''2'', sample_item ''3''], sample_store)"
  have b: "buf_bound sample_cfg (fst ?b)" by (simp add: buf_bound_def sample_cfg_def)
  have "\<lparr>bs_Data = [], bs_Timestamp = ''4'', bs_Session = SessionID sample_clock\<rparr> = sample_item ''4''"
    "buf_Enabled sample_cfg" by (simp_all add: sample_defs SessionID_def)
  then show ?thesis
    using b conjunct1 [OF buffer_bounded [OF b, of "\<lambda>_. None" sample_io sample_clock "[]" "''4''"]]
      conjunct2 [OF conjunct2 [OF buffer_bounded [OF b, of "\<lambda>_. None" sample_io sample_clock "[]" "''4''"]]]
    by simp
qed


definition sample_mgr :: manager where
  "sample_mgr = NewManager\<lparr>connected := True, authenticated := True\<rparr>"

definition sample_flush :: "(items \<times> bstore) \<times> manager" where
  "sample_flush = (([], sample_store),
     incrementTelemetrySent (sample_mgr\<lparr>sendChan :=
       [TelemetryBatchMessage [\<lparr>ts_Data = [], ts_Timestamp = ''2026-01-01T00:00:00Z''\<rparr>] ''now'']\<rparr>))"

lemma sample_flush_eq:
  "Flush IsConnected mgr_SendBatch (\<lambda>_. None) sample_io L 0 ''now'' sample_clock sample_cfg
     ([sample_item ''2026-01-01T00:00:00Z''], sample_store) sample_mgr = sample_flush"
  by (simp add: Flush_def sample_defs sample_mgr_def sample_flush_def IsConnected_def flush_item_def
      IsRelative_def HasPrefix_def InvalidPrefix_def List.map_filter_simps SendTelemetryBatch_def
      obj_encodable_def chan_try_def sendCap_def NewManager_def persistLocked_def Let_def)


text \<open>
  A flush makes progress: with the buffer enabled, the connection up, room in the send queue and
  encodable snapshots, the buffer is empty afterwards.
\<close>

theorem Flush_empties:
  assumes "buf_Enabled cfg" and "IsConnected m" and "length (sendChan m) < sendCap"
    and "\<forall>it \<in> set (fst b). obj_encodable (bs_Data it)"
  shows "fst (fst (Flush IsConnected mgr_SendBatch enc io L now stamp c cfg b m)) = []"
  using assms by (intro mgr_batch.Flush_progress) auto

theorem Flush_empties_witness:
  "\<forall>L. fst (fst (Flush IsConnected mgr_SendBatch (\<lambda>_. None) sample_io L 0 ''now'' sample_clock sample_cfg
     ([sample_item ''1'', sample_item ''2''], sample_store) sample_mgr)) = []"
  by (intro allI Flush_empties)
     (simp_all add: sample_defs sample_mgr_def IsConnected_def NewManager_def sendCap_def obj_encodable_def)

text \<open>
  C21: What \<open>Add\<close> persisted is what the next process loads, from Redis when it answers and from the file
  when the Redis copy is gone, provided the JSON decoder inverts the encoder on the item list.
\<close>

theorem Add_reload:
  assumes "buf_Enabled cfg" and "Add enc io cfg c d ts b = (xs, st)"
    and "enc xs = Some data" and "dec data = Some xs" and "data \<noteq> ''''"
    and "io_client io \<and> io_set io" and "buf_PersistPath cfg \<noteq> ''''" and "io_write io \<and> io_rename io"
  shows "snd (NewBuffer dec True cfg di st) = xs
    \<and> snd (NewBuffer dec True cfg di (st\<lparr>redis_copy := None\<rparr>)) = xs"
proof -
  have "st = persistLocked enc io cfg xs (snd b)" using assms(1,2) by (auto simp: Add_def Let_def)
  then show ?thesis
    using assms(3-) load_persisted [of enc xs data dec io cfg "snd b"]
      load_disk_fallback [of enc xs data dec cfg io True "snd b"] by (simp add: NewBuffer_def)
qed

theorem Add_reload_witness:
  "snd (NewBuffer (\<lambda>s. if s = ''[one]'' then Some [sample_item ''t''] else None) True sample_cfg 0
      (snd (Add (\<lambda>xs. Some ''[one]'') sample_io sample_cfg sample_clock [] ''t'' ([], sample_store))))
    = [sample_item ''t'']"
  using Add_reload [of sample_cfg "\<lambda>xs. Some ''[one]''" sample_io sample_clock "[]" "''t''" "([], sample_store)"
      "[sample_item ''t'']" "snd (Add (\<lambda>xs. Some ''[one]'') sample_io sample_cfg sample_clock [] ''t'' ([], sample_store))"
      "''[one]''" "\<lambda>s. if s = ''[one]'' then Some [sample_item ''t''] else None" 0]
  by (simp add: Add_def sample_defs SessionID_def Let_def)

text \<open>
  With a configured \<^verbatim>\<open>max_size\<close> of 1 or 2 the bound is not kept: a buffer of three snapshots is
  thinned to three after every further \<open>Add\<close>.
\<close>

theorem small_max_size_exceeded:
  assumes "buf_Enabled cfg" and "buf_MaxSize cfg \<in> {1, 2}" and "length (fst b) = 3"
  shows "length (fst (Add enc io cfg c d ts b)) = 3"
  using assms by (auto simp: Add_def Let_def subsample_length)

theorem small_max_size_exceeded_witness:
  "length (fst (Add (\<lambda>_. None) sample_io (sample_cfg\<lparr>buf_MaxSize := 2\<rparr>) sample_clock [] ''4''
     ([sample_item ''1'', sample_item ''2'', sample_item ''3''], sample_store))) = 3"
  by (rule small_max_size_exceeded) (simp_all add: sample_cfg_def)

end
