(* ===== verification/Publisher.thy ===== *)
theory Publisher
  imports Buffer
begin

text \<open>
  The telemetry publisher, \<^verbatim>\<open>internal/telemetry/delta.go\<close>, with the distance of
  \<^verbatim>\<open>internal/geo/geo.go\<close>.  A snapshot is a two-level map; what was last sent is remembered
  flattened to dotted paths, and the next snapshot goes out as a full state or as the difference.
  The sink and the buffer are the Go interfaces \<^verbatim>\<open>TelemetrySink\<close> and \<^verbatim>\<open>TelemetryBuffer\<close>; their
  methods are arguments.

  The specification is the receiver: \<open>mirror\<close> replays the messages of the publisher the way the
  server applies them.  Shown in the locale \<open>telemetry_sink\<close>: whenever the publisher has a baseline,
  the mirror of what it enqueued is that baseline, so a delta is never computed against a state the
  receiver does not have.
\<close>

section \<open>Distance\<close>

definition math_Pi :: f64 where
  "math_Pi = Fin (884279719003555 / 281474976710656)"

definition earthRadiusM :: f64 where
  "earthRadiusM = Fin 6371000"

definition HaversineMeters :: "golib \<Rightarrow> f64 \<Rightarrow> f64 \<Rightarrow> f64 \<Rightarrow> f64 \<Rightarrow> f64" where
  "HaversineMeters L lat1 lng1 lat2 lng2 =
     (let rad = (\<lambda>x. f64_div (f64_mul x math_Pi) (Fin 180));
          rlat1 = rad lat1;
          rlat2 = rad lat2;
          dlat = rad (f64_sub lat2 lat1);
          dlng = rad (f64_sub lng2 lng1);
          sdlat = lib_Sin L (f64_div dlat (Fin 2));
          sdlng = lib_Sin L (f64_div dlng (Fin 2));
          a = f64_add (f64_mul sdlat sdlat)
                (f64_mul (f64_mul (f64_mul (lib_Cos L rlat1) (lib_Cos L rlat2)) sdlng) sdlng);
          c = f64_mul (Fin 2) (lib_Atan2 L (lib_Sqrt L a) (lib_Sqrt L (f64_sub (Fin 1) a)))
      in f64_mul earthRadiusM c)"

section \<open>Snapshots\<close>

definition stateOf :: "obj \<Rightarrow> string" where
  "stateOf snapshot =
     (case as_obj (gm_any snapshot ''vehicle'') of
        Some vehicle \<Rightarrow> str_or_empty (gm_any vehicle ''state'')
      | None \<Rightarrow> '''')"

definition flattenState :: "golib \<Rightarrow> obj \<Rightarrow> (string, string) go_map" where
  "flattenState L state =
     fold (\<lambda>(hash, v) out.
             case as_obj v of
               None \<Rightarrow> out
             | Some m \<Rightarrow> fold (\<lambda>(f, val). gm_put (hash @ ''.'' @ f) (Sprint L val)) m out)
       state []"

definition nest_put :: "string \<Rightarrow> string \<Rightarrow> obj \<Rightarrow> obj" where
  "nest_put path val out =
     (case cut_at (CHR ''.'') path of
        None \<Rightarrow> out
      | Some (hash, field) \<Rightarrow>
          (let m = (case as_obj (gm_any out hash) of Some m \<Rightarrow> m | None \<Rightarrow> [])
           in gm_put hash (AObj (gm_put field (AStr val) m)) out))"

definition nestFlat :: "(string, string) go_map \<Rightarrow> obj" where
  "nestFlat flat = fold (\<lambda>(path, val). nest_put path val) flat []"

definition diffFlat :: "(string, string) go_map \<Rightarrow> (string, string) go_map
    \<Rightarrow> (string, string) go_map \<times> string list" where
  "diffFlat old current =
     (filter (\<lambda>(k, v). map_of old k \<noteq> Some v) current,
      filter (\<lambda>k. map_of current k = None) (map fst old))"

definition parseFloatField :: "golib \<Rightarrow> obj \<Rightarrow> string \<Rightarrow> f64 option" where
  "parseFloatField L m field =
     (case as_str (gm_any m field) of None \<Rightarrow> None | Some s \<Rightarrow> lib_ParseFloat L s)"

definition formatFloat :: "golib \<Rightarrow> f64 \<Rightarrow> string" where
  "formatFloat L f = lib_FormatF L f"

section \<open>The publisher\<close>

record publisher =
  lastSentFlat :: "(string, string) go_map option"
  lastVehicleState :: string
  flushesSinceFull :: nat
  lastGPSLat :: f64
  lastGPSLng :: f64
  lastGPSValid :: bool

definition fullResyncEvery :: nat where "fullResyncEvery = 20"

definition parkedGPSSmoothingMeters :: f64 where "parkedGPSSmoothingMeters = Fin 5"

definition NewPublisher :: publisher where
  "NewPublisher = \<lparr>lastSentFlat = None, lastVehicleState = '''', flushesSinceFull = 0,
                   lastGPSLat = Fin 0, lastGPSLng = Fin 0, lastGPSValid = False\<rparr>"

definition ResetBaseline :: "publisher \<Rightarrow> publisher" where
  "ResetBaseline p = p\<lparr>lastSentFlat := None\<rparr>"

text \<open>The update of the nested \<^verbatim>\<open>gps\<close> map is visible in the caller's snapshot.\<close>

definition smoothParkedGPS :: "golib \<Rightarrow> obj \<Rightarrow> publisher \<Rightarrow> obj \<times> publisher" where
  "smoothParkedGPS L snapshot p =
     (case as_obj (gm_any snapshot ''gps'') of
        None \<Rightarrow> (snapshot, p)
      | Some gps \<Rightarrow>
          (case (parseFloatField L gps ''latitude'', parseFloatField L gps ''longitude'') of
             (Some lat, Some lng) \<Rightarrow>
               if stateOf snapshot \<noteq> ''ready-to-drive'' \<and> lastGPSValid p
                  \<and> f64_less (HaversineMeters L (lastGPSLat p) (lastGPSLng p) lat lng)
                             parkedGPSSmoothingMeters
               then (gm_put ''gps''
                       (AObj (gm_put ''longitude'' (AStr (formatFloat L (lastGPSLng p)))
                               (gm_put ''latitude'' (AStr (formatFloat L (lastGPSLat p))) gps)))
                       snapshot, p)
               else (snapshot, p\<lparr>lastGPSLat := lat, lastGPSLng := lng, lastGPSValid := True\<rparr>)
           | _ \<Rightarrow> (snapshot, p)))"

text \<open>\<open>addb\<close> is the buffer's \<^verbatim>\<open>Add\<close> (\<open>None\<close> is the nil buffer), \<open>now\<close> the clock's \<^verbatim>\<open>Now()\<close>.\<close>

definition Publish :: "('s \<Rightarrow> bool) \<Rightarrow> (obj \<Rightarrow> 's \<Rightarrow> go_error option \<times> 's)
    \<Rightarrow> (obj \<Rightarrow> string list \<Rightarrow> 's \<Rightarrow> go_error option \<times> 's) \<Rightarrow> (obj \<Rightarrow> string \<Rightarrow> 'b \<Rightarrow> 'b) option
    \<Rightarrow> golib \<Rightarrow> string \<Rightarrow> obj \<Rightarrow> bool \<Rightarrow> publisher \<Rightarrow> 'b \<Rightarrow> 's
    \<Rightarrow> go_error option \<times> publisher \<times> 'b \<times> 's" where
  "Publish isconn sends sendd addb L now snapshot0 forceFull p0 b s =
     (let (snapshot, p) = smoothParkedGPS L snapshot0 p0;
          flat = flattenState L snapshot;
          vehicleState = stateOf snapshot
      in if \<not> isconn s then
           (None, p\<lparr>lastSentFlat := None\<rparr>,
            (case addb of None \<Rightarrow> b | Some add \<Rightarrow> add snapshot now b), s)
         else if forceFull \<or> lastSentFlat p = None \<or> vehicleState \<noteq> lastVehicleState p
                 \<or> flushesSinceFull p \<ge> fullResyncEvery
         then (case sends snapshot s of
             (Some e, s') \<Rightarrow> (Some e, p, b, s')
           | (None, s') \<Rightarrow>
               (None, p\<lparr>lastSentFlat := Some flat, lastVehicleState := vehicleState,
                        flushesSinceFull := 0\<rparr>, b, s'))
         else let (changed, removed) = diffFlat (the (lastSentFlat p)) flat
              in if changed = [] \<and> removed = [] then (None, p, b, s)
                 else (case sendd (nestFlat changed) removed s of
                     (Some e, s') \<Rightarrow> (Some e, p, b, s')
                   | (None, s') \<Rightarrow>
                       (None, p\<lparr>lastSentFlat := Some flat, lastVehicleState := vehicleState,
                                flushesSinceFull := flushesSinceFull p + 1\<rparr>, b, s')))"

text \<open>\<open>Flush\<close> publishes what the collector returns, or its error.\<close>

definition Publisher_Flush :: "('s \<Rightarrow> bool) \<Rightarrow> (obj \<Rightarrow> 's \<Rightarrow> go_error option \<times> 's)
    \<Rightarrow> (obj \<Rightarrow> string list \<Rightarrow> 's \<Rightarrow> go_error option \<times> 's) \<Rightarrow> (obj \<Rightarrow> string \<Rightarrow> 'b \<Rightarrow> 'b) option
    \<Rightarrow> golib \<Rightarrow> string \<Rightarrow> go_error + obj \<Rightarrow> bool \<Rightarrow> publisher \<Rightarrow> 'b \<Rightarrow> 's
    \<Rightarrow> go_error option \<times> publisher \<times> 'b \<times> 's" where
  "Publisher_Flush isconn sends sendd addb L now collected forceFull p b s =
     (case collected of
        Inl e \<Rightarrow> (Some (''collect state: '' @ e), p, b, s)
      | Inr snapshot \<Rightarrow> Publish isconn sends sendd addb L now snapshot forceFull p b s)"

section \<open>Flattening and nesting\<close>

definition flat_entries :: "golib \<Rightarrow> obj \<Rightarrow> (string \<times> string) list" where
  "flat_entries L st =
     concat (map (\<lambda>(h, v). case as_obj v of
                              None \<Rightarrow> []
                            | Some m \<Rightarrow> map (\<lambda>(f, x). (h @ ''.'' @ f, Sprint L x)) m) st)"

lemma fold_put_map:
  "fold (\<lambda>(f, x). gm_put (g f) (h x)) m out = fold (\<lambda>(k, v). gm_put k v) (map (\<lambda>(f, x). (g f, h x)) m) out"
  by (induction m arbitrary: out) auto

lemma flatten_acc:
  "fold (\<lambda>(hash, v) out. case as_obj v of None \<Rightarrow> out
           | Some m \<Rightarrow> fold (\<lambda>(f, val). gm_put (hash @ ''.'' @ f) (Sprint L val)) m out) st out
   = fold (\<lambda>(k, v). gm_put k v) (flat_entries L st) out"
proof (induction st arbitrary: out)
  case (Cons a st)
  obtain h v where "a = (h, v)" by fastforce
  then show ?case
    using Cons fold_put_map [of "\<lambda>f. h @ ''.'' @ f" "Sprint L"]
    by (cases "as_obj v") (simp_all add: flat_entries_def)
qed (simp add: flat_entries_def)

lemma flattenState_entries:
  "flattenState L st = fold (\<lambda>(k, v). gm_put k v) (flat_entries L st) []"
  by (simp add: flattenState_def flatten_acc)

lemma map_of_flattenState: "map_of (flattenState L st) = map_of (rev (flat_entries L st))"
  by (simp add: flattenState_entries map_of_fold_put)

lemma flattenState_wf [simp]: "gm_wf (flattenState L st)"
  by (simp add: flattenState_entries gm_wf_fold_put)

abbreviation dotted :: "string \<Rightarrow> bool" where
  "dotted k \<equiv> CHR ''.'' \<in> set k"

lemma flat_entries_dotted: "(k, v) \<in> set (flat_entries L st) \<Longrightarrow> dotted k"
  by (auto simp: flat_entries_def split: option.splits)

lemma flattenState_dotted: "map_of (flattenState L st) k = Some v \<Longrightarrow> dotted k"
  by (auto simp: map_of_flattenState dest!: map_of_SomeD flat_entries_dotted)

text \<open>Maps whose hash names are free of dots and whose values are maps.\<close>

definition nested :: "obj \<Rightarrow> bool" where
  "nested st = (gm_wf st \<and> (\<forall>(h, v) \<in> set st. \<not> dotted h \<and> (\<exists>m. v = AObj m \<and> gm_wf m)))"

definition nested_lookup :: "golib \<Rightarrow> obj \<Rightarrow> string \<Rightarrow> string option" where
  "nested_lookup L st k =
     (case cut_at (CHR ''.'') k of
        None \<Rightarrow> None
      | Some (h, f) \<Rightarrow>
          (case as_obj (gm_any st h) of
             None \<Rightarrow> None
           | Some m \<Rightarrow> map_option (Sprint L) (map_of m f)))"

lemma undotted_append_eq:
  "\<not> dotted a \<Longrightarrow> \<not> dotted b \<Longrightarrow> a @ CHR ''.'' # x = b @ CHR ''.'' # y \<longleftrightarrow> a = b \<and> x = y"
  by (metis cut_at_append option.inject prod.inject)

lemma map_of_entry:
  "map_of (map (\<lambda>(f, x). (h @ CHR ''.'' # f, g x)) m) (h @ CHR ''.'' # f') = map_option g (map_of m f')"
  by (induction m) auto

lemma map_of_entry_other:
  "\<not> dotted h \<Longrightarrow> \<not> dotted h' \<Longrightarrow> h \<noteq> h' \<Longrightarrow>
   map_of (map (\<lambda>(f, x). (h @ CHR ''.'' # f, g x)) m) (h' @ CHR ''.'' # f') = None"
  by (induction m) (auto simp: undotted_append_eq)

lemma map_of_flat_entries:
  "nested st \<Longrightarrow> \<not> dotted h \<Longrightarrow> map_of (flat_entries L st) (h @ CHR ''.'' # f)
     = (case map_of st h of Some (AObj m) \<Rightarrow> map_option (Sprint L) (map_of m f) | _ \<Rightarrow> None)"
proof (induction st)
  case (Cons a st)
  obtain h' m where a: "a = (h', AObj m)" "\<not> dotted h'"
    using Cons.prems(1) by (cases a) (auto simp: nested_def)
  have st: "nested st" and fresh: "map_of st h' = None"
    using Cons.prems(1) a by (auto simp: nested_def map_of_eq_None_iff)
  then have IH: "map_of (flat_entries L st) (h @ CHR ''.'' # f)
      = (case map_of st h of Some (AObj m) \<Rightarrow> map_option (Sprint L) (map_of m f) | _ \<Rightarrow> None)"
    using Cons.IH Cons.prems(2) by blast
  have app: "flat_entries L ((h', AObj m) # st)
      = map (\<lambda>(f, x). (h' @ CHR ''.'' # f, Sprint L x)) m @ flat_entries L st"
    by (simp add: flat_entries_def)
  show ?case
  proof (cases "h = h'")
    case True
    then show ?thesis
      using IH fresh a by (auto simp: app map_of_entry map_add_def split: option.splits)
  next
    case False
    then have "map_of (map (\<lambda>(f, x). (h' @ CHR ''.'' # f, Sprint L x)) m) (h @ CHR ''.'' # f) = None"
      using a(2) Cons.prems(2) by (intro map_of_entry_other) auto
    then show ?thesis using IH a False by (simp add: app map_add_def)
  qed
qed (simp add: flat_entries_def)

lemma flat_entries_wf: "nested st \<Longrightarrow> gm_wf (flat_entries L st)"
proof (induction st)
  case (Cons a st)
  obtain h m where a: "a = (h, AObj m)" "\<not> dotted h" "gm_wf m"
    using Cons.prems by (cases a) (auto simp: nested_def)
  have st: "nested st" and fresh: "h \<notin> fst ` set st"
    using Cons.prems a by (auto simp: nested_def)
  have keys: "fst ` set (flat_entries L st) \<subseteq> {h' @ CHR ''.'' # f | h' f. h' \<in> fst ` set st}"
    by (auto simp: flat_entries_def image_iff split: option.splits, force)
  have und: "h' \<in> fst ` set st \<Longrightarrow> \<not> dotted h'" for h'
    using st by (auto simp: nested_def)
  have "distinct (map (\<lambda>(f, x). h @ CHR ''.'' # f) m)"
    using a(3) by (induction m) force+
  then have "gm_wf (map (\<lambda>(f, x). (h @ CHR ''.'' # f, Sprint L x)) m)"
    by (simp add: comp_def case_prod_unfold)
  moreover have "fst ` set (map (\<lambda>(f, x). (h @ CHR ''.'' # f, Sprint L x)) m)
      \<inter> fst ` set (flat_entries L st) = {}"
  proof -
    have "(h @ CHR ''.'' # f, v) \<notin> set (flat_entries L st)" for f v
    proof
      assume "(h @ CHR ''.'' # f, v) \<in> set (flat_entries L st)"
      then have "h @ CHR ''.'' # f \<in> fst ` set (flat_entries L st)" by force
      then obtain h' f' where "h' \<in> fst ` set st" "h @ CHR ''.'' # f = h' @ CHR ''.'' # f'"
        using keys by blast
      then show False using und undotted_append_eq [of h h' f f'] a(2) fresh by blast
    qed
    then show ?thesis by auto
  qed
  moreover have "flat_entries L (a # st)
      = map (\<lambda>(f, x). (h @ CHR ''.'' # f, Sprint L x)) m @ flat_entries L st"
    by (simp add: flat_entries_def a)
  ultimately show ?case
    using Cons.IH st by (simp only: map_append distinct_append set_map)
qed (simp add: flat_entries_def)

lemma flattenState_nested:
  assumes "nested st"
  shows "map_of (flattenState L st) k = nested_lookup L st k"
proof -
  have eq: "map_of (flattenState L st) = map_of (flat_entries L st)"
    using flat_entries_wf [OF assms] by (simp add: map_of_flattenState map_of_rev_wf)
  show ?thesis
  proof (cases "cut_at (CHR ''.'') k")
    case None
    then have "map_of (flattenState L st) k = None"
      by (metis cut_at_None flattenState_dotted not_None_eq)
    with None show ?thesis by (simp add: nested_lookup_def)
  next
    case (Some hf)
    obtain h f where hf: "hf = (h, f)" by fastforce
    have k: "k = h @ CHR ''.'' # f" and "\<not> dotted h"
      using Some hf cut_at_Some cut_at_fst by auto
    then show ?thesis
      using map_of_flat_entries [OF assms, of h L f] Some hf
      by (auto simp: eq nested_lookup_def gm_any_def split: option.splits any.splits)
  qed
qed

lemma nested_Nil [simp]: "nested []"
  by (simp add: nested_def)

lemma nested_put:
  assumes "nested st" and "\<not> dotted h" and "gm_wf m"
  shows "nested (gm_put h (AObj m) st)"
proof -
  have "\<not> dotted h' \<and> (\<exists>m. v = AObj m \<and> gm_wf m)" if "(h', v) \<in> set (gm_put h (AObj m) st)" for h' v
  proof -
    have "(h', v) = (h, AObj m) \<or> (h', v) \<in> set st" using that set_put by fast
    then show ?thesis using assms by (auto simp: nested_def)
  qed
  then show ?thesis using assms(1) by (auto simp: nested_def distinct_update)
qed

lemma nested_child:
  assumes "nested st" and "as_obj (gm_any st h) = Some m"
  shows "gm_wf m"
proof -
  obtain v where v: "map_of st h = Some v" "as_obj v = Some m"
    using assms(2) by (cases "map_of st h") (auto simp: gm_any_def)
  then show ?thesis using assms(1) map_of_SomeD [OF v(1)] by (auto simp: nested_def)
qed

lemma nest_put_nested:
  assumes "nested st"
  shows "nested (nest_put path val st)"
proof (cases "cut_at (CHR ''.'') path")
  case (Some hf)
  obtain h f where hf: "hf = (h, f)" by fastforce
  have "gm_wf (case as_obj (gm_any st h) of Some m \<Rightarrow> m | None \<Rightarrow> [])"
    using nested_child [OF assms, of h] by (cases "as_obj (gm_any st h)") auto
  then show ?thesis
    using Some hf assms cut_at_fst [of _ path] by (simp add: nest_put_def Let_def nested_put)
qed (simp add: nest_put_def assms)

lemma nested_lookup_nest_put:
  "nested_lookup L (nest_put path val st) k
   = (if k = path \<and> dotted path then Some val else nested_lookup L st k)"
proof (cases "cut_at (CHR ''.'') path")
  case None
  then show ?thesis using cut_at_None [of "CHR ''.''" path] by (simp add: nest_put_def)
next
  case (Some hf)
  obtain h f where hf: "hf = (h, f)" by fastforce
  have p: "path = h @ CHR ''.'' # f" using Some hf cut_at_Some by simp
  have key: "cut_at (CHR ''.'') k = Some (h, f) \<longleftrightarrow> k = path"
    using Some hf p by (metis cut_at_Some)
  show ?thesis
    using Some hf key p
    by (auto simp: nest_put_def nested_lookup_def Let_def gm_any_def update_conv' split: option.splits)
qed

lemma nestFlat_snoc: "nestFlat (flat @ [(p, v)]) = nest_put p v (nestFlat flat)"
  by (simp add: nestFlat_def)

lemma nestFlat_nested: "nested (nestFlat flat)"
proof (induction flat rule: rev_induct)
  case (snoc pv flat)
  then show ?case by (cases pv) (simp add: nestFlat_snoc nest_put_nested)
qed (simp add: nestFlat_def)

text \<open>Nesting loses nothing: flattening gives the dotted entries back.\<close>

lemma flatten_nestFlat:
  "map_of (flattenState L (nestFlat flat)) k = (if dotted k then map_of (rev flat) k else None)"
proof -
  have "nested_lookup L (nestFlat flat) k = (if dotted k then map_of (rev flat) k else None)"
  proof (induction flat rule: rev_induct)
    case Nil
    then show ?case by (simp add: nestFlat_def nested_lookup_def gm_any_def split: option.splits)
  next
    case (snoc pv flat)
    then show ?case by (cases pv) (auto simp: nestFlat_snoc nested_lookup_nest_put)
  qed
  then show ?thesis by (simp add: flattenState_nested nestFlat_nested)
qed

section \<open>The receiver\<close>

text \<open>
  What the server does with telemetry: a state replaces what it knows, a delta is merged and the
  removed paths are deleted.  Other messages leave the mirror alone.
\<close>

fun mirror :: "golib \<Rightarrow> message \<Rightarrow> (string \<rightharpoonup> string) \<Rightarrow> (string \<rightharpoonup> string)" where
  "mirror L (StateMessage d ts) M = map_of (flattenState L d)"
| "mirror L (TelemetryDeltaMessage c r ts) M = (M ++ map_of (flattenState L c)) |` (- set r)"
| "mirror L _ M = M"

definition mirror_all :: "golib \<Rightarrow> message list \<Rightarrow> (string \<rightharpoonup> string) \<Rightarrow> (string \<rightharpoonup> string)" where
  "mirror_all L ms M = fold (mirror L) ms M"

lemma mirror_all_simps [simp]:
  "mirror_all L [] M = M" "mirror_all L (m # ms) M = mirror_all L ms (mirror L m M)"
  "mirror_all L (ms @ ns) M = mirror_all L ns (mirror_all L ms M)"
  by (simp_all add: mirror_all_def)

lemma diffFlat_nil:
  assumes "gm_wf cur" and "diffFlat old cur = ([], [])"
  shows "map_of old = map_of cur"
proof (rule ext)
  fix k
  show "map_of old k = map_of cur k"
  proof (cases "map_of cur k")
    case None
    then have "k \<notin> fst ` set old"
      using assms(2) by (auto simp: diffFlat_def filter_empty_conv)
    then have "map_of old k = None" by (simp add: map_of_eq_None_iff)
    with None show ?thesis by simp
  next
    case (Some v)
    then show ?thesis
      using assms(2) map_of_SomeD [OF Some] by (auto simp: diffFlat_def filter_empty_conv)
  qed
qed

lemma map_of_filter_Some:
  "gm_wf m \<Longrightarrow> map_of (filter P m) k = Some v \<longleftrightarrow> map_of m k = Some v \<and> P (k, v)"
  by (auto simp: map_of_eq_Some_iff gm_wf_filter)

text \<open>The delta between two flat maps, applied to the old one, gives the new one.\<close>

lemma mirror_delta:
  assumes "diffFlat old cur = (changed, removed)" and "gm_wf cur"
    and "\<And>k v. map_of cur k = Some v \<Longrightarrow> dotted k" and "M = map_of old"
  shows "mirror L (TelemetryDeltaMessage (nestFlat changed) removed ts) M = map_of cur"
proof (rule ext)
  fix k
  have ch: "changed = filter (\<lambda>(k, v). map_of old k \<noteq> Some v) cur"
    and rm: "removed = filter (\<lambda>k. map_of cur k = None) (map fst old)"
    using assms(1) by (auto simp: diffFlat_def)
  have wf: "gm_wf changed" using assms(2) by (simp add: ch gm_wf_filter)
  have c: "map_of (flattenState L (nestFlat changed)) k = Some w
      \<longleftrightarrow> map_of cur k = Some w \<and> map_of old k \<noteq> Some w" for w
    using assms(3) map_of_filter_Some [OF assms(2), of "\<lambda>(k, v). map_of old k \<noteq> Some v" k w]
    by (auto simp: flatten_nestFlat map_of_rev_wf [OF wf] simp flip: ch)
  have r: "k \<in> set removed \<longleftrightarrow> map_of cur k = None \<and> map_of old k \<noteq> None"
    by (auto simp: rm map_of_eq_None_iff)
  have "mirror L (TelemetryDeltaMessage (nestFlat changed) removed ts) M k
      = (if k \<in> set removed then None
         else case map_of (flattenState L (nestFlat changed)) k of
                Some w \<Rightarrow> Some w | None \<Rightarrow> map_of old k)"
    by (simp add: restrict_map_def map_add_def assms(4))
  also have "\<dots> = map_of cur k"
  proof (cases "map_of (flattenState L (nestFlat changed)) k")
    case None
    then have "map_of cur k = None \<or> map_of cur k = map_of old k"
      using c [of "the (map_of cur k)"] by (cases "map_of cur k") auto
    with None show ?thesis by (auto simp: r)
  next
    case (Some w)
    then have "map_of cur k = Some w" using c by blast
    with Some show ?thesis by (simp add: r)
  qed
  finally show "mirror L (TelemetryDeltaMessage (nestFlat changed) removed ts) M k = map_of cur k" .
qed

section \<open>Publishing through a sink that keeps its contract\<close>

text \<open>The receiver's map agrees with the baseline, if there is one.\<close>

definition in_sync :: "(string \<rightharpoonup> string) \<Rightarrow> publisher \<Rightarrow> bool" where
  "in_sync M p = (case lastSentFlat p of None \<Rightarrow> True | Some f \<Rightarrow> M = map_of f)"

definition published :: "golib \<Rightarrow> obj \<Rightarrow> publisher \<Rightarrow> (string, string) go_map" where
  "published L snapshot p = flattenState L (fst (smoothParkedGPS L snapshot p))"

lemma smooth_frame:
  assumes "smoothParkedGPS L snap p = (snap', p')"
  shows "lastSentFlat p' = lastSentFlat p \<and> lastVehicleState p' = lastVehicleState p
    \<and> flushesSinceFull p' = flushesSinceFull p"
  using assms by (auto simp: smoothParkedGPS_def split: option.splits if_splits)

context telemetry_sink
begin

abbreviation "publish ts \<equiv> Publish is_connected (\<lambda>d. send_state (ts, d)) (\<lambda>c r. send_delta (ts, c, r))"

lemma publish_step:
  assumes "publish ts addb L now snap ff p b s = (err, p', b', s')" and "in_sync M p"
  shows "\<exists>ms. outbox s' = outbox s @ ms \<and> length ms \<le> 1 \<and> in_sync (mirror_all L ms M) p'
    \<and> (err \<noteq> None \<longrightarrow> ms = [] \<and> s' = s)
    \<and> (err = None \<and> is_connected s \<longrightarrow> mirror_all L ms M = map_of (published L snap p))
    \<and> (\<not> is_connected s \<longrightarrow> err = None \<and> s' = s \<and> lastSentFlat p' = None)"
proof -
  obtain sn p1 where sm: "smoothParkedGPS L snap p = (sn, p1)" by fastforce
  let ?flat = "flattenState L sn"
  have pub: "published L snap p = ?flat" by (simp add: published_def sm)
  have base: "in_sync M p1" using assms(2) smooth_frame [OF sm] by (simp add: in_sync_def)
  note P = assms(1) [unfolded Publish_def sm, simplified]
  show ?thesis
  proof (cases "is_connected s")
    case False
    then show ?thesis using P by (intro exI [of _ "[]"]) (auto simp: in_sync_def)
  next
    case conn: True
    show ?thesis
    proof (cases "ff \<or> lastSentFlat p1 = None \<or> stateOf sn \<noteq> lastVehicleState p1
                  \<or> flushesSinceFull p1 \<ge> fullResyncEvery")
      case True
      obtain e s1 where snd1: "send_state (ts, sn) s = (e, s1)" by fastforce
      show ?thesis
      proof (cases e)
        case None
        then have "outbox s' = outbox s @ [StateMessage sn ts]" "err = None"
            "lastSentFlat p' = Some ?flat"
          using P conn True snd1 st.send_done [of "(ts, sn)" s s1] by auto
        then show ?thesis
          using conn by (intro exI [of _ "[StateMessage sn ts]"]) (simp add: in_sync_def pub)
      next
        case (Some e')
        then have "err = Some e'" "s' = s" "p' = p1"
          using P conn True snd1 st.send_failed [of "(ts, sn)" s e' s1] by auto
        then show ?thesis using base conn by (intro exI [of _ "[]"]) simp
      qed
    next
      case delta: False
      then obtain f where f: "lastSentFlat p1 = Some f" and M: "M = map_of f"
        using base by (auto simp: in_sync_def)
      obtain ch rm where d: "diffFlat f ?flat = (ch, rm)" by fastforce
      show ?thesis
      proof (cases "ch = [] \<and> rm = []")
        case True
        then have "map_of f = map_of ?flat" using d by (intro diffFlat_nil) auto
        moreover have "err = None" "p' = p1" "s' = s" using P conn delta f d True by auto
        ultimately show ?thesis using M f base conn by (intro exI [of _ "[]"]) (simp add: pub)
      next
        case False
        obtain e s1 where snd1: "send_delta (ts, nestFlat ch, rm) s = (e, s1)" by fastforce
        have mir: "mirror L (TelemetryDeltaMessage (nestFlat ch) rm ts) M = map_of ?flat"
          by (rule mirror_delta [OF d _ _ M]) (simp, erule flattenState_dotted)
        show ?thesis
        proof (cases e)
          case None
          then have "outbox s' = outbox s @ [TelemetryDeltaMessage (nestFlat ch) rm ts]"
              "err = None" "lastSentFlat p' = Some ?flat"
            using P conn delta f d False snd1 dl.send_done [of "(ts, nestFlat ch, rm)" s s1] by auto
          then show ?thesis
            using conn mir
            by (intro exI [of _ "[TelemetryDeltaMessage (nestFlat ch) rm ts]"])
               (simp add: in_sync_def pub)
        next
          case (Some e')
          then have "err = Some e'" "s' = s" "p' = p1"
            using P conn delta f d False snd1 dl.send_failed [of "(ts, nestFlat ch, rm)" s e' s1] by auto
          then show ?thesis using base conn by (intro exI [of _ "[]"]) simp
        qed
      qed
    qed
  qed
qed

end

lemma Publish_flushes:
  assumes "Publish isconn sends sendd addb L now snap ff p b s = (err, p', b', s')"
    and "flushesSinceFull p \<le> fullResyncEvery"
  shows "flushesSinceFull p' \<le> fullResyncEvery"
proof -
  obtain sn p1 where sm: "smoothParkedGPS L snap p = (sn, p1)" by fastforce
  then have "flushesSinceFull p1 \<le> fullResyncEvery" using smooth_frame assms(2) by auto
  then show ?thesis
    using assms(1)
    by (auto simp: Publish_def sm Let_def split: if_splits prod.splits option.splits)
qed

section \<open>Parked positions\<close>

lemma smooth_driving:
  "stateOf snap = ''ready-to-drive'' \<Longrightarrow> fst (smoothParkedGPS L snap p) = snap"
  by (simp add: smoothParkedGPS_def split: option.splits)

lemma smooth_cases:
  assumes "smoothParkedGPS L snap p = (snap', p')"
  shows "snap' = snap
    \<or> (\<exists>gps lat lng. as_obj (gm_any snap ''gps'') = Some gps
        \<and> parseFloatField L gps ''latitude'' = Some lat \<and> parseFloatField L gps ''longitude'' = Some lng
        \<and> stateOf snap \<noteq> ''ready-to-drive'' \<and> lastGPSValid p \<and> p' = p
        \<and> f64_less (HaversineMeters L (lastGPSLat p) (lastGPSLng p) lat lng) parkedGPSSmoothingMeters
        \<and> snap' = gm_put ''gps'' (AObj (gm_put ''longitude'' (AStr (formatFloat L (lastGPSLng p)))
                    (gm_put ''latitude'' (AStr (formatFloat L (lastGPSLat p))) gps))) snap)"
  using assms by (auto simp: smoothParkedGPS_def split: option.splits if_splits)

section \<open>Properties\<close>

text \<open>
  C3: The publisher implements its specification through the connection manager: if the receiver's map
  agrees with the baseline before a \<open>Publish\<close>, it agrees with the new baseline after the messages the
  call queued (at most one); a successful call on a live connection leaves the receiver with exactly
  the flattened snapshot; a failed call queues nothing and leaves the manager unchanged; without a
  connection the baseline is forgotten.
\<close>

theorem Publish_refines_mirror:
  assumes "Publish IsConnected (SendState ts) (SendTelemetryDelta ts) addb L now snap ff p b m = (err, p', b', m')"
    and "in_sync M p"
  shows "\<exists>ms. sendChan m' = sendChan m @ ms \<and> length ms \<le> 1 \<and> in_sync (mirror_all L ms M) p'
    \<and> (err \<noteq> None \<longrightarrow> ms = [] \<and> m' = m)
    \<and> (err = None \<and> IsConnected m \<longrightarrow> mirror_all L ms M = map_of (published L snap p))
    \<and> (\<not> IsConnected m \<longrightarrow> err = None \<and> m' = m \<and> lastSentFlat p' = None)"
  using mgr_tel.publish_step [of ts addb L now snap ff p b m err p' b' m' M] assms by simp

definition sample_snapshot :: obj where
  "sample_snapshot = [(''vehicle'', AObj [(''state'', AStr ''parked'')])]"

lemma sample_published: "published L sample_snapshot p = [(''vehicle.state'', ''parked'')]"
  by (simp add: published_def smoothParkedGPS_def sample_snapshot_def gm_any_def flattenState_def)

lemma sample_publish_ok:
  "fst (Publish IsConnected (SendState ''t'') (SendTelemetryDelta ''t'')
        (None :: (obj \<Rightarrow> string \<Rightarrow> unit \<Rightarrow> unit) option) L ''now'' sample_snapshot False NewPublisher () sample_mgr) = None"
  by (simp add: Publish_def smoothParkedGPS_def sample_snapshot_def gm_any_def sample_mgr_def
      IsConnected_def NewPublisher_def SendState_def obj_encodable_def chan_try_def sendCap_def
      NewManager_def Let_def)

theorem Publish_refines_mirror_witness:
  "\<forall>L. \<exists>ms. mirror_all L ms Map.empty = [''vehicle.state'' \<mapsto> ''parked'']
    \<and> sendChan (snd (snd (snd (Publish IsConnected (SendState ''t'') (SendTelemetryDelta ''t'')
        (None :: (obj \<Rightarrow> string \<Rightarrow> unit \<Rightarrow> unit) option) L ''now'' sample_snapshot False NewPublisher () sample_mgr)))) = ms"
proof
  fix L
  let ?R = "Publish IsConnected (SendState ''t'') (SendTelemetryDelta ''t'')
        (None :: (obj \<Rightarrow> string \<Rightarrow> unit \<Rightarrow> unit) option) L ''now'' sample_snapshot False NewPublisher () sample_mgr"
  have R: "?R = (None, fst (snd ?R), fst (snd (snd ?R)), snd (snd (snd ?R)))"
    using sample_publish_ok [of L] by (metis prod.collapse)
  have "in_sync Map.empty NewPublisher" by (simp add: in_sync_def NewPublisher_def)
  moreover have "IsConnected sample_mgr" "sendChan sample_mgr = []"
    by (simp_all add: sample_mgr_def IsConnected_def NewManager_def)
  ultimately show "\<exists>ms. mirror_all L ms Map.empty = [''vehicle.state'' \<mapsto> ''parked''] \<and> sendChan (snd (snd (snd ?R))) = ms"
    using Publish_refines_mirror [OF R, of Map.empty] by (auto simp: sample_published)
qed

text \<open>
  Nesting dotted paths and flattening them again gives the same map: no field of a delta is lost,
  renamed or merged with another on its way through the two-level message.
\<close>

theorem flatten_nest_roundtrip:
  assumes "gm_wf flat" and "\<forall>(k, v) \<in> set flat. dotted k"
  shows "map_of (flattenState L (nestFlat flat)) = map_of flat"
proof (rule ext)
  fix k
  show "map_of (flattenState L (nestFlat flat)) k = map_of flat k"
  proof (cases "dotted k")
    case False
    then have "map_of flat k = None" using assms(2) by (auto simp: map_of_eq_None_iff)
    with False show ?thesis by (simp add: flatten_nestFlat)
  qed (simp add: flatten_nestFlat map_of_rev_wf assms(1))
qed

theorem flatten_nest_roundtrip_witness:
  "\<forall>L. map_of (flattenState L (nestFlat [(''gps.speed'', ''3''), (''vehicle.state'', ''parked''), (''gps.course'', ''90'')]))
     = [''gps.course'' \<mapsto> ''90'', ''vehicle.state'' \<mapsto> ''parked'', ''gps.speed'' \<mapsto> ''3'']"
  by (intro allI, subst flatten_nest_roundtrip) simp_all

text \<open>
  A full state is due after at most twenty deltas: the counter never exceeds \<open>fullResyncEvery\<close>, and at
  that value the next successful \<open>Publish\<close> on a live connection is a full state, which resets it.
\<close>

theorem full_resync_bound:
  assumes "Publish IsConnected (SendState ts) (SendTelemetryDelta ts) addb L now snap ff p b m = (err, p', b', m')"
    and "flushesSinceFull p \<le> fullResyncEvery"
  shows "flushesSinceFull p' \<le> fullResyncEvery
    \<and> (flushesSinceFull p = fullResyncEvery \<and> IsConnected m \<and> err = None \<longrightarrow>
         flushesSinceFull p' = 0
         \<and> sendChan m' = sendChan m @ [StateMessage (fst (smoothParkedGPS L snap p)) ts])"
proof -
  obtain sn p1 where sm: "smoothParkedGPS L snap p = (sn, p1)" by fastforce
  have f: "flushesSinceFull p1 = flushesSinceFull p" using smooth_frame [OF sm] by simp
  have "flushesSinceFull p' = 0 \<and> sendChan m' = sendChan m @ [StateMessage sn ts]"
    if "flushesSinceFull p = fullResyncEvery" "IsConnected m" "err = None"
    using assms(1) that f mgr_tel.st.send_done [of "(ts, sn)" m m']
    by (auto simp: Publish_def sm Let_def split: prod.splits option.splits)
  then show ?thesis using Publish_flushes [OF assms] by (simp add: sm)
qed

theorem full_resync_bound_witness:
  "\<forall>L. flushesSinceFull (fst (snd (Publish IsConnected (SendState ''t'') (SendTelemetryDelta ''t'')
        (None :: (obj \<Rightarrow> string \<Rightarrow> unit \<Rightarrow> unit) option) L ''now'' sample_snapshot False NewPublisher () sample_mgr)))
     \<le> fullResyncEvery"
proof
  fix L
  let ?R = "Publish IsConnected (SendState ''t'') (SendTelemetryDelta ''t'')
        (None :: (obj \<Rightarrow> string \<Rightarrow> unit \<Rightarrow> unit) option) L ''now'' sample_snapshot False NewPublisher () sample_mgr"
  have R: "?R = (fst ?R, fst (snd ?R), fst (snd (snd ?R)), snd (snd (snd ?R)))" by (simp only: prod.collapse)
  show "flushesSinceFull (fst (snd ?R)) \<le> fullResyncEvery"
    using full_resync_bound [OF R] by (simp add: NewPublisher_def fullResyncEvery_def)
qed

end
