(* ===== verification/Collector.thy ===== *)
theory Collector
  imports Config Clock
begin

text \<open>
  Where a snapshot comes from: \<^verbatim>\<open>internal/telemetry/collector.go\<close>, with the modem identity of
  \<^verbatim>\<open>internal/modeminfo/modeminfo.go\<close> and the board serial of \<^verbatim>\<open>internal/hwid/otp.go\<close>.  The Redis
  client's \<^verbatim>\<open>HGetAll\<close>, the output of \<^verbatim>\<open>mmcli\<close> and the files under \<^verbatim>\<open>/sys\<close> are arguments.

  Shown: of the settings hash only the allowed fields leave the vehicle; hop-on states never do;
  every other collected hash is transmitted unchanged.
\<close>

section \<open>Modem identity\<close>

record Info =
  Manufacturer :: string
  Model :: string
  Revision :: string
  IMEI :: string
  OwnNumber :: string
  HardwareRev :: string

definition emptyInfo :: Info where
  "emptyInfo = \<lparr>Manufacturer = '''', Model = '''', Revision = '''', IMEI = '''', OwnNumber = '''',
                HardwareRev = ''''\<rparr>"

definition NewPoller :: "duration \<Rightarrow> duration \<times> Info" where
  "NewPoller interval = (if interval \<le> 0 then 5 * Minute else interval, emptyInfo)"

definition add_field :: "string \<Rightarrow> string \<Rightarrow> (string, string) go_map \<Rightarrow> (string, string) go_map" where
  "add_field k v out = (if v \<noteq> '''' then gm_put k v out else out)"

definition AsFields :: "Info \<Rightarrow> (string, string) go_map" where
  "AsFields info =
     add_field ''hardware-revision'' (HardwareRev info)
      (add_field ''own-number'' (OwnNumber info)
        (add_field ''imei'' (IMEI info)
          (add_field ''revision'' (Revision info)
            (add_field ''model'' (Model info)
              (add_field ''manufacturer'' (Manufacturer info) [])))))"

record mmcliModem =
  mm_Manufacturer :: string
  mm_Model :: string
  mm_Revision :: string
  mm_HardwareRevision :: string
  mm_EquipmentIdentifier :: string
  mm_OwnNumbers :: "string list"
  mm_IMEI :: string

text \<open>\<open>output\<close> is the output of \<^verbatim>\<open>mmcli\<close>, \<open>None\<close> on an error; \<open>parse\<close> its JSON decoding.\<close>

definition queryModem :: "(string \<Rightarrow> mmcliModem option) \<Rightarrow> string option \<Rightarrow> Info option" where
  "queryModem parse output =
     (case output of
        None \<Rightarrow> None
      | Some out \<Rightarrow>
          (case parse out of
             None \<Rightarrow> None
           | Some g \<Rightarrow>
               Some \<lparr>Manufacturer = mm_Manufacturer g, Model = mm_Model g, Revision = mm_Revision g,
                     IMEI = (if mm_IMEI g = '''' then mm_EquipmentIdentifier g else mm_IMEI g),
                     OwnNumber = (case mm_OwnNumbers g of [] \<Rightarrow> '''' | n # _ \<Rightarrow> n),
                     HardwareRev = mm_HardwareRevision g\<rparr>))"

definition refresh :: "(string \<Rightarrow> mmcliModem option) \<Rightarrow> string option \<Rightarrow> Info \<Rightarrow> Info" where
  "refresh parse output info = (case queryModem parse output of None \<Rightarrow> info | Some i \<Rightarrow> i)"

section \<open>Board serial\<close>

definition readTrim :: "string option \<Rightarrow> string" where
  "readTrim file = (case file of None \<Rightarrow> '''' | Some data \<Rightarrow> TrimSpace data)"

definition fromFSLOTP :: "string option \<Rightarrow> string option \<Rightarrow> string" where
  "fromFSLOTP cfg0 cfg1 =
     (let c0 = readTrim cfg0; c1 = readTrim cfg1
      in if c0 = '''' \<or> c1 = '''' then ''''
         else TrimPrefix c0 ''0x'' @ TrimPrefix c1 ''0x'')"

definition nvmemUIDOffset :: nat where "nvmemUIDOffset = 0x410"

text \<open>\<open>nvmem\<close> is the device file's content in bytes; a short read is an error.\<close>

definition fromNVMEM :: "nat list option \<Rightarrow> string" where
  "fromNVMEM nvmem =
     (case nvmem of
        None \<Rightarrow> ''''
      | Some bytes \<Rightarrow>
          (let buf = take 8 (drop nvmemUIDOffset bytes)
           in if length buf < 8 then '''' else hex_encode buf))"

definition BoardSerial :: "string option \<Rightarrow> string option \<Rightarrow> nat list option \<Rightarrow> string" where
  "BoardSerial cfg0 cfg1 nvmem =
     (let s = fromFSLOTP cfg0 cfg1 in if s \<noteq> '''' then s else fromNVMEM nvmem)"

section \<open>The collector\<close>

definition collectedHashes :: "string list" where
  "collectedHashes =
     [''vehicle'', ''battery:0'', ''battery:1'', ''aux-battery'', ''cb-battery'',
      ''engine-ecu'', ''power-manager'', ''power-manager:busy-services'', ''power-mux'',
      ''internet'', ''modem'', ''gps'', ''keycard'', ''ble'', ''dashboard'', ''system'',
      ''version:mdb'', ''version:dbc'', ''ota'', ''alarm'', ''navigation'', ''scooter'',
      ''trip'', ''trip:counter'', ''usb'', ''remote-access'', ''settings'']"

definition settingsAllowedPrefixes :: "string list" where
  "settingsAllowedPrefixes = [''updates.'', ''pm.'', ''alarm.'', ''trip.'', ''engine-ecu.'']"

definition settingsAllowedExact :: "string list" where
  "settingsAllowedExact =
     [''dashboard.service-mode-active'', ''scooter.developer-mode'', ''scooter.dual-battery'']"

definition settingsFieldAllowed :: "string \<Rightarrow> bool" where
  "settingsFieldAllowed field =
     (field \<in> set settingsAllowedExact \<or> list_ex (HasPrefix field) settingsAllowedPrefixes)"

record collector =
  col_version :: string
  col_cfg :: "(string \<times> string) option"
  col_modem :: "Info option"
  col_boardSerial :: string

type_synonym hashes = "string \<Rightarrow> go_error + (string, string) go_map"

definition cloudifyVehicleState :: "string \<Rightarrow> string" where
  "cloudifyVehicleState raw =
     (if raw = ''hop-on'' then ''stand-by''
      else if raw = ''hop-on-learning'' then ''parked'' else raw)"

definition collectKey :: "hashes \<Rightarrow> string \<Rightarrow> go_error + obj" where
  "collectKey hgetall keyName =
     (case hgetall keyName of
        Inl e \<Rightarrow> Inl e
      | Inr data \<Rightarrow> Inr (map (\<lambda>(field, value). (field, AStr value)) data))"

definition CollectKeyState :: "hashes \<Rightarrow> string \<Rightarrow> go_error + obj" where
  "CollectKeyState hgetall keyName =
     (case collectKey hgetall keyName of
        Inl e \<Rightarrow> Inl e
      | Inr keyData \<Rightarrow> Inr (if keyData = [] then [] else [(keyName, AObj keyData)]))"

text \<open>One iteration of the loop of \<open>CollectState\<close>; an error reads as the nil map.\<close>

definition collect_step :: "hashes \<Rightarrow> string \<Rightarrow> obj \<Rightarrow> obj" where
  "collect_step hgetall key state =
     (let keyState0 = (case collectKey hgetall key of Inl _ \<Rightarrow> [] | Inr m \<Rightarrow> m);
          keyState = (if key = ''settings''
                      then filter (\<lambda>(field, _). settingsFieldAllowed field) keyState0
                      else keyState0)
      in if keyState \<noteq> [] then gm_put key (AObj keyState) state else state)"

definition cloudify :: "obj \<Rightarrow> obj" where
  "cloudify state =
     (case as_obj (gm_any state ''vehicle'') of
        None \<Rightarrow> state
      | Some vehicle \<Rightarrow>
          (case as_str (gm_any vehicle ''state'') of
             None \<Rightarrow> state
           | Some raw \<Rightarrow>
               gm_put ''vehicle''
                 (AObj (gm_put ''state'' (AStr (cloudifyVehicleState raw)) vehicle)) state))"

definition sub_map :: "obj \<Rightarrow> string \<Rightarrow> obj" where
  "sub_map state k = (case as_obj (gm_any state k) of Some m \<Rightarrow> m | None \<Rightarrow> [])"

definition augment :: "collector \<Rightarrow> obj \<Rightarrow> obj" where
  "augment c state =
     (let s1 = (case col_modem c of
                  None \<Rightarrow> state
                | Some info \<Rightarrow>
                    (let fs = AsFields info
                     in if fs = [] then state
                        else gm_put ''modem''
                               (AObj (fold (\<lambda>(k, v). gm_put k (AStr v)) fs (sub_map state ''modem'')))
                               state));
          s2 = (if col_boardSerial c \<noteq> ''''
                then gm_put ''system''
                       (AObj (gm_put ''mdb-serial'' (AStr (col_boardSerial c)) (sub_map s1 ''system''))) s1
                else s1);
          meta0 = [(''build-version'', AStr (col_version c)), (''navigation-route-api'', AStr ''1'')];
          meta = (case col_cfg c of
                    None \<Rightarrow> meta0
                  | Some (env, ident) \<Rightarrow>
                      meta0 @ [(''environment'', AStr env), (''identifier'', AStr ident)])
      in gm_put ''meta'' (AObj meta) s2)"

definition CollectState :: "collector \<Rightarrow> hashes \<Rightarrow> obj" where
  "CollectState c hgetall =
     augment c (cloudify (fold (collect_step hgetall) collectedHashes []))"

section \<open>What leaves the vehicle\<close>

definition key_fields :: "hashes \<Rightarrow> string \<Rightarrow> obj" where
  "key_fields hgetall key =
     (let m = (case collectKey hgetall key of Inl _ \<Rightarrow> [] | Inr m \<Rightarrow> m)
      in if key = ''settings'' then filter (\<lambda>(field, _). settingsFieldAllowed field) m else m)"

lemma collect_step_fields:
  "collect_step hgetall key state =
     (if key_fields hgetall key \<noteq> [] then gm_put key (AObj (key_fields hgetall key)) state else state)"
  by (simp add: collect_step_def key_fields_def Let_def)

lemma map_of_collected:
  "map_of (fold (collect_step hgetall) keys st) k
   = (if k \<in> set keys \<and> key_fields hgetall k \<noteq> [] then Some (AObj (key_fields hgetall k))
      else map_of st k)"
proof (induction keys arbitrary: st)
  case (Cons key keys)
  show ?case
    unfolding fold.simps comp_def Cons.IH [of "collect_step hgetall key st"]
    by (auto simp: collect_step_fields update_conv')
qed simp

lemma fold_collect_cong:
  "(\<And>k. k \<in> set keys \<Longrightarrow> key_fields h1 k = key_fields h2 k) \<Longrightarrow>
   fold (collect_step h1) keys st = fold (collect_step h2) keys st"
  by (induction keys arbitrary: st) (auto simp: collect_step_fields)

lemma map_of_cloudify: "k \<noteq> ''vehicle'' \<Longrightarrow> map_of (cloudify st) k = map_of st k"
  by (simp add: cloudify_def update_conv' split: option.splits)

lemma map_of_augment:
  "k \<noteq> ''modem'' \<Longrightarrow> k \<noteq> ''system'' \<Longrightarrow> k \<noteq> ''meta'' \<Longrightarrow> map_of (augment c st) k = map_of st k"
  by (simp add: augment_def Let_def update_conv' split: option.splits)

lemma CollectState_hash:
  assumes "k \<notin> {''vehicle'', ''modem'', ''system'', ''meta''}"
  shows "map_of (CollectState c hgetall) k
    = (if k \<in> set collectedHashes \<and> key_fields hgetall k \<noteq> []
       then Some (AObj (key_fields hgetall k)) else None)"
  using assms by (simp add: CollectState_def map_of_augment map_of_cloudify map_of_collected)

text \<open>The settings as the collector sees them: secrets are not part of this view.\<close>

definition public_view :: "hashes \<Rightarrow> hashes" where
  "public_view hgetall key =
     (if key = ''settings''
      then (case hgetall key of
              Inl e \<Rightarrow> Inl e
            | Inr m \<Rightarrow> Inr (filter (\<lambda>(field, _). settingsFieldAllowed field) m))
      else hgetall key)"

lemma key_fields_public: "key_fields (public_view hgetall) = key_fields hgetall"
  by (rule ext)
     (auto simp: key_fields_def public_view_def collectKey_def Let_def filter_map comp_def
        case_prod_unfold split: sum.splits)

lemma CollectState_public: "CollectState c (public_view hgetall) = CollectState c hgetall"
  unfolding CollectState_def
  by (rule arg_cong [of _ _ "\<lambda>s. augment c (cloudify s)"], rule fold_collect_cong)
     (simp add: key_fields_public)

lemma CollectState_vehicle:
  "gm_any (CollectState c hgetall) ''vehicle''
   = gm_any (cloudify (fold (collect_step hgetall) collectedHashes [])) ''vehicle''"
  by (simp add: CollectState_def gm_any_def map_of_augment)

lemma cloudify_state:
  "as_obj (gm_any (cloudify st) ''vehicle'') = Some v \<Longrightarrow> as_str (gm_any v ''state'') = Some s
   \<Longrightarrow> s \<noteq> ''hop-on'' \<and> s \<noteq> ''hop-on-learning''"
  by (auto simp: cloudify_def cloudifyVehicleState_def gm_any_def update_conv' split: option.splits if_splits)

lemma AsFields_wf: "gm_wf (AsFields info)"
  by (simp add: AsFields_def add_field_def)

lemma map_of_AsFields:
  "map_of (AsFields info) ''imei'' = (if IMEI info = '''' then None else Some (IMEI info))"
  by (simp add: AsFields_def add_field_def update_conv')

section \<open>Properties\<close>

text \<open>
  C16: Secrets in the settings hash do not influence what is sent: two vehicles whose hashes agree
  except in settings fields that are not allowed produce the same snapshot.
\<close>

theorem settings_noninterference:
  assumes "public_view h1 = public_view h2"
  shows "CollectState c h1 = CollectState c h2"
  using CollectState_public [of c h1] CollectState_public [of c h2] assms by simp

definition sample_hashes :: "string \<Rightarrow> hashes" where
  "sample_hashes pin key =
     (if key = ''settings''
      then Inr [(''cellular.sim-pin'', pin), (''alarm.enabled'', ''true'')]
      else if key = ''vehicle'' then Inr [(''state'', ''hop-on''), (''brake'', ''off'')] else Inl ''down'')"

definition sample_collector :: collector where
  "sample_collector = \<lparr>col_version = ''1.0'', col_cfg = None, col_modem = None, col_boardSerial = ''''\<rparr>"

lemma sample_pin_secret: "\<not> settingsFieldAllowed ''cellular.sim-pin''" "settingsFieldAllowed ''alarm.enabled''"
  by (simp_all add: settingsFieldAllowed_def settingsAllowedExact_def settingsAllowedPrefixes_def HasPrefix_def)

theorem settings_noninterference_witness:
  "CollectState sample_collector (sample_hashes ''1234'') = CollectState sample_collector (sample_hashes ''0000'')"
  by (rule settings_noninterference)
     (simp add: fun_eq_iff public_view_def sample_hashes_def sample_pin_secret)

text \<open>
  Of the settings hash the snapshot holds exactly the allowed fields with their values, and
  nothing under that name when none is allowed; the SIM PIN and the cellular password are not
  allowed.
\<close>

theorem settings_filtered:
  "map_of (CollectState c hgetall) ''settings''
     = (let allowed = (case hgetall ''settings'' of Inl _ \<Rightarrow> []
                       | Inr m \<Rightarrow> filter (\<lambda>(f, v). settingsFieldAllowed f) m)
        in if allowed = [] then None else Some (AObj (map (\<lambda>(f, v). (f, AStr v)) allowed)))
   \<and> \<not> settingsFieldAllowed ''cellular.sim-pin'' \<and> \<not> settingsFieldAllowed ''cellular.password''"
proof -
  have "key_fields hgetall ''settings'' = map (\<lambda>(f, v). (f, AStr v))
      (case hgetall ''settings'' of Inl _ \<Rightarrow> [] | Inr m \<Rightarrow> filter (\<lambda>(f, v). settingsFieldAllowed f) m)"
    by (simp add: key_fields_def collectKey_def filter_map comp_def case_prod_unfold split: sum.splits)
  then show ?thesis
    by (simp add: CollectState_hash collectedHashes_def Let_def settingsFieldAllowed_def
        settingsAllowedExact_def settingsAllowedPrefixes_def HasPrefix_def)
qed

text \<open>
  C17: The hop-on states never leave the vehicle: whatever the vehicle hash holds, the vehicle state of
  the snapshot is neither \<^verbatim>\<open>hop-on\<close> nor \<^verbatim>\<open>hop-on-learning\<close>.
\<close>

theorem no_hop_on_state:
  assumes "as_obj (gm_any (CollectState c hgetall) ''vehicle'') = Some v"
    and "as_str (gm_any v ''state'') = Some s"
  shows "s \<noteq> ''hop-on'' \<and> s \<noteq> ''hop-on-learning''"
  using cloudify_state assms by (simp add: CollectState_vehicle)

lemma sample_vehicle:
  "gm_any (CollectState sample_collector (sample_hashes p)) ''vehicle''
    = AObj [(''state'', AStr ''stand-by''), (''brake'', AStr ''off'')]"
proof -
  let ?st = "fold (collect_step (sample_hashes p)) collectedHashes []"
  have "''vehicle'' \<in> set collectedHashes" by (simp add: collectedHashes_def)
  then have "map_of ?st ''vehicle'' = Some (AObj [(''state'', AStr ''hop-on''), (''brake'', AStr ''off'')])"
    by (simp add: map_of_collected key_fields_def collectKey_def sample_hashes_def)
  then show ?thesis
    unfolding CollectState_vehicle by (simp add: cloudify_def gm_any_def update_conv' cloudifyVehicleState_def)
qed

theorem no_hop_on_state_witness:
  "\<exists>v s. as_obj (gm_any (CollectState sample_collector (sample_hashes ''1'')) ''vehicle'') = Some v
     \<and> as_str (gm_any v ''state'') = Some s \<and> s \<noteq> ''hop-on''"
proof (intro exI conjI)
  show v: "as_obj (gm_any (CollectState sample_collector (sample_hashes ''1'')) ''vehicle'')
      = Some [(''state'', AStr ''stand-by''), (''brake'', AStr ''off'')]"
    by (simp add: sample_vehicle)
  show s: "as_str (gm_any [(''state'', AStr ''stand-by''), (''brake'', AStr ''off'')] ''state'') = Some ''stand-by''"
    by (simp add: gm_any_def)
  show "''stand-by'' \<noteq> ''hop-on''" using no_hop_on_state [OF v s] by simp
qed

end
