(* ===== verification/Reflect.thy ===== *)
theory Reflect
  imports Config "HOL-Library.Sublist"
begin

text \<open>
  Remote access to configuration fields by dotted path, \<^verbatim>\<open>internal/config/reflect.go\<close>.  The
  reflected configuration is a tree \<open>rval\<close>: a struct lists its fields with Go name and
  \<^verbatim>\<open>yaml\<close> tag, a map its entries.  A \<^verbatim>\<open>reflect.Value\<close> also knows whether it is addressable and
  whether it was reached through an unexported field; \<open>CanSet\<close> is both.  \<open>reflect_of\<close> is
  \<^verbatim>\<open>reflect.ValueOf(c).Elem()\<close> and \<open>config_of\<close> reads the struct back.  The private mutex of the
  struct is an argument, its fields being the standard library's.

  Shown: a successful \<open>SetField\<close> is read back by \<open>GetField\<close>, changes no other field and keeps the
  type of the configuration; \<open>DeleteField\<close> leaves the zero value.
\<close>

datatype rval =
    RString string
  | RBool bool
  | RInt int
  | RFloat f64
  | RPtr "bool option"
  | RStruct "((string \<times> string) \<times> rval) list"
  | RMap "(string \<times> rval) list option"
  | RSlice "rval list option"
  | RIface any

fun kind_name :: "rval \<Rightarrow> string" where
  "kind_name (RString _) = ''string''"
| "kind_name (RBool _) = ''bool''"
| "kind_name (RInt _) = ''int''"
| "kind_name (RFloat _) = ''float64''"
| "kind_name (RPtr _) = ''ptr''"
| "kind_name (RStruct _) = ''struct''"
| "kind_name (RMap _) = ''map''"
| "kind_name (RSlice _) = ''slice''"
| "kind_name (RIface _) = ''interface''"

text \<open>The zero value of the type of a value.\<close>

fun rzero :: "rval \<Rightarrow> rval" where
  "rzero (RString _) = RString ''''"
| "rzero (RBool _) = RBool False"
| "rzero (RInt _) = RInt 0"
| "rzero (RFloat _) = RFloat (Fin 0)"
| "rzero (RPtr _) = RPtr None"
| "rzero (RStruct fs) = RStruct (map (\<lambda>(d, v). (d, rzero v)) fs)"
| "rzero (RMap _) = RMap None"
| "rzero (RSlice _) = RSlice None"
| "rzero (RIface _) = RIface ANil"

text \<open>What \<^verbatim>\<open>v.Interface()\<close> yields, in the form in which a command response encodes it.\<close>

definition upper :: "char \<Rightarrow> bool" where
  "upper c = (65 \<le> (of_char c :: nat) \<and> (of_char c :: nat) \<le> 90)"

definition exported :: "string \<Rightarrow> bool" where
  "exported name = (name \<noteq> [] \<and> upper (hd name))"

fun interface_of :: "rval \<Rightarrow> any" where
  "interface_of (RString s) = AStr s"
| "interface_of (RBool b) = ABool b"
| "interface_of (RInt n) = AInt n"
| "interface_of (RFloat x) = AFloat x"
| "interface_of (RPtr None) = ANil"
| "interface_of (RPtr (Some b)) = ABool b"
| "interface_of (RStruct fs) =
     AObj (filter (\<lambda>(name, v). exported name) (map (\<lambda>(d, v). (fst d, interface_of v)) fs))"
| "interface_of (RMap None) = ANil"
| "interface_of (RMap (Some m)) = AObj (map (\<lambda>(k, v). (k, interface_of v)) m)"
| "interface_of (RSlice None) = ANil"
| "interface_of (RSlice (Some xs)) = AArr (map interface_of xs)"
| "interface_of (RIface a) = a"

section \<open>The configuration as a tree\<close>

abbreviation fld :: "string \<Rightarrow> string \<Rightarrow> rval \<Rightarrow> (string \<times> string) \<times> rval" where
  "fld name tag v \<equiv> ((name, tag), v)"

definition reflect_uplink :: "UplinkConfig \<Rightarrow> rval" where
  "reflect_uplink c = RStruct
     [fld ''ServerURL'' ''server_url'' (RString (ServerURL c)),
      fld ''KeepaliveInterval'' ''keepalive_interval'' (RString (KeepaliveInterval c)),
      fld ''ReconnectMaxDelay'' ''reconnect_max_delay'' (RString (ReconnectMaxDelay c))]"

definition reflect_scooter :: "ScooterConfig \<Rightarrow> rval" where
  "reflect_scooter c = RStruct
     [fld ''Identifier'' ''identifier'' (RString (sc_Identifier c)),
      fld ''Token'' ''token'' (RString (sc_Token c)),
      fld ''Name'' ''name,omitempty'' (RString (sc_Name c))]"

definition reflect_buffer :: "BufferConfig \<Rightarrow> rval" where
  "reflect_buffer c = RStruct
     [fld ''Enabled'' ''enabled'' (RBool (buf_Enabled c)),
      fld ''MaxSize'' ''max_size'' (RInt (buf_MaxSize c)),
      fld ''MaxRetries'' ''max_retries'' (RInt (buf_MaxRetries c)),
      fld ''RetryInterval'' ''retry_interval'' (RString (buf_RetryInterval c)),
      fld ''PersistPath'' ''persist_path'' (RString (buf_PersistPath c))]"

definition reflect_intervals :: "IntervalsConfig \<Rightarrow> rval" where
  "reflect_intervals c = RStruct
     [fld ''Driving'' ''driving'' (RString (iv_Driving c)),
      fld ''Standby'' ''standby'' (RString (iv_Standby c)),
      fld ''StandbyNoBattery'' ''standby_no_battery'' (RString (iv_StandbyNoBattery c)),
      fld ''Hibernate'' ''hibernate'' (RString (iv_Hibernate c))]"

definition reflect_telemetry :: "TelemetryConfig \<Rightarrow> rval" where
  "reflect_telemetry c = RStruct
     [fld ''EventBufferPath'' ''event_buffer_path'' (RString (EventBufferPath c)),
      fld ''EventMaxRetries'' ''event_max_retries'' (RInt (EventMaxRetries c)),
      fld ''TransmitPeriod'' ''transmit_period'' (RString (TransmitPeriod c)),
      fld ''Buffer'' ''buffer'' (reflect_buffer (tel_Buffer c)),
      fld ''Intervals'' ''intervals'' (reflect_intervals (tel_Intervals c))]"

definition reflect_movement :: "MovementConfig \<Rightarrow> rval" where
  "reflect_movement c = RStruct
     [fld ''Enabled'' ''enabled'' (RPtr (mv_Enabled c)),
      fld ''ArmThresholdM'' ''arm_threshold_m'' (RFloat (ArmThresholdM c)),
      fld ''ConfirmThresholdM'' ''confirm_threshold_m'' (RFloat (ConfirmThresholdM c)),
      fld ''SampleCount'' ''sample_count'' (RInt (SampleCount c)),
      fld ''SampleInterval'' ''sample_interval'' (RString (SampleInterval c)),
      fld ''Cooldown'' ''cooldown'' (RString (mv_Cooldown c)),
      fld ''ImplausibleJumpM'' ''implausible_jump_m'' (RFloat (ImplausibleJumpM c))]"

definition reflect_events :: "EventsConfig \<Rightarrow> rval" where
  "reflect_events c = RStruct [fld ''Movement'' ''movement'' (reflect_movement (Movement c))]"

definition reflect_telegram :: "TelegramConfig \<Rightarrow> rval" where
  "reflect_telegram c = RStruct
     [fld ''Enabled'' ''enabled'' (RBool (tg_Enabled c)),
      fld ''BotToken'' ''bot_token'' (RString (tg_BotToken c)),
      fld ''ChatID'' ''chat_id'' (RString (tg_ChatID c)),
      fld ''RateLimit'' ''rate_limit'' (RString (tg_RateLimit c)),
      fld ''QueueSize'' ''queue_size'' (RInt (tg_QueueSize c)),
      fld ''DailyLimit'' ''daily_limit'' (RInt (tg_DailyLimit c)),
      fld ''Events'' ''events'' (RMap (if tg_Events c = [] then None
         else Some (map (\<lambda>(k, b). (k, RBool b)) (tg_Events c))))]"

definition reflect_sms :: "SMSConfig \<Rightarrow> rval" where
  "reflect_sms c = RStruct
     [fld ''Enabled'' ''enabled'' (RBool (sms_Enabled c)),
      fld ''PhoneNumber'' ''phone_number'' (RString (sms_PhoneNumber c)),
      fld ''RateLimit'' ''rate_limit'' (RString (sms_RateLimit c)),
      fld ''QueueSize'' ''queue_size'' (RInt (sms_QueueSize c)),
      fld ''DailyLimit'' ''daily_limit'' (RInt (sms_DailyLimit c))]"

definition reflect_condition :: "RuleCondition \<Rightarrow> rval" where
  "reflect_condition c = RStruct
     [fld ''Source'' ''source'' (RString (rc_Source c)),
      fld ''Field'' ''field'' (RString (rc_Field c)),
      fld ''Operator'' ''operator'' (RString (rc_Operator c)),
      fld ''Value'' ''value'' (RString (rc_Value c)),
      fld ''Message'' ''message,omitempty'' (RString (rc_Message c))]"

definition slice_of :: "('a \<Rightarrow> rval) \<Rightarrow> 'a list \<Rightarrow> rval" where
  "slice_of f xs = RSlice (if xs = [] then None else Some (map f xs))"

definition reflect_rule :: "NotificationRule \<Rightarrow> rval" where
  "reflect_rule c = RStruct
     [fld ''Name'' ''name'' (RString (nr_Name c)),
      fld ''Conditions'' ''conditions'' (slice_of reflect_condition (nr_Conditions c)),
      fld ''Channels'' ''channels'' (slice_of RString (nr_Channels c)),
      fld ''Cooldown'' ''cooldown'' (RString (nr_Cooldown c)),
      fld ''Message'' ''message'' (RString (nr_Message c))]"

definition reflect_notifications :: "NotificationsConfig \<Rightarrow> rval" where
  "reflect_notifications c = RStruct
     [fld ''Telegram'' ''telegram'' (reflect_telegram (Telegram c)),
      fld ''SMS'' ''sms'' (reflect_sms (SMS c)),
      fld ''Rules'' ''rules'' (slice_of reflect_rule (Rules c))]"

definition reflect_command :: "CommandConfig \<Rightarrow> rval" where
  "reflect_command c = RStruct
     [fld ''Disabled'' ''disabled'' (RBool (cc_Disabled c)),
      fld ''Params'' ''params'' (RMap (map_option (map (\<lambda>(k, v). (k, RIface v))) (cc_Params c)))]"

definition reflect_commands :: "(string, CommandConfig) go_map \<Rightarrow> rval" where
  "reflect_commands m = RMap (if m = [] then None else Some (map (\<lambda>(k, v). (k, reflect_command v)) m))"

definition reflect_ntp :: "NTPConfig \<Rightarrow> rval" where
  "reflect_ntp c = RStruct
     [fld ''Enabled'' ''enabled'' (RPtr (ntp_Enabled c)),
      fld ''Server'' ''server'' (RString (ntp_Server c))]"

definition reflect_of :: "rval \<Rightarrow> Config \<Rightarrow> rval" where
  "reflect_of mutex c = RStruct
     [fld ''Uplink'' ''uplink'' (reflect_uplink (Uplink c)),
      fld ''Scooter'' ''scooter'' (reflect_scooter (Scooter c)),
      fld ''Telemetry'' ''telemetry'' (reflect_telemetry (Telemetry c)),
      fld ''Events'' ''events'' (reflect_events (Events c)),
      fld ''Notifications'' ''notifications'' (reflect_notifications (Notifications c)),
      fld ''Commands'' ''commands'' (reflect_commands (Commands c)),
      fld ''NTP'' ''ntp'' (reflect_ntp (NTP c)),
      fld ''Environment'' ''environment'' (RString (Environment c)),
      fld ''ServiceName'' ''service_name'' (RString (ServiceName c)),
      fld ''RedisURL'' ''redis_url'' (RString (RedisURL c)),
      fld ''RideGroup'' ''ride_group'' (RStruct [fld ''Enabled'' ''enabled'' (RBool (RideGroup_Enabled c))]),
      fld ''SourcePath'' ''-'' (RString (SourcePath c)),
      fld ''saveMu'' '''' mutex]"

text \<open>Reading the struct back from a tree of its type.\<close>

definition sfield :: "string \<Rightarrow> rval \<Rightarrow> rval" where
  "sfield name v =
     (case v of
        RStruct fs \<Rightarrow> (case find (\<lambda>((n, _), _). n = name) fs of Some (_, x) \<Rightarrow> x | None \<Rightarrow> RIface ANil)
      | _ \<Rightarrow> RIface ANil)"

fun rstr :: "rval \<Rightarrow> string" where
  "rstr (RString s) = s"
| "rstr _ = ''''"

fun rbool :: "rval \<Rightarrow> bool" where
  "rbool (RBool b) = b"
| "rbool _ = False"

fun rint :: "rval \<Rightarrow> int" where
  "rint (RInt n) = n"
| "rint _ = 0"

fun rfloat :: "rval \<Rightarrow> f64" where
  "rfloat (RFloat x) = x"
| "rfloat _ = Fin 0"

fun rptr :: "rval \<Rightarrow> bool option" where
  "rptr (RPtr b) = b"
| "rptr _ = None"

fun rmap :: "rval \<Rightarrow> (string \<times> rval) list option" where
  "rmap (RMap m) = m"
| "rmap _ = None"

fun rslice :: "rval \<Rightarrow> rval list" where
  "rslice (RSlice (Some xs)) = xs"
| "rslice _ = []"

fun riface :: "rval \<Rightarrow> any" where
  "riface (RIface a) = a"
| "riface _ = ANil"

definition rentries :: "(rval \<Rightarrow> 'a) \<Rightarrow> rval \<Rightarrow> (string, 'a) go_map" where
  "rentries f v = (case rmap v of None \<Rightarrow> [] | Some m \<Rightarrow> map (\<lambda>(k, x). (k, f x)) m)"

definition uplink_of :: "rval \<Rightarrow> UplinkConfig" where
  "uplink_of v = \<lparr>ServerURL = rstr (sfield ''ServerURL'' v),
     KeepaliveInterval = rstr (sfield ''KeepaliveInterval'' v),
     ReconnectMaxDelay = rstr (sfield ''ReconnectMaxDelay'' v)\<rparr>"

definition scooter_of :: "rval \<Rightarrow> ScooterConfig" where
  "scooter_of v = \<lparr>sc_Identifier = rstr (sfield ''Identifier'' v), sc_Token = rstr (sfield ''Token'' v),
     sc_Name = rstr (sfield ''Name'' v)\<rparr>"

definition buffer_of :: "rval \<Rightarrow> BufferConfig" where
  "buffer_of v = \<lparr>buf_Enabled = rbool (sfield ''Enabled'' v), buf_MaxSize = rint (sfield ''MaxSize'' v),
     buf_MaxRetries = rint (sfield ''MaxRetries'' v),
     buf_RetryInterval = rstr (sfield ''RetryInterval'' v),
     buf_PersistPath = rstr (sfield ''PersistPath'' v)\<rparr>"

definition intervals_of :: "rval \<Rightarrow> IntervalsConfig" where
  "intervals_of v = \<lparr>iv_Driving = rstr (sfield ''Driving'' v), iv_Standby = rstr (sfield ''Standby'' v),
     iv_StandbyNoBattery = rstr (sfield ''StandbyNoBattery'' v),
     iv_Hibernate = rstr (sfield ''Hibernate'' v)\<rparr>"

definition telemetry_of :: "rval \<Rightarrow> TelemetryConfig" where
  "telemetry_of v = \<lparr>EventBufferPath = rstr (sfield ''EventBufferPath'' v),
     EventMaxRetries = rint (sfield ''EventMaxRetries'' v),
     TransmitPeriod = rstr (sfield ''TransmitPeriod'' v),
     tel_Buffer = buffer_of (sfield ''Buffer'' v), tel_Intervals = intervals_of (sfield ''Intervals'' v)\<rparr>"

definition movement_of :: "rval \<Rightarrow> MovementConfig" where
  "movement_of v = \<lparr>mv_Enabled = rptr (sfield ''Enabled'' v),
     ArmThresholdM = rfloat (sfield ''ArmThresholdM'' v),
     ConfirmThresholdM = rfloat (sfield ''ConfirmThresholdM'' v),
     SampleCount = rint (sfield ''SampleCount'' v), SampleInterval = rstr (sfield ''SampleInterval'' v),
     mv_Cooldown = rstr (sfield ''Cooldown'' v), ImplausibleJumpM = rfloat (sfield ''ImplausibleJumpM'' v)\<rparr>"

definition events_of :: "rval \<Rightarrow> EventsConfig" where
  "events_of v = \<lparr>Movement = movement_of (sfield ''Movement'' v)\<rparr>"

definition telegram_of :: "rval \<Rightarrow> TelegramConfig" where
  "telegram_of v = \<lparr>tg_Enabled = rbool (sfield ''Enabled'' v), tg_BotToken = rstr (sfield ''BotToken'' v),
     tg_ChatID = rstr (sfield ''ChatID'' v), tg_RateLimit = rstr (sfield ''RateLimit'' v),
     tg_QueueSize = rint (sfield ''QueueSize'' v), tg_DailyLimit = rint (sfield ''DailyLimit'' v),
     tg_Events = rentries rbool (sfield ''Events'' v)\<rparr>"

definition sms_of :: "rval \<Rightarrow> SMSConfig" where
  "sms_of v = \<lparr>sms_Enabled = rbool (sfield ''Enabled'' v),
     sms_PhoneNumber = rstr (sfield ''PhoneNumber'' v), sms_RateLimit = rstr (sfield ''RateLimit'' v),
     sms_QueueSize = rint (sfield ''QueueSize'' v), sms_DailyLimit = rint (sfield ''DailyLimit'' v)\<rparr>"

definition condition_of :: "rval \<Rightarrow> RuleCondition" where
  "condition_of v = \<lparr>rc_Source = rstr (sfield ''Source'' v), rc_Field = rstr (sfield ''Field'' v),
     rc_Operator = rstr (sfield ''Operator'' v), rc_Value = rstr (sfield ''Value'' v),
     rc_Message = rstr (sfield ''Message'' v)\<rparr>"

definition rule_of :: "rval \<Rightarrow> NotificationRule" where
  "rule_of v = \<lparr>nr_Name = rstr (sfield ''Name'' v),
     nr_Conditions = map condition_of (rslice (sfield ''Conditions'' v)),
     nr_Channels = map rstr (rslice (sfield ''Channels'' v)),
     nr_Cooldown = rstr (sfield ''Cooldown'' v), nr_Message = rstr (sfield ''Message'' v)\<rparr>"

definition notifications_of :: "rval \<Rightarrow> NotificationsConfig" where
  "notifications_of v = \<lparr>Telegram = telegram_of (sfield ''Telegram'' v), SMS = sms_of (sfield ''SMS'' v),
     Rules = map rule_of (rslice (sfield ''Rules'' v))\<rparr>"

definition command_of :: "rval \<Rightarrow> CommandConfig" where
  "command_of v = \<lparr>cc_Disabled = rbool (sfield ''Disabled'' v),
     cc_Params = map_option (map (\<lambda>(k, x). (k, riface x))) (rmap (sfield ''Params'' v))\<rparr>"

definition ntp_of :: "rval \<Rightarrow> NTPConfig" where
  "ntp_of v = \<lparr>ntp_Enabled = rptr (sfield ''Enabled'' v), ntp_Server = rstr (sfield ''Server'' v)\<rparr>"

definition config_of :: "rval \<Rightarrow> Config" where
  "config_of v = \<lparr>Uplink = uplink_of (sfield ''Uplink'' v), Scooter = scooter_of (sfield ''Scooter'' v),
     Telemetry = telemetry_of (sfield ''Telemetry'' v), Events = events_of (sfield ''Events'' v),
     Notifications = notifications_of (sfield ''Notifications'' v),
     Commands = rentries command_of (sfield ''Commands'' v), NTP = ntp_of (sfield ''NTP'' v),
     Environment = rstr (sfield ''Environment'' v), ServiceName = rstr (sfield ''ServiceName'' v),
     RedisURL = rstr (sfield ''RedisURL'' v),
     RideGroup_Enabled = rbool (sfield ''Enabled'' (sfield ''RideGroup'' v)),
     SourcePath = rstr (sfield ''SourcePath'' v)\<rparr>"

section \<open>Operations\<close>

text \<open>
  The result of an operation: a value, an error, or the panic that \<^verbatim>\<open>Interface\<close> raises on a value
  obtained through an unexported field.
\<close>

datatype 'a rresult = ROk 'a | RErr go_error | RPanic

definition to_lower :: "char \<Rightarrow> char" where
  "to_lower c = (if upper c then char_of ((of_char c :: nat) + 32) else c)"

definition tag_name :: "string \<times> string \<Rightarrow> string" where
  "tag_name d =
     (let t = hd (Split (CHR '','') (snd d)) in if t = '''' then map to_lower (fst d) else t)"

text \<open>The index of the field, as \<open>fieldByYAML\<close> finds it.\<close>

fun fieldByYAML :: "golib \<Rightarrow> ((string \<times> string) \<times> rval) list \<Rightarrow> string \<Rightarrow> go_error + nat" where
  "fieldByYAML L [] name = Inl (''unknown field '' @ lib_Quote L name)"
| "fieldByYAML L ((d, v) # fs) name =
     (if tag_name d \<noteq> ''-'' \<and> tag_name d = name then Inr 0
      else (case fieldByYAML L fs name of Inl e \<Rightarrow> Inl e | Inr i \<Rightarrow> Inr (Suc i)))"

text \<open>
  A resolved value: the tree below it, whether it can be set, whether it may be read, and the way
  to it, as the indices of the struct fields passed while the value was addressable.
\<close>

record rvalue =
  rv_val :: rval
  rv_addr :: bool
  rv_ro :: bool
  rv_path :: "nat list"

definition CanSet :: "rvalue \<Rightarrow> bool" where
  "CanSet v = (rv_addr v \<and> \<not> rv_ro v)"

text \<open>
  One segment of \<open>resolvePath\<close>; \<open>done\<close> are the segments already passed.  The only pointers of the
  configuration are to booleans, so after the dereference there is nothing to descend into.
\<close>

definition resolve_seg :: "golib \<Rightarrow> string list \<Rightarrow> string \<Rightarrow> rvalue \<Rightarrow> go_error + rvalue" where
  "resolve_seg L done seg v =
     (case rv_val v of
        RPtr None \<Rightarrow> Inl (''nil pointer before '' @ lib_Quote L seg)
      | RPtr (Some _) \<Rightarrow> Inl (''cannot descend into bool at '' @ lib_Quote L seg)
      | RStruct fs \<Rightarrow>
          (case fieldByYAML L fs seg of
             Inl e \<Rightarrow> Inl (''at '' @ lib_Quote L (Join (done @ [seg]) ''.'') @ '': '' @ e)
           | Inr i \<Rightarrow>
               Inr (v\<lparr>rv_val := snd (fs ! i), rv_ro := rv_ro v \<or> \<not> exported (fst (fst (fs ! i))),
                      rv_path := rv_path v @ [i]\<rparr>))
      | RMap m \<Rightarrow>
          (case map_of (case m of None \<Rightarrow> [] | Some es \<Rightarrow> es) seg of
             None \<Rightarrow> Inl (''key '' @ lib_Quote L seg @ '' not found'')
           | Some x \<Rightarrow> Inr (v\<lparr>rv_val := x, rv_addr := False\<rparr>))
      | other \<Rightarrow> Inl (''cannot descend into '' @ kind_name other @ '' at '' @ lib_Quote L seg))"

fun resolvePath :: "golib \<Rightarrow> string list \<Rightarrow> string list \<Rightarrow> rvalue \<Rightarrow> go_error + rvalue" where
  "resolvePath L done [] v = Inr v"
| "resolvePath L done (seg # segs) v =
     (case resolve_seg L done seg v of
        Inl e \<Rightarrow> Inl e
      | Inr v' \<Rightarrow> resolvePath L (done @ [seg]) segs v')"

definition splitPath :: "string \<Rightarrow> string list" where
  "splitPath path = Split (CHR ''.'') path"

definition root_value :: "rval \<Rightarrow> rvalue" where
  "root_value t = \<lparr>rv_val = t, rv_addr = True, rv_ro = False, rv_path = []\<rparr>"

fun set_at :: "nat list \<Rightarrow> rval \<Rightarrow> rval \<Rightarrow> rval" where
  "set_at [] x t = x"
| "set_at (i # is) x (RStruct fs) =
     (if i < length fs then RStruct (fs[i := (fst (fs ! i), set_at is x (snd (fs ! i)))]) else RStruct fs)"
| "set_at (i # is) x t = t"

definition wrap_int :: "nat \<Rightarrow> int \<Rightarrow> int" where
  "wrap_int bits n = (n + 2 ^ (bits - 1)) mod 2 ^ bits - 2 ^ (bits - 1)"

definition ParseBool :: "string \<Rightarrow> bool option" where
  "ParseBool s =
     (if s \<in> set [''1'', ''t'', ''T'', ''TRUE'', ''true'', ''True''] then Some True
      else if s \<in> set [''0'', ''f'', ''F'', ''FALSE'', ''false'', ''False''] then Some False
      else None)"

text \<open>\<open>assignScalar\<close> yields the value to store.\<close>

fun assignScalar :: "golib \<Rightarrow> rval \<Rightarrow> string \<Rightarrow> go_error + rval" where
  "assignScalar L (RString _) s = Inr (RString s)"
| "assignScalar L (RBool _) s =
     (case ParseBool s of None \<Rightarrow> Inl (lib_NumError L ''ParseBool'' s) | Some b \<Rightarrow> Inr (RBool b))"
| "assignScalar L (RInt _) s =
     (case ParseInt 64 s of
        None \<Rightarrow> Inl (lib_NumError L ''ParseInt'' s)
      | Some n \<Rightarrow> Inr (RInt (wrap_int (lib_IntSize L) n)))"
| "assignScalar L (RFloat _) s =
     (case lib_ParseFloat L s of
        None \<Rightarrow> Inl (lib_NumError L ''ParseFloat'' s) | Some x \<Rightarrow> Inr (RFloat x))"
| "assignScalar L (RPtr _) s =
     (case ParseBool s of None \<Rightarrow> Inl (lib_NumError L ''ParseBool'' s) | Some b \<Rightarrow> Inr (RPtr (Some b)))"
| "assignScalar L v s = Inl (''unsupported field kind '' @ kind_name v)"

definition GetField :: "golib \<Rightarrow> rval \<Rightarrow> Config \<Rightarrow> string \<Rightarrow> any rresult" where
  "GetField L mutex c path =
     (case resolvePath L [] (splitPath path) (root_value (reflect_of mutex c)) of
        Inl e \<Rightarrow> RErr e
      | Inr v \<Rightarrow> if rv_ro v then RPanic else ROk (interface_of (rv_val v)))"

definition SetField :: "golib \<Rightarrow> rval \<Rightarrow> Config \<Rightarrow> string \<Rightarrow> string \<Rightarrow> Config rresult" where
  "SetField L mutex c path value =
     (case resolvePath L [] (splitPath path) (root_value (reflect_of mutex c)) of
        Inl e \<Rightarrow> RErr e
      | Inr v \<Rightarrow>
          if \<not> CanSet v then RErr (''field '' @ lib_Quote L path @ '' is not settable'')
          else (case assignScalar L (rv_val v) value of
              Inl e \<Rightarrow> RErr e
            | Inr x \<Rightarrow> ROk (config_of (set_at (rv_path v) x (reflect_of mutex c)))))"

definition DeleteField :: "golib \<Rightarrow> rval \<Rightarrow> Config \<Rightarrow> string \<Rightarrow> Config rresult" where
  "DeleteField L mutex c path =
     (case resolvePath L [] (splitPath path) (root_value (reflect_of mutex c)) of
        Inl e \<Rightarrow> RErr e
      | Inr v \<Rightarrow>
          if \<not> CanSet v then RErr (''field '' @ lib_Quote L path @ '' is not settable'')
          else ROk (config_of (set_at (rv_path v) (rzero (rv_val v)) (reflect_of mutex c))))"

text \<open>The first error of \<open>ApplyDeltas\<close>; a failing delta does not stop the others.\<close>

definition ApplyDeltas :: "golib \<Rightarrow> rval \<Rightarrow> (string, string) go_map \<Rightarrow> Config \<Rightarrow> go_error option \<times> Config" where
  "ApplyDeltas L mutex deltas c =
     fold (\<lambda>(path, value) (firstErr, c).
             case SetField L mutex c path value of
               ROk c' \<Rightarrow> (firstErr, c')
             | RErr e \<Rightarrow> ((if firstErr = None then Some (''set '' @ lib_Quote L path @ '': '' @ e)
                          else firstErr), c)
             | RPanic \<Rightarrow> (firstErr, c)) deltas (None, c)"

section \<open>Saving\<close>

text \<open>The two files of \<open>Save\<close>: the configuration and its backup.\<close>

record cfg_files =
  cf_source :: "string option"
  cf_backup :: "string option"

definition writeFileAtomic :: "waio \<Rightarrow> go_error \<Rightarrow> string \<Rightarrow> string option \<Rightarrow> go_error option \<times> string option" where
  "writeFileAtomic io err data file =
     (case replace_file io data file of (ok, f) \<Rightarrow> (if ok then None else Some err, f))"

text \<open>
  \<open>yaml\<close> is the library's encoder, \<open>readable\<close> tells whether the present file can be read, \<open>bio\<close> and
  \<open>sio\<close> how the two replacements end and \<open>err\<close> the error of a failing one.
\<close>

definition Save :: "(Config \<Rightarrow> go_error + string) \<Rightarrow> bool \<Rightarrow> waio \<Rightarrow> waio \<Rightarrow> go_error \<Rightarrow> Config \<Rightarrow> cfg_files
    \<Rightarrow> go_error option \<times> cfg_files" where
  "Save yaml readable bio sio err c fs =
     (if SourcePath c = '''' then (Some ''no source path recorded for config'', fs)
      else case yaml c of
        Inl e \<Rightarrow> (Some (''marshal config: '' @ e), fs)
      | Inr data \<Rightarrow>
          (let fs1 = (case cf_source fs of
                        Some existing \<Rightarrow>
                          if readable then fs\<lparr>cf_backup := snd (writeFileAtomic bio err existing (cf_backup fs))\<rparr>
                          else fs
                      | None \<Rightarrow> fs)
           in case writeFileAtomic sio err data (cf_source fs1) of
                (Some e, f) \<Rightarrow> (Some (''save config: '' @ e), fs1\<lparr>cf_source := f\<rparr>)
              | (None, f) \<Rightarrow> (None, fs1\<lparr>cf_source := f\<rparr>)))"

definition RawYAML :: "go_error + string \<Rightarrow> Config \<Rightarrow> go_error + string" where
  "RawYAML file c =
     (if SourcePath c = '''' then Inl ''no source path recorded for config'' else file)"

section \<open>The tree is the configuration\<close>

lemmas reflect_defs =
  reflect_uplink_def reflect_scooter_def reflect_buffer_def reflect_intervals_def
  reflect_telemetry_def reflect_movement_def reflect_events_def reflect_telegram_def reflect_sms_def
  reflect_condition_def reflect_rule_def reflect_notifications_def reflect_command_def reflect_ntp_def

lemmas of_defs =
  uplink_of_def scooter_of_def buffer_of_def intervals_of_def telemetry_of_def movement_of_def
  events_of_def telegram_of_def sms_of_def condition_of_def rule_of_def notifications_of_def
  command_of_def ntp_of_def

lemma rslice_slice_of [simp]: "rslice (slice_of f xs) = map f xs"
  by (simp add: slice_of_def)

lemma sfield_Cons [simp]:
  "sfield name (RStruct (((n, t), x) # fs)) = (if n = name then x else sfield name (RStruct fs))"
  by (simp add: sfield_def)

lemma uplink_inv [simp]: "uplink_of (reflect_uplink c) = c"
  by (cases c) (simp add: uplink_of_def reflect_uplink_def)

lemma scooter_inv [simp]: "scooter_of (reflect_scooter c) = c"
  by (cases c) (simp add: scooter_of_def reflect_scooter_def)

lemma buffer_inv [simp]: "buffer_of (reflect_buffer c) = c"
  by (cases c) (simp add: buffer_of_def reflect_buffer_def)

lemma intervals_inv [simp]: "intervals_of (reflect_intervals c) = c"
  by (cases c) (simp add: intervals_of_def reflect_intervals_def)

lemma telemetry_inv [simp]: "telemetry_of (reflect_telemetry c) = c"
  by (cases c) (simp add: telemetry_of_def reflect_telemetry_def)

lemma movement_inv [simp]: "movement_of (reflect_movement c) = c"
  by (cases c) (simp add: movement_of_def reflect_movement_def)

lemma events_inv [simp]: "events_of (reflect_events c) = c"
  by (cases c) (simp add: events_of_def reflect_events_def)

lemma telegram_inv [simp]: "telegram_of (reflect_telegram c) = c"
  by (cases c) (simp add: telegram_of_def reflect_telegram_def rentries_def comp_def case_prod_unfold)

lemma sms_inv [simp]: "sms_of (reflect_sms c) = c"
  by (cases c) (simp add: sms_of_def reflect_sms_def)

lemma condition_inv [simp]: "condition_of (reflect_condition c) = c"
  by (cases c) (simp add: condition_of_def reflect_condition_def)

lemma rule_inv [simp]: "rule_of (reflect_rule c) = c"
  by (cases c) (simp add: rule_of_def reflect_rule_def comp_def)

lemma notifications_inv [simp]: "notifications_of (reflect_notifications c) = c"
  by (cases c) (simp add: notifications_of_def reflect_notifications_def comp_def)

lemma command_inv [simp]: "command_of (reflect_command c) = c"
  by (cases c) (simp add: command_of_def reflect_command_def option.map_comp comp_def case_prod_unfold
      option.map_ident)

lemma ntp_inv [simp]: "ntp_of (reflect_ntp c) = c"
  by (cases c) (simp add: ntp_of_def reflect_ntp_def)

lemma commands_inv [simp]: "rentries command_of (reflect_commands m) = m"
  by (simp add: reflect_commands_def rentries_def comp_def case_prod_unfold)

lemma config_inv: "config_of (reflect_of mutex c) = c"
  by (cases c) (simp add: config_of_def reflect_of_def)

section \<open>Setting a field keeps the type\<close>

text \<open>
  \<open>fits v w\<close>: \<open>w\<close> is a value of the type of \<open>v\<close> that an assignment may store there; maps and slices
  are only ever replaced by nil.
\<close>

inductive fits :: "rval \<Rightarrow> rval \<Rightarrow> bool" where
  fits_string: "fits (RString a) (RString b)"
| fits_bool: "fits (RBool a) (RBool b)"
| fits_int: "fits (RInt a) (RInt b)"
| fits_float: "fits (RFloat a) (RFloat b)"
| fits_ptr: "fits (RPtr a) (RPtr b)"
| fits_struct: "list_all2 (\<lambda>p q. fst p = fst q \<and> fits (snd p) (snd q)) fs gs \<Longrightarrow> fits (RStruct fs) (RStruct gs)"
| fits_map: "b = a \<or> b = None \<Longrightarrow> fits (RMap a) (RMap b)"
| fits_slice: "b = a \<or> b = None \<Longrightarrow> fits (RSlice a) (RSlice b)"
| fits_iface: "fits (RIface a) (RIface b)"
monos list.rel_mono_strong

inductive_simps fits_simps [simp]:
  "fits (RString a) t" "fits (RBool a) t" "fits (RInt a) t" "fits (RFloat a) t" "fits (RPtr a) t"
  "fits (RStruct fs) t" "fits (RMap a) t" "fits (RSlice a) t" "fits (RIface a) t"

lemma fits_refl: "fits v v"
  by (induction v) (auto intro!: list_all2_same [THEN iffD2] simp: snds.simps)

lemma fits_rzero: "fits v (rzero v)"
  by (induction v) (auto simp: list_all2_map2 case_prod_unfold intro!: list_all2_same [THEN iffD2] simp: snds.simps)

lemma fits_assignScalar: "assignScalar L v s = Inr x \<Longrightarrow> fits v x"
  by (cases "(L, v, s)" rule: assignScalar.cases) (auto split: option.splits)

lemma list_all2_fits_Cons:
  "list_all2 (\<lambda>p q. fst p = fst q \<and> fits (snd p) (snd q)) ((d, v) # fs) gs \<longleftrightarrow>
   (\<exists>w gs'. gs = (d, w) # gs' \<and> fits v w \<and> list_all2 (\<lambda>p q. fst p = fst q \<and> fits (snd p) (snd q)) fs gs')"
  by (auto simp: list_all2_Cons1)

lemmas fits_unfold = list_all2_fits_Cons list_all2_Nil

lemma uplink_fits: "fits (reflect_uplink c) t \<Longrightarrow> reflect_uplink (uplink_of t) = t"
  by (auto simp: reflect_uplink_def uplink_of_def fits_unfold)

lemma scooter_fits: "fits (reflect_scooter c) t \<Longrightarrow> reflect_scooter (scooter_of t) = t"
  by (auto simp: reflect_scooter_def scooter_of_def fits_unfold)

lemma buffer_fits: "fits (reflect_buffer c) t \<Longrightarrow> reflect_buffer (buffer_of t) = t"
  by (auto simp: reflect_buffer_def buffer_of_def fits_unfold)

lemma intervals_fits: "fits (reflect_intervals c) t \<Longrightarrow> reflect_intervals (intervals_of t) = t"
  by (auto simp: reflect_intervals_def intervals_of_def fits_unfold)

lemma telemetry_fits: "fits (reflect_telemetry c) t \<Longrightarrow> reflect_telemetry (telemetry_of t) = t"
  by (auto simp: reflect_telemetry_def telemetry_of_def fits_unfold buffer_fits intervals_fits)

lemma movement_fits: "fits (reflect_movement c) t \<Longrightarrow> reflect_movement (movement_of t) = t"
  by (auto simp: reflect_movement_def movement_of_def fits_unfold)

lemma events_fits: "fits (reflect_events c) t \<Longrightarrow> reflect_events (events_of t) = t"
  by (auto simp: reflect_events_def events_of_def fits_unfold movement_fits)

lemma telegram_fits: "fits (reflect_telegram c) t \<Longrightarrow> reflect_telegram (telegram_of t) = t"
  by (auto simp: reflect_telegram_def telegram_of_def fits_unfold rentries_def comp_def case_prod_unfold
      split: if_splits)

lemma sms_fits: "fits (reflect_sms c) t \<Longrightarrow> reflect_sms (sms_of t) = t"
  by (auto simp: reflect_sms_def sms_of_def fits_unfold)

lemma slice_fits: "fits (slice_of f xs) t \<Longrightarrow> (\<And>x. g (f x) = x) \<Longrightarrow> slice_of f (map g (rslice t)) = t"
  by (auto simp: slice_of_def comp_def split: if_splits)

lemma notifications_fits: "fits (reflect_notifications c) t \<Longrightarrow> reflect_notifications (notifications_of t) = t"
  by (auto simp: reflect_notifications_def notifications_of_def fits_unfold telegram_fits sms_fits slice_fits)

lemma ntp_fits: "fits (reflect_ntp c) t \<Longrightarrow> reflect_ntp (ntp_of t) = t"
  by (auto simp: reflect_ntp_def ntp_of_def fits_unfold)

lemma commands_fits: "fits (reflect_commands m) t \<Longrightarrow> reflect_commands (rentries command_of t) = t"
  by (auto simp: reflect_commands_def rentries_def comp_def case_prod_unfold split: if_splits)

lemma config_fits:
  assumes "fits (reflect_of mutex c) t" and "sfield ''saveMu'' t = mutex"
  shows "reflect_of mutex (config_of t) = t"
  using assms
  by (auto simp: reflect_of_def config_of_def fits_unfold uplink_fits scooter_fits telemetry_fits
      events_fits notifications_fits ntp_fits commands_fits)

section \<open>Resolution and assignment\<close>

lemma fieldByYAML_descs: "map fst fs = map fst gs \<Longrightarrow> fieldByYAML L fs n = fieldByYAML L gs n"
proof (induction fs arbitrary: gs)
  case (Cons f fs)
  then obtain g gs' where "gs = g # gs'" "fst f = fst g" "map fst fs = map fst gs'" by (cases gs) auto
  then show ?case using Cons.IH by (cases f; cases g) (auto split: sum.splits)
qed simp

lemma fieldByYAML_index: "fieldByYAML L fs n = Inr i \<Longrightarrow> i < length fs \<and> tag_name (fst (fs ! i)) = n"
  by (induction fs arbitrary: i) (auto split: if_splits sum.splits)

lemma set_at_struct:
  "i < length fs \<Longrightarrow> set_at (i # is) x (RStruct fs) = RStruct (fs[i := (fst (fs ! i), set_at is x (snd (fs ! i)))])"
  by simp

lemma map_fst_update: "i < length fs \<Longrightarrow> map fst (fs[i := (fst (fs ! i), w)]) = map fst fs"
  by (simp add: map_update list_update_same_conv)

lemma fits_update:
  "i < length fs \<Longrightarrow> fits (snd (fs ! i)) w \<Longrightarrow> fits (RStruct fs) (RStruct (fs[i := (fst (fs ! i), w)]))"
  by (auto simp: list_all2_conv_all_nth nth_list_update fits_refl)

text \<open>A settable value was reached through struct fields only.\<close>

lemma resolve_seg_addr:
  assumes "resolve_seg L d seg v = Inr v'" and "rv_addr v'"
  obtains fs i where "rv_val v = RStruct fs" and "fieldByYAML L fs seg = Inr i" and "i < length fs"
    and "v' = v\<lparr>rv_val := snd (fs ! i), rv_ro := rv_ro v \<or> \<not> exported (fst (fst (fs ! i))),
               rv_path := rv_path v @ [i]\<rparr>"
  using assms fieldByYAML_index
  by (auto simp: resolve_seg_def split: rval.splits option.splits sum.splits)

lemma resolvePath_ro: "resolvePath L d segs v = Inr v' \<Longrightarrow> rv_ro v \<Longrightarrow> rv_ro v'"
  by (induction segs arbitrary: d v)
     (auto simp: resolve_seg_def split: rval.splits option.splits sum.splits)

lemma resolve_seg_addr_mono: "resolve_seg L d seg v = Inr v' \<Longrightarrow> rv_addr v' \<Longrightarrow> rv_addr v"
  by (auto simp: resolve_seg_def split: rval.splits option.splits sum.splits)

lemma resolvePath_addr_mono: "resolvePath L d segs v = Inr v' \<Longrightarrow> rv_addr v' \<Longrightarrow> rv_addr v"
  by (induction segs arbitrary: d v) (auto split: sum.splits dest: resolve_seg_addr_mono)

lemma resolvePath_set:
  assumes "resolvePath L d segs v = Inr v'" and "rv_addr v'"
  shows "\<exists>is. rv_path v' = rv_path v @ is
    \<and> resolvePath L d segs (v\<lparr>rv_val := set_at is x (rv_val v)\<rparr>) = Inr (v'\<lparr>rv_val := x\<rparr>)
    \<and> (fits (rv_val v') x \<longrightarrow> fits (rv_val v) (set_at is x (rv_val v)))
    \<and> (\<forall>d2 segs2. \<not> prefix segs segs2 \<and> \<not> prefix segs2 segs \<longrightarrow>
         resolvePath L d2 segs2 (v\<lparr>rv_val := set_at is x (rv_val v)\<rparr>) = resolvePath L d2 segs2 v)"
  using assms
proof (induction segs arbitrary: d v)
  case Nil
  then show ?case by (intro exI [of _ "[]"]) auto
next
  case (Cons seg segs)
  then obtain v1 where v1: "resolve_seg L d seg v = Inr v1" "resolvePath L (d @ [seg]) segs v1 = Inr v'"
    by (auto split: sum.splits)
  have "rv_addr v1" using v1(2) Cons.prems(2) by (rule resolvePath_addr_mono)
  then obtain fs i where fs: "rv_val v = RStruct fs" "fieldByYAML L fs seg = Inr i" "i < length fs"
    and v1': "v1 = v\<lparr>rv_val := snd (fs ! i), rv_ro := rv_ro v \<or> \<not> exported (fst (fst (fs ! i))),
               rv_path := rv_path v @ [i]\<rparr>"
    using resolve_seg_addr [OF v1(1)] by blast
  obtain is' where IH: "rv_path v' = rv_path v1 @ is'"
      "resolvePath L (d @ [seg]) segs (v1\<lparr>rv_val := set_at is' x (rv_val v1)\<rparr>) = Inr (v'\<lparr>rv_val := x\<rparr>)"
      "fits (rv_val v') x \<longrightarrow> fits (rv_val v1) (set_at is' x (rv_val v1))"
      "\<And>d2 segs2. \<not> prefix segs segs2 \<and> \<not> prefix segs2 segs \<Longrightarrow>
         resolvePath L d2 segs2 (v1\<lparr>rv_val := set_at is' x (rv_val v1)\<rparr>) = resolvePath L d2 segs2 v1"
    using Cons.IH [OF v1(2) Cons.prems(2)] by blast
  let ?gs = "fs[i := (fst (fs ! i), set_at is' x (snd (fs ! i)))]"
  have st: "set_at (i # is') x (rv_val v) = RStruct ?gs" using fs by simp
  have fb: "fieldByYAML L ?gs n = fieldByYAML L fs n" for n
    using fieldByYAML_descs [OF map_fst_update [OF fs(3)]] by blast
  have step: "resolve_seg L d' seg (v\<lparr>rv_val := RStruct ?gs\<rparr>)
      = Inr (v1\<lparr>rv_val := set_at is' x (rv_val v1)\<rparr>)" for d'
    using fs v1' by (simp add: resolve_seg_def fb)
  have stepv: "resolve_seg L d' seg v = Inr v1" for d'
    using fs v1' by (simp add: resolve_seg_def)
  have other: "resolve_seg L d' n (v\<lparr>rv_val := RStruct ?gs\<rparr>) = resolve_seg L d' n v" if "n \<noteq> seg" for d' n
  proof (cases "fieldByYAML L fs n")
    case (Inr j)
    then have "j \<noteq> i" using fieldByYAML_index fs(2) that by metis
    then show ?thesis using Inr fs(1) by (simp add: resolve_seg_def fb)
  qed (simp add: resolve_seg_def fb fs(1))
  have frame: "resolvePath L d2 segs2 (v\<lparr>rv_val := RStruct ?gs\<rparr>) = resolvePath L d2 segs2 v"
    if "\<not> prefix (seg # segs) segs2 \<and> \<not> prefix segs2 (seg # segs)" for d2 segs2
  proof (cases segs2)
    case (Cons n ns)
    show ?thesis
    proof (cases "n = seg")
      case True
      then show ?thesis using Cons that IH(4) [of ns "d2 @ [seg]"] step stepv by simp
    qed (simp add: Cons other)
  qed (use that in simp)
  show ?case
    using IH(1,2,3) v1' st step frame fs(1,3) fits_update [OF fs(3)]
    by (intro exI [of _ "i # is'"]) auto
qed

lemma sfield_update:
  "i < length fs \<Longrightarrow> fst (fst (fs ! i)) \<noteq> name \<Longrightarrow>
   sfield name (RStruct (fs[i := (fst (fs ! i), w)])) = sfield name (RStruct fs)"
proof (induction fs arbitrary: i)
  case (Cons f fs)
  obtain n t y where f: "f = ((n, t), y)" by (metis prod.exhaust)
  show ?case
  proof (cases i)
    case (Suc j)
    then show ?thesis using Cons.IH [of j] Cons.prems f by simp
  qed (use Cons.prems f in simp)
qed simp

lemma mutex_kept:
  assumes "resolvePath L d (seg # segs) (root_value (reflect_of mutex c)) = Inr v" and "CanSet v"
  shows "sfield ''saveMu'' (set_at (rv_path v) x (reflect_of mutex c)) = mutex"
proof -
  obtain fs where fs: "reflect_of mutex c = RStruct fs" by (simp add: reflect_of_def)
  obtain v1 where v1: "resolve_seg L d seg (root_value (RStruct fs)) = Inr v1"
      "resolvePath L (d @ [seg]) segs v1 = Inr v"
    using assms(1) fs by (auto split: sum.splits)
  have a: "rv_addr v1" "\<not> rv_ro v1"
    using resolvePath_addr_mono [OF v1(2)] resolvePath_ro [OF v1(2)] assms(2) by (auto simp: CanSet_def)
  obtain fs' i where "rv_val (root_value (RStruct fs)) = RStruct fs'" "i < length fs'"
      "v1 = (root_value (RStruct fs))\<lparr>rv_val := snd (fs' ! i),
         rv_ro := rv_ro (root_value (RStruct fs)) \<or> \<not> exported (fst (fst (fs' ! i))),
         rv_path := rv_path (root_value (RStruct fs)) @ [i]\<rparr>"
    using resolve_seg_addr [OF v1(1) a(1)] by blast
  then have i: "i < length fs" "rv_path v1 = [i]" "exported (fst (fst (fs ! i)))"
    using a(2) by (auto simp: root_value_def)
  obtain is' where "rv_path v = i # is'"
    using resolvePath_set [OF v1(2), of x] assms(2) i(2) by (auto simp: CanSet_def)
  moreover have "fst (fst (fs ! i)) \<noteq> ''saveMu''" using i(3) by (auto simp: exported_def upper_def)
  ultimately show ?thesis
    using i(1) sfield_update [of i fs "''saveMu''"] fs by (auto simp: reflect_of_def)
qed

lemma store_tree:
  assumes "resolvePath L [] (splitPath path) (root_value (reflect_of mutex c)) = Inr v"
    and "CanSet v" and "fits (rv_val v) x"
    and "c' = config_of (set_at (rv_path v) x (reflect_of mutex c))"
  shows "resolvePath L [] (splitPath path) (root_value (reflect_of mutex c')) = Inr (v\<lparr>rv_val := x\<rparr>)
    \<and> (\<forall>segs. \<not> prefix (splitPath path) segs \<and> \<not> prefix segs (splitPath path) \<longrightarrow>
        resolvePath L [] segs (root_value (reflect_of mutex c')) = resolvePath L [] segs (root_value (reflect_of mutex c)))"
proof -
  obtain seg segs where sp: "splitPath path = seg # segs"
    by (metis Split_not_Nil neq_Nil_conv splitPath_def)
  have rs: "(root_value t)\<lparr>rv_val := u\<rparr> = root_value u" "rv_val (root_value t) = t" "rv_path (root_value t) = []"
    for t u by (simp_all add: root_value_def)
  from resolvePath_set [OF assms(1), of x] assms(2)
  have set: "resolvePath L [] (splitPath path) (root_value (set_at (rv_path v) x (reflect_of mutex c)))
        = Inr (v\<lparr>rv_val := x\<rparr>)"
      "fits (reflect_of mutex c) (set_at (rv_path v) x (reflect_of mutex c))"
      "\<And>segs2. \<not> prefix (splitPath path) segs2 \<and> \<not> prefix segs2 (splitPath path) \<Longrightarrow>
         resolvePath L [] segs2 (root_value (set_at (rv_path v) x (reflect_of mutex c)))
         = resolvePath L [] segs2 (root_value (reflect_of mutex c))"
    using assms(3) by (auto simp: rs CanSet_def)
  have "reflect_of mutex c' = set_at (rv_path v) x (reflect_of mutex c)"
    using config_fits [OF set(2)] mutex_kept assms(1,2,4) unfolding sp by auto
  then show ?thesis using set by simp
qed

text \<open>What a successful assignment stored.\<close>

lemma SetField_ok:
  assumes "SetField L mutex c path value = ROk c'"
  obtains v x where "resolvePath L [] (splitPath path) (root_value (reflect_of mutex c)) = Inr v"
    and "CanSet v" and "assignScalar L (rv_val v) value = Inr x"
    and "c' = config_of (set_at (rv_path v) x (reflect_of mutex c))"
  using assms by (auto simp: SetField_def split: sum.splits if_splits)

lemma SetField_get:
  assumes "SetField L mutex c path value = ROk c'"
  shows "\<exists>old x. assignScalar L old value = Inr x \<and> GetField L mutex c path = ROk (interface_of old)
    \<and> GetField L mutex c' path = ROk (interface_of x)"
proof -
  obtain v x where v: "resolvePath L [] (splitPath path) (root_value (reflect_of mutex c)) = Inr v"
      "CanSet v" "assignScalar L (rv_val v) value = Inr x"
      "c' = config_of (set_at (rv_path v) x (reflect_of mutex c))"
    using SetField_ok [OF assms] .
  have "\<not> rv_ro v" using v(2) by (simp add: CanSet_def)
  then show ?thesis
    using v(1,3) store_tree [OF v(1,2) fits_assignScalar [OF v(3)] v(4)]
    by (intro exI [of _ "rv_val v"] exI [of _ x]) (simp add: GetField_def)
qed

lemma SetField_frame:
  assumes "SetField L mutex c path value = ROk c'"
    and "\<not> prefix (splitPath path) (splitPath q)" and "\<not> prefix (splitPath q) (splitPath path)"
  shows "GetField L mutex c' q = GetField L mutex c q"
proof -
  obtain v x where v: "resolvePath L [] (splitPath path) (root_value (reflect_of mutex c)) = Inr v"
      "CanSet v" "assignScalar L (rv_val v) value = Inr x"
      "c' = config_of (set_at (rv_path v) x (reflect_of mutex c))"
    using SetField_ok [OF assms(1)] .
  show ?thesis
    using store_tree [OF v(1,2) fits_assignScalar [OF v(3)] v(4)] assms(2,3)
    by (simp add: GetField_def)
qed

lemma DeleteField_get:
  assumes "DeleteField L mutex c path = ROk c'"
  shows "\<exists>old. GetField L mutex c path = ROk (interface_of old)
    \<and> GetField L mutex c' path = ROk (interface_of (rzero old))"
proof -
  obtain v where v: "resolvePath L [] (splitPath path) (root_value (reflect_of mutex c)) = Inr v"
      "CanSet v" "c' = config_of (set_at (rv_path v) (rzero (rv_val v)) (reflect_of mutex c))"
    using assms by (auto simp: DeleteField_def split: sum.splits if_splits)
  have "\<not> rv_ro v" using v(2) by (simp add: CanSet_def)
  then show ?thesis
    using v(1) store_tree [OF v(1,2) fits_rzero v(3)]
    by (intro exI [of _ "rv_val v"]) (simp add: GetField_def)
qed

section \<open>Properties\<close>

text \<open>
  C35: A successful \<open>SetField\<close> is read back: \<open>GetField\<close> of the same path then yields the value that
  \<open>assignScalar\<close> made of the text, converted to the type the field had before.
\<close>

theorem SetField_GetField:
  assumes "SetField L mutex c path value = ROk c'"
  shows "\<exists>old x. assignScalar L old value = Inr x \<and> kind_name x = kind_name old
    \<and> GetField L mutex c path = ROk (interface_of old) \<and> GetField L mutex c' path = ROk (interface_of x)"
proof -
  have "kind_name x = kind_name old" if "assignScalar L old value = Inr x" for old x
    using fits_assignScalar [OF that] by (cases rule: fits.cases) auto
  then show ?thesis using SetField_get [OF assms] by blast
qed

definition sample_config :: Config where
  "sample_config = config_of (RStruct [])"

lemma sample_config_set:
  "SetField L mutex sample_config ''telemetry.buffer.enabled'' ''true''
     = ROk (sample_config\<lparr>Telemetry := (Telemetry sample_config)
              \<lparr>tel_Buffer := (tel_Buffer (Telemetry sample_config))\<lparr>buf_Enabled := True\<rparr>\<rparr>\<rparr>)"
  by (simp add: SetField_def splitPath_def root_value_def reflect_of_def reflect_defs resolve_seg_def tag_name_def
      exported_def upper_def CanSet_def ParseBool_def sample_config_def config_of_def of_defs rentries_def sfield_def
      slice_of_def reflect_commands_def)

theorem SetField_GetField_witness:
  "\<forall>L mutex. \<exists>c'. SetField L mutex sample_config ''telemetry.buffer.enabled'' ''true'' = ROk c'
     \<and> (\<exists>x. GetField L mutex c' ''telemetry.buffer.enabled'' = ROk x)"
  using SetField_GetField [OF sample_config_set] sample_config_set by blast

text \<open>
  A successful \<open>SetField\<close> changes nothing else: every path that is neither a prefix nor an extension
  of the one set resolves to the same value, or the same error, as before.
\<close>

theorem SetField_changes_only_path:
  assumes "SetField L mutex c path value = ROk c'"
    and "\<not> prefix (splitPath path) (splitPath q)" and "\<not> prefix (splitPath q) (splitPath path)"
  shows "GetField L mutex c' q = GetField L mutex c q"
  using assms by (rule SetField_frame)

theorem SetField_changes_only_path_witness:
  "\<forall>L mutex. \<exists>c'. SetField L mutex sample_config ''telemetry.buffer.enabled'' ''true'' = ROk c'
     \<and> GetField L mutex c' ''scooter.token'' = GetField L mutex sample_config ''scooter.token''"
proof (intro allI exI conjI)
  fix L mutex
  show "SetField L mutex sample_config ''telemetry.buffer.enabled'' ''true''
     = ROk (sample_config\<lparr>Telemetry := (Telemetry sample_config)
              \<lparr>tel_Buffer := (tel_Buffer (Telemetry sample_config))\<lparr>buf_Enabled := True\<rparr>\<rparr>\<rparr>)"
    by (rule sample_config_set)
  show "GetField L mutex (sample_config\<lparr>Telemetry := (Telemetry sample_config)
              \<lparr>tel_Buffer := (tel_Buffer (Telemetry sample_config))\<lparr>buf_Enabled := True\<rparr>\<rparr>\<rparr>) ''scooter.token''
     = GetField L mutex sample_config ''scooter.token''"
    by (rule SetField_changes_only_path [OF sample_config_set]) (simp_all add: splitPath_def)
qed

end
