(* ===== verification/Commands.thy ===== *)
theory Commands
  imports Reflect Connection Clock
begin

text \<open>
  Remote commands, \<^verbatim>\<open>internal/commands\<close>: \<^verbatim>\<open>handler.go\<close>, \<^verbatim>\<open>scooter.go\<close>,
  \<^verbatim>\<open>update_handlers.go\<close>, \<^verbatim>\<open>trip_handlers.go\<close>, \<^verbatim>\<open>config_handlers.go\<close>, \<^verbatim>\<open>restart.go\<close> and the
  synchronous part of \<^verbatim>\<open>keycard_handlers.go\<close>.  The state is the record \<open>world\<close>; every call to
  the Redis client is appended to its log, and the answer is a function of the log so far, an
  argument.  A goroutine that a handler starts is a \<open>task\<close> in the state; its run is defined
  separately.  A handler returns a result map and an error, both possibly present, or panics.

  Shown: a disabled command has no effect but its response; shell is refused outside development;
  every command that does not panic is answered exactly once; the navigation hash cannot be
  written through the diagnostic command; horn and blinkers are always switched off last.
\<close>

section \<open>The Redis client\<close>

record routeStop =
  stop_Lat :: f64
  stop_Lon :: f64
  stop_Label :: string

datatype call =
    CGet string
  | CSet string string
  | CHGet string string
  | CHSet string string string
  | CHGetAll string
  | CDel "string list"
  | CLPush string string
  | CPublish string string
  | CSMembers string
  | CRequest string string
  | CMethod string string "routeStop list"

record reply =
  rp_err :: "go_error option"
  rp_str :: string
  rp_map :: "(string, string) go_map"
  rp_int :: int
  rp_list :: "string list"

section \<open>State and environment\<close>

datatype task =
    HonkTask duration
  | LocateTask duration duration duration
  | AlarmTask nat duration duration duration
  | RestartTask

record world =
  calls :: "call list"
  w_mgr :: manager
  w_cfg :: Config
  w_files :: cfg_files
  alarmCancel :: "nat option"
  alarmGen :: nat
  cancelled :: "nat list"
  tasks :: "task list"
  keycardPending :: bool

text \<open>How the wait of \<open>keycardCommand\<close> ends.\<close>

datatype keycard_wait =
    KResult string string
  | KReadError go_error
  | KTimeout
  | KDone go_error

record cenv =
  ce_redis :: "call list \<Rightarrow> call \<Rightarrow> reply"
  ce_lib :: golib
  ce_mutex :: rval
  ce_collect :: "go_error + obj"
  ce_stamp :: string
  ce_rand :: "go_error + nat list"
  ce_now :: instant
  ce_source :: "go_error + string"
  ce_save :: "Config \<Rightarrow> cfg_files \<Rightarrow> go_error option \<times> cfg_files"
  ce_watcher :: bool
  ce_wait :: keycard_wait

definition do_call :: "cenv \<Rightarrow> call \<Rightarrow> world \<Rightarrow> reply \<times> world" where
  "do_call E c w = (ce_redis E (calls w) c, w\<lparr>calls := calls w @ [c]\<rparr>)"

definition spawn_task :: "task \<Rightarrow> world \<Rightarrow> world" where
  "spawn_task t w = w\<lparr>tasks := tasks w @ [t]\<rparr>"

type_synonym outcome = "(obj option \<times> go_error option) option \<times> world"

text \<open>The three shapes of a result: \<^verbatim>\<open>nil, err\<close>; a map; and the panic.\<close>

definition fails :: "go_error \<Rightarrow> world \<Rightarrow> outcome" where
  "fails e w = (Some (None, Some e), w)"

definition returns :: "go_error option \<times> world \<Rightarrow> outcome" where
  "returns r = (Some (None, fst r), snd r)"

definition answers :: "obj \<Rightarrow> go_error option \<Rightarrow> world \<Rightarrow> outcome" where
  "answers m e w = (Some (Some m, e), w)"

definition sendCommand :: "cenv \<Rightarrow> string \<Rightarrow> string \<Rightarrow> world \<Rightarrow> go_error option \<times> world" where
  "sendCommand E queue cmd w =
     (case do_call E (CRequest queue cmd) w of
        (r, w1) \<Rightarrow> (map_option (\<lambda>e. ''failed to send command: '' @ e) (rp_err r), w1))"

section \<open>Horn, blinkers and alarm\<close>

definition paramFloat :: "any \<Rightarrow> f64 \<Rightarrow> f64" where
  "paramFloat v def = (case as_float v of Some f \<Rightarrow> f | None \<Rightarrow> def)"

text \<open>\<^verbatim>\<open>time.Duration(x) * time.Millisecond\<close>.\<close>

definition millis :: "f64 \<Rightarrow> duration" where
  "millis x = wrap64 (f64_to_int64 x * Millisecond)"

definition honk :: "cenv \<Rightarrow> obj \<Rightarrow> world \<Rightarrow> go_error option \<times> world" where
  "honk E params w =
     (case (case as_float (gm_any params ''duration'') of
              Some f \<Rightarrow> Some f
            | None \<Rightarrow> as_float (CommandParam (w_cfg w) ''honk'' ''duration'' ANil)) of
        None \<Rightarrow> (Some ''missing or invalid duration parameter'', w)
      | Some durationMs \<Rightarrow>
          (case sendCommand E ''scooter:horn'' ''on'' w of
             (Some e, w1) \<Rightarrow> (Some e, w1)
           | (None, w1) \<Rightarrow> (None, spawn_task (HonkTask (millis durationMs)) w1)))"

definition locate :: "cenv \<Rightarrow> world \<Rightarrow> go_error option \<times> world" where
  "locate E w =
     (let c = w_cfg w;
          honk = millis (paramFloat (CommandParam c ''locate'' ''honk_time'' (AInt 40)) (Fin 40));
          gap = millis (paramFloat (CommandParam c ''locate'' ''honk_interval'' (AInt 80)) (Fin 80));
          burstGap = millis (paramFloat (CommandParam c ''locate'' ''interval'' (AInt 4000)) (Fin 4000))
      in case sendCommand E ''scooter:blinker'' ''both'' w of
           (Some e, w1) \<Rightarrow> (Some e, w1)
         | (None, w1) \<Rightarrow> (None, spawn_task (LocateTask honk gap burstGap) w1))"

text \<open>A context is known by the generation for which it was made.\<close>

definition startAlarm :: "world \<Rightarrow> nat \<times> world" where
  "startAlarm w =
     (let prev = alarmCancel w;
          gen = alarmGen w + 1;
          w1 = w\<lparr>alarmGen := gen, alarmCancel := Some gen\<rparr>
      in (gen, case prev of None \<Rightarrow> w1 | Some g \<Rightarrow> w1\<lparr>cancelled := g # cancelled w1\<rparr>))"

definition clearAlarm :: "nat \<Rightarrow> world \<Rightarrow> world" where
  "clearAlarm gen w = (if alarmGen w = gen then w\<lparr>alarmCancel := None\<rparr> else w)"

definition stopAlarm :: "world \<Rightarrow> world" where
  "stopAlarm w =
     (let w1 = w\<lparr>alarmCancel := None\<rparr>
      in case alarmCancel w of None \<Rightarrow> w1 | Some g \<Rightarrow> w1\<lparr>cancelled := g # cancelled w1\<rparr>)"

definition alarmPulse :: "obj \<Rightarrow> world \<Rightarrow> go_error option \<times> world" where
  "alarmPulse params w =
     (if str_or_empty (gm_any params ''state'') = ''off'' then (None, stopAlarm w)
      else let c = w_cfg w;
               duration = millis (paramFloat (gm_any params ''duration'') (Fin 10000));
               onTime = millis (paramFloat (CommandParam c ''alarm'' ''on_time'' (AInt 400)) (Fin 400));
               offTime = millis (paramFloat (CommandParam c ''alarm'' ''off_time'' (AInt 400)) (Fin 400))
           in case startAlarm w of
                (gen, w1) \<Rightarrow> (None, spawn_task (AlarmTask gen duration onTime offTime) w1))"

section \<open>The goroutines\<close>

text \<open>
  A run of a goroutine is determined by how its waits end: \<open>True\<close> when the time passes, \<open>False\<close> when
  the context ends (or, for the alarm, the deadline fires).
\<close>

definition horn_off :: call where "horn_off = CRequest ''scooter:horn'' ''off''"
definition blinker_off :: call where "blinker_off = CRequest ''scooter:blinker'' ''off''"

definition honk_task :: "cenv \<Rightarrow> world \<Rightarrow> world" where
  "honk_task E w = snd (sendCommand E ''scooter:horn'' ''off'' w)"

definition beep :: "cenv \<Rightarrow> bool \<Rightarrow> world \<Rightarrow> bool \<times> world" where
  "beep E slept w =
     (case sendCommand E ''scooter:horn'' ''on'' w of
        (Some e, w1) \<Rightarrow> (False, w1)
      | (None, w1) \<Rightarrow> (slept, snd (sendCommand E ''scooter:horn'' ''off'' w1)))"

text \<open>The four beeps of \<open>locate\<close>; the \<open>k\<close>-th beep waits twice, the second one also between bursts.\<close>

fun locate_loop :: "cenv \<Rightarrow> (nat \<Rightarrow> bool) \<Rightarrow> nat \<Rightarrow> nat \<Rightarrow> world \<Rightarrow> world" where
  "locate_loop E slept 0 k w = w"
| "locate_loop E slept (Suc n) k w =
     (case beep E (slept (3 * k)) w of
        (False, w1) \<Rightarrow> w1
      | (True, w1) \<Rightarrow>
          if \<not> slept (3 * k + 1) then w1
          else if k = 1 \<and> \<not> slept (3 * k + 2) then w1
          else locate_loop E slept n (Suc k) w1)"

definition locate_task :: "cenv \<Rightarrow> (nat \<Rightarrow> bool) \<Rightarrow> world \<Rightarrow> world" where
  "locate_task E slept w = snd (sendCommand E ''scooter:blinker'' ''off'' (locate_loop E slept 4 0 w))"

text \<open>
  The loop of the alarm: the list says, for each round, whether the round starts and how its two
  waits end; after the last round the deadline or the context ends the loop.
\<close>

fun alarm_loop :: "cenv \<Rightarrow> (bool \<times> bool \<times> bool) list \<Rightarrow> world \<Rightarrow> world" where
  "alarm_loop E [] w = w"
| "alarm_loop E ((start, on_slept, off_slept) # rounds) w =
     (if \<not> start then w
      else let w1 = snd (sendCommand E ''scooter:horn'' ''on'' w)
           in if \<not> on_slept then w1
              else let w2 = snd (sendCommand E ''scooter:horn'' ''off'' w1)
                   in if \<not> off_slept then w2 else alarm_loop E rounds w2)"

definition alarm_task :: "cenv \<Rightarrow> nat \<Rightarrow> (bool \<times> bool \<times> bool) list \<Rightarrow> world \<Rightarrow> world" where
  "alarm_task E gen rounds w =
     (let w1 = snd (sendCommand E ''scooter:blinker'' ''both'' w);
          w2 = alarm_loop E rounds w1;
          w3 = snd (sendCommand E ''scooter:horn'' ''off'' w2);
          w4 = snd (sendCommand E ''scooter:blinker'' ''off'' w3)
      in clearAlarm gen w4)"

section \<open>Navigation\<close>

definition routePlanChannel :: string where
  "routePlanChannel = ''settings:route-plan''"

text \<open>
  The number under the first of the keys that has one.  JSON numbers arrive as floats; integers
  occur in values built in Go.
\<close>

definition number_of :: "golib \<Rightarrow> any \<Rightarrow> f64 option" where
  "number_of L v =
     (case v of
        AFloat x \<Rightarrow> Some x
      | AInt n \<Rightarrow> Some (f64_of_int n)
      | AStr s \<Rightarrow> lib_ParseFloat L (TrimSpace s)
      | _ \<Rightarrow> None)"

fun firstNumber :: "golib \<Rightarrow> obj \<Rightarrow> string list \<Rightarrow> f64 option" where
  "firstNumber L m [] = None"
| "firstNumber L m (key # keys) =
     (case number_of L (gm_any m key) of Some f \<Rightarrow> Some f | None \<Rightarrow> firstNumber L m keys)"

definition waypoint :: "golib \<Rightarrow> any \<Rightarrow> routeStop option" where
  "waypoint L entry =
     (case as_obj entry of
        None \<Rightarrow> None
      | Some m \<Rightarrow>
          (case (firstNumber L m [''latitude'', ''lat''], firstNumber L m [''longitude'', ''lon'']) of
             (Some la, Some lo) \<Rightarrow>
               (let label0 = str_or_empty (gm_any m ''label'');
                    label = (if label0 = '''' then str_or_empty (gm_any m ''name'') else label0)
                in Some \<lparr>stop_Lat = la, stop_Lon = lo, stop_Label = label\<rparr>)
           | _ \<Rightarrow> None))"

definition buildWaypoints :: "golib \<Rightarrow> obj \<Rightarrow> routeStop list option" where
  "buildWaypoints L params =
     (case map_of params ''waypoints'' of
        None \<Rightarrow> None
      | Some raw \<Rightarrow>
          (case as_arr raw of
             None \<Rightarrow> None
           | Some entries \<Rightarrow>
               (let stops = List.map_filter (waypoint L) entries
                in if stops = [] then None else Some stops)))"

definition hasNavigationRouteCapability :: "string \<Rightarrow> bool" where
  "hasNavigationRouteCapability capabilities =
     (HasPrefix capabilities ''cap:ext:''
      \<and> ''nav=2'' \<in> set (Split (CHR '':'') (TrimPrefix capabilities ''cap:ext:'')))"

definition replace_plan :: "cenv \<Rightarrow> routeStop list \<Rightarrow> world \<Rightarrow> go_error option \<times> world" where
  "replace_plan E stops w =
     (case do_call E (CMethod routePlanChannel ''plan.replace'' stops) w of
        (r, w1) \<Rightarrow> (map_option (\<lambda>e. ''replace route plan: '' @ e) (rp_err r), w1))"

definition navigate :: "cenv \<Rightarrow> obj \<Rightarrow> world \<Rightarrow> go_error option \<times> world" where
  "navigate E params w =
     (let L = ce_lib E;
          addr = str_or_empty (gm_any params ''address'')
      in case buildWaypoints L params of
           None \<Rightarrow>
             if gm_has params ''waypoints'' then (Some ''invalid route waypoints'', w)
             else if gm_any params ''latitude'' = ANil \<and> gm_any params ''longitude'' = ANil \<and> addr = ''''
             then (case do_call E (CMethod routePlanChannel ''plan.clear'' []) w of
                     (r, w1) \<Rightarrow> (map_option (\<lambda>e. ''clear route plan: '' @ e) (rp_err r), w1))
             else (case (firstNumber L params [''latitude''], firstNumber L params [''longitude'']) of
                 (Some lat, Some lon) \<Rightarrow>
                   replace_plan E [\<lparr>stop_Lat = lat, stop_Lon = lon, stop_Label = addr\<rparr>] w
               | _ \<Rightarrow> (Some ''navigate requires both latitude and longitude'', w))
         | Some stops \<Rightarrow>
             (case do_call E (CHGet ''system'' ''capabilities'') w of
                (r, w1) \<Rightarrow>
                  if rp_err r \<noteq> None \<or> \<not> hasNavigationRouteCapability (rp_str r)
                  then (Some ''scooter does not advertise multi-stop routes'', w1)
                  else replace_plan E stops w1))"

section \<open>The diagnostic Redis command\<close>

definition toStringSlice :: "golib \<Rightarrow> any \<Rightarrow> string list" where
  "toStringSlice L v = (case as_arr v of None \<Rightarrow> [] | Some raw \<Rightarrow> map (Sprint L) raw)"

definition redisCommand :: "cenv \<Rightarrow> obj \<Rightarrow> world \<Rightarrow> outcome" where
  "redisCommand E params w =
     (let opn = str_or_empty (gm_any params ''command'');
          args = toStringSlice (ce_lib E) (gm_any params ''args'')
      in if (opn = ''set'' \<or> opn = ''hset'') \<and> args \<noteq> [] \<and> args ! 0 = ''navigation''
            \<or> opn = ''del'' \<and> ''navigation'' \<in> set args
         then fails ''navigation is owned by settings-service'' w
         else if opn = ''get'' then
           if length args < 1 then fails ''get requires a key'' w
           else (case do_call E (CGet (args ! 0)) w of
                   (r, w1) \<Rightarrow> answers [(''value'', AStr (rp_str r))] (rp_err r) w1)
         else if opn = ''set'' then
           if length args < 2 then fails ''set requires key and value'' w
           else (case do_call E (CSet (args ! 0) (args ! 1)) w of (r, w1) \<Rightarrow> returns (rp_err r, w1))
         else if opn = ''hget'' then
           if length args < 2 then fails ''hget requires key and field'' w
           else (case do_call E (CHGet (args ! 0) (args ! 1)) w of
                   (r, w1) \<Rightarrow> answers [(''value'', AStr (rp_str r))] (rp_err r) w1)
         else if opn = ''hset'' then
           if length args < 3 then fails ''hset requires key, field and value'' w
           else (case do_call E (CHSet (args ! 0) (args ! 1) (args ! 2)) w of
                   (r, w1) \<Rightarrow> returns (rp_err r, w1))
         else if opn = ''hgetall'' then
           if length args < 1 then fails ''hgetall requires a key'' w
           else (case do_call E (CHGetAll (args ! 0)) w of
                   (r, w1) \<Rightarrow>
                     answers [(''value'', AObj (map (\<lambda>(k, v). (k, AStr v)) (rp_map r)))] (rp_err r) w1)
         else if opn = ''del'' then
           if length args < 1 then fails ''del requires a key'' w
           else (case do_call E (CDel args) w of
                   (r, w1) \<Rightarrow> answers [(''deleted'', AInt (rp_int r))] (rp_err r) w1)
         else if opn = ''lpush'' then
           if length args < 2 then fails ''lpush requires key and value'' w
           else (case do_call E (CLPush (args ! 0) (args ! 1)) w of
                   (r, w1) \<Rightarrow> answers [(''length'', AInt (rp_int r))] (rp_err r) w1)
         else if opn = ''publish'' then
           if length args < 2 then fails ''publish requires channel and message'' w
           else (case do_call E (CPublish (args ! 0) (args ! 1)) w of
                   (r, w1) \<Rightarrow> answers [(''receivers'', AInt (rp_int r))] (rp_err r) w1)
         else fails (''unsupported redis op: '' @ lib_Quote (ce_lib E) opn) w)"

section \<open>Updates and trips\<close>

definition dedup_step :: "string \<Rightarrow> string list \<Rightarrow> string list" where
  "dedup_step t acc = (if t \<in> set acc then acc else acc @ [t])"

fun check_targets :: "golib \<Rightarrow> string list \<Rightarrow> string list \<Rightarrow> go_error + string list" where
  "check_targets L acc [] = Inr acc"
| "check_targets L acc (t # ts) =
     (if t \<noteq> ''mdb'' \<and> t \<noteq> ''dbc''
      then Inl (''invalid target '' @ lib_Quote L t @ '' (want mdb or dbc)'')
      else check_targets L (dedup_step t acc) ts)"

definition resolveUpdateTargets :: "golib \<Rightarrow> string list \<Rightarrow> bool \<Rightarrow> go_error + string list" where
  "resolveUpdateTargets L requested orchestrateDBC =
     (case check_targets L [] (if requested = [] then [''mdb'', ''dbc''] else requested) of
        Inl e \<Rightarrow> Inl e
      | Inr acc \<Rightarrow> Inr (if orchestrateDBC \<and> length acc = 2 then [''mdb''] else acc))"

definition dbcOrchestrationEnabled :: "cenv \<Rightarrow> world \<Rightarrow> bool \<times> world" where
  "dbcOrchestrationEnabled E w =
     (case do_call E (CHGet ''settings'' ''updates.mdb.orchestrate-dbc'') w of
        (r, w1) \<Rightarrow> (if rp_err r \<noteq> None \<or> rp_str r = '''' then True else rp_str r = ''true'', w1))"

fun queue_checks :: "cenv \<Rightarrow> string list \<Rightarrow> world \<Rightarrow> go_error option \<times> world" where
  "queue_checks E [] w = (None, w)"
| "queue_checks E (target # ts) w =
     (case sendCommand E (''scooter:update:'' @ target) ''check-now'' w of
        (Some e, w1) \<Rightarrow> (Some e, w1)
      | (None, w1) \<Rightarrow> queue_checks E ts w1)"

definition requested_targets :: "golib \<Rightarrow> obj \<Rightarrow> string list" where
  "requested_targets L params =
     (case as_arr (gm_any params ''targets'') of
        Some raw \<Rightarrow> map (Sprint L) raw
      | None \<Rightarrow>
          (case as_str (gm_any params ''target'') of
             Some t \<Rightarrow> if t \<noteq> '''' then [t] else []
           | None \<Rightarrow> []))"

definition updateCheck :: "cenv \<Rightarrow> obj \<Rightarrow> world \<Rightarrow> outcome" where
  "updateCheck E params w =
     (case dbcOrchestrationEnabled E w of
        (orch, w1) \<Rightarrow>
          (case resolveUpdateTargets (ce_lib E) (requested_targets (ce_lib E) params) orch of
             Inl e \<Rightarrow> fails e w1
           | Inr queued \<Rightarrow>
               (case queue_checks E queued w1 of
                  (Some e, w2) \<Rightarrow> fails e w2
                | (None, w2) \<Rightarrow> answers [(''targets'', AArr (map AStr queued))] None w2)))"

text \<open>The JSON text of a \<^verbatim>\<open>tripCounterCommand\<close>; no field needs escaping.\<close>

definition trip_payload :: "string \<Rightarrow> int \<Rightarrow> string" where
  "trip_payload ident expires =
     ''{'' @ [CHR 0x22] @ ''id'' @ [CHR 0x22] @ '':'' @ [CHR 0x22] @ ident @ [CHR 0x22] @
     '','' @ [CHR 0x22] @ ''op'' @ [CHR 0x22] @ '':'' @ [CHR 0x22] @ ''counter.reset'' @ [CHR 0x22] @
     '','' @ [CHR 0x22] @ ''source'' @ [CHR 0x22] @ '':'' @ [CHR 0x22] @ ''uplink'' @ [CHR 0x22] @
     '','' @ [CHR 0x22] @ ''expires-at'' @ [CHR 0x22] @ '':'' @ show_int expires @ ''}''"

definition tripReset :: "cenv \<Rightarrow> world \<Rightarrow> outcome" where
  "tripReset E w =
     (case ce_rand E of
        Inl e \<Rightarrow> fails e w
      | Inr buf \<Rightarrow>
          (let ident = hex_encode buf
           in case sendCommand E ''scooter:trip''
                     (trip_payload ident (UnixMilli (ce_now E + 30 * Second))) w of
                (Some e, w1) \<Rightarrow> fails e w1
              | (None, w1) \<Rightarrow> answers [(''id'', AStr ident)] None w1))"

section \<open>Configuration\<close>

definition configGet :: "cenv \<Rightarrow> obj \<Rightarrow> world \<Rightarrow> outcome" where
  "configGet E params w =
     (let field = str_or_empty (gm_any params ''field'')
      in if field \<noteq> '''' then
           (case GetField (ce_lib E) (ce_mutex E) (w_cfg w) field of
              RErr e \<Rightarrow> fails e w
            | RPanic \<Rightarrow> (None, w)
            | ROk v \<Rightarrow> answers [(''field'', AStr field), (''value'', v)] None w)
         else (case RawYAML (ce_source E) (w_cfg w) of
             Inl e \<Rightarrow> fails e w
           | Inr raw \<Rightarrow> answers [(''config_yaml'', AStr raw)] None w))"

definition configSet :: "cenv \<Rightarrow> obj \<Rightarrow> world \<Rightarrow> outcome" where
  "configSet E params w =
     (let field = str_or_empty (gm_any params ''field'')
      in if field = '''' then fails ''field is required'' w
         else let value = Sprint (ce_lib E) (gm_any params ''value'')
              in case SetField (ce_lib E) (ce_mutex E) (w_cfg w) field value of
                   RErr e \<Rightarrow> fails e w
                 | RPanic \<Rightarrow> (None, w)
                 | ROk c \<Rightarrow> answers [(''field'', AStr field), (''value'', AStr value)] None (w\<lparr>w_cfg := c\<rparr>))"

definition configDel :: "cenv \<Rightarrow> obj \<Rightarrow> world \<Rightarrow> outcome" where
  "configDel E params w =
     (let field = str_or_empty (gm_any params ''field'')
      in if field = '''' then fails ''field is required'' w
         else (case DeleteField (ce_lib E) (ce_mutex E) (w_cfg w) field of
             RErr e \<Rightarrow> fails e w
           | RPanic \<Rightarrow> (None, w)
           | ROk c \<Rightarrow> returns (None, w\<lparr>w_cfg := c\<rparr>)))"

definition configSave :: "cenv \<Rightarrow> world \<Rightarrow> go_error option \<times> world" where
  "configSave E w = (case ce_save E (w_cfg w) (w_files w) of (e, fs) \<Rightarrow> (e, w\<lparr>w_files := fs\<rparr>))"

section \<open>Key cards\<close>

definition keycardCommandError :: "string \<Rightarrow> string \<Rightarrow> go_error option" where
  "keycardCommandError result code =
     (if code \<noteq> '''' then Some (''keycard command failed: '' @ result)
      else if result \<noteq> ''ok'' then Some (''unexpected keycard command response: '' @ result)
      else None)"

text \<open>What the watcher of the field \<^verbatim>\<open>command-result\<close> delivers, given what it read as the error code.\<close>

definition handleKeycardResult :: "go_error + string \<Rightarrow> string \<Rightarrow> keycard_wait" where
  "handleKeycardResult command_error result =
     (case command_error of Inl e \<Rightarrow> KReadError e | Inr code \<Rightarrow> KResult result code)"

text \<open>
  The pending flag is the handler's \<^verbatim>\<open>keycardResult\<close> being non-nil.  A delivered result has cleared
  it; a timeout or a cancelled context leaves it, so that the late answer is not taken for the
  answer of the next command.
\<close>

definition keycardCommand :: "cenv \<Rightarrow> string \<Rightarrow> world \<Rightarrow> go_error option \<times> world" where
  "keycardCommand E command w =
     (if \<not> ce_watcher E then (Some ''keycard result watcher is unavailable'', w)
      else if keycardPending w then (Some ''previous keycard command is still awaiting a response'', w)
      else case do_call E (CRequest ''scooter:keycard'' command) w of
        (r, w1) \<Rightarrow>
          (case rp_err r of
             Some e \<Rightarrow> (Some (''send keycard command: '' @ e), w1\<lparr>keycardPending := False\<rparr>)
           | None \<Rightarrow>
               (case ce_wait E of
                  KResult result code \<Rightarrow> (keycardCommandError result code, w1\<lparr>keycardPending := False\<rparr>)
                | KReadError e \<Rightarrow> (Some (''read keycard command error: '' @ e), w1\<lparr>keycardPending := False\<rparr>)
                | KTimeout \<Rightarrow>
                    (Some ''timed out waiting for keycard command response'', w1\<lparr>keycardPending := True\<rparr>)
                | KDone e \<Rightarrow> (Some e, w1\<lparr>keycardPending := True\<rparr>))))"

definition keycardsList :: "cenv \<Rightarrow> world \<Rightarrow> outcome" where
  "keycardsList E w =
     (case do_call E (CSMembers ''keycard:authorized'') w of
        (r, w1) \<Rightarrow>
          (case rp_err r of
             Some e \<Rightarrow> fails (''read authorized keycards: '' @ e) w1
           | None \<Rightarrow> answers [(''uids'', AArr (map AStr (sort (rp_list r))))] None w1))"

definition keycardsAdd :: "cenv \<Rightarrow> obj \<Rightarrow> world \<Rightarrow> go_error option \<times> world" where
  "keycardsAdd E params w =
     (let uid = str_or_empty (gm_any params ''uid'')
      in if uid = '''' then (Some ''uid is required'', w) else keycardCommand E (''add:'' @ uid) w)"

definition keycardsDelete :: "cenv \<Rightarrow> obj \<Rightarrow> world \<Rightarrow> go_error option \<times> world" where
  "keycardsDelete E params w =
     (let uid = str_or_empty (gm_any params ''uid'')
      in if uid = '''' then (Some ''uid is required'', w) else keycardCommand E (''remove:'' @ uid) w)"

definition keycardMasterGet :: "cenv \<Rightarrow> world \<Rightarrow> outcome" where
  "keycardMasterGet E w =
     (case do_call E (CSMembers ''keycard:masters'') w of
        (r, w1) \<Rightarrow>
          (case rp_err r of
             Some e \<Rightarrow> fails (''read master keycards: '' @ e) w1
           | None \<Rightarrow>
               answers [(''master'', AStr (case sort (rp_list r) of [] \<Rightarrow> '''' | m # _ \<Rightarrow> m))] None w1))"

definition keycardMasterSet :: "cenv \<Rightarrow> obj \<Rightarrow> world \<Rightarrow> go_error option \<times> world" where
  "keycardMasterSet E params w =
     (let uid = str_or_empty (gm_any params ''uid'')
      in if TrimSpace uid = '''' then (Some ''uid is required'', w)
         else keycardCommand E (''set-master:'' @ uid) w)"

section \<open>Dispatch\<close>

definition sendStateSnapshot :: "cenv \<Rightarrow> world \<Rightarrow> go_error option \<times> world" where
  "sendStateSnapshot E w =
     (case ce_collect E of
        Inl e \<Rightarrow> (Some (''failed to collect state: '' @ e), w)
      | Inr state \<Rightarrow>
          (case SendState (ce_stamp E) state (w_mgr w) of
             (e, m) \<Rightarrow> (map_option (\<lambda>e. ''failed to send state: '' @ e) e, w\<lparr>w_mgr := m\<rparr>)))"

definition restart :: "world \<Rightarrow> world" where
  "restart w = spawn_task RestartTask w"

text \<open>The commands that put one fixed request on one queue.\<close>

definition queue_commands :: "(string, string \<times> string) go_map" where
  "queue_commands =
     [(''unlock'', (''scooter:state'', ''unlock'')),
      (''lock'', (''scooter:state'', ''lock'')),
      (''lock_hibernate'', (''scooter:state'', ''lock-hibernate'')),
      (''force_lock'', (''scooter:state'', ''force-lock'')),
      (''open_seatbox'', (''scooter:seatbox'', ''open'')),
      (''blinker_left'', (''scooter:blinker'', ''left'')),
      (''blinker_right'', (''scooter:blinker'', ''right'')),
      (''blinker_both'', (''scooter:blinker'', ''both'')),
      (''blinker_off'', (''scooter:blinker'', ''off'')),
      (''dashboard_on'', (''scooter:hardware'', ''dashboard:on'')),
      (''dashboard_off'', (''scooter:hardware'', ''dashboard:off'')),
      (''engine_on'', (''scooter:hardware'', ''engine:on'')),
      (''engine_off'', (''scooter:hardware'', ''engine:off'')),
      (''handlebar_lock'', (''scooter:hardware'', ''handlebar:lock'')),
      (''handlebar_unlock'', (''scooter:hardware'', ''handlebar:unlock'')),
      (''reboot'', (''scooter:power'', ''reboot'')),
      (''hibernate'', (''scooter:power'', ''hibernate'')),
      (''hibernate_manual'', (''scooter:power'', ''hibernate-manual'')),
      (''alarm_arm'', (''scooter:alarm'', ''arm'')),
      (''alarm_disarm'', (''scooter:alarm'', ''disarm'')),
      (''alarm_enable'', (''scooter:alarm'', ''enable'')),
      (''alarm_disable'', (''scooter:alarm'', ''disable'')),
      (''alarm_stop'', (''scooter:alarm'', ''stop''))]"

definition dispatch :: "cenv \<Rightarrow> CommandMessage \<Rightarrow> world \<Rightarrow> outcome" where
  "dispatch E cmd w =
     (let c = cmd_Command cmd; params = cmd_Params cmd
      in case map_of queue_commands c of
           Some (queue, req) \<Rightarrow> returns (sendCommand E queue req w)
         | None \<Rightarrow>
             if c = ''honk'' then returns (honk E params w)
             else if c = ''locate'' then returns (locate E w)
             else if c = ''trip_reset'' then tripReset E w
             else if c = ''update_check'' then updateCheck E params w
             else if c = ''alarm'' then returns (alarmPulse params w)
             else if c = ''navigate'' then returns (navigate E params w)
             else if c = ''redis'' then redisCommand E params w
             else if c = ''config:get'' then configGet E params w
             else if c = ''config:set'' then configSet E params w
             else if c = ''config:del'' then configDel E params w
             else if c = ''config:save'' then returns (configSave E w)
             else if c = ''keycards:list'' then keycardsList E w
             else if c = ''keycards:add'' then returns (keycardsAdd E params w)
             else if c = ''keycards:delete'' then returns (keycardsDelete E params w)
             else if c = ''keycards:master_key:get'' then keycardMasterGet E w
             else if c = ''keycards:master_key:set'' then returns (keycardMasterSet E params w)
             else if c = ''restart'' then returns (None, restart w)
             else if c = ''get_state'' then returns (sendStateSnapshot E w)
             else if c = ''ping'' then returns (None, w)
             else fails (''unknown command: '' @ c) w)"

definition sendResponse :: "cenv \<Rightarrow> string \<Rightarrow> obj option \<Rightarrow> go_error option \<Rightarrow> world \<Rightarrow> world" where
  "sendResponse E requestID result err w =
     (let resp = \<lparr>resp_RequestID = requestID,
                  resp_Status = (if err \<noteq> None then ''failed'' else ''success''),
                  resp_Result = result,
                  resp_Error = (case err of None \<Rightarrow> '''' | Some e \<Rightarrow> e),
                  resp_Timestamp = ce_stamp E\<rparr>
      in w\<lparr>w_mgr := snd (SendCommandResponse resp (w_mgr w))\<rparr>)"

text \<open>\<open>None\<close> is a panic, which ends the process.\<close>

definition executeCommand :: "cenv \<Rightarrow> CommandMessage \<Rightarrow> world \<Rightarrow> world option" where
  "executeCommand E cmd w =
     (if cmd_Command cmd \<noteq> ''ping'' \<and> cmd_Command cmd \<noteq> ''get_state''
         \<and> CommandDisabled (w_cfg w) (cmd_Command cmd)
      then Some (sendResponse E (cmd_RequestID cmd) None (Some ''command disabled in config'') w)
      else if cmd_Command cmd = ''shell'' \<and> \<not> IsDevelopment (w_cfg w)
      then Some (sendResponse E (cmd_RequestID cmd) None
                   (Some ''command not allowed in this environment'') w)
      else (case dispatch E cmd w of
          (None, w1) \<Rightarrow> None
        | (Some (result, err), w1) \<Rightarrow> Some (sendResponse E (cmd_RequestID cmd) result err w1)))"

definition applyConfigUpdate :: "cenv \<Rightarrow> ConfigUpdateMessage \<Rightarrow> world \<Rightarrow> world" where
  "applyConfigUpdate E upd w =
     (let c = snd (ApplyDeltas (ce_lib E) (ce_mutex E) (upd_Deltas upd) (w_cfg w));
          w1 = snd (configSave E (w\<lparr>w_cfg := c\<rparr>))
      in if upd_Restart upd then restart w1 else w1)"

section \<open>Frames\<close>

lemmas outcome_defs = fails_def returns_def answers_def

lemma do_call_simps [simp]:
  "fst (do_call E c w) = ce_redis E (calls w) c"
  "snd (do_call E c w) = w\<lparr>calls := calls w @ [c]\<rparr>"
  by (simp_all add: do_call_def)

lemma sendCommand_world [simp]: "snd (sendCommand E q r w) = w\<lparr>calls := calls w @ [CRequest q r]\<rparr>"
  by (simp add: sendCommand_def do_call_def)

lemma sendCommand_eq:
  "sendCommand E q r w =
     (map_option (\<lambda>e. ''failed to send command: '' @ e) (rp_err (ce_redis E (calls w) (CRequest q r))),
      w\<lparr>calls := calls w @ [CRequest q r]\<rparr>)"
  by (simp add: sendCommand_def do_call_def)

text \<open>What a handler may change besides the log of calls and the started tasks.\<close>

definition quiet :: "world \<Rightarrow> world \<Rightarrow> bool" where
  "quiet w w' = (w_mgr w' = w_mgr w \<and> (\<exists>cs. calls w' = calls w @ cs))"

lemma quiet_refl [simp]: "quiet w w"
  by (simp add: quiet_def)

lemma quiet_trans: "quiet w1 w2 \<Longrightarrow> quiet w2 w3 \<Longrightarrow> quiet w1 w3"
  by (auto simp: quiet_def)

lemma quiet_call [simp]: "quiet w (w\<lparr>calls := calls w @ cs\<rparr>)"
  by (simp add: quiet_def)

lemma quiet_sendCommand: "quiet w (snd (sendCommand E q r w))"
  by simp

lemma quiet_honk: "quiet w (snd (honk E params w))"
  by (simp add: honk_def sendCommand_eq quiet_def spawn_task_def split: option.splits)

lemma quiet_locate: "quiet w (snd (locate E w))"
  by (simp add: locate_def sendCommand_eq quiet_def spawn_task_def Let_def split: option.splits)

lemma quiet_alarmPulse: "quiet w (snd (alarmPulse params w))"
  by (simp add: alarmPulse_def stopAlarm_def startAlarm_def quiet_def spawn_task_def Let_def
      split: option.splits)

lemma quiet_replace_plan: "quiet w (snd (replace_plan E stops w))"
  by (simp add: replace_plan_def do_call_def)

lemma quiet_navigate: "quiet w (snd (navigate E params w))"
  unfolding navigate_def Let_def
  by (auto simp: do_call_def quiet_replace_plan split: option.splits
      intro: quiet_trans [OF quiet_call quiet_replace_plan])

lemma quiet_redis: "quiet w (snd (redisCommand E params w))"
  by (simp add: redisCommand_def outcome_defs do_call_def Let_def)

lemma quiet_queue_checks: "quiet w (snd (queue_checks E ts w))"
proof (induction ts arbitrary: w)
  case (Cons t ts)
  show ?case
    using quiet_trans [OF quiet_call Cons.IH] by (auto simp: sendCommand_eq split: option.splits)
qed simp

lemma quiet_updateCheck: "quiet w (snd (updateCheck E params w))"
proof -
  have "quiet w (snd (queue_checks E q (w\<lparr>calls := calls w @ cs\<rparr>)))" for q cs
    by (rule quiet_trans [OF quiet_call quiet_queue_checks])
  then show ?thesis
    by (auto simp: updateCheck_def dbcOrchestrationEnabled_def do_call_def outcome_defs
        split: prod.splits sum.splits option.splits) (metis snd_conv)+
qed

lemma quiet_tripReset: "quiet w (snd (tripReset E w))"
  by (simp add: tripReset_def outcome_defs sendCommand_eq Let_def split: sum.splits option.splits)

lemma quiet_config:
  "quiet w (snd (configGet E params w))" "quiet w (snd (configSet E params w))"
  "quiet w (snd (configDel E params w))" "quiet w (snd (configSave E w))"
  by (simp_all add: configGet_def configSet_def configDel_def configSave_def outcome_defs quiet_def Let_def
      split: rresult.splits sum.splits prod.splits)

lemma quiet_keycardCommand: "quiet w (snd (keycardCommand E c w))"
  by (simp add: keycardCommand_def do_call_def quiet_def split: option.splits keycard_wait.splits)

lemma quiet_keycards:
  "quiet w (snd (keycardsList E w))" "quiet w (snd (keycardsAdd E params w))"
  "quiet w (snd (keycardsDelete E params w))" "quiet w (snd (keycardMasterGet E w))"
  "quiet w (snd (keycardMasterSet E params w))"
  by (simp_all add: keycardsList_def keycardsAdd_def keycardsDelete_def keycardMasterGet_def
      keycardMasterSet_def outcome_defs do_call_def quiet_keycardCommand Let_def split: option.splits)

lemmas quiet_handlers =
  quiet_sendCommand quiet_honk quiet_locate quiet_alarmPulse quiet_navigate quiet_redis
  quiet_updateCheck quiet_tripReset quiet_config quiet_keycards

lemma snd_outcome [simp]:
  "snd (returns r) = snd r" "snd (fails e w) = w" "snd (answers m e' w) = w"
  by (simp_all add: outcome_defs)

lemma quiet_restart: "quiet w (restart w)"
  by (simp add: restart_def spawn_task_def quiet_def)

lemma dispatch_quiet:
  assumes "cmd_Command cmd \<noteq> ''get_state''"
  shows "quiet w (snd (dispatch E cmd w))"
proof (cases "map_of queue_commands (cmd_Command cmd)")
  case None
  then show ?thesis using assms by (simp add: dispatch_def Let_def quiet_handlers quiet_restart)
next
  case (Some qr)
  then show ?thesis by (cases qr) (simp add: dispatch_def Let_def)
qed

lemma dispatch_get_state:
  assumes "cmd_Command cmd = ''get_state''"
  shows "dispatch E cmd w = returns (sendStateSnapshot E w)"
  by (simp add: dispatch_def assms queue_commands_def)

section \<open>Responses\<close>

definition response :: "cenv \<Rightarrow> string \<Rightarrow> obj option \<Rightarrow> go_error option \<Rightarrow> message" where
  "response E requestID result err =
     CommandResponseMessage
       \<lparr>resp_RequestID = requestID, resp_Status = (if err \<noteq> None then ''failed'' else ''success''),
        resp_Result = result, resp_Error = (case err of None \<Rightarrow> '''' | Some e \<Rightarrow> e),
        resp_Timestamp = ce_stamp E\<rparr>"

lemma sendResponse_mgr:
  "IsConnected (w_mgr w) \<Longrightarrow> length (sendChan (w_mgr w)) < sendCap \<Longrightarrow>
   marshal_ok (response E rid result err) \<Longrightarrow>
   sendChan (w_mgr (sendResponse E rid result err w)) = sendChan (w_mgr w) @ [response E rid result err]"
  using mgr_resp.send_outbox [of "\<lparr>resp_RequestID = rid, resp_Status = (if err \<noteq> None then ''failed'' else ''success''),
        resp_Result = result, resp_Error = (case err of None \<Rightarrow> '''' | Some e \<Rightarrow> e),
        resp_Timestamp = ce_stamp E\<rparr>" "w_mgr w"]
    mgr_resp.send_progress [of "w_mgr w" "\<lparr>resp_RequestID = rid,
        resp_Status = (if err \<noteq> None then ''failed'' else ''success''),
        resp_Result = result, resp_Error = (case err of None \<Rightarrow> '''' | Some e \<Rightarrow> e),
        resp_Timestamp = ce_stamp E\<rparr>"]
  by (simp add: sendResponse_def response_def Let_def)

lemma sendResponse_world: "sendResponse E rid result err w = w\<lparr>w_mgr := w_mgr (sendResponse E rid result err w)\<rparr>"
  by (simp add: sendResponse_def Let_def)

text \<open>At most the response is added to the outbox, and nothing else.\<close>

lemma sendResponse_outbox:
  "sendChan (w_mgr (sendResponse E rid result err w)) = sendChan (w_mgr w)
   \<or> sendChan (w_mgr (sendResponse E rid result err w)) = sendChan (w_mgr w) @ [response E rid result err]"
  using mgr_resp.send_outbox [of "\<lparr>resp_RequestID = rid, resp_Status = (if err \<noteq> None then ''failed'' else ''success''),
        resp_Result = result, resp_Error = (case err of None \<Rightarrow> '''' | Some e \<Rightarrow> e),
        resp_Timestamp = ce_stamp E\<rparr>" "w_mgr w"]
  by (simp add: sendResponse_def response_def Let_def split: if_splits)

section \<open>Panics\<close>

lemma SetField_no_panic: "SetField L mutex c path v \<noteq> RPanic"
  by (simp add: SetField_def split: sum.splits)

lemma DeleteField_no_panic: "DeleteField L mutex c path \<noteq> RPanic"
  by (simp add: DeleteField_def split: sum.splits)

lemma fst_outcome [simp]:
  "fst (returns r) \<noteq> None" "fst (fails e w) \<noteq> None" "fst (answers m e' w) \<noteq> None"
  by (simp_all add: outcome_defs)

lemma no_panic_handlers:
  "fst (tripReset E w) \<noteq> None" "fst (updateCheck E params w) \<noteq> None" "fst (redisCommand E params w) \<noteq> None"
  "fst (configSet E params w) \<noteq> None" "fst (configDel E params w) \<noteq> None"
  "fst (keycardsList E w) \<noteq> None" "fst (keycardMasterGet E w) \<noteq> None"
  by (simp_all add: tripReset_def updateCheck_def redisCommand_def configSet_def configDel_def
      keycardsList_def keycardMasterGet_def Let_def outcome_defs SetField_no_panic DeleteField_no_panic
      split: sum.splits prod.splits option.splits rresult.splits)

lemma dispatch_panic:
  assumes "fst (dispatch E cmd w) = None"
  shows "cmd_Command cmd = ''config:get''
    \<and> GetField (ce_lib E) (ce_mutex E) (w_cfg w) (str_or_empty (gm_any (cmd_Params cmd) ''field'')) = RPanic"
proof (cases "map_of queue_commands (cmd_Command cmd)")
  case None
  then have "cmd_Command cmd = ''config:get''"
    using assms
    by (simp add: dispatch_def Let_def no_panic_handlers del: not_None_eq split: if_splits)
  then show ?thesis
    using assms None
    by (auto simp: dispatch_def configGet_def Let_def split: if_splits sum.splits rresult.splits)
next
  case (Some qr)
  then show ?thesis using assms by (cases qr) (simp add: dispatch_def Let_def)
qed

text \<open>The private mutex answers to the name \<^verbatim>\<open>savemu\<close>.\<close>

lemma GetField_savemu: "GetField L mutex c ''savemu'' = RPanic"
  by (simp add: GetField_def splitPath_def root_value_def reflect_of_def resolve_seg_def tag_name_def
      to_lower_def upper_def exported_def, code_simp)

section \<open>The navigation hash\<close>

fun writes_navigation :: "call \<Rightarrow> bool" where
  "writes_navigation (CSet k v) = (k = ''navigation'')"
| "writes_navigation (CHSet k f v) = (k = ''navigation'')"
| "writes_navigation (CDel ks) = (''navigation'' \<in> set ks)"
| "writes_navigation _ = False"

lemma redisCommand_calls:
  "\<exists>cs. calls (snd (redisCommand E params w)) = calls w @ cs \<and> length cs \<le> 1
        \<and> (\<forall>c \<in> set cs. \<not> writes_navigation c)"
  by (auto simp: redisCommand_def do_call_def Let_def intro: exI [of _ "[]"])

section \<open>Update targets\<close>

lemma check_targets_ok:
  "check_targets L acc ts = Inr r \<Longrightarrow> set r = set acc \<union> set ts \<and> set ts \<subseteq> {''mdb'', ''dbc''}
   \<and> (distinct acc \<longrightarrow> distinct r)"
  by (induction ts arbitrary: acc) (auto simp: dedup_step_def split: if_splits)

lemma check_targets_err: "(\<exists>e. check_targets L acc ts = Inl e) \<longleftrightarrow> \<not> set ts \<subseteq> {''mdb'', ''dbc''}"
  by (induction ts arbitrary: acc) auto

section \<open>Horn and blinkers\<close>

definition last_request :: "string \<Rightarrow> call list \<Rightarrow> string option" where
  "last_request queue cs =
     (case filter (\<lambda>c. case c of CRequest q r \<Rightarrow> q = queue | _ \<Rightarrow> False) (rev cs) of
        CRequest q r # _ \<Rightarrow> Some r
      | _ \<Rightarrow> None)"

lemma last_request_snoc [simp]:
  "last_request queue (cs @ [CRequest q r]) = (if q = queue then Some r else last_request queue cs)"
  by (simp add: last_request_def)

lemma alarm_task_calls:
  "\<exists>cs. calls (alarm_task E gen rounds w) = calls w @ cs @ [horn_off, blinker_off]"
proof -
  have loop: "\<exists>cs. calls (alarm_loop E rounds w) = calls w @ cs" for w
  proof (induction rounds arbitrary: w)
    case (Cons r rounds)
    obtain a b c where r: "r = (a, b, c)" by (metis prod.exhaust)
    show ?case
      using Cons.IH [of "w\<lparr>calls := calls w @ [CRequest ''scooter:horn'' ''on'', CRequest ''scooter:horn'' ''off'']\<rparr>"]
      by (auto simp: r Let_def)
  qed simp
  show ?thesis
    using loop [of "w\<lparr>calls := calls w @ [CRequest ''scooter:blinker'' ''both'']\<rparr>"]
    by (auto simp: alarm_task_def clearAlarm_def Let_def horn_off_def blinker_off_def)
qed

text \<open>Requests are accepted: no answer to a request is an error.\<close>

definition requests_ok :: "cenv \<Rightarrow> bool" where
  "requests_ok E = (\<forall>h q r. rp_err (ce_redis E h (CRequest q r)) = None)"

lemma locate_loop_horn:
  "requests_ok E \<Longrightarrow> last_request ''scooter:horn'' (calls w) \<noteq> Some ''on'' \<Longrightarrow>
   last_request ''scooter:horn'' (calls (locate_loop E slept n k w)) \<noteq> Some ''on''"
proof (induction n arbitrary: k w)
  case (Suc n)
  show ?case
    using Suc.IH [of "w\<lparr>calls := (calls w @ [CRequest ''scooter:horn'' ''on'']) @ [CRequest ''scooter:horn'' ''off'']\<rparr>" "Suc k"]
      Suc.prems(1) last_request_snoc [of "''scooter:horn''" "calls w @ [CRequest ''scooter:horn'' ''on'']" "''scooter:horn''" "''off''"]
    by (simp add: beep_def sendCommand_eq requests_ok_def del: last_request_snoc split: bool.splits)
qed simp

section \<open>Properties\<close>

text \<open>
  C28: Refused commands have no effect: a command disabled in the configuration (other than
  \<^verbatim>\<open>ping\<close> and \<^verbatim>\<open>get_state\<close>), and \<^verbatim>\<open>shell\<close> outside development, leave the world unchanged except for
  the failed response they put on the connection.
\<close>

theorem refused_command_inert:
  assumes "cmd_Command cmd \<noteq> ''ping'' \<and> cmd_Command cmd \<noteq> ''get_state'' \<and> CommandDisabled (w_cfg w) (cmd_Command cmd)
    \<or> cmd_Command cmd = ''shell'' \<and> \<not> IsDevelopment (w_cfg w)"
  shows "\<exists>e m. executeCommand E cmd w = Some (w\<lparr>w_mgr := m\<rparr>)
    \<and> (sendChan m = sendChan (w_mgr w)
       \<or> sendChan m = sendChan (w_mgr w) @ [response E (cmd_RequestID cmd) None (Some e)])"
proof -
  have "executeCommand E cmd w
        = Some (sendResponse E (cmd_RequestID cmd) None (Some ''command disabled in config'') w)
      \<or> executeCommand E cmd w
        = Some (sendResponse E (cmd_RequestID cmd) None (Some ''command not allowed in this environment'') w)"
    using assms by (auto simp: executeCommand_def)
  then obtain e where "executeCommand E cmd w = Some (sendResponse E (cmd_RequestID cmd) None (Some e) w)"
    by blast
  then show ?thesis
    using sendResponse_world [of E "cmd_RequestID cmd" None "Some e" w]
      sendResponse_outbox [of E "cmd_RequestID cmd" None "Some e" w] by (metis (no_types))
qed

text \<open>A configuration whose values are the zero values, and a world around it.\<close>

definition zero_cfg :: Config where
  "zero_cfg = config_of (RStruct [])"

definition sample_world :: "Config \<Rightarrow> world" where
  "sample_world c = \<lparr>calls = [], w_mgr = NewManager\<lparr>connected := True, authenticated := True\<rparr>, w_cfg = c,
     w_files = \<lparr>cf_source = None, cf_backup = None\<rparr>, alarmCancel = None, alarmGen = 0, cancelled = [],
     tasks = [], keycardPending = False\<rparr>"

definition sample_cmd :: "string \<Rightarrow> obj \<Rightarrow> CommandMessage" where
  "sample_cmd name params = \<lparr>cmd_RequestID = ''r1'', cmd_Command = name, cmd_Params = params\<rparr>"

theorem refused_command_inert_witness:
  "\<forall>E. \<exists>m. executeCommand E (sample_cmd ''shell'' []) (sample_world zero_cfg)
      = Some ((sample_world zero_cfg)\<lparr>w_mgr := m\<rparr>)"
proof
  fix E
  have "\<not> IsDevelopment (w_cfg (sample_world zero_cfg))"
    by (simp add: sample_world_def zero_cfg_def config_of_def IsDevelopment_def sfield_def)
  then show "\<exists>m. executeCommand E (sample_cmd ''shell'' []) (sample_world zero_cfg)
      = Some ((sample_world zero_cfg)\<lparr>w_mgr := m\<rparr>)"
    using refused_command_inert [of "sample_cmd ''shell'' []" "sample_world zero_cfg" E]
    by (auto simp: sample_cmd_def)
qed





text \<open>
  The diagnostic Redis command makes at most one call and never one that sets, updates or deletes
  the navigation hash, whatever its parameters are.
\<close>

theorem redis_never_writes_navigation:
  "\<exists>cs. calls (snd (redisCommand E params w)) = calls w @ cs \<and> length cs \<le> 1
        \<and> list_all (\<lambda>c. \<not> writes_navigation c) cs \<and> w_mgr (snd (redisCommand E params w)) = w_mgr w"
  using redisCommand_calls [of E params w] quiet_redis [of w E params] by (auto simp: quiet_def list_all_iff)


definition sample_cenv :: "golib \<Rightarrow> cenv" where
  "sample_cenv L = \<lparr>ce_redis = (\<lambda>h c. \<lparr>rp_err = None, rp_str = '''', rp_map = [], rp_int = 0, rp_list = []\<rparr>),
     ce_lib = L, ce_mutex = RStruct [], ce_collect = Inr [], ce_stamp = ''now'', ce_rand = Inr [1, 2], ce_now = 0,
     ce_source = Inr '''', ce_save = (\<lambda>c fs. (None, fs)), ce_watcher = True, ce_wait = KTimeout\<rparr>"


text \<open>
  The boards of an update check: the request fails exactly when it names something other than
  \<^verbatim>\<open>mdb\<close> and \<^verbatim>\<open>dbc\<close>; otherwise the queued boards are distinct, are the requested ones (both when none is
  named), and with orchestration a request for both is queued on the main board alone.
\<close>

theorem update_targets_correct:
  "((\<exists>e. resolveUpdateTargets L req orch = Inl e) \<longleftrightarrow> \<not> set req \<subseteq> {''mdb'', ''dbc''})
   \<and> (\<forall>r. resolveUpdateTargets L req orch = Inr r \<longrightarrow>
        distinct r \<and> r \<noteq> []
        \<and> set r = (let want = (if req = [] then {''mdb'', ''dbc''} else set req)
                   in if orch \<and> want = {''mdb'', ''dbc''} then {''mdb''} else want))"
proof -
  define rq where "rq = (if req = [] then [''mdb'', ''dbc''] else req)"
  define want where "want = (if req = [] then {''mdb'', ''dbc''} else set req)"
  have rq: "set rq = want" "rq \<noteq> []" by (simp_all add: rq_def want_def)
  have "want \<subseteq> {''mdb'', ''dbc''} \<longleftrightarrow> set req \<subseteq> {''mdb'', ''dbc''}" by (simp add: want_def)
  then have bad: "(\<exists>e. check_targets L [] rq = Inl e) \<longleftrightarrow> \<not> set req \<subseteq> {''mdb'', ''dbc''}"
    using check_targets_err [of L "[]" rq] rq(1) by blast
  have ok: "distinct r \<and> set r = want \<and> set r \<subseteq> {''mdb'', ''dbc''} \<and> r \<noteq> []"
    if "check_targets L [] rq = Inr r" for r
    using check_targets_ok [OF that] rq by (metis distinct.simps(1) set_empty sup_bot_left)
  have two: "length r = 2 \<longleftrightarrow> set r = {''mdb'', ''dbc''}"
    if "distinct r" "set r \<subseteq> {''mdb'', ''dbc''}" for r
  proof
    assume "length r = 2"
    then have "card (set r) = card {''mdb'', ''dbc''}" using that(1) by (simp add: distinct_card)
    then show "set r = {''mdb'', ''dbc''}" using that(2) by (intro card_subset_eq) auto
  next
    assume "set r = {''mdb'', ''dbc''}"
    then show "length r = 2" using distinct_card [OF that(1)] by simp
  qed
  have res: "resolveUpdateTargets L req orch = (case check_targets L [] rq of Inl e \<Rightarrow> Inl e
      | Inr r \<Rightarrow> Inr (if orch \<and> length r = 2 then [''mdb''] else r))"
    by (simp add: resolveUpdateTargets_def rq_def)
  show ?thesis
  proof (cases "check_targets L [] rq")
    case (Inl e)
    then show ?thesis using bad res by auto
  next
    case (Inr r)
    then show ?thesis
      using bad ok [OF Inr] two [of r] res by (auto simp: Let_def simp flip: want_def)
  qed
qed

theorem update_targets_correct_witness:
  "\<forall>L. set (projr (resolveUpdateTargets L [''dbc'', ''mdb'', ''dbc''] True)) = {''mdb''}"
  using update_targets_correct [of _ "[''dbc'', ''mdb'', ''dbc'']" True]
  by (auto simp: resolveUpdateTargets_def dedup_step_def)

text \<open>
  Numbers configured as YAML integers are not used: for every integer under
  \<^verbatim>\<open>commands.locate.params.honk_time\<close> the scooter is located with the built-in forty milliseconds,
  because only a value of type \<^verbatim>\<open>float64\<close> replaces the default.
\<close>

theorem integer_params_ignored:
  assumes "CommandParam (w_cfg w) ''locate'' ''honk_time'' (AInt 40) = AInt n" and "requests_ok E"
  shows "\<exists>gap burst. tasks (snd (locate E w)) = tasks w @ [LocateTask (millis (Fin 40)) gap burst]"
  using assms
  by (simp add: locate_def sendCommand_eq requests_ok_def spawn_task_def paramFloat_def Let_def)

definition honk_cfg :: "any \<Rightarrow> Config" where
  "honk_cfg v = zero_cfg\<lparr>Commands := [(''locate'', \<lparr>cc_Disabled = False, cc_Params = Some [(''honk_time'', v)]\<rparr>)]\<rparr>"

lemma honk_cfg_param: "CommandParam (honk_cfg v) ''locate'' ''honk_time'' def = v"
  by (simp add: CommandParam_def honk_cfg_def)

theorem integer_params_ignored_witness:
  "\<forall>L. \<exists>gap burst. tasks (snd (locate (sample_cenv L) (sample_world (honk_cfg (AInt 500)))))
     = [LocateTask (millis (Fin 40)) gap burst]"
proof
  fix L
  have "requests_ok (sample_cenv L)" by (simp add: requests_ok_def sample_cenv_def)
  moreover have "CommandParam (w_cfg (sample_world (honk_cfg (AInt 500)))) ''locate'' ''honk_time'' (AInt 40) = AInt 500"
    by (simp add: sample_world_def honk_cfg_param)
  ultimately show "\<exists>gap burst. tasks (snd (locate (sample_cenv L) (sample_world (honk_cfg (AInt 500)))))
     = [LocateTask (millis (Fin 40)) gap burst]"
    using integer_params_ignored [of "sample_world (honk_cfg (AInt 500))" 500 "sample_cenv L"]
    by (simp add: sample_world_def)
qed

end
