(* ===== verification/Service.thy ===== *)
theory Service
  imports Session Publisher Collector Commands
begin

text \<open>
  The wiring of \<^verbatim>\<open>cmd/uplink-service/main.go\<close>: the connection, the publisher with its buffer, the
  status call-back that forgets the baseline when the connection is lost, the interval ticker and
  the clock synchronisation.  \<open>service\<close> adds to a session the publisher and, as a ghost, what the
  server has made of the telemetry written on the wire so far.

  Shown: as long as the writer of a connection is alive, the server's picture plus the messages
  still queued is the publisher's baseline.  A \<^verbatim>\<open>get_state\<close> command breaks this, because it sends a
  state behind the publisher's back.
\<close>

section \<open>Small pieces of main\<close>

text \<open>The host and port of the Redis address; an unreadable port is the default one.\<close>

definition Contains_char :: "char \<Rightarrow> string \<Rightarrow> bool" where
  "Contains_char c s = (c \<in> set s)"

definition redis_address :: "golib \<Rightarrow> string \<Rightarrow> string \<times> int" where
  "redis_address L url =
     (if Contains_char (CHR '':'') url then
        (let parts = Split (CHR '':'') url
         in (parts ! 0, case ParseInt (lib_IntSize L) (parts ! 1) of Some p \<Rightarrow> p | None \<Rightarrow> 6379))
      else (url, 6379))"

text \<open>\<open>hget\<close> is the client's look-up, \<open>Inl\<close> its error.\<close>

definition telemetryInterval :: "golib \<Rightarrow> IntervalsConfig \<Rightarrow> (string \<Rightarrow> string \<Rightarrow> go_error + string) \<Rightarrow> duration" where
  "telemetryInterval L iv hget =
     (let state = (case hget ''vehicle'' ''state'' of Inl _ \<Rightarrow> '''' | Inr s \<Rightarrow> s);
          present = (hget ''battery:0'' ''present'' = Inr ''true'')
      in Interval L iv state present)"

text \<open>One round of \<open>intervalTicker\<close>: nothing happens without a connection.\<close>

definition interval_tick :: "('p \<Rightarrow> 's \<Rightarrow> 'p \<times> 's) \<Rightarrow> ('s \<Rightarrow> bool) \<Rightarrow> 'p \<Rightarrow> 's \<Rightarrow> 'p \<times> 's" where
  "interval_tick flush isconn p s = (if isconn s then flush p s else (p, s))"

text \<open>
  The background synchronisation: one attempt after each wait, the wait doubling while it is below
  five minutes, until an attempt succeeds.  The result is the clock and the waits.
\<close>

fun clock_sync :: "(go_error + (go_error option \<times> duration)) list \<Rightarrow> instant \<Rightarrow> duration \<Rightarrow> clock
    \<Rightarrow> duration list \<times> clock" where
  "clock_sync [] now backoff c = ([], c)"
| "clock_sync (reply # replies) now backoff c =
     (case SyncOnce reply now c of
        (Inr _, c') \<Rightarrow> ([backoff], c')
      | (Inl _, c') \<Rightarrow>
          (case clock_sync replies now (if backoff < 5 * Minute then backoff * 2 else backoff) c' of
             (ws, c'') \<Rightarrow> (backoff # ws, c'')))"

definition startClockSync :: "NTPConfig \<Rightarrow> (go_error + (go_error option \<times> duration)) list \<Rightarrow> instant \<Rightarrow> clock
    \<Rightarrow> duration list \<times> clock" where
  "startClockSync ntp replies now c =
     (if \<not> NTP_IsEnabled ntp then ([], c)
      else case replies of
        [] \<Rightarrow> ([], c)
      | first # later \<Rightarrow>
          (case SyncOnce first now c of
             (Inr _, c') \<Rightarrow> ([], c')
           | (Inl _, c') \<Rightarrow> clock_sync later now (10 * Second) c'))"

text \<open>The two hash fields that tell the rest of the vehicle whether the cloud is connected.\<close>

definition writeCloudStatus :: "bool \<Rightarrow> call list" where
  "writeCloudStatus up =
     (let status = (if up then ''connected'' else ''disconnected'')
      in [CHSet ''remote-access'' ''uplink-service'' status, CHSet ''internet'' ''unu-cloud'' status])"

text \<open>The state of the connection as \<open>statsLogger\<close> prints it.\<close>

definition stats_status :: "conn_stats \<Rightarrow> string" where
  "stats_status stats =
     (if st_connected stats then (if st_authenticated stats then ''auth'' else ''conn'') else ''disconnected'')"

text \<open>
  What the loop on the connected channel starts, in order.  \<open>firstConnection\<close> is its local flag and
  \<open>collected\<close> the collector's answer, which is only asked for on the first connection.
\<close>

datatype main_action =
    StartMonitor
  | StartEventDetector
  | InitializeBaselines obj
  | StartDrainLoop
  | PublishFull
  | ReplayEvents
  | FlushBuffer

definition on_connected :: "bool \<Rightarrow> go_error + obj \<Rightarrow> main_action list \<times> bool" where
  "on_connected firstConnection collected =
     (let watchers = (if firstConnection then [StartMonitor, StartEventDetector] else []);
          rest = [PublishFull, ReplayEvents, FlushBuffer]
      in if firstConnection then
           (case collected of
              Inl e \<Rightarrow> (watchers, firstConnection)
            | Inr state \<Rightarrow> (watchers @ [InitializeBaselines state, StartDrainLoop] @ rest, False))
         else (rest, firstConnection))"

section \<open>The service\<close>

record service =
  ses :: session
  pub :: publisher
  buf :: "items \<times> bstore"
  srv :: "string \<rightharpoonup> string"

fun mirror_wire :: "golib \<Rightarrow> wire_item list \<Rightarrow> (string \<rightharpoonup> string) \<Rightarrow> (string \<rightharpoonup> string)" where
  "mirror_wire L [] M = M"
| "mirror_wire L (Sent m # is) M = mirror_wire L is (mirror L m M)"
| "mirror_wire L (SentLive d # is) M = mirror_wire L is M"

definition telemetry_msg :: "message \<Rightarrow> bool" where
  "telemetry_msg m = (msg_type m = ''state'' \<or> msg_type m = ''telemetry_delta'')"

definition set_mgr :: "manager \<Rightarrow> service \<Rightarrow> service" where
  "set_mgr m v = v\<lparr>ses := (ses v)\<lparr>mgr := m\<rparr>\<rparr>"

text \<open>
  The publisher's own sends, the other goroutines (which queue no telemetry), a step of the
  connection that keeps it up, and the loss of the connection: the call-back resets the baseline,
  and what the server knows is anything, since the last messages may not have arrived.
\<close>

inductive service_step :: "golib \<Rightarrow> service \<Rightarrow> service \<Rightarrow> bool" for L where
  publish: "Publish IsConnected (SendState ts) (SendTelemetryDelta ts) (Some (Add enc io cfg clk)) L now snap ff
        (pub v) (buf v) (mgr (ses v)) = (err, p, b, m) \<Longrightarrow>
    service_step L v ((set_mgr m v)\<lparr>pub := p, buf := b\<rparr>)"
| background: "client_step (mgr (ses v)) m \<Longrightarrow> sendChan m = sendChan (mgr (ses v)) @ ms \<Longrightarrow>
    list_all (\<lambda>x. \<not> telemetry_msg x) ms \<Longrightarrow> service_step L v (set_mgr m v)"
| link_up: "link_step (ses v) s \<Longrightarrow> phase s \<noteq> Waiting \<Longrightarrow>
    M = (if phase (ses v) \<in> {Running, Stopping} then mirror_wire L (drop (length (wire (ses v))) (wire s)) (srv v)
         else srv v) \<Longrightarrow>
    service_step L v (v\<lparr>ses := s, srv := M\<rparr>)"
| link_down: "link_step (ses v) s \<Longrightarrow> phase s = Waiting \<Longrightarrow>
    service_step L v (v\<lparr>ses := s, pub := ResetBaseline (pub v), srv := M\<rparr>)"

inductive service_reachable :: "golib \<Rightarrow> service \<Rightarrow> bool" for L where
  started: "service_reachable L \<lparr>ses = init_session, pub = NewPublisher, buf = b, srv = M\<rparr>"
| later: "service_reachable L v \<Longrightarrow> service_step L v v' \<Longrightarrow> service_reachable L v'"

section \<open>The server follows the publisher\<close>

definition service_inv :: "golib \<Rightarrow> service \<Rightarrow> bool" where
  "service_inv L v =
     (session_inv (ses v)
      \<and> (phase (ses v) \<in> {Waiting, Dialed} \<longrightarrow> lastSentFlat (pub v) = None)
      \<and> (writer (ses v) \<longrightarrow> in_sync (mirror_all L (sendChan (mgr (ses v))) (srv v)) (pub v)))"

lemma mirror_other: "\<not> telemetry_msg m \<Longrightarrow> mirror L m M = M"
  by (cases m) (simp_all add: telemetry_msg_def)

lemma mirror_all_other: "list_all (\<lambda>x. \<not> telemetry_msg x) ms \<Longrightarrow> mirror_all L ms M = M"
  by (induction ms arbitrary: M) (auto simp: mirror_other)

lemma in_sync_None: "lastSentFlat p = None \<Longrightarrow> in_sync M p"
  by (simp add: in_sync_def)

lemma publish_manager:
  assumes "Publish IsConnected (SendState ts) (SendTelemetryDelta ts) addb L now snap ff p b m = (err, p', b', m')"
    and "in_sync M p"
  shows "\<exists>ms. sendChan m' = sendChan m @ ms \<and> length ms \<le> 1 \<and> in_sync (mirror_all L ms M) p'
    \<and> (err \<noteq> None \<longrightarrow> ms = [] \<and> m' = m)
    \<and> (err = None \<and> IsConnected m \<longrightarrow> mirror_all L ms M = map_of (published L snap p))
    \<and> (\<not> IsConnected m \<longrightarrow> err = None \<and> m' = m \<and> lastSentFlat p' = None)"
  using mgr_tel.publish_step [of ts addb L now snap ff p b m err p' b' m' M] assms by simp

lemma read_sendChan:
  "readLoop_iteration D now stop rd m = (out, m', handed) \<Longrightarrow> sendChan m' = sendChan m"
  by (auto simp: readLoop_iteration_def counter_defs Let_def split: if_splits option.splits)

lemma takeLive_sendChan: "sendChan (snd (takeLive m)) = sendChan m"
  by (simp add: takeLive_def Let_def split: option.splits prod.splits)

lemma writeLive_sendChan: "sendChan (fst (snd (writeLive call t1 t2 t3 werr f m))) = sendChan m"
  by (simp add: writeLive_def counter_defs split: option.splits)

lemma writeLoop_live_sendChan:
  assumes "writeLoop_live call t1 t2 t3 werr m = (out, m', w)"
  shows "sendChan m' = sendChan m"
proof (cases "liveWake m")
  case Nil
  then show ?thesis using assms by (simp add: writeLoop_live_def)
next
  case (Cons u ws)
  obtain fo m1 where t: "takeLive (m\<lparr>liveWake := ws\<rparr>) = (fo, m1)" by fastforce
  then have 1: "sendChan m1 = sendChan m" using takeLive_sendChan [of "m\<lparr>liveWake := ws\<rparr>"] by simp
  show ?thesis
  proof (cases fo)
    case None
    then show ?thesis using assms Cons t 1 by (simp add: writeLoop_live_def)
  next
    case (Some f)
    then have "m' = fst (snd (writeLive call t1 t2 t3 werr f m1))"
      using assms Cons t by (auto simp: writeLoop_live_def split: prod.splits bool.splits)
    then show ?thesis using writeLive_sendChan 1 by simp
  qed
qed

lemma keepalive_sendChan:
  "\<exists>ms. sendChan (keepaliveLoop_tick ts m) = sendChan m @ ms \<and> list_all (\<lambda>x. \<not> telemetry_msg x) ms"
  by (auto simp: keepaliveLoop_tick_def chan_try_def telemetry_msg_def split: option.splits
      intro: exI [of _ "[]"])

lemma writeLoop_send_cases:
  assumes "writeLoop_send encode werr m = (out, m', w)" and "conn m \<noteq> None" and "connected m"
  shows "out = Return \<or> sendChan m = w @ sendChan m'"
  using assms by (auto simp: writeLoop_send_def counter_defs Let_def split: list.splits option.splits)

lemma publish_client:
  assumes "Publish IsConnected (SendState ts) (SendTelemetryDelta ts) addb L now snap ff p b m = (err, p', b', m')"
  shows "m' = m \<or> client_step m m'"
proof -
  obtain sn p1 where sm: "smoothParkedGPS L snap p = (sn, p1)" by fastforce
  show ?thesis
    using assms client_step.intros(1) [of m ts sn] client_step.intros(3) [of m ts]
    by (auto simp: Publish_def sm Let_def split: if_splits prod.splits option.splits) (metis snd_conv)+
qed

lemma mirror_wire_sent: "mirror_wire L (map Sent ms) M = mirror_all L ms M"
  by (induction ms arbitrary: M) auto

lemma mirror_wire_live:
  "mirror_wire L (case w of None \<Rightarrow> [] | Some (c, data, dl) \<Rightarrow> [SentLive data]) M = M"
  by (auto split: option.splits)

lemma Running_connected:
  "session_inv s \<Longrightarrow> phase s \<in> {Running, Stopping} \<Longrightarrow> conn (mgr s) \<noteq> None \<and> connected (mgr s)"
  by (auto simp: session_inv_def phase_inv_def split: phase.splits)

lemma link_up_sync:
  assumes "link_step s t" and "phase t \<noteq> Waiting" and "session_inv s"
    and "phase s \<in> {Waiting, Dialed} \<longrightarrow> lastSentFlat p = None"
    and "writer s \<longrightarrow> in_sync (mirror_all L (sendChan (mgr s)) M) p"
    and "M' = (if phase s \<in> {Running, Stopping} then mirror_wire L (drop (length (wire s)) (wire t)) M else M)"
  shows "(phase t \<in> {Waiting, Dialed} \<longrightarrow> lastSentFlat p = None)
    \<and> (writer t \<longrightarrow> in_sync (mirror_all L (sendChan (mgr t)) M') p)"
  using assms
proof (induction rule: link_step.induct)
  case (dial_ok s c)
  then show ?case by (simp add: connect_dialed_def in_sync_None)
next
  case (auth_ok s encode version ident token ts wr rd parse m w now)
  then show ?case by (simp add: in_sync_None)
next
  case (read s D now rd out m handed)
  then show ?case using read_sendChan [OF read(2)] by auto
next
  case (write_queued s encode werr out m w)
  have "out = Return \<or> sendChan (mgr s) = w @ sendChan m"
    using writeLoop_send_cases [OF write_queued(3)] Running_connected write_queued(1,5) by blast
  then show ?case using write_queued by (auto simp: mirror_wire_sent)
next
  case (write_live s call t1 t2 t3 werr out m w)
  then show ?case using writeLoop_live_sendChan [OF write_live(3)] by (auto simp: mirror_wire_live)
next
  case (keepalive s ts)
  obtain ms where "sendChan (keepaliveLoop_tick ts (mgr s)) = sendChan (mgr s) @ ms"
      "list_all (\<lambda>x. \<not> telemetry_msg x) ms" using keepalive_sendChan by blast
  then show ?case using keepalive by (auto simp: mirror_all_other)
next
  case (cancelled s)
  then show ?case by simp
next
  case (drained s)
  then show ?case by simp
qed simp_all

lemma service_step_inv:
  assumes "service_step L v v'" and "service_inv L v"
  shows "service_inv L v'"
  using assms
proof (induction rule: service_step.induct)
  case (publish ts enc io cfg clk now snap ff v err p b m)
  have s: "session_inv ((ses v)\<lparr>mgr := m\<rparr>)"
    using publish_client [OF publish(1)] conn_step_inv [OF conn_step.client] publish(2)
    by (auto simp: service_inv_def)
  show ?case
  proof (cases "IsConnected (mgr (ses v))")
    case True
    then have ph: "phase (ses v) \<notin> {Waiting, Dialed}"
      using publish(2) by (auto simp: service_inv_def session_inv_def phase_inv_def IsConnected_def)
    have "in_sync (mirror_all L (sendChan m) (srv v)) p" if "writer (ses v)"
      using publish_manager [OF publish(1)] publish(2) that
      by (metis (no_types) mirror_all_simps(3) service_inv_def)
    then show ?thesis using ph s by (simp add: service_inv_def set_mgr_def)
  next
    case False
    have "in_sync M (pub v) \<Longrightarrow> lastSentFlat p = None" for M
      using publish_manager [OF publish(1)] False by blast
    moreover have "\<exists>M. in_sync M (pub v)"
      by (cases "lastSentFlat (pub v)") (auto simp: in_sync_def)
    ultimately show ?thesis using s by (auto simp: service_inv_def set_mgr_def in_sync_None)
  qed
next
  case (background v m ms)
  then show ?case
    using conn_step_inv [OF conn_step.client [OF background(1)]]
    by (simp add: service_inv_def set_mgr_def mirror_all_other)
next
  case (link_up v s M)
  then show ?case
    using link_up_sync [OF link_up(1,2), of "pub v" L "srv v" M] link_step_inv [OF link_up(1)]
    by (simp add: service_inv_def)
next
  case (link_down v s M)
  then show ?case
    using link_step_inv [OF link_down(1)]
    by (simp add: service_inv_def ResetBaseline_def in_sync_None)
qed

lemma service_reachable_inv: "service_reachable L v \<Longrightarrow> service_inv L v"
proof (induction rule: service_reachable.induct)
  case (started b M)
  then show ?case
    using init_session_inv by (simp add: service_inv_def NewPublisher_def in_sync_None init_session_def)
next
  case (later v v')
  then show ?case using service_step_inv by blast
qed

section \<open>A state sent behind the publisher's back\<close>

text \<open>A vehicle with one field besides its state.\<close>

definition probe :: "string \<Rightarrow> obj" where
  "probe x = [(''vehicle'', AObj [(''state'', AStr ''parked''), (''brake'', AStr x)])]"

lemma flatten_probe:
  "flattenState L (probe x) = [(''vehicle.state'', ''parked''), (''vehicle.brake'', x)]"
  by (simp add: flattenState_def probe_def)

lemma smooth_probe: "smoothParkedGPS L (probe x) p = (probe x, p)"
  by (simp add: smoothParkedGPS_def probe_def gm_any_def)

lemma stateOf_probe: "stateOf (probe x) = ''parked''"
  by (simp add: stateOf_def probe_def gm_any_def str_or_empty_def)

text \<open>
  The publisher last sent \<open>a\<close>; \<^verbatim>\<open>get_state\<close> reports \<open>b\<close>; then the field is \<open>a\<close> again.  The publisher
  sees no difference to its baseline and the server keeps \<open>b\<close>.
\<close>

definition desync_mgr :: manager where
  "desync_mgr = NewManager\<lparr>connected := True, authenticated := True,
                 sendChan := [StateMessage (probe ''a'') ''t0'']\<rparr>"

definition desync_pub :: publisher where
  "desync_pub = NewPublisher\<lparr>lastSentFlat := Some [(''vehicle.state'', ''parked''), (''vehicle.brake'', ''a'')],
                             lastVehicleState := ''parked''\<rparr>"

lemma desync_get_state:
  "sendStateSnapshot E w = (None, w\<lparr>w_mgr := incrementTelemetrySent
      (desync_mgr\<lparr>sendChan := [StateMessage (probe ''a'') ''t0'', StateMessage (probe ''b'') ''t1'']\<rparr>)\<rparr>)"
  if "ce_collect E = Inr (probe ''b'')" "ce_stamp E = ''t1''" "w_mgr w = desync_mgr"
  using that
  by (simp add: sendStateSnapshot_def SendState_def desync_mgr_def IsConnected_def obj_encodable_def
      probe_def chan_try_def sendCap_def)

lemma desync_publish:
  "Publish IsConnected (SendState ts) (SendTelemetryDelta ts) (None :: (obj \<Rightarrow> string \<Rightarrow> unit \<Rightarrow> unit) option)
     L now (probe ''a'') False desync_pub () m = (None, desync_pub, (), m)" if "IsConnected m"
  using that
  by (simp add: Publish_def smooth_probe stateOf_probe flatten_probe desync_pub_def fullResyncEvery_def
      NewPublisher_def diffFlat_def Let_def)

section \<open>Properties\<close>


definition sample_publish :: "golib \<Rightarrow> go_error option \<times> publisher \<times> (items \<times> bstore) \<times> manager" where
  "sample_publish L = Publish IsConnected (SendState ''t'') (SendTelemetryDelta ''t'')
     (Some (Add (\<lambda>_. None) sample_io sample_cfg sample_clock)) L ''now'' sample_snapshot False NewPublisher
     ([], sample_store) (mgr sample_up)"

lemma sample_publish_state: "lastSentFlat (fst (snd (sample_publish L))) = Some [(''vehicle.state'', ''parked'')]"
  using sample_published [of L NewPublisher]
  by (simp add: sample_publish_def Publish_def published_def smoothParkedGPS_def sample_snapshot_def gm_any_def
      NewPublisher_def SendState_def obj_encodable_def chan_try_def sendCap_def Let_def)

lemma sample_service_reachable:
  "service_reachable L \<lparr>ses = sample_up\<lparr>mgr := snd (snd (snd (sample_publish L)))\<rparr>,
     pub = fst (snd (sample_publish L)), buf = fst (snd (snd (sample_publish L))), srv = Map.empty\<rparr>"
proof -
  let ?v = "\<lambda>s. \<lparr>ses = s, pub = NewPublisher, buf = ([], sample_store), srv = Map.empty\<rparr>"
  have "service_step L (?v init_session) (?v sample_dialed)"
    using link_up [of "?v init_session" sample_dialed Map.empty L] sample_steps(1)
    by (simp add: init_session_def)
  moreover have "service_step L (?v sample_dialed) (?v sample_up)"
    using link_up [of "?v sample_dialed" sample_up Map.empty L] sample_steps(2) by simp
  moreover have "service_step L (?v sample_up) \<lparr>ses = sample_up\<lparr>mgr := snd (snd (snd (sample_publish L)))\<rparr>,
     pub = fst (snd (sample_publish L)), buf = fst (snd (snd (sample_publish L))), srv = Map.empty\<rparr>"
    using publish [of "''t''" "\<lambda>_. None" sample_io sample_cfg sample_clock L "''now''" sample_snapshot False
        "?v sample_up" "fst (sample_publish L)" "fst (snd (sample_publish L))" "fst (snd (snd (sample_publish L)))"
        "snd (snd (snd (sample_publish L)))"]
    by (simp add: sample_publish_def [symmetric] set_mgr_def)
  ultimately show ?thesis using started later by blast
qed


text \<open>
  C15: \<^verbatim>\<open>get_state\<close> breaks the agreement: there is a connected world in which the server would know the
  publisher's baseline, the command is executed, the publisher then publishes successfully the snapshot
  it last sent, and the server ends with a different picture of the vehicle.
\<close>

theorem get_state_desynchronises:
  "\<exists>E cmd w w' m. cmd_Command cmd = ''get_state'' \<and> executeCommand E cmd w = Some w' \<and> IsConnected (w_mgr w')
     \<and> in_sync (mirror_all L (sendChan (w_mgr w)) Map.empty) desync_pub
     \<and> Publish IsConnected (SendState ''t2'') (SendTelemetryDelta ''t2'')
         (None :: (obj \<Rightarrow> string \<Rightarrow> unit \<Rightarrow> unit) option) L ''now'' (probe ''a'') False desync_pub () (w_mgr w')
       = (None, desync_pub, (), m)
     \<and> mirror_all L (sendChan m) Map.empty \<noteq> map_of (published L (probe ''a'') desync_pub)"
proof -
  define E where "E = (sample_cenv L)\<lparr>ce_collect := Inr (probe ''b''), ce_stamp := ''t1''\<rparr>"
  define w where "w = (sample_world zero_cfg)\<lparr>w_mgr := desync_mgr\<rparr>"
  define cmd where "cmd = sample_cmd ''get_state'' []"
  define m1 where "m1 = incrementTelemetrySent
      (desync_mgr\<lparr>sendChan := [StateMessage (probe ''a'') ''t0'', StateMessage (probe ''b'') ''t1'']\<rparr>)"
  have "sendStateSnapshot E w = (None, w\<lparr>w_mgr := m1\<rparr>)"
    using desync_get_state [of E w] by (simp add: E_def w_def m1_def)
  then have ex: "executeCommand E cmd w = Some (sendResponse E ''r1'' None None (w\<lparr>w_mgr := m1\<rparr>))"
    by (simp add: executeCommand_def cmd_def sample_cmd_def dispatch_def queue_commands_def returns_def)
  let ?w' = "sendResponse E ''r1'' None None (w\<lparr>w_mgr := m1\<rparr>)"
  have c1: "IsConnected m1" by (simp add: m1_def desync_mgr_def IsConnected_def counter_defs)
  have "sendChan (w_mgr ?w') = sendChan m1 @ [response E ''r1'' None None]"
    using sendResponse_mgr [of "w\<lparr>w_mgr := m1\<rparr>" E "''r1''" None None] c1
    by (simp add: response_def m1_def counter_defs sendCap_def)
  moreover have "IsConnected (w_mgr ?w')"
    using c1 mgr_resp.send_connected by (simp add: sendResponse_def Let_def)
  moreover have "mirror_all L [StateMessage (probe ''a'') ''t0'', StateMessage (probe ''b'') ''t1'',
      response E ''r1'' None None] Map.empty \<noteq> map_of (published L (probe ''a'') desync_pub)"
    by (simp add: response_def flatten_probe published_def smooth_probe fun_eq_iff)
  moreover have "in_sync (mirror_all L (sendChan (w_mgr w)) Map.empty) desync_pub"
    by (simp add: w_def desync_mgr_def in_sync_def desync_pub_def flatten_probe)
  ultimately show ?thesis
    using ex desync_publish [of "w_mgr ?w'" "''t2''" L "''now''"]
    by (intro exI [of _ E] exI [of _ cmd] exI [of _ w] exI [of _ ?w'] exI [of _ "w_mgr ?w'"])
       (simp add: cmd_def sample_cmd_def m1_def counter_defs)
qed

text \<open>
  C22: A flushed batch can be lost: the buffer is cleared when the batch is queued, not when it was
  sent.  If the connection is stopping, the writer may discard the queue before it writes the batch;
  then the snapshots are in neither the buffer nor the queue, and nothing was written.
\<close>

theorem flushed_batch_lost:
  assumes "Flush IsConnected mgr_SendBatch enc io L now stamp c cfg b (mgr s) = (b', m)"
    and "buf_Enabled cfg" and "it \<in> set (fst b)" and "\<not> stale c it" and "fst b' = []"
    and "phase s = Stopping" and "writer s"
  shows "(\<exists>ss. sendChan m = sendChan (mgr s) @ [TelemetryBatchMessage ss stamp])
    \<and> (\<exists>t. conn_step (s\<lparr>mgr := m\<rparr>) t \<and> sendChan (mgr t) = [] \<and> wire t = wire s)"
proof -
  have "link_step (s\<lparr>mgr := m\<rparr>) ((s\<lparr>mgr := m\<rparr>)\<lparr>mgr := writeLoop_stop m, writer := False\<rparr>)"
    using drained [of "s\<lparr>mgr := m\<rparr>"] assms(6,7) by simp
  then have "\<exists>t. conn_step (s\<lparr>mgr := m\<rparr>) t \<and> sendChan (mgr t) = [] \<and> wire t = wire s"
    by (intro exI [of _ "(s\<lparr>mgr := m\<rparr>)\<lparr>mgr := writeLoop_stop m, writer := False\<rparr>"])
       (auto simp: writeLoop_stop_def intro: link)
  moreover have "\<exists>ss. sendChan m = sendChan (mgr s) @ [TelemetryBatchMessage ss stamp]"
    using mgr_batch.Flush_cases [OF assms(1,2)] assms(3,4,5) by (auto split: if_splits)
  ultimately show ?thesis by blast
qed

theorem flushed_batch_lost_witness:
  "\<forall>L. \<exists>t. conn_step (sample_up\<lparr>phase := Stopping, mgr := snd (Flush IsConnected mgr_SendBatch (\<lambda>_. None) sample_io L 0
       ''now'' sample_clock sample_cfg ([sample_item ''x''], sample_store) (mgr sample_up))\<rparr>) t
     \<and> sendChan (mgr t) = [] \<and> wire t = wire sample_up"
proof
  fix L
  let ?b = "([sample_item ''x''], sample_store)"
  let ?R = "Flush IsConnected mgr_SendBatch (\<lambda>_. None) sample_io L 0 ''now'' sample_clock sample_cfg ?b (mgr sample_up)"
  have "fst (fst ?R) = []"
    by (rule mgr_batch.Flush_progress)
       (simp_all add: sample_cfg_def sendCap_def sample_item_def obj_encodable_def)
  then show "\<exists>t. conn_step (sample_up\<lparr>phase := Stopping, mgr := snd ?R\<rparr>) t \<and> sendChan (mgr t) = [] \<and> wire t = wire sample_up"
    using flushed_batch_lost [of "\<lambda>_. None" sample_io L 0 "''now''" sample_clock sample_cfg ?b
        "sample_up\<lparr>phase := Stopping\<rparr>" "fst ?R" "snd ?R" "sample_item ''x''"]
    by (auto simp: sample_defs stale_def SessionID_def)
qed

end
