(* ===== verification/Monitor.thy ===== *)
theory Monitor
  imports Collector Connection
begin

text \<open>
  The change monitor, \<^verbatim>\<open>internal/telemetry/monitor.go\<close>: which field changes trigger a telemetry
  flush, and by when.  An armed timer is its due time; the callback of a timer is \<open>onDeadline\<close>.
  What \<open>doFlush\<close> starts is a list of actions.

  Shown: a change that survives quantisation is followed by a flush no later than the deadline of
  its priority, because a pending timer is never moved; noisy fields and sub-threshold changes arm
  nothing; a deadline clears every timer and flushes once.
\<close>

datatype Priority = Immediate | Quick | Medium | Slow

definition priorityDeadlines :: "Priority \<Rightarrow> duration" where
  "priorityDeadlines p =
     (case p of Immediate \<Rightarrow> 1 * Second | Quick \<Rightarrow> 5 * Second | Medium \<Rightarrow> 60 * Second
      | Slow \<Rightarrow> 15 * Minute)"

text \<open>Priorities are ordered by urgency, the order of the constants in the source.\<close>

fun priority_rank :: "Priority \<Rightarrow> nat" where
  "priority_rank Immediate = 0"
| "priority_rank Quick = 1"
| "priority_rank Medium = 2"
| "priority_rank Slow = 3"

lemma priority_rank_inj: "priority_rank p = priority_rank q \<Longrightarrow> p = q"
  by (cases p; cases q) auto

instantiation Priority :: linorder
begin

definition less_eq_Priority_def: "p \<le> q \<longleftrightarrow> priority_rank p \<le> priority_rank q"
definition less_Priority_def: "p < q \<longleftrightarrow> priority_rank p < priority_rank q"

instance
  by standard (auto simp: less_eq_Priority_def less_Priority_def intro: priority_rank_inj)

end

lemma priorityDeadlines_mono: "strict_mono priorityDeadlines"
proof (rule strict_monoI)
  fix p q :: Priority
  assume "p < q"
  then show "priorityDeadlines p < priorityDeadlines q"
    by (cases p; cases q) (auto simp: priorityDeadlines_def less_Priority_def)
qed

definition fieldPriorities :: "(string, Priority) go_map" where
  "fieldPriorities =
     [(''vehicle[state]'', Immediate),
      (''vehicle[seatbox:lock]'', Immediate),
      (''vehicle[handlebar:lock-sensor]'', Immediate),
      (''vehicle[blinker:state]'', Immediate),
      (''vehicle[main-power]'', Immediate),
      (''vehicle[engine-power]'', Immediate),
      (''power-manager[state]'', Immediate),
      (''ota[status]'', Immediate),
      (''alarm[status]'', Immediate),
      (''alarm[alarm-active]'', Immediate),
      (''aux-battery[voltage]'', Slow),
      (''cb-battery[cell-voltage]'', Slow),
      (''cb-battery[current]'', Slow),
      (''cb-battery[remaining-capacity]'', Slow),
      (''cb-battery[time-to-full]'', Slow),
      (''ble[last-update]'', Slow),
      (''scooter[temperature]'', Slow)]"

definition hashPriorities :: "(string, Priority) go_map" where
  "hashPriorities =
     [(''gps'', Quick), (''battery:0'', Quick), (''battery:1'', Quick), (''usb'', Quick),
      (''trip'', Medium), (''trip:counter'', Medium), (''navigation'', Medium),
      (''remote-access'', Medium), (''version:mdb'', Slow), (''version:dbc'', Slow),
      (''power-manager:busy-services'', Slow), (''settings'', Slow)]"

definition noisyFields :: "string list" where
  "noisyFields =
     [''gps[timestamp]'', ''gps[latitude]'', ''gps[longitude]'', ''gps[altitude]'', ''gps[course]'',
      ''internet[signal-quality]'']"

definition quantizationBuckets :: "(string, f64) go_map" where
  "quantizationBuckets =
     [(''battery:0[voltage]'', Fin 100),
      (''battery:1[voltage]'', Fin 100),
      (''battery:0[current]'', Fin 250),
      (''battery:1[current]'', Fin 250),
      (''engine-ecu[motor:voltage]'', Fin 50),
      (''engine-ecu[motor:current]'', Fin 100),
      (''aux-battery[voltage]'', Fin 50),
      (''cb-battery[cell-voltage]'', Fin 50),
      (''cb-battery[current]'', Fin 100),
      (''gps[speed]'', Fin 1)]"

definition fullKey :: "string \<Rightarrow> string \<Rightarrow> string" where
  "fullKey hash field = hash @ ''['' @ field @ '']''"

definition priorityFor :: "string \<Rightarrow> string \<Rightarrow> Priority" where
  "priorityFor hash field =
     (case map_of fieldPriorities (fullKey hash field) of
        Some prio \<Rightarrow> prio
      | None \<Rightarrow> (case map_of hashPriorities hash of Some prio \<Rightarrow> prio | None \<Rightarrow> Medium))"

text \<open>
  \<^verbatim>\<open>float64(int64(f/bucket+0.5)) * bucket\<close>; the buckets are never zero.
\<close>

definition snap :: "f64 \<Rightarrow> f64 \<Rightarrow> f64" where
  "snap bucket f =
     f64_mul (f64_of_int (f64_to_int64 (f64_add (f64_div f bucket) (Fin (1 / 2))))) bucket"

definition quantize :: "golib \<Rightarrow> string \<Rightarrow> string \<Rightarrow> string" where
  "quantize L key value =
     (case map_of quantizationBuckets key of
        None \<Rightarrow> value
      | Some bucket \<Rightarrow>
          if f64_val bucket = 0 \<and> f64_finite bucket then value
          else (case lib_ParseFloat L value of
              None \<Rightarrow> value
            | Some f \<Rightarrow> lib_FormatF L (snap bucket f)))"

record monitor =
  priorityArmed :: "(Priority, instant) go_map"
  lastValues :: "(string, string) go_map"

definition NewMonitor :: monitor where
  "NewMonitor = \<lparr>priorityArmed = [], lastValues = []\<rparr>"

definition baseline_hash :: "golib \<Rightarrow> string \<Rightarrow> any \<Rightarrow> (string, string) go_map \<Rightarrow> (string, string) go_map" where
  "baseline_hash L hash v lv =
     (case as_obj v of
        None \<Rightarrow> lv
      | Some fieldMap \<Rightarrow>
          fold (\<lambda>(field, value) lv.
                  case as_str value of
                    None \<Rightarrow> lv
                  | Some strVal \<Rightarrow>
                      gm_put (fullKey hash field) (quantize L (fullKey hash field) strVal) lv)
            fieldMap lv)"

definition Monitor_InitializeBaseline :: "golib \<Rightarrow> obj \<Rightarrow> monitor \<Rightarrow> monitor" where
  "Monitor_InitializeBaseline L state m =
     m\<lparr>lastValues := fold (\<lambda>(hash, v). baseline_hash L hash v) state (lastValues m)\<rparr>"

definition armLocked :: "instant \<Rightarrow> Priority \<Rightarrow> monitor \<Rightarrow> monitor" where
  "armLocked now priority m =
     (if gm_has (priorityArmed m) priority then m
      else m\<lparr>priorityArmed := gm_put priority (now + priorityDeadlines priority) (priorityArmed m)\<rparr>)"

definition handleFieldChange :: "golib \<Rightarrow> instant \<Rightarrow> string \<Rightarrow> string \<Rightarrow> string \<Rightarrow> monitor \<Rightarrow> monitor" where
  "handleFieldChange L now hash field value0 m =
     (let key = fullKey hash field
      in if key \<in> set noisyFields then m
         else let value = (if hash = ''vehicle'' \<and> field = ''state''
                           then cloudifyVehicleState value0 else value0);
                  q = quantize L key value
              in if gm_str (lastValues m) key = q then m
                 else armLocked now (priorityFor hash field)
                        (m\<lparr>lastValues := gm_put key q (lastValues m)\<rparr>))"

definition clearTimersLocked :: "monitor \<Rightarrow> monitor" where
  "clearTimersLocked m = m\<lparr>priorityArmed := []\<rparr>"

datatype flush_action = FlushTelemetry | FlushBufferedEvents

text \<open>\<open>hasFlusher\<close> and \<open>hasEventFlusher\<close> tell whether the two collaborators have been set.\<close>

definition doFlush :: "bool \<Rightarrow> bool \<Rightarrow> flush_action list" where
  "doFlush hasFlusher hasEventFlusher =
     (if hasFlusher then [FlushTelemetry] else []) @
     (if hasEventFlusher then [FlushBufferedEvents] else [])"

definition onDeadline :: "bool \<Rightarrow> bool \<Rightarrow> manager \<Rightarrow> monitor \<Rightarrow> flush_action list \<times> monitor" where
  "onDeadline hasFlusher hasEventFlusher mgr m =
     (let m1 = clearTimersLocked m
      in if \<not> IsConnected mgr then ([], m1) else (doFlush hasFlusher hasEventFlusher, m1))"

definition FlushAllPending :: "bool \<Rightarrow> bool \<Rightarrow> manager \<Rightarrow> monitor \<Rightarrow> flush_action list \<times> monitor" where
  "FlushAllPending hasFlusher hasEventFlusher mgr m =
     (let m1 = clearTimersLocked m
      in if \<not> IsConnected mgr then ([], m1) else (doFlush hasFlusher hasEventFlusher, m1))"

text \<open>The watched channels, in the order in which \<open>Start\<close> subscribes to them.\<close>

definition monitor_channels :: "string list" where
  "monitor_channels =
     [''vehicle'', ''battery:0'', ''battery:1'', ''aux-battery'', ''cb-battery'',
      ''engine-ecu'', ''gps'', ''internet'', ''modem'', ''power-manager'',
      ''power-manager:busy-services'', ''power-mux'', ''keycard'', ''ble'', ''ota'',
      ''alarm'', ''dashboard'', ''system'', ''version:mdb'', ''version:dbc'',
      ''navigation'', ''remote-access'', ''trip'', ''trip:counter'', ''usb'',
      ''scooter'', ''settings'']"

section \<open>Deadlines\<close>

text \<open>Every armed timer is due no later than its priority's deadline from now.\<close>

definition timers_inv :: "instant \<Rightarrow> monitor \<Rightarrow> bool" where
  "timers_inv now m =
     (\<forall>p t. map_of (priorityArmed m) p = Some t \<longrightarrow> t \<le> now + priorityDeadlines p)"

lemma timers_inv_later: "timers_inv now m \<Longrightarrow> now \<le> now' \<Longrightarrow> timers_inv now' m"
  unfolding timers_inv_def by (meson add_right_mono order_trans)

lemma armLocked_armed:
  "timers_inv now m \<Longrightarrow>
   \<exists>t. map_of (priorityArmed (armLocked now p m)) p = Some t \<and> t \<le> now + priorityDeadlines p"
  by (auto simp: armLocked_def gm_has_def timers_inv_def update_conv')

lemma armLocked_inv: "timers_inv now m \<Longrightarrow> timers_inv now (armLocked now p m)"
  by (auto simp: armLocked_def timers_inv_def update_conv')

lemma armLocked_keeps:
  "map_of (priorityArmed m) q = Some t \<Longrightarrow> map_of (priorityArmed (armLocked now p m)) q = Some t"
  by (auto simp: armLocked_def gm_has_def update_conv')

text \<open>The value a change is compared by.\<close>

definition seen_value :: "golib \<Rightarrow> string \<Rightarrow> string \<Rightarrow> string \<Rightarrow> string" where
  "seen_value L h f v =
     quantize L (fullKey h f) (if h = ''vehicle'' \<and> f = ''state'' then cloudifyVehicleState v else v)"

lemma handleFieldChange_cases:
  "handleFieldChange L now h f v m =
     (if fullKey h f \<in> set noisyFields \<or> gm_str (lastValues m) (fullKey h f) = seen_value L h f v then m
      else armLocked now (priorityFor h f)
             (m\<lparr>lastValues := gm_put (fullKey h f) (seen_value L h f v) (lastValues m)\<rparr>))"
  by (simp add: handleFieldChange_def seen_value_def Let_def)

lemma timers_inv_lastValues [simp]: "timers_inv now (m\<lparr>lastValues := lv\<rparr>) = timers_inv now m"
  by (simp add: timers_inv_def)

lemma handleFieldChange_inv: "timers_inv now m \<Longrightarrow> timers_inv now (handleFieldChange L now h f v m)"
  by (simp add: handleFieldChange_cases armLocked_inv)

lemma handleFieldChange_keeps:
  "map_of (priorityArmed m) q = Some t \<Longrightarrow>
   map_of (priorityArmed (handleFieldChange L now h f v m)) q = Some t"
  unfolding handleFieldChange_def Let_def by (auto intro: armLocked_keeps)

section \<open>Quantisation at half steps\<close>

lemma trunc_half: "trunc_rat (of_int n / 2) = go_quot n 2"
proof (cases "0 \<le> n")
  case True
  then show ?thesis
    by (cases "n = 0") (simp_all add: trunc_rat_def go_quot_def floor_divide_of_int_eq [of n 2, simplified])
next
  case False
  have "\<lceil>(of_int n :: rat) / 2\<rceil> = - ((- n) div 2)"
    using ceiling_divide_eq_div [of n 2] by simp
  then show ?thesis using False by (simp add: trunc_rat_def go_quot_def)
qed

lemma go_quot_half_bound: "\<bar>go_quot n 2\<bar> \<le> \<bar>n\<bar>"
  by (auto simp: go_quot_def abs_mult sgn_if)

text \<open>
  On the multiples of half a bucket the float computation is exact: the quotient plus one half is
  truncated towards zero.
\<close>

lemma snap_half:
  assumes "0 < B" and "B < 2 ^ 10" and "\<bar>k\<bar> < 2 ^ 40"
  shows "f64_val (snap (Fin (of_int B)) (Fin (of_int (B * k) / 2))) = of_int (B * go_quot (k + 1) 2)
    \<and> f64_finite (snap (Fin (of_int B)) (Fin (of_int (B * k) / 2)))"
proof -
  let ?q = "f64_div (Fin (of_int (B * k) / 2)) (Fin (of_int B))"
  have "of_int (B * k) / 2 / of_int B = (of_int k / 2 :: rat)" using assms(1) by simp
  then have q: "f64_finite ?q \<and> f64_val ?q = of_int k / 2"
    using assms round64_half_int [of k]
    by (auto simp: f64_div_def Let_def round_signed_def)
  then have "f64_add ?q (Fin (1 / 2)) = round64 (of_int (k + 1) / 2)"
    by (cases ?q) (auto simp: f64_add_def add_divide_distrib simp del: divide_eq_eq_numeral1 eq_divide_eq_numeral1)
  also have "\<dots> = Fin (of_int (k + 1) / 2)" using assms(3) by (intro round64_half_int) simp
  finally have a: "f64_add ?q (Fin (1 / 2)) = Fin (of_int (k + 1) / 2)" .
  have gb: "\<bar>go_quot (k + 1) 2\<bar> \<le> 2 ^ 40"
    using go_quot_half_bound [of "k + 1"] assms(3) by linarith
  then have t: "f64_to_int64 (f64_add ?q (Fin (1 / 2))) = go_quot (k + 1) 2"
    unfolding a f64_to_int64_def f64_val.simps trunc_half Let_def by auto
  have "\<bar>B * go_quot (k + 1) 2\<bar> \<le> 2 ^ 10 * 2 ^ 40"
    unfolding abs_mult using gb assms(1,2) by (intro mult_mono) auto
  then have "round64 (of_int (B * go_quot (k + 1) 2)) = Fin (of_int (B * go_quot (k + 1) 2))"
    by (intro round64_int) simp
  moreover have "f64_of_int (go_quot (k + 1) 2) = Fin (of_int (go_quot (k + 1) 2))"
    using gb by (intro f64_of_int_small) simp
  ultimately show ?thesis
    unfolding snap_def t by (auto simp: f64_mul_def Let_def round_signed_def mult.commute)
qed

section \<open>Properties\<close>



text \<open>
  Pending deadlines are never postponed: a timer that is armed keeps its due time through any
  further change.  Noisy fields and changes that quantise to the known value arm nothing and change
  nothing, and a deadline that fires clears every timer and flushes once, if connected.
\<close>

theorem deadlines_never_move:
  "(map_of (priorityArmed m) q = Some t \<longrightarrow>
      map_of (priorityArmed (handleFieldChange L now h f v m)) q = Some t)
   \<and> (fullKey h f \<in> set noisyFields \<or> gm_str (lastValues m) (fullKey h f) = seen_value L h f v \<longrightarrow>
      handleFieldChange L now h f v m = m)
   \<and> priorityArmed (snd (onDeadline True ef mgr m)) = []
   \<and> fst (onDeadline True ef mgr m) = (if IsConnected mgr then FlushTelemetry # (if ef then [FlushBufferedEvents] else []) else [])"
  using handleFieldChange_keeps [of m q t L now h f v]
  by (auto simp: handleFieldChange_cases onDeadline_def clearTimersLocked_def doFlush_def Let_def)

theorem deadlines_never_move_witness:
  "\<forall>L. map_of (priorityArmed (handleFieldChange L 9 ''vehicle'' ''state'' ''parked''
         \<lparr>priorityArmed = [(Immediate, 5)], lastValues = []\<rparr>)) Immediate = Some 5"
  using deadlines_never_move [of "\<lparr>priorityArmed = [(Immediate, 5)], lastValues = []\<rparr>" Immediate 5 _ 9
      "''vehicle''" "''state''" "''parked''"] by simp

text \<open>
  The rounding of \<open>quantize\<close> is not symmetric: adding one half and truncating towards zero sends
  the multiples \<open>k\<close> of half a bucket to \<open>(k + 1) quot 2\<close> buckets, so a reading of minus one bucket counts as
  zero while plus one bucket counts as one bucket: on the negative side changes of more than the
  reporting threshold are ignored.
\<close>

theorem quantize_asymmetric:
  assumes "0 < B" and "B < 2 ^ 10" and "\<bar>k\<bar> < 2 ^ 40"
  shows "f64_val (snap (Fin (of_int B)) (Fin (of_int (B * k) / 2))) = of_int (B * go_quot (k + 1) 2)
    \<and> f64_val (snap (Fin (of_int B)) (Fin (- of_int B))) = 0
    \<and> f64_val (snap (Fin (of_int B)) (Fin (of_int B))) = of_int B"
  using snap_half [OF assms] snap_half [OF assms(1,2), of 2] snap_half [OF assms(1,2), of "- 2"]
  by (simp add: go_quot_def)

theorem quantize_asymmetric_witness:
  "f64_val (snap (Fin 250) (Fin (- 250))) = 0 \<and> f64_val (snap (Fin 250) (Fin 250)) = 250"
  using quantize_asymmetric [of 250 0] by simp

end
