(* ===== verification/Events.thy ===== *)
theory Events
  imports Monitor Clock
begin

text \<open>
  The event detector, \<^verbatim>\<open>internal/telemetry/events.go\<close>: one definition per field handler, the
  sending of an event, the durable queue for the time without a connection and its replay.  The
  detector's state is the record \<open>detector\<close>; the file at \<^verbatim>\<open>bufferPath\<close> is its content (\<open>None\<close>
  when it does not exist), the sink is the connection manager behind \<open>eenv\<close>, and the goroutines a
  handler starts are appended to \<open>spawned\<close>.  The JSON codec and the outcome of every file operation
  are arguments.

  Shown: an event is either accepted by the connection or appended to the queue; a replay sends the
  queued events in order and keeps what it could not send; splitting undoes joining lines.
\<close>

section \<open>State and environment\<close>

datatype spawn = SpawnFlushBuffered | SpawnFlushAllPending

record 's detector =
  lastState :: "(string, string) go_map"
  bufferFile :: "string option"
  sink :: 's
  spawned :: "spawn list"

text \<open>
  How the file operations of \<open>bufferEvent\<close> end: \<open>eb_data\<close> is \<open>None\<close> when the record is written,
  \<open>Some n\<close> when the write fails after \<open>n\<close> bytes.
\<close>

record ebio =
  eb_mkdir :: bool
  eb_open :: bool
  eb_data :: "nat option"
  eb_newline :: bool

record 's eenv =
  ev_lib :: golib
  ev_isconn :: "'s \<Rightarrow> bool"
  ev_send :: "string \<times> string \<times> obj \<Rightarrow> 's \<Rightarrow> go_error option \<times> 's"
  ev_stamp :: string
  ev_now :: instant
  ev_enc :: "obj \<Rightarrow> string option"
  ev_io :: ebio
  ev_monitor :: bool

definition NewEventDetector :: "string option \<Rightarrow> 's \<Rightarrow> 's detector" where
  "NewEventDetector file s = \<lparr>lastState = [], bufferFile = file, sink = s, spawned = []\<rparr>"

definition detector_baseline_hash :: "string \<Rightarrow> any \<Rightarrow> (string, string) go_map \<Rightarrow> (string, string) go_map" where
  "detector_baseline_hash hash v ls =
     (case as_obj v of
        None \<Rightarrow> ls
      | Some fieldMap \<Rightarrow>
          fold (\<lambda>(field, value) ls.
                  case as_str value of
                    None \<Rightarrow> ls
                  | Some strVal \<Rightarrow> gm_put (hash @ '':'' @ field) strVal ls)
            fieldMap ls)"

definition Detector_InitializeBaseline :: "obj \<Rightarrow> 's detector \<Rightarrow> 's detector" where
  "Detector_InitializeBaseline state e =
     e\<lparr>lastState := fold (\<lambda>(hash, v). detector_baseline_hash hash v) state (lastState e)\<rparr>"

section \<open>Sending and buffering\<close>

definition parseInt :: "golib \<Rightarrow> string \<Rightarrow> int" where
  "parseInt L s = Atoi_val (lib_IntSize L) s"

definition formatEventContext :: "golib \<Rightarrow> obj \<Rightarrow> string" where
  "formatEventContext L data =
     (if data = [] then ''''
      else ''('' @ Join (map (\<lambda>k. k @ ''='' @ Sprint L (gm_any data k)) (sort (map fst data))) '', ''
               @ '')'')"

definition append_buffer :: "ebio \<Rightarrow> string \<Rightarrow> string option \<Rightarrow> string option" where
  "append_buffer io data file =
     (if \<not> eb_mkdir io \<or> \<not> eb_open io then file
      else let old = (case file of None \<Rightarrow> '''' | Some s \<Rightarrow> s)
           in case eb_data io of
                Some n \<Rightarrow> Some (old @ take n data)
              | None \<Rightarrow> Some (old @ data @ (if eb_newline io then [CHR 0x0A] else [])))"

definition bufferEvent :: "'s eenv \<Rightarrow> obj \<Rightarrow> 's detector \<Rightarrow> 's detector" where
  "bufferEvent E event e =
     (let event1 = (if gm_has event ''retries'' then event else gm_put ''retries'' (AInt 0) event)
      in case ev_enc E event1 of
           None \<Rightarrow> e
         | Some data \<Rightarrow> e\<lparr>bufferFile := append_buffer (ev_io E) data (bufferFile e)\<rparr>)"

definition event_record :: "'s eenv \<Rightarrow> string \<Rightarrow> obj \<Rightarrow> obj" where
  "event_record E eventType data =
     [(''event'', AStr eventType), (''data'', AObj data),
      (''timestamp'', AStr (Format_RFC3339 (ev_now E)))]"

definition sendEvent :: "'s eenv \<Rightarrow> string \<Rightarrow> obj \<Rightarrow> 's detector \<Rightarrow> 's detector" where
  "sendEvent E eventType data e =
     (let event = event_record E eventType data
      in if ev_isconn E (sink e) then
           (case ev_send E (ev_stamp E, eventType, data) (sink e) of
              (Some err, s) \<Rightarrow> bufferEvent E event (e\<lparr>sink := s\<rparr>)
            | (None, s) \<Rightarrow>
                e\<lparr>sink := s,
                  spawned := spawned e @ [SpawnFlushBuffered] @
                             (if ev_monitor E then [SpawnFlushAllPending] else [])\<rparr>)
         else bufferEvent E event e)"

section \<open>Handlers\<close>

definition set_last :: "string \<Rightarrow> string \<Rightarrow> 's detector \<Rightarrow> 's detector" where
  "set_last stateKey value e = e\<lparr>lastState := gm_put stateKey value (lastState e)\<rparr>"

definition last_of :: "'s detector \<Rightarrow> string \<Rightarrow> string" where
  "last_of e stateKey = gm_str (lastState e) stateKey"

definition batteryChargeHandler :: "'s eenv \<Rightarrow> string \<Rightarrow> string \<Rightarrow> 's detector \<Rightarrow> 's detector" where
  "batteryChargeHandler E battery value e =
     (let stateKey = battery @ '':charge'';
          presentKey = battery @ '':present'';
          chargeInt = parseInt (ev_lib E) value;
          e1 = (if last_of e presentKey = ''true'' \<and> chargeInt \<le> 10 \<and> last_of e stateKey \<noteq> value
                then sendEvent E ''battery_critical''
                       [(''battery'', AStr battery), (''charge'', AInt chargeInt)] e
                else e)
      in set_last stateKey value e1)"

definition batteryPresentHandler :: "string \<Rightarrow> string \<Rightarrow> 's detector \<Rightarrow> 's detector" where
  "batteryPresentHandler battery value e = set_last (battery @ '':present'') value e"

definition cbBatteryChargeHandler :: "'s eenv \<Rightarrow> string \<Rightarrow> 's detector \<Rightarrow> 's detector" where
  "cbBatteryChargeHandler E value e =
     (let stateKey = ''cb-battery:charge'';
          chargeInt = parseInt (ev_lib E) value;
          e1 = (if chargeInt \<le> 10 \<and> last_of e stateKey \<noteq> value
                then sendEvent E ''cb_battery_critical''
                       [(''battery'', AStr ''cb-battery''), (''charge'', AInt chargeInt)] e
                else e)
      in set_last stateKey value e1)"

definition handlePowerState :: "'s eenv \<Rightarrow> string \<Rightarrow> 's detector \<Rightarrow> 's detector" where
  "handlePowerState E value e =
     (let stateKey = ''power:state'';
          e1 = (if last_of e stateKey \<noteq> '''' \<and> last_of e stateKey \<noteq> value
                then sendEvent E ''power_state_change''
                       [(''from'', AStr (last_of e stateKey)), (''to'', AStr value)] e
                else e)
      in set_last stateKey value e1)"

text \<open>\<open>count\<close> is the answer of \<^verbatim>\<open>HGET power-manager nrf-reset-count\<close>, empty on an error.\<close>

definition show_hex_int :: "int \<Rightarrow> string" where
  "show_hex_int n = (if n < 0 then CHR ''-'' # show_hex (nat (- n)) else show_hex (nat n))"

definition handleNrfReset :: "'s eenv \<Rightarrow> string \<Rightarrow> string \<Rightarrow> 's detector \<Rightarrow> 's detector" where
  "handleNrfReset E count value e =
     (let stateKey = ''power-manager:nrf-reset-reason'';
          e1 = (if last_of e stateKey \<noteq> '''' \<and> last_of e stateKey \<noteq> value
                then sendEvent E ''nrf_reset''
                       [(''reason'', AStr (''0x'' @ show_hex_int (parseInt (ev_lib E) value))),
                        (''count'', AInt (parseInt (ev_lib E) count))] e
                else e)
      in set_last stateKey value e1)"

definition handleConnectivityStatus :: "'s eenv \<Rightarrow> string \<Rightarrow> 's detector \<Rightarrow> 's detector" where
  "handleConnectivityStatus E value e =
     (let stateKey = ''internet:status'';
          e1 = (if last_of e stateKey \<noteq> '''' \<and> last_of e stateKey \<noteq> value
                then sendEvent E (if value = ''connected'' then ''connectivity_regained''
                                  else ''connectivity_lost'')
                       [(''status'', AStr value)] e
                else e)
      in set_last stateKey value e1)"

definition handlebarLockHandler :: "'s eenv \<Rightarrow> string \<Rightarrow> 's detector \<Rightarrow> 's detector" where
  "handlebarLockHandler E value e =
     (let stateKey = ''vehicle:handlebar'';
          e1 = (if last_of e stateKey \<noteq> '''' \<and> last_of e stateKey \<noteq> value
                then sendEvent E ''lock_state_change''
                       [(''lock'', AStr ''handlebar''), (''state'', AStr value)] e
                else e)
      in set_last stateKey value e1)"

definition seatboxLockHandler :: "'s eenv \<Rightarrow> string \<Rightarrow> 's detector \<Rightarrow> 's detector" where
  "seatboxLockHandler E value e =
     (let stateKey = ''vehicle:seatbox'';
          e1 = (if last_of e stateKey \<noteq> '''' \<and> last_of e stateKey \<noteq> value
                then sendEvent E ''lock_state_change''
                       [(''lock'', AStr ''seatbox''), (''state'', AStr value)] e
                else e)
      in set_last stateKey value e1)"

definition handleGPSState :: "'s eenv \<Rightarrow> string \<Rightarrow> 's detector \<Rightarrow> 's detector" where
  "handleGPSState E value e =
     (let stateKey = ''gps:state'';
          e1 = (if last_of e stateKey \<noteq> '''' \<and> last_of e stateKey \<noteq> value
                then sendEvent E (if value = ''fix-3d'' \<or> value = ''fix-2d'' then ''gps_fix_regained''
                                  else ''gps_fix_lost'')
                       [(''state'', AStr value)] e
                else e)
      in set_last stateKey value e1)"

definition handleOTAStatus :: "'s eenv \<Rightarrow> string \<Rightarrow> 's detector \<Rightarrow> 's detector" where
  "handleOTAStatus E value e =
     (let stateKey = ''ota:status'';
          e1 = (if last_of e stateKey \<noteq> '''' \<and> last_of e stateKey \<noteq> value
                then sendEvent E ''ota_status_change''
                       [(''from'', AStr (last_of e stateKey)), (''to'', AStr value)] e
                else e)
      in set_last stateKey value e1)"

definition handleAlarmActive :: "'s eenv \<Rightarrow> string \<Rightarrow> 's detector \<Rightarrow> 's detector" where
  "handleAlarmActive E value e =
     (let stateKey = ''alarm:alarm-active'';
          e1 = (if last_of e stateKey \<noteq> '''' \<and> last_of e stateKey \<noteq> value
                then sendEvent E (if value = ''true'' then ''alarm_triggered'' else ''alarm_cleared'')
                       [(''active'', AStr value)] e
                else e)
      in set_last stateKey value e1)"

definition handleAlarmStatus :: "'s eenv \<Rightarrow> string \<Rightarrow> 's detector \<Rightarrow> 's detector" where
  "handleAlarmStatus E value e =
     (let stateKey = ''alarm:status'';
          e1 = (if last_of e stateKey \<noteq> '''' \<and> last_of e stateKey \<noteq> value
                then sendEvent E ''alarm_state_change''
                       [(''from'', AStr (last_of e stateKey)), (''to'', AStr value)] e
                else e)
      in set_last stateKey value e1)"

definition temperatureHandler :: "'s eenv \<Rightarrow> string \<Rightarrow> string \<Rightarrow> string \<Rightarrow> 's detector \<Rightarrow> 's detector" where
  "temperatureHandler E component field value e =
     (let stateKey = component @ '':'' @ field;
          tempInt = parseInt (ev_lib E) value;
          threshold = (if component = ''battery:0'' \<or> component = ''battery:1'' then 60 else 80);
          e1 = (if tempInt > threshold \<and> last_of e stateKey \<noteq> value
                then sendEvent E ''temperature_warning''
                       [(''component'', AStr component), (''temperature'', AInt tempInt)] e
                else e)
      in set_last stateKey value e1)"

definition handleUSBModeChange :: "'s eenv \<Rightarrow> string \<Rightarrow> 's detector \<Rightarrow> 's detector" where
  "handleUSBModeChange E value e =
     (let stateKey = ''usb:mode'';
          prev = last_of e stateKey;
          e1 = (if prev \<noteq> '''' \<and> prev \<noteq> value
                then sendEvent E ''usb_mode_change'' [(''from'', AStr prev), (''to'', AStr value)] e
                else e)
      in set_last stateKey value e1)"

definition handleOTAError :: "'s eenv \<Rightarrow> (string, string) go_map \<Rightarrow> 's detector \<Rightarrow> 's detector" where
  "handleOTAError E values e =
     (if gm_str values ''event'' \<noteq> ''error'' then e
      else sendEvent E ''ota_error''
             [(''component'', AStr (gm_str values ''component'')),
              (''code'', AStr (gm_str values ''code'')),
              (''message'', AStr (gm_str values ''message''))] e)"

definition handleFault :: "'s eenv \<Rightarrow> (string, string) go_map \<Rightarrow> 's detector \<Rightarrow> 's detector" where
  "handleFault E values e =
     (case (map_of values ''group'', map_of values ''code'') of
        (Some grp, Some codeStr) \<Rightarrow>
          (let eventData0 = [(''group'', AStr grp), (''code'', AInt (parseInt (ev_lib E) codeStr))];
               eventData = (case map_of values ''description'' of
                              Some desc \<Rightarrow> eventData0 @ [(''description'', AStr desc)]
                            | None \<Rightarrow> eventData0)
           in sendEvent E ''fault'' eventData e)
      | _ \<Rightarrow> e)"

section \<open>The watchers\<close>

text \<open>
  The subscriptions of \<open>Start\<close>: which handler runs for a field of a hash.  \<open>count\<close> is what a
  look-up of the reset counter would return.
\<close>

definition on_field :: "'s eenv \<Rightarrow> string \<Rightarrow> string \<Rightarrow> string \<Rightarrow> string \<Rightarrow> 's detector \<Rightarrow> 's detector" where
  "on_field E count hash field value e =
     (if hash = ''battery:0'' \<or> hash = ''battery:1'' then
        if field = ''charge'' then batteryChargeHandler E hash value e
        else if field = ''present'' then batteryPresentHandler hash value e
        else if field = ''temperature'' then temperatureHandler E hash ''temperature'' value e
        else e
      else if hash = ''power-manager'' then
        if field = ''state'' then handlePowerState E value e
        else if field = ''nrf-reset-reason'' then handleNrfReset E count value e
        else e
      else if hash = ''internet'' \<and> field = ''status'' then handleConnectivityStatus E value e
      else if hash = ''vehicle'' then
        if field = ''handlebar:lock-sensor'' then handlebarLockHandler E value e
        else if field = ''seatbox:lock'' then seatboxLockHandler E value e
        else e
      else if hash = ''gps'' \<and> field = ''state'' then handleGPSState E value e
      else if hash = ''engine-ecu'' \<and> field = ''temperature''
        then temperatureHandler E ''engine-ecu'' ''temperature'' value e
      else if hash = ''cb-battery'' \<and> field = ''charge'' then cbBatteryChargeHandler E value e
      else if hash = ''ota'' \<and> field = ''status'' then handleOTAStatus E value e
      else if hash = ''alarm'' then
        if field = ''alarm-active'' then handleAlarmActive E value e
        else if field = ''status'' then handleAlarmStatus E value e
        else e
      else if hash = ''usb'' \<and> field = ''mode'' then handleUSBModeChange E value e
      else e)"

section \<open>The queue on disk\<close>

text \<open>The loop of \<open>splitLines\<close>; \<open>cur\<close> is the current line, reversed.\<close>

fun split_loop :: "string \<Rightarrow> string \<Rightarrow> string list" where
  "split_loop cur [] = (if cur = [] then [] else [rev cur])"
| "split_loop cur (c # cs) =
     (if c = CHR 0x0A then rev cur # split_loop [] cs else split_loop (c # cur) cs)"

definition splitLines :: "string \<Rightarrow> string list" where
  "splitLines s = split_loop [] s"

fun encode_loop :: "(obj \<Rightarrow> string option) \<Rightarrow> string \<Rightarrow> obj list \<Rightarrow> string option" where
  "encode_loop enc acc [] = Some acc"
| "encode_loop enc acc (ev # evs) =
     (case enc ev of None \<Rightarrow> None | Some data \<Rightarrow> encode_loop enc (acc @ data @ [CHR 0x0A]) evs)"

definition writeEventBufferAtomic ::
    "(obj \<Rightarrow> string option) \<Rightarrow> waio \<Rightarrow> obj list \<Rightarrow> string option \<Rightarrow> bool \<times> string option" where
  "writeEventBufferAtomic enc io events file =
     (case encode_loop enc '''' events of
        None \<Rightarrow> (False, file)
      | Some data \<Rightarrow> replace_file io data file)"

definition event_retries :: "obj \<Rightarrow> int" where
  "event_retries event =
     (case as_float (gm_any event ''retries'') of Some r \<Rightarrow> f64_to_int64 r | None \<Rightarrow> 0)"

definition event_type :: "obj \<Rightarrow> string" where
  "event_type event = str_or_empty (gm_any event ''event'')"

definition event_data :: "obj \<Rightarrow> obj" where
  "event_data event = (case as_obj (gm_any event ''data'') of Some d \<Rightarrow> d | None \<Rightarrow> [])"

text \<open>
  The loop of \<open>flushBufferedEvents\<close> over the remaining lines.  \<open>cancelled n\<close> tells whether the
  context ends during the pause after the \<open>n\<close>-th success.  The result is whether the loop ran to
  its end, the events to keep, and the sink.
\<close>

fun replay :: "(string \<times> string \<times> obj \<Rightarrow> 's \<Rightarrow> go_error option \<times> 's) \<Rightarrow> string
    \<Rightarrow> (string \<Rightarrow> obj option) \<Rightarrow> int \<Rightarrow> (nat \<Rightarrow> bool) \<Rightarrow> nat \<Rightarrow> string list \<Rightarrow> 's
    \<Rightarrow> bool \<times> obj list \<times> 's" where
  "replay snd_ev stamp dec maxRetries cancelled n [] s = (True, [], s)"
| "replay snd_ev stamp dec maxRetries cancelled n (line # lines) s =
     (if line = '''' then replay snd_ev stamp dec maxRetries cancelled n lines s
      else case dec line of
        None \<Rightarrow> replay snd_ev stamp dec maxRetries cancelled n lines s
      | Some event \<Rightarrow>
          (let retries = event_retries event
           in if retries \<ge> maxRetries then replay snd_ev stamp dec maxRetries cancelled n lines s
              else case snd_ev (stamp, event_type event, event_data event) s of
                (Some err, s') \<Rightarrow>
                  (True,
                   gm_put ''retries'' (AInt (retries + 1)) event
                     # List.map_filter dec (filter (\<lambda>l. l \<noteq> '''') lines),
                   s')
              | (None, s') \<Rightarrow>
                  if cancelled (n + 1) then (False, [], s')
                  else replay snd_ev stamp dec maxRetries cancelled (n + 1) lines s'))"

text \<open>\<open>readable\<close>: the file can be read; \<open>removable\<close>: it can be removed.\<close>

definition flushBufferedEvents :: "'s eenv \<Rightarrow> (string \<Rightarrow> obj option) \<Rightarrow> int \<Rightarrow> (nat \<Rightarrow> bool) \<Rightarrow> bool
    \<Rightarrow> bool \<Rightarrow> waio \<Rightarrow> 's detector \<Rightarrow> 's detector" where
  "flushBufferedEvents E dec maxRetries cancelled readable removable wio e =
     (if \<not> ev_isconn E (sink e) then e
      else case bufferFile e of
        None \<Rightarrow> e
      | Some data \<Rightarrow>
          if \<not> readable then e
          else (case replay (ev_send E) (ev_stamp E) dec maxRetries cancelled 0 (splitLines data) (sink e) of
              (False, _, s) \<Rightarrow> e\<lparr>sink := s\<rparr>
            | (True, failedEvents, s) \<Rightarrow>
                if failedEvents \<noteq> []
                then e\<lparr>sink := s, bufferFile := snd (writeEventBufferAtomic (ev_enc E) wio failedEvents (Some data))\<rparr>
                else if removable then e\<lparr>sink := s, bufferFile := None\<rparr> else e\<lparr>sink := s\<rparr>))"

section \<open>Lines\<close>

lemma split_loop_line:
  "CHR 0x0A \<notin> set l \<Longrightarrow> split_loop cur (l @ CHR 0x0A # rest) = (rev cur @ l) # split_loop [] rest"
  by (induction l arbitrary: cur) auto

definition unlines :: "string list \<Rightarrow> string" where
  "unlines ls = concat (map (\<lambda>l. l @ [CHR 0x0A]) ls)"

lemma splitLines_unlines: "\<forall>l \<in> set ls. CHR 0x0A \<notin> set l \<Longrightarrow> splitLines (unlines ls) = ls"
proof (induction ls)
  case (Cons l ls)
  then show ?case
    using split_loop_line [of l "[]" "unlines ls"] by (simp add: splitLines_def unlines_def)
qed (simp add: splitLines_def unlines_def)

lemma splitLines_append_line:
  assumes "CHR 0x0A \<notin> set l"
  shows "splitLines (unlines ls @ l @ [CHR 0x0A]) = splitLines (unlines (ls @ [l]))"
  by (simp add: unlines_def)

lemma split_loop_no_newline: "CHR 0x0A \<notin> set cur \<Longrightarrow> l \<in> set (split_loop cur s) \<Longrightarrow> CHR 0x0A \<notin> set l"
  by (induction cur s rule: split_loop.induct) (auto split: if_splits)

lemma encode_loop_unlines:
  "encode_loop enc acc evs = (if \<exists>ev \<in> set evs. enc ev = None then None
                              else Some (acc @ unlines (map (the \<circ> enc) evs)))"
  by (induction evs arbitrary: acc) (auto simp: unlines_def split: option.splits)

section \<open>The queue as a list of events\<close>

definition parsed :: "(string \<Rightarrow> obj option) \<Rightarrow> string list \<Rightarrow> obj list" where
  "parsed dec lines = List.map_filter dec (filter (\<lambda>l. l \<noteq> '''') lines)"

definition queued :: "(string \<Rightarrow> obj option) \<Rightarrow> string option \<Rightarrow> obj list" where
  "queued dec file = (case file of None \<Rightarrow> [] | Some data \<Rightarrow> parsed dec (splitLines data))"

text \<open>A queue file is well formed when every line, the last one too, ends in a newline.\<close>

definition lines_file :: "string option \<Rightarrow> bool" where
  "lines_file file =
     (case file of None \<Rightarrow> True | Some data \<Rightarrow> data = [] \<or> last data = CHR 0x0A)"

definition deliverable :: "int \<Rightarrow> obj \<Rightarrow> bool" where
  "deliverable maxRetries event = (event_retries event < maxRetries)"

definition bump :: "obj \<Rightarrow> obj" where
  "bump event = gm_put ''retries'' (AInt (event_retries event + 1)) event"

abbreviation event_msg :: "string \<Rightarrow> obj \<Rightarrow> message" where
  "event_msg stamp event \<equiv> EventMessage (event_type event) (event_data event) stamp"

lemma parsed_simps [simp]:
  "parsed dec [] = []"
  "parsed dec (l # ls) = (if l = '''' then parsed dec ls
     else case dec l of None \<Rightarrow> parsed dec ls | Some ev \<Rightarrow> ev # parsed dec ls)"
  by (auto simp: parsed_def List.map_filter_simps split: option.splits)

lemma parsed_append: "parsed dec (xs @ ys) = parsed dec xs @ parsed dec ys"
  by (induction xs) (auto split: option.splits)

lemma split_loop_complete:
  "data = [] \<or> last data = CHR 0x0A \<Longrightarrow> \<exists>ls. data = unlines ls \<and> (\<forall>l \<in> set ls. CHR 0x0A \<notin> set l)"
proof (induction "length data" arbitrary: data rule: less_induct)
  case less
  show ?case
  proof (cases "data = []")
    case True
    then show ?thesis by (intro exI [of _ "[]"]) (simp add: unlines_def)
  next
    case False
    then have "CHR 0x0A \<in> set data" using less.prems last_in_set by fastforce
    then obtain a b where ab: "cut_at (CHR 0x0A) data = Some (a, b)"
      using cut_at_None [of "CHR 0x0A" data] by (cases "cut_at (CHR 0x0A) data") auto
    then have d: "data = a @ CHR 0x0A # b" and na: "CHR 0x0A \<notin> set a"
      using cut_at_Some cut_at_fst by auto
    have "b = [] \<or> last b = CHR 0x0A" using less.prems d by (auto split: if_splits)
    then obtain ls where "b = unlines ls" "\<forall>l \<in> set ls. CHR 0x0A \<notin> set l"
      using less.hyps [of b] d by auto
    then show ?thesis using d na by (intro exI [of _ "a # ls"]) (simp add: unlines_def)
  qed
qed

lemma lines_fileE:
  assumes "lines_file file"
  obtains ls where "(case file of None \<Rightarrow> '''' | Some s \<Rightarrow> s) = unlines ls"
    and "\<forall>l \<in> set ls. CHR 0x0A \<notin> set l"
  using assms split_loop_complete [of "case file of None \<Rightarrow> '''' | Some s \<Rightarrow> s"]
  by (auto simp: lines_file_def split: option.splits)

lemma queued_append:
  assumes "lines_file file" and "CHR 0x0A \<notin> set l" and "l \<noteq> ''''" and "dec l = Some ev"
  shows "queued dec (Some ((case file of None \<Rightarrow> '''' | Some s \<Rightarrow> s) @ l @ [CHR 0x0A]))
    = queued dec file @ [ev]"
proof -
  obtain ls where ls: "(case file of None \<Rightarrow> '''' | Some s \<Rightarrow> s) = unlines ls"
      "\<forall>l \<in> set ls. CHR 0x0A \<notin> set l" using lines_fileE [OF assms(1)] .
  have "splitLines (unlines ls @ l @ [CHR 0x0A]) = ls @ [l]"
    using splitLines_unlines [of "ls @ [l]"] ls(2) assms(2) by (simp add: unlines_def)
  moreover have "queued dec file = parsed dec ls"
    using ls splitLines_unlines [OF ls(2)]
    by (auto simp: queued_def unlines_def splitLines_def split: option.splits)
  ultimately show ?thesis using ls(1) assms(3,4) by (simp add: queued_def parsed_append)
qed

lemma queued_unlines:
  assumes "\<And>ev. ev \<in> set evs \<Longrightarrow> \<exists>l. enc ev = Some l \<and> CHR 0x0A \<notin> set l \<and> l \<noteq> '''' \<and> dec l = Some (nf ev)"
  shows "queued dec (Some (unlines (map (the \<circ> enc) evs))) = map nf evs"
proof -
  have "\<forall>l \<in> set (map (the \<circ> enc) evs). CHR 0x0A \<notin> set l" using assms by fastforce
  then have "splitLines (unlines (map (the \<circ> enc) evs)) = map (the \<circ> enc) evs"
    by (rule splitLines_unlines)
  moreover have "parsed dec (map (the \<circ> enc) evs) = map nf evs"
    using assms by (induction evs) fastforce+
  ultimately show ?thesis by (simp add: queued_def)
qed

lemma replay_finishes: "fst (replay snd_ev stamp dec maxR (\<lambda>_. False) n lines s)"
  by (induction lines arbitrary: n s) (auto simp: Let_def split: option.splits prod.splits)

context event_sink
begin

lemma replay_split:
  assumes "replay send_event stamp dec maxR cancelled n lines s = (fin, failed, s')"
  shows "\<exists>pre rest. parsed dec lines = pre @ rest
    \<and> outbox s' = outbox s @ map (event_msg stamp) (filter (deliverable maxR) pre)
    \<and> (if fin then (rest = [] \<and> failed = [])
          \<or> (\<exists>ev evs. rest = ev # evs \<and> deliverable maxR ev \<and> failed = bump ev # evs)
       else failed = [])"
  using assms
proof (induction lines arbitrary: n s)
  case (Cons line lines)
  show ?case
  proof (cases "line = '''' \<or> dec line = None")
    case True
    then have "replay send_event stamp dec maxR cancelled n lines s = (fin, failed, s')"
      using Cons.prems by (cases "line = ''''") auto
    moreover have "parsed dec (line # lines) = parsed dec lines" using True by auto
    ultimately show ?thesis using Cons.IH by (simp only:)
  next
    case False
    then obtain ev where ev: "line \<noteq> ''''" "dec line = Some ev" by auto
    show ?thesis
    proof (cases "deliverable maxR ev")
      case False
      then have "replay send_event stamp dec maxR cancelled n lines s = (fin, failed, s')"
        using Cons.prems ev by (simp add: deliverable_def)
      from Cons.IH [OF this] obtain pre rest where "parsed dec lines = pre @ rest"
        "outbox s' = outbox s @ map (event_msg stamp) (filter (deliverable maxR) pre)"
        "if fin then (rest = [] \<and> failed = [])
          \<or> (\<exists>ev evs. rest = ev # evs \<and> deliverable maxR ev \<and> failed = bump ev # evs)
         else failed = []" by blast
      then show ?thesis using ev False by (intro exI [of _ "ev # pre"] exI [of _ rest]) simp
    next
      case True
      obtain err s1 where snd1: "send_event (stamp, event_type ev, event_data ev) s = (err, s1)"
        by fastforce
      show ?thesis
      proof (cases err)
        case (Some e)
        then have "fin" "failed = bump ev # parsed dec lines" "s' = s"
          using Cons.prems ev True snd1 ev.send_failed [of "(stamp, event_type ev, event_data ev)" s e s1]
          by (auto simp: deliverable_def bump_def parsed_def)
        then show ?thesis
          using ev True by (intro exI [of _ "[]"] exI [of _ "ev # parsed dec lines"]) simp
      next
        case None
        then have o1: "outbox s1 = outbox s @ [event_msg stamp ev]"
          using ev.send_done [of "(stamp, event_type ev, event_data ev)" s s1] snd1 by simp
        show ?thesis
        proof (cases "cancelled (n + 1)")
          case True
          then have "\<not> fin" "failed = []" "s' = s1"
            using Cons.prems ev \<open>deliverable maxR ev\<close> snd1 None by (auto simp: deliverable_def)
          then show ?thesis
            using ev \<open>deliverable maxR ev\<close> o1
            by (intro exI [of _ "[ev]"] exI [of _ "parsed dec lines"]) simp
        next
          case False
          then have "replay send_event stamp dec maxR cancelled (n + 1) lines s1 = (fin, failed, s')"
            using Cons.prems ev \<open>deliverable maxR ev\<close> snd1 None by (simp add: deliverable_def)
          from Cons.IH [OF this] obtain pre rest where "parsed dec lines = pre @ rest"
            "outbox s' = outbox s1 @ map (event_msg stamp) (filter (deliverable maxR) pre)"
            "if fin then (rest = [] \<and> failed = [])
              \<or> (\<exists>ev evs. rest = ev # evs \<and> deliverable maxR ev \<and> failed = bump ev # evs)
             else failed = []" by blast
          then show ?thesis
            using ev \<open>deliverable maxR ev\<close> o1 by (intro exI [of _ "ev # pre"] exI [of _ rest]) simp
        qed
      qed
    qed
  qed
qed simp

lemma sendEvent_cases:
  assumes "ev_isconn E = is_connected" and "ev_send E = send_event"
  shows "outbox (sink (sendEvent E ty d e)) = outbox (sink e) @ [EventMessage ty d (ev_stamp E)]
      \<and> bufferFile (sendEvent E ty d e) = bufferFile e
    \<or> sink (sendEvent E ty d e) = sink e
      \<and> sendEvent E ty d e = bufferEvent E (event_record E ty d) e"
proof (cases "is_connected (sink e)")
  case False
  then show ?thesis using assms(1) by (simp add: sendEvent_def bufferEvent_def Let_def split: option.splits)
next
  case True
  obtain err s1 where s1: "send_event (ev_stamp E, ty, d) (sink e) = (err, s1)" by fastforce
  then show ?thesis
    using True assms ev.send_done [of "(ev_stamp E, ty, d)" "sink e" s1]
      ev.send_failed [of "(ev_stamp E, ty, d)" "sink e" _ s1]
    by (cases err) (auto simp: sendEvent_def bufferEvent_def Let_def split: option.splits)
qed

end

section \<open>Properties\<close>


definition sample_env :: "golib \<Rightarrow> manager eenv" where
  "sample_env L = \<lparr>ev_lib = L, ev_isconn = IsConnected, ev_send = mgr_SendEvent, ev_stamp = ''now'', ev_now = 0,
     ev_enc = (\<lambda>ev. Some ''{}''),
     ev_io = \<lparr>eb_mkdir = True, eb_open = True, eb_data = None, eb_newline = True\<rparr>, ev_monitor = True\<rparr>"


text \<open>
  C23: The replay sends the queued events in their order, each with a new timestamp, skipping only
  events whose retries are used up.  It stops at the first event the connection refuses; that event,
  with one more retry, and everything behind it are kept, in order.
\<close>

theorem replay_in_order:
  assumes "replay mgr_SendEvent stamp dec maxR cancel n lines m = (fin, failed, m')"
  shows "\<exists>pre rest. parsed dec lines = pre @ rest
    \<and> sendChan m' = sendChan m @ map (event_msg stamp) (filter (deliverable maxR) pre)
    \<and> (if fin then (rest = [] \<and> failed = [])
          \<or> (\<exists>ev evs. rest = ev # evs \<and> deliverable maxR ev \<and> failed = bump ev # evs)
       else failed = [])"
  using mgr_event.replay_split [OF assms] .

definition sample_decode :: "string \<Rightarrow> obj option" where
  "sample_decode l = Some [(''event'', AStr l)]"

theorem replay_in_order_witness:
  "\<exists>pre rest. [[(''event'', AStr ''a'')], [(''event'', AStr ''b'')]] = pre @ rest
    \<and> sendChan (snd (snd (replay mgr_SendEvent ''now'' sample_decode 5 (\<lambda>_. False) 0 [''a'', '''', ''b''] NewManager)))
      = map (event_msg ''now'') (filter (deliverable 5) pre)"
proof -
  let ?R = "replay mgr_SendEvent ''now'' sample_decode 5 (\<lambda>_. False) 0 [''a'', '''', ''b''] NewManager"
  have R: "?R = (fst ?R, fst (snd ?R), snd (snd ?R))" by (simp only: prod.collapse)
  have "parsed sample_decode [''a'', '''', ''b''] = [[(''event'', AStr ''a'')], [(''event'', AStr ''b'')]]"
    by (simp add: sample_decode_def)
  moreover have "sendChan NewManager = []" by (simp add: NewManager_def)
  ultimately show ?thesis using replay_in_order [OF R] by auto
qed



text \<open>
  C26: The baseline does not reach three of the handlers: \<open>InitializeBaseline\<close> stores the fields under
  \<^verbatim>\<open>power-manager:state\<close>, \<^verbatim>\<open>vehicle:handlebar:lock-sensor\<close> and \<^verbatim>\<open>vehicle:seatbox:lock\<close>, the handlers look
  under other keys, so the first change after the start of the service sends no event, whatever the
  old and new values are.
\<close>

theorem first_change_unreported:
  "let e = Detector_InitializeBaseline
             [(''power-manager'', AObj [(''state'', AStr p)]),
              (''vehicle'', AObj [(''handlebar:lock-sensor'', AStr h), (''seatbox:lock'', AStr s)])]
             (NewEventDetector file m)
   in handlePowerState E p' e = set_last ''power:state'' p' e
      \<and> handlebarLockHandler E h' e = set_last ''vehicle:handlebar'' h' e
      \<and> seatboxLockHandler E s' e = set_last ''vehicle:seatbox'' s' e"
  by (simp add: Detector_InitializeBaseline_def detector_baseline_hash_def NewEventDetector_def
      handlePowerState_def handlebarLockHandler_def seatboxLockHandler_def last_of_def gm_str_def Let_def)

end
