(* ===== verification/Alarm.thy ===== *)
theory Alarm
  imports Commands
begin

text \<open>
  The alarm goroutines of \<^verbatim>\<open>internal/commands/scooter.go\<close> run concurrently with each other and with
  the command loop.  A goroutine is its generation and the point it has reached; a step is a
  command of the handler or one call of one goroutine.

  Shown: the handler holds the cancel function of every alarm that has not been cancelled, so
  \<^verbatim>\<open>alarm off\<close> cancels whatever still sounds; a finished alarm never takes the cancel function of its
  successor away.  Also shown: the clean-up of a superseded alarm may switch off the blinkers of the
  alarm that superseded it.
\<close>

datatype apoint = AtStart | InLoop | AtHornOff | AtBlinkerOff | AtClear

record alarm_system =
  as_world :: world
  running :: "(nat, apoint) go_map"

definition move :: "nat \<Rightarrow> apoint \<Rightarrow> call list \<Rightarrow> alarm_system \<Rightarrow> alarm_system" where
  "move g p cs s = s\<lparr>as_world := (as_world s)\<lparr>calls := calls (as_world s) @ cs\<rparr>,
                     running := gm_put g p (running s)\<rparr>"

inductive alarm_step :: "alarm_system \<Rightarrow> alarm_system \<Rightarrow> bool" where
  alarm_on: "alarmPulse params (as_world s) = (e, w) \<Longrightarrow>
    str_or_empty (gm_any params ''state'') \<noteq> ''off'' \<Longrightarrow>
    alarm_step s (s\<lparr>as_world := w, running := gm_put (alarmGen w) AtStart (running s)\<rparr>)"
| alarm_off: "alarmPulse params (as_world s) = (e, w) \<Longrightarrow>
    str_or_empty (gm_any params ''state'') = ''off'' \<Longrightarrow>
    alarm_step s (s\<lparr>as_world := w\<rparr>)"
| blink: "map_of (running s) g = Some AtStart \<Longrightarrow>
    alarm_step s (move g InLoop [CRequest ''scooter:blinker'' ''both''] s)"
| pulse: "map_of (running s) g = Some InLoop \<Longrightarrow> onoff \<in> {''on'', ''off''} \<Longrightarrow>
    alarm_step s (move g InLoop [CRequest ''scooter:horn'' onoff] s)"
| leave: "map_of (running s) g = Some InLoop \<Longrightarrow> alarm_step s (move g AtHornOff [] s)"
| horn: "map_of (running s) g = Some AtHornOff \<Longrightarrow> alarm_step s (move g AtBlinkerOff [horn_off] s)"
| dark: "map_of (running s) g = Some AtBlinkerOff \<Longrightarrow> alarm_step s (move g AtClear [blinker_off] s)"
| clear: "map_of (running s) g = Some AtClear \<Longrightarrow>
    alarm_step s (s\<lparr>as_world := clearAlarm g (as_world s), running := gm_del g (running s)\<rparr>)"

inductive alarm_reachable :: "alarm_system \<Rightarrow> bool" where
  idle: "alarmCancel w = None \<Longrightarrow> alarm_reachable \<lparr>as_world = w, running = []\<rparr>"
| step_on: "alarm_reachable s \<Longrightarrow> alarm_step s t \<Longrightarrow> alarm_reachable t"

section \<open>The invariant\<close>

definition alarm_inv :: "alarm_system \<Rightarrow> bool" where
  "alarm_inv s =
     ((\<forall>g. alarmCancel (as_world s) = Some g \<longrightarrow> g = alarmGen (as_world s))
      \<and> (\<forall>g p. map_of (running s) g = Some p \<longrightarrow> g \<le> alarmGen (as_world s)
           \<and> (g \<in> set (cancelled (as_world s)) \<or> alarmCancel (as_world s) = Some g)))"

lemma alarmPulse_off:
  "str_or_empty (gm_any params ''state'') = ''off'' \<Longrightarrow> alarmPulse params w = (None, stopAlarm w)"
  by (simp add: alarmPulse_def)

lemma alarmPulse_on:
  assumes "alarmPulse params w = (e, w')" and "str_or_empty (gm_any params ''state'') \<noteq> ''off''"
  shows "alarmGen w' = Suc (alarmGen w) \<and> alarmCancel w' = Some (Suc (alarmGen w))
    \<and> set (cancelled w') = set (cancelled w) \<union> set_option (alarmCancel w)"
  using assms
  by (auto simp: alarmPulse_def startAlarm_def spawn_task_def Let_def split: option.splits)

lemma alarm_inv_move:
  "map_of (running s) g = Some q \<Longrightarrow> alarm_inv s \<Longrightarrow> alarm_inv (move g p cs s)"
  by (auto simp: alarm_inv_def move_def update_conv')

lemma alarm_step_inv: "alarm_step s t \<Longrightarrow> alarm_inv s \<Longrightarrow> alarm_inv t"
proof (induction rule: alarm_step.induct)
  case (alarm_on params s e w)
  then show ?case
    using alarmPulse_on [OF alarm_on(1,2)]
    by (auto simp: alarm_inv_def update_conv' le_SucI split: if_splits)
next
  case (alarm_off params s e w)
  then show ?case
    by (auto simp: alarm_inv_def alarmPulse_off stopAlarm_def Let_def split: option.splits)
next
  case (clear s g)
  then show ?case
    by (auto simp: alarm_inv_def clearAlarm_def delete_conv' split: if_splits)
qed (auto intro: alarm_inv_move)

lemma alarm_reachable_inv: "alarm_reachable s \<Longrightarrow> alarm_inv s"
proof (induction rule: alarm_reachable.induct)
  case (idle w)
  then show ?case by (simp add: alarm_inv_def)
next
  case (step_on s t)
  then show ?case using alarm_step_inv by blast
qed

section \<open>A late clean-up\<close>

text \<open>The state after an alarm has blinked and a second one has replaced it and blinked.\<close>

lemma alarm_twice:
  fixes w :: world
  assumes "alarmCancel w = None"
  shows "\<exists>w2. alarm_reachable \<lparr>as_world = w2,
      running = gm_put (alarmGen w + 2) InLoop (gm_put (alarmGen w + 1) InLoop [])\<rparr>
    \<and> alarmCancel w2 = Some (alarmGen w + 2) \<and> alarmGen w2 = alarmGen w + 2
    \<and> set (cancelled w2) = insert (alarmGen w + 1) (set (cancelled w))"
proof -
  obtain e1 w1 where p1: "alarmPulse [] w = (e1, w1)" by fastforce
  have off: "str_or_empty (gm_any [] ''state'') \<noteq> ''off''" by (simp add: gm_any_def str_or_empty_def)
  have r1: "alarmGen w1 = alarmGen w + 1" "alarmCancel w1 = Some (alarmGen w + 1)"
      "set (cancelled w1) = set (cancelled w)" using alarmPulse_on [OF p1 off] assms by auto
  define w1b where "w1b = w1\<lparr>calls := calls w1 @ [CRequest ''scooter:blinker'' ''both'']\<rparr>"
  obtain e2 w2 where p2: "alarmPulse [] w1b = (e2, w2)" by fastforce
  have r2: "alarmGen w2 = alarmGen w + 2" "alarmCancel w2 = Some (alarmGen w + 2)"
      "set (cancelled w2) = insert (alarmGen w + 1) (set (cancelled w))"
    using alarmPulse_on [OF p2 off] r1 by (auto simp: w1b_def)
  let ?s1 = "\<lparr>as_world = w1, running = gm_put (alarmGen w + 1) AtStart []\<rparr>"
  let ?s2 = "\<lparr>as_world = w1b, running = gm_put (alarmGen w + 1) InLoop []\<rparr>"
  let ?s3 = "\<lparr>as_world = w2, running = gm_put (alarmGen w + 2) AtStart (gm_put (alarmGen w + 1) InLoop [])\<rparr>"
  let ?s4 = "\<lparr>as_world = w2\<lparr>calls := calls w2 @ [CRequest ''scooter:blinker'' ''both'']\<rparr>,
      running = gm_put (alarmGen w + 2) InLoop (gm_put (alarmGen w + 1) InLoop [])\<rparr>"
  have "alarm_step \<lparr>as_world = w, running = []\<rparr> ?s1"
    using alarm_on [of "[]" "\<lparr>as_world = w, running = []\<rparr>" e1 w1] p1 off r1 by simp
  moreover have "alarm_step ?s1 ?s2" using blink [of ?s1 "alarmGen w + 1"] by (simp add: move_def w1b_def)
  moreover have "alarm_step ?s2 ?s3" using alarm_on [of "[]" ?s2 e2 w2] p2 off r2 by simp
  moreover have "alarm_step ?s3 ?s4" using blink [of ?s3 "alarmGen w + 2"] by (simp add: move_def)
  ultimately have "alarm_reachable ?s4" using idle [OF assms] step_on by blast
  then show ?thesis using r2 by (intro exI [of _ "as_world ?s4"]) simp
qed

text \<open>From there the first alarm may clean up last.\<close>

lemma late_cleanup:
  assumes "alarm_reachable s" and "map_of (running s) g = Some InLoop"
  shows "alarm_reachable (s\<lparr>as_world := (as_world s)\<lparr>calls := calls (as_world s) @ [horn_off, blinker_off]\<rparr>,
     running := gm_put g AtClear (running s)\<rparr>)"
proof -
  let ?s1 = "move g AtHornOff [] s" and ?s2 = "move g AtBlinkerOff [horn_off] (move g AtHornOff [] s)"
  have "alarm_step s ?s1" using assms(2) by (rule leave)
  moreover have "alarm_step ?s1 ?s2" by (rule horn) (simp add: move_def update_conv')
  moreover have "alarm_step ?s2 (move g AtClear [blinker_off] ?s2)"
    by (rule dark) (simp add: move_def update_conv')
  moreover have "move g AtClear [blinker_off] ?s2
      = s\<lparr>as_world := (as_world s)\<lparr>calls := calls (as_world s) @ [horn_off, blinker_off]\<rparr>,
          running := gm_put g AtClear (running s)\<rparr>"
    by (simp add: move_def)
  ultimately show ?thesis using assms(1) by (metis step_on)
qed

section \<open>Properties\<close>

text \<open>
  C32: \<^verbatim>\<open>alarm off\<close> stops every alarm: in every reachable interleaving of commands and alarm goroutines the
  handler holds the cancel function of each running alarm that was not cancelled (so there is at most
  one), and after \<open>stopAlarm\<close> every running alarm is cancelled.
\<close>

theorem alarm_off_stops_all:
  assumes "alarm_reachable s"
  shows "(\<forall>g p. map_of (running s) g = Some p \<longrightarrow>
           g \<in> set (cancelled (as_world s)) \<or> alarmCancel (as_world s) = Some g)
    \<and> (\<forall>g p. map_of (running s) g = Some p \<longrightarrow> g \<in> set (cancelled (stopAlarm (as_world s))))"
  using alarm_reachable_inv [OF assms] by (auto simp: alarm_inv_def stopAlarm_def Let_def split: option.split)

theorem alarm_off_stops_all_witness:
  "\<exists>s. alarm_reachable s \<and> map_of (running s) 2 = Some InLoop \<and> 2 \<in> set (cancelled (stopAlarm (as_world s)))"
proof -
  obtain w2 where r: "alarm_reachable \<lparr>as_world = w2, running = gm_put 2 InLoop (gm_put 1 InLoop [])\<rparr>"
    using alarm_twice [of "sample_world zero_cfg"] by (auto simp: sample_world_def numeral_2_eq_2)
  then show ?thesis
    using alarm_off_stops_all [OF r]
    by (intro exI [of _ "\<lparr>as_world = w2, running = gm_put 2 InLoop (gm_put 1 InLoop [])\<rparr>"])
       (simp add: update_conv')
qed

text \<open>
  C33: A superseded alarm can darken its successor: there is a reachable state in which an alarm that was
  not cancelled is in its loop while the last blinker request is the \<^verbatim>\<open>off\<close> of the alarm it replaced, and
  the loop does not switch the blinkers on again.
\<close>

theorem superseded_alarm_darkens:
  "\<exists>s g. alarm_reachable s \<and> map_of (running s) g = Some InLoop \<and> g \<notin> set (cancelled (as_world s))
     \<and> last_request ''scooter:blinker'' (calls (as_world s)) = Some ''off''"
proof -
  obtain w2 where r: "alarm_reachable \<lparr>as_world = w2, running = gm_put 2 InLoop (gm_put 1 InLoop [])\<rparr>"
    and c: "set (cancelled w2) = {1}"
    using alarm_twice [of "sample_world zero_cfg"] by (auto simp: sample_world_def numeral_2_eq_2)
  let ?s = "\<lparr>as_world = w2\<lparr>calls := calls w2 @ [horn_off, blinker_off]\<rparr>,
     running = gm_put 1 AtClear (gm_put 2 InLoop (gm_put 1 InLoop []))\<rparr>"
  have "alarm_reachable ?s" using late_cleanup [OF r, of 1] by (simp add: update_conv')
  moreover have "last_request ''scooter:blinker'' (calls w2 @ [horn_off, blinker_off]) = Some ''off''"
    using last_request_snoc [of "''scooter:blinker''" "calls w2 @ [horn_off]"] by (simp add: blinker_off_def)
  ultimately show ?thesis using c by (intro exI [of _ ?s] exI [of _ 2]) (simp add: update_conv')
qed

end
