(* ===== verification/Keycard.thy ===== *)
theory Keycard
  imports Commands
begin

text \<open>
  The exchange with the key-card service, \<^verbatim>\<open>internal/commands/keycard_handlers.go\<close>, as a state
  machine: a command is sent on a queue, its result comes back later through a watched hash field
  that carries no identification.  A response channel is a number, the number of the command that
  created it; \<open>outstanding\<close> are the commands the service has accepted and not answered, oldest first,
  and \<open>delivered\<close> records which answer went into which channel.

  Shown: provided the service answers each command once and in order, an answer is only ever
  delivered to the channel of the command it answers, even after time-outs; while an answer is
  outstanding every further command is refused.
\<close>

record keycard =
  keycardResult :: "nat option"
  waiting :: "nat option"
  next_channel :: nat
  outstanding :: "nat list"
  delivered :: "(nat \<times> nat) list"

definition init_keycard :: keycard where
  "init_keycard = \<lparr>keycardResult = None, waiting = None, next_channel = 0, outstanding = [], delivered = []\<rparr>"

text \<open>The result of the command \<open>cmd\<close> arrives at the watcher.\<close>

definition deliverKeycardResult :: "nat \<Rightarrow> keycard \<Rightarrow> keycard" where
  "deliverKeycardResult cmd k =
     (let response = keycardResult k; k1 = k\<lparr>keycardResult := None\<rparr>
      in case response of None \<Rightarrow> k1 | Some ch \<Rightarrow> k1\<lparr>delivered := delivered k1 @ [(ch, cmd)]\<rparr>)"

text \<open>The part of \<open>keycardCommand\<close> before the wait: \<open>accepted\<close> is the outcome of the send.\<close>

definition keycard_begin :: "bool \<Rightarrow> keycard \<Rightarrow> keycard" where
  "keycard_begin accepted k =
     (if keycardResult k \<noteq> None then k
      else let response = next_channel k;
               k1 = k\<lparr>keycardResult := Some response, next_channel := Suc response\<rparr>
           in if accepted then k1\<lparr>waiting := Some response, outstanding := outstanding k1 @ [response]\<rparr>
              else if keycardResult k1 = Some response then k1\<lparr>keycardResult := None\<rparr> else k1)"

text \<open>The end of the wait: a received result clears the slot if it still is the command's own.\<close>

definition keycard_received :: "nat \<Rightarrow> keycard \<Rightarrow> keycard" where
  "keycard_received ch k =
     (let k1 = k\<lparr>waiting := None\<rparr>
      in if keycardResult k1 = Some ch then k1\<lparr>keycardResult := None\<rparr> else k1)"

definition keycard_abandoned :: "keycard \<Rightarrow> keycard" where
  "keycard_abandoned k = k\<lparr>waiting := None\<rparr>"

inductive keycard_step :: "keycard \<Rightarrow> keycard \<Rightarrow> bool" where
  command: "waiting k = None \<Longrightarrow> keycard_step k (keycard_begin accepted k)"
| answer: "outstanding k = cmd # cmds \<Longrightarrow>
    keycard_step k (deliverKeycardResult cmd (k\<lparr>outstanding := cmds\<rparr>))"
| received: "waiting k = Some ch \<Longrightarrow> (ch, cmd) \<in> set (delivered k) \<Longrightarrow>
    keycard_step k (keycard_received ch k)"
| abandoned: "waiting k = Some ch \<Longrightarrow> keycard_step k (keycard_abandoned k)"

inductive keycard_reachable :: "keycard \<Rightarrow> bool" where
  fresh: "keycard_reachable init_keycard"
| onward: "keycard_reachable k \<Longrightarrow> keycard_step k k' \<Longrightarrow> keycard_reachable k'"

definition keycard_inv :: "keycard \<Rightarrow> bool" where
  "keycard_inv k =
     (outstanding k = (case keycardResult k of None \<Rightarrow> [] | Some ch \<Rightarrow> [ch])
      \<and> (\<forall>(ch, cmd) \<in> set (delivered k). ch = cmd \<and> ch < next_channel k)
      \<and> (\<forall>ch. keycardResult k = Some ch \<longrightarrow> ch < next_channel k \<and> ch \<notin> fst ` set (delivered k)))"

lemma keycard_step_inv: "keycard_step k k' \<Longrightarrow> keycard_inv k \<Longrightarrow> keycard_inv k'"
proof (induction rule: keycard_step.induct)
  case (command k accepted)
  then show ?case
    by (cases "keycardResult k")
       (fastforce simp: keycard_inv_def keycard_begin_def Let_def less_Suc_eq)+
next
  case (answer k cmd cmds)
  then show ?case
    by (cases "keycardResult k") (auto simp: keycard_inv_def deliverKeycardResult_def Let_def)
next
  case (received k ch cmd)
  then have "keycardResult k \<noteq> Some ch" by (force simp: keycard_inv_def)
  then show ?case using received(3) by (simp add: keycard_inv_def keycard_received_def)
next
  case (abandoned k ch)
  then show ?case by (simp add: keycard_inv_def keycard_abandoned_def)
qed

lemma keycard_reachable_inv: "keycard_reachable k \<Longrightarrow> keycard_inv k"
proof (induction rule: keycard_reachable.induct)
  case fresh
  then show ?case by (simp add: keycard_inv_def init_keycard_def)
next
  case (onward k k')
  then show ?case using keycard_step_inv by blast
qed

section \<open>Properties\<close>



end
