(* ===== verification/Utf8.thy ===== *)
theory Utf8
  imports Prelude
begin

text \<open>
  UTF-8 as the Go package \<^verbatim>\<open>unicode/utf8\<close> defines it, as far as the ride-group protocol uses it.  A rune
  is a natural number; decoding a byte sequence that is not the encoding of a scalar value yields
  U+FFFD and consumes one byte.

  Shown: encoding and decoding are inverse on scalar values, the runes of a string end where the
  string ends, and a string is valid exactly when it is the encoding of a list of scalar values.
\<close>

named_theorems utf8_simps \<open>decoding of encoded runes\<close>

abbreviation byte :: "char \<Rightarrow> nat" where "byte c \<equiv> of_char c"

definition RuneError :: nat where "RuneError = 0xFFFD"

definition scalar :: "nat \<Rightarrow> bool" where
  "scalar r = (r < 0xD800 \<or> 0xDFFF < r \<and> r \<le> 0x10FFFF)"

definition EncodeRune :: "nat \<Rightarrow> string" where
  "EncodeRune r0 =
     (let r = (if scalar r0 then r0 else RuneError)
      in if r < 0x80 then [char_of r]
         else if r < 0x800 then [char_of (0xC0 + r div 64), char_of (0x80 + r mod 64)]
         else if r < 0x10000
         then [char_of (0xE0 + r div 4096), char_of (0x80 + r div 64 mod 64), char_of (0x80 + r mod 64)]
         else [char_of (0xF0 + r div 262144), char_of (0x80 + r div 4096 mod 64),
               char_of (0x80 + r div 64 mod 64), char_of (0x80 + r mod 64)])"

text \<open>\<^verbatim>\<open>utf8.RuneLen\<close> of a scalar value.\<close>

definition RuneLen :: "nat \<Rightarrow> nat" where
  "RuneLen r = (if r < 0x80 then 1 else if r < 0x800 then 2 else if r < 0x10000 then 3 else 4)"

definition cont :: "char \<Rightarrow> bool" where
  "cont c = (0x80 \<le> byte c \<and> byte c \<le> 0xBF)"

text \<open>The range of the second byte depends on the first.\<close>

definition second_ok :: "nat \<Rightarrow> nat \<Rightarrow> bool" where
  "second_ok b0 b1 =
     ((if b0 = 0xE0 then 0xA0 else if b0 = 0xF0 then 0x90 else 0x80) \<le> b1
      \<and> b1 \<le> (if b0 = 0xED then 0x9F else if b0 = 0xF4 then 0x8F else 0xBF))"

definition DecodeRune :: "string \<Rightarrow> nat \<times> nat" where
  "DecodeRune s =
     (case s of
        [] \<Rightarrow> (RuneError, 0)
      | c0 # s1 \<Rightarrow>
          (let b0 = byte c0
           in if b0 < 0x80 then (b0, 1)
              else if b0 < 0xC2 \<or> 0xF4 < b0 then (RuneError, 1)
              else case s1 of
                [] \<Rightarrow> (RuneError, 1)
              | c1 # s2 \<Rightarrow>
                  (let b1 = byte c1
                   in if \<not> second_ok b0 b1 then (RuneError, 1)
                      else if b0 < 0xE0 then ((b0 - 0xC0) * 64 + (b1 - 0x80), 2)
                      else case s2 of
                        [] \<Rightarrow> (RuneError, 1)
                      | c2 # s3 \<Rightarrow>
                          (let b2 = byte c2
                           in if \<not> cont c2 then (RuneError, 1)
                              else if b0 < 0xF0
                              then ((b0 - 0xE0) * 4096 + (b1 - 0x80) * 64 + (b2 - 0x80), 3)
                              else case s3 of
                                [] \<Rightarrow> (RuneError, 1)
                              | c3 # s4 \<Rightarrow>
                                  if \<not> cont c3 then (RuneError, 1)
                                  else ((b0 - 0xF0) * 262144 + (b1 - 0x80) * 4096 + (b2 - 0x80) * 64
                                          + (byte c3 - 0x80), 4)))))"

lemma DecodeRune_size: "s \<noteq> [] \<Longrightarrow> 1 \<le> snd (DecodeRune s)"
  by (auto simp: DecodeRune_def Let_def neq_Nil_conv split: list.splits)

lemma DecodeRune_size_le: "snd (DecodeRune s) \<le> length s"
  by (auto simp: DecodeRune_def Let_def split: list.splits)

text \<open>The runes a \<^verbatim>\<open>range\<close> loop over a string visits, with the number of bytes of each.\<close>

function decode_all :: "string \<Rightarrow> (nat \<times> nat) list" where
  "decode_all [] = []"
| "decode_all (c # s) =
     DecodeRune (c # s) # decode_all (drop (snd (DecodeRune (c # s))) (c # s))"
  by pat_completeness auto

termination
proof (relation "measure length")
  fix c :: char and s :: string
  show "(drop (snd (DecodeRune (c # s))) (c # s), c # s) \<in> measure length"
    using DecodeRune_size [of "c # s"] by simp
qed simp

definition runes :: "string \<Rightarrow> nat list" where
  "runes s = map fst (decode_all s)"

definition RuneCountInString :: "string \<Rightarrow> nat" where
  "RuneCountInString s = length (decode_all s)"

definition ValidString :: "string \<Rightarrow> bool" where
  "ValidString s = list_all (\<lambda>d. d \<noteq> (RuneError, 1)) (decode_all s)"

definition of_runes :: "nat list \<Rightarrow> string" where
  "of_runes rs = concat (map EncodeRune rs)"

section \<open>Laws\<close>

lemma byte_char_of: "n < 256 \<Longrightarrow> byte (char_of n) = n"
  by simp

lemma char_of_iff_byte: "n < 256 \<Longrightarrow> char_of n = c \<longleftrightarrow> n = byte c"
  by auto

lemma byte_less: "byte c < 256"
  by simp

lemma RuneLen_pos: "0 < RuneLen r"
  by (simp add: RuneLen_def)

lemma length_EncodeRune: "scalar r \<Longrightarrow> length (EncodeRune r) = RuneLen r"
  by (simp add: EncodeRune_def RuneLen_def)

lemma EncodeRune_not_Nil: "EncodeRune r \<noteq> []"
  by (simp add: EncodeRune_def Let_def)

lemma base64_3: "a = x * 64 + y \<Longrightarrow> r = a * 64 + z \<Longrightarrow> r = (x * 64 + y) * 64 + z"
  for a r x y z :: nat
  by simp

lemma base64_4: "b = w * 64 + x \<Longrightarrow> a = b * 64 + y \<Longrightarrow> r = a * 64 + z \<Longrightarrow> r = ((w * 64 + x) * 64 + y) * 64 + z"
  for a b r w x y z :: nat
  by simp

lemma decode_2:
  "byte c0 = 0xC0 + x \<Longrightarrow> byte c1 = 0x80 + z \<Longrightarrow> 2 \<le> x \<Longrightarrow> x < 32 \<Longrightarrow> z < 64 \<Longrightarrow>
    DecodeRune (c0 # c1 # s) = (x * 64 + z, 2)"
  by (simp add: DecodeRune_def second_ok_def Let_def)

lemma decode_3:
  "byte c0 = 0xE0 + x \<Longrightarrow> byte c1 = 0x80 + y \<Longrightarrow> byte c2 = 0x80 + z \<Longrightarrow> x < 16 \<Longrightarrow> z < 64 \<Longrightarrow>
    second_ok (0xE0 + x) (0x80 + y) \<Longrightarrow> DecodeRune (c0 # c1 # c2 # s) = ((x * 64 + y) * 64 + z, 3)"
  by (simp add: DecodeRune_def cont_def Let_def)

lemma decode_4:
  "byte c0 = 0xF0 + w \<Longrightarrow> byte c1 = 0x80 + x \<Longrightarrow> byte c2 = 0x80 + y \<Longrightarrow> byte c3 = 0x80 + z \<Longrightarrow>
    w < 5 \<Longrightarrow> y < 64 \<Longrightarrow> z < 64 \<Longrightarrow> second_ok (0xF0 + w) (0x80 + x) \<Longrightarrow>
    DecodeRune (c0 # c1 # c2 # c3 # s) = (((w * 64 + x) * 64 + y) * 64 + z, 4)"
  by (simp add: DecodeRune_def cont_def Let_def)

lemma DecodeRune_2:
  "0x80 \<le> r \<Longrightarrow> r < 0x800 \<Longrightarrow>
    DecodeRune (char_of (0xC0 + r div 64) # char_of (0x80 + r mod 64) # s) = (r, 2)"
  for r :: nat
proof -
  assume r: "0x80 \<le> r" "r < 0x800"
  have b: "byte (char_of (0xC0 + r div 64)) = 0xC0 + r div 64" "byte (char_of (0x80 + r mod 64)) = 0x80 + r mod 64"
    using r by (auto intro!: byte_char_of)
  have "2 \<le> r div 64" "r div 64 < 32" using r by auto
  from decode_2 [OF b this] show ?thesis by simp
qed

lemma DecodeRune_3:
  "0x800 \<le> r \<Longrightarrow> r < 0x10000 \<Longrightarrow> \<not> (0xD800 \<le> r \<and> r \<le> 0xDFFF) \<Longrightarrow>
    DecodeRune (char_of (0xE0 + r div 4096) # char_of (0x80 + r div 64 mod 64) # char_of (0x80 + r mod 64) # s)
      = (r, 3)"
  for r :: nat
proof -
  assume r: "0x800 \<le> r" "r < 0x10000" "\<not> (0xD800 \<le> r \<and> r \<le> 0xDFFF)"
  define x y z where "x = r div 4096" and "y = r div 64 mod 64" and "z = r mod 64"
  have e: "r = (x * 64 + y) * 64 + z"
    unfolding x_def y_def z_def by (rule base64_3 [where a = "r div 64"]) (simp_all add: div_mult2_eq [of r 64 64, simplified])
  have "z < 64" "y < 64" by (simp_all add: y_def z_def)
  moreover from this have "x < 16" "second_ok (0xE0 + x) (0x80 + y)" using e r by (auto simp: second_ok_def)
  ultimately show ?thesis
    using e unfolding x_def [symmetric] y_def [symmetric] z_def [symmetric]
    by (subst decode_3 [where x = x and y = y and z = z]) (auto intro!: byte_char_of)
qed

lemma DecodeRune_4:
  "0x10000 \<le> r \<Longrightarrow> r \<le> 0x10FFFF \<Longrightarrow>
    DecodeRune (char_of (0xF0 + r div 262144) # char_of (0x80 + r div 4096 mod 64)
                # char_of (0x80 + r div 64 mod 64) # char_of (0x80 + r mod 64) # s) = (r, 4)"
  for r :: nat
proof -
  assume r: "0x10000 \<le> r" "r \<le> 0x10FFFF"
  define w x y z where "w = r div 262144" and "x = r div 4096 mod 64" and "y = r div 64 mod 64" and "z = r mod 64"
  have e: "r = ((w * 64 + x) * 64 + y) * 64 + z"
    unfolding w_def x_def y_def z_def
    by (rule base64_4 [where a = "r div 64" and b = "r div 4096"])
      (simp_all add: div_mult2_eq [of r 64 64, simplified] div_mult2_eq [of r 4096 64, simplified])
  have "z < 64" "y < 64" "x < 64" by (simp_all add: x_def y_def z_def)
  moreover from this have "w < 5" "second_ok (0xF0 + w) (0x80 + x)" using e r by (auto simp: second_ok_def)
  ultimately show ?thesis
    using e unfolding w_def [symmetric] x_def [symmetric] y_def [symmetric] z_def [symmetric]
    by (subst decode_4 [where w = w and x = x and y = y and z = z]) (auto intro!: byte_char_of)
qed

lemma DecodeRune_EncodeRune [utf8_simps]:
  assumes "scalar r"
  shows "DecodeRune (EncodeRune r @ s) = (r, RuneLen r)"
proof -
  consider "r < 0x80" | "0x80 \<le> r" "r < 0x800" | "0x800 \<le> r" "r < 0x10000" | "0x10000 \<le> r" by linarith
  then show ?thesis
  proof cases
    case 1
    then show ?thesis using assms by (simp add: EncodeRune_def RuneLen_def DecodeRune_def)
  next
    case 2
    then show ?thesis using assms DecodeRune_2 by (simp add: EncodeRune_def RuneLen_def)
  next
    case 3
    then show ?thesis using assms DecodeRune_3 [of r s] by (auto simp: EncodeRune_def RuneLen_def scalar_def)
  next
    case 4
    then show ?thesis using assms DecodeRune_4 [of r s] by (simp add: EncodeRune_def RuneLen_def scalar_def)
  qed
qed

text \<open>Conversely, what decodes to anything but the one-byte error is the encoding of a scalar value.\<close>

lemma div_mod_64: "y < 64 \<Longrightarrow> (x * 64 + y) div 64 = x" "y < 64 \<Longrightarrow> (x * 64 + y) mod 64 = y"
  for x y :: nat
  by auto

lemma char_of_byte_eq: "n = byte c \<Longrightarrow> char_of n = c"
  by simp

lemma EncodeRune_2:
  "0xC2 \<le> byte c0 \<Longrightarrow> byte c0 < 0xE0 \<Longrightarrow> cont c1 \<Longrightarrow> r = (byte c0 - 0xC0) * 64 + (byte c1 - 0x80) \<Longrightarrow>
    scalar r \<and> EncodeRune r = [c0, c1]"
proof -
  assume a: "0xC2 \<le> byte c0" "byte c0 < 0xE0" "cont c1" "r = (byte c0 - 0xC0) * 64 + (byte c1 - 0x80)"
  then have z: "byte c1 - 0x80 < 64" by (auto simp: cont_def)
  then have "r div 64 = byte c0 - 0xC0" "r mod 64 = byte c1 - 0x80" using div_mod_64 [OF z] a(4) by auto
  moreover have "0x80 \<le> r" "r < 0x800" using a z by auto
  moreover have "char_of (0xC0 + (byte c0 - 0xC0)) = c0" "char_of (0x80 + (byte c1 - 0x80)) = c1"
    using a by (auto intro!: char_of_byte_eq simp: cont_def)
  ultimately show ?thesis by (simp add: EncodeRune_def scalar_def)
qed

lemma EncodeRune_3:
  "0xE0 \<le> byte c0 \<Longrightarrow> byte c0 < 0xF0 \<Longrightarrow> second_ok (byte c0) (byte c1) \<Longrightarrow> cont c2 \<Longrightarrow>
    r = (byte c0 - 0xE0) * 4096 + (byte c1 - 0x80) * 64 + (byte c2 - 0x80) \<Longrightarrow>
    scalar r \<and> EncodeRune r = [c0, c1, c2]"
proof -
  assume a: "0xE0 \<le> byte c0" "byte c0 < 0xF0" "second_ok (byte c0) (byte c1)" "cont c2"
    "r = (byte c0 - 0xE0) * 4096 + (byte c1 - 0x80) * 64 + (byte c2 - 0x80)"
  define x y z where "x = byte c0 - 0xE0" and "y = byte c1 - 0x80" and "z = byte c2 - 0x80"
  have z: "z < 64" "y < 64" using a by (auto simp: cont_def second_ok_def y_def z_def split: if_splits)
  have r: "r = (x * 64 + y) * 64 + z" using a(5) by (simp add: x_def y_def z_def)
  have d: "r div 64 = x * 64 + y" "r mod 64 = z" by (simp_all only: r div_mod_64 [OF z(1)])
  then have d2: "r div 64 mod 64 = y" "r div 4096 = x"
    using div_mod_64 [OF z(2)] div_mult2_eq [of r 64 64] by auto
  have x: "x < 16" "byte c0 = 0xE0 + x" using a by (auto simp: x_def)
  have "0x800 \<le> r" "r < 0x10000" "\<not> (0xD800 \<le> r \<and> r \<le> 0xDFFF)"
    using a(3) z x r by (auto simp: second_ok_def y_def split: if_splits)
  moreover have "char_of (0xE0 + x) = c0" "char_of (0x80 + y) = c1" "char_of (0x80 + z) = c2"
    using a by (auto intro!: char_of_byte_eq simp: cont_def x_def y_def z_def second_ok_def split: if_splits)
  ultimately show ?thesis using d d2 by (auto simp: EncodeRune_def scalar_def)
qed

lemma EncodeRune_4:
  "0xF0 \<le> byte c0 \<Longrightarrow> byte c0 \<le> 0xF4 \<Longrightarrow> second_ok (byte c0) (byte c1) \<Longrightarrow> cont c2 \<Longrightarrow> cont c3 \<Longrightarrow>
    r = (byte c0 - 0xF0) * 262144 + (byte c1 - 0x80) * 4096 + (byte c2 - 0x80) * 64 + (byte c3 - 0x80) \<Longrightarrow>
    scalar r \<and> EncodeRune r = [c0, c1, c2, c3]"
proof -
  assume a: "0xF0 \<le> byte c0" "byte c0 \<le> 0xF4" "second_ok (byte c0) (byte c1)" "cont c2" "cont c3"
    "r = (byte c0 - 0xF0) * 262144 + (byte c1 - 0x80) * 4096 + (byte c2 - 0x80) * 64 + (byte c3 - 0x80)"
  define w x y z where "w = byte c0 - 0xF0" and "x = byte c1 - 0x80" and "y = byte c2 - 0x80" and "z = byte c3 - 0x80"
  have z: "z < 64" "y < 64" "x < 64"
    using a by (auto simp: cont_def second_ok_def x_def y_def z_def split: if_splits)
  have r: "r = ((w * 64 + x) * 64 + y) * 64 + z" using a(6) by (simp add: w_def x_def y_def z_def)
  have d: "r div 64 = (w * 64 + x) * 64 + y" "r mod 64 = z" by (simp_all only: r div_mod_64 [OF z(1)])
  have m: "r div 4096 = r div 64 div 64" "r div 262144 = r div 64 div 64 div 64"
    by (simp_all add: div_mult2_eq [symmetric])
  have d2: "r div 64 mod 64 = y" "r div 4096 = w * 64 + x"
    by (simp_all only: m d div_mod_64 [OF z(2)])
  have d3: "r div 4096 mod 64 = x" "r div 262144 = w"
    by (simp_all only: m d div_mod_64 [OF z(2)] div_mod_64 [OF z(3)])
  have w: "w < 5" "byte c0 = 0xF0 + w" using a by (auto simp: w_def)
  have "0x10000 \<le> r" "r \<le> 0x10FFFF"
    using a(3) z w r by (auto simp: second_ok_def x_def split: if_splits)
  moreover have "char_of (0xF0 + w) = c0" "char_of (0x80 + x) = c1" "char_of (0x80 + y) = c2" "char_of (0x80 + z) = c3"
    using a by (auto intro!: char_of_byte_eq simp: cont_def w_def x_def y_def z_def second_ok_def split: if_splits)
  ultimately show ?thesis using d d2 d3 by (auto simp: EncodeRune_def scalar_def)
qed

lemma DecodeRune_valid:
  assumes "s \<noteq> []" and "DecodeRune s \<noteq> (RuneError, 1)"
  shows "scalar (fst (DecodeRune s)) \<and> EncodeRune (fst (DecodeRune s)) = take (snd (DecodeRune s)) s"
proof -
  obtain c0 s1 where s: "s = c0 # s1" using assms(1) by (cases s) auto
  consider (1) "byte c0 < 0x80"
    | (2) c1 s2 where "s1 = c1 # s2" "0xC2 \<le> byte c0" "byte c0 < 0xE0" "second_ok (byte c0) (byte c1)"
    | (3) c1 c2 s3 where "s1 = c1 # c2 # s3" "0xE0 \<le> byte c0" "byte c0 < 0xF0"
        "second_ok (byte c0) (byte c1)" "cont c2"
    | (4) c1 c2 c3 s4 where "s1 = c1 # c2 # c3 # s4" "0xF0 \<le> byte c0" "byte c0 \<le> 0xF4"
        "second_ok (byte c0) (byte c1)" "cont c2" "cont c3"
    using assms(2) unfolding s DecodeRune_def Let_def
    by (auto split: if_splits list.splits simp: not_less not_le)
  then show ?thesis
  proof cases
    case 1
    then show ?thesis by (simp add: s DecodeRune_def EncodeRune_def scalar_def)
  next
    case 2
    then have "cont c1" by (auto simp: second_ok_def cont_def split: if_splits)
    then show ?thesis using EncodeRune_2 [OF 2(2,3)] 2 by (simp add: s DecodeRune_def Let_def)
  next
    case 3
    then show ?thesis using EncodeRune_3 [OF 3(2-5)] by (simp add: s DecodeRune_def Let_def)
  next
    case 4
    then show ?thesis using EncodeRune_4 [OF 4(2-6)] by (simp add: s DecodeRune_def Let_def)
  qed
qed

lemma decode_all_Cons: "s \<noteq> [] \<Longrightarrow> decode_all s = DecodeRune s # decode_all (drop (snd (DecodeRune s)) s)"
  by (cases s) auto

lemma decode_all_EncodeRune [utf8_simps]:
  "scalar r \<Longrightarrow> decode_all (EncodeRune r @ s) = (r, RuneLen r) # decode_all s"
  using EncodeRune_not_Nil [of r]
  by (subst decode_all_Cons) (simp_all add: DecodeRune_EncodeRune length_EncodeRune)

lemma runes_of_runes: "list_all scalar rs \<Longrightarrow> runes (of_runes rs @ s) = rs @ runes s"
  by (induction rs) (auto simp: runes_def of_runes_def utf8_simps)

lemma runes_of_runes' [simp]: "list_all scalar rs \<Longrightarrow> runes (of_runes rs) = rs"
  using runes_of_runes [of rs "[]"] by (simp add: runes_def)

lemma of_runes_Cons: "of_runes (r # rs) = EncodeRune r @ of_runes rs"
  by (simp add: of_runes_def)

lemma of_runes_append [simp]: "of_runes (xs @ ys) = of_runes xs @ of_runes ys"
  by (simp add: of_runes_def)

lemma ValidString_EncodeRune [utf8_simps]: "scalar r \<Longrightarrow> ValidString (EncodeRune r @ s) = ValidString s"
  by (auto simp: ValidString_def utf8_simps RuneLen_def RuneError_def)

lemma ValidString_of_runes [simp]: "list_all scalar rs \<Longrightarrow> ValidString (of_runes rs)"
  by (induction rs) (auto simp: of_runes_def utf8_simps, simp add: ValidString_def)

text \<open>A valid string is the encoding of its runes.\<close>

lemma ValidString_runes: "ValidString s \<Longrightarrow> list_all scalar (runes s) \<and> of_runes (runes s) = s"
proof (induction s rule: decode_all.induct)
  case 1
  then show ?case by (simp add: runes_def of_runes_def)
next
  case (2 c s)
  let ?d = "DecodeRune (c # s)"
  have v: "?d \<noteq> (RuneError, 1)" "ValidString (drop (snd ?d) (c # s))"
    using "2.prems" by (simp_all add: ValidString_def)
  have "runes (c # s) = fst ?d # runes (drop (snd ?d) (c # s))" by (simp add: runes_def)
  then show ?case
    using DecodeRune_valid [OF _ v(1)] "2.IH" [OF v(2)] append_take_drop_id [of "snd ?d" "c # s"]
    by (simp add: of_runes_def)
qed

lemma RuneCount_runes: "RuneCountInString s = length (runes s)"
  by (simp add: RuneCountInString_def runes_def)

lemma ascii_EncodeRune: "byte c < 0x80 \<Longrightarrow> EncodeRune (byte c) = [c]"
  by (simp add: EncodeRune_def scalar_def)

lemma ascii_scalar: "byte c < 0x80 \<Longrightarrow> scalar (byte c)"
  by (simp add: scalar_def)

lemma decode_all_ascii: "byte c < 0x80 \<Longrightarrow> decode_all (c # s) = (byte c, 1) # decode_all s"
  by (simp add: DecodeRune_def)

lemma ValidString_ascii: "byte c < 0x80 \<Longrightarrow> ValidString (c # s) = ValidString s"
  by (auto simp add: ValidString_def decode_all_ascii RuneError_def simp del: decode_all.simps)

lemma ValidString_append: "ValidString s \<Longrightarrow> ValidString (s @ t) = ValidString t"
proof -
  assume s: "ValidString s"
  have "ValidString (of_runes rs @ t) = ValidString t" if "list_all scalar rs" for rs
    using that by (induction rs) (auto simp: of_runes_def utf8_simps)
  then show ?thesis using ValidString_runes [OF s] by metis
qed

end
