(* ===== verification/Json.thy ===== *)
theory Json
  imports Utf8 Clock
begin

text \<open>
  The Go package \<^verbatim>\<open>encoding/json\<close> as far as the ride-group protocol uses it.  A document is read by a
  lexer, one pass over the bytes, and a push-down automaton over the tokens, as the Go scanner does; the
  result is a \<open>json\<close> tree in which a number keeps its literal, so that checks of the raw text of a
  field can be read off the tree.  Objects are the list of their members in the order of the text,
  duplicates included.

  \<open>Unmarshal\<close> into a structure is a fold over the members of the object: a member is stored in the
  field whose name it equals, or else whose name it equals up to case folding, and \<^verbatim>\<open>null\<close> stores
  nothing.  \<open>print_json\<close> is \<^verbatim>\<open>json.Marshal\<close>, with the escapes for HTML.

  Shown: reading back a printed tree yields the tree (\<open>parse_print\<close>).
\<close>

section \<open>Trees\<close>

datatype json =
    JNull
  | JBool bool
  | JNum string
  | JStr string
  | JArr "json list"
  | JObj "(string \<times> json) list"

datatype token = TPunct char | TStr string | TWord string

section \<open>Lexing\<close>

definition json_space :: "char \<Rightarrow> bool" where
  "json_space c = (c \<in> {CHR 0x20, CHR 0x09, CHR 0x0A, CHR 0x0D})"

definition json_punct :: "char \<Rightarrow> bool" where
  "json_punct c = (c \<in> {CHR ''{'', CHR ''}'', CHR ''['', CHR '']'', CHR '':'', CHR '',''})"

text \<open>
  The lexer is between tokens, inside a string (behind a backslash when the flag is set) or inside a
  number or literal; the bytes of the token so far are kept in reverse.
\<close>

datatype lexmode = LDef | LStr bool string | LWord string

fun lex_start :: "char \<Rightarrow> token list \<times> lexmode" where
  "lex_start c =
     (if json_space c then ([], LDef)
      else if json_punct c then ([TPunct c], LDef)
      else if c = CHR 0x22 then ([], LStr False [])
      else ([], LWord [c]))"

fun lex :: "lexmode \<Rightarrow> string \<Rightarrow> token list option" where
  "lex LDef [] = Some []"
| "lex (LStr e w) [] = None"
| "lex (LWord w) [] = Some [TWord (rev w)]"
| "lex LDef (c # s) = map_option ((@) (fst (lex_start c))) (lex (snd (lex_start c)) s)"
| "lex (LStr True w) (c # s) = lex (LStr False (c # w)) s"
| "lex (LStr False w) (c # s) =
     (if c = CHR 0x22 then map_option ((#) (TStr (rev w))) (lex LDef s)
      else if byte c < 0x20 then None
      else lex (LStr (c = CHR 0x5C) (c # w)) s)"
| "lex (LWord w) (c # s) =
     (if json_space c \<or> json_punct c \<or> c = CHR 0x22
      then map_option (\<lambda>ts. TWord (rev w) # fst (lex_start c) @ ts) (lex (snd (lex_start c)) s)
      else lex (LWord (c # w)) s)"

section \<open>Literals\<close>

definition hex_val :: "char \<Rightarrow> nat option" where
  "hex_val c =
     (let b = byte c
      in if 48 \<le> b \<and> b \<le> 57 then Some (b - 48)
         else if 97 \<le> b \<and> b \<le> 102 then Some (b - 87)
         else if 65 \<le> b \<and> b \<le> 70 then Some (b - 55)
         else None)"

text \<open>Four hexadecimal digits at the front of a string.\<close>

definition hex4 :: "string \<Rightarrow> nat option" where
  "hex4 s =
     (if length s < 4 then None
      else case (hex_val (s ! 0), hex_val (s ! 1), hex_val (s ! 2), hex_val (s ! 3)) of
        (Some a, Some b, Some c, Some d) \<Rightarrow> Some (((a * 16 + b) * 16 + c) * 16 + d)
      | _ \<Rightarrow> None)"

definition simple_escapes :: "(char \<times> char) list" where
  "simple_escapes =
     [(CHR 0x22, CHR 0x22), (CHR 0x5C, CHR 0x5C), (CHR ''/'', CHR ''/''), (CHR ''b'', CHR 0x08),
      (CHR ''f'', CHR 0x0C), (CHR ''n'', CHR 0x0A), (CHR ''r'', CHR 0x0D), (CHR ''t'', CHR 0x09)]"

definition surrogate :: "nat \<Rightarrow> bool" where
  "surrogate r = (0xD800 \<le> r \<and> r \<le> 0xDFFF)"

text \<open>\<^verbatim>\<open>utf16.DecodeRune\<close> of two code units, \<^verbatim>\<open>U+FFFD\<close> when they are no pair.\<close>

definition pair_rune :: "nat \<Rightarrow> nat \<Rightarrow> nat" where
  "pair_rune a b =
     (if 0xD800 \<le> a \<and> a < 0xDC00 \<and> 0xDC00 \<le> b \<and> b < 0xE000
      then (a - 0xD800) * 1024 + (b - 0xDC00) + 0x10000 else RuneError)"

definition getu4 :: "string \<Rightarrow> nat option" where
  "getu4 s = (if take 2 s = [CHR 0x5C, CHR ''u''] then hex4 (drop 2 s) else None)"

text \<open>
  \<open>unquote\<close> of the text between the quotes: escapes are replaced, an unpaired surrogate and a byte
  that is not UTF-8 become U+FFFD; \<open>None\<close> for an escape JSON does not have.
\<close>

function unquote :: "string \<Rightarrow> string option" where
  "unquote [] = Some []"
| "unquote (c # s) =
     (if c = CHR 0x5C then
        (case s of
           [] \<Rightarrow> None
         | e # s' \<Rightarrow>
             if e = CHR ''u'' then
               (case hex4 s' of
                  None \<Rightarrow> None
                | Some a \<Rightarrow>
                    if surrogate a then
                      (case getu4 (drop 4 s') of
                         None \<Rightarrow> map_option ((@) (EncodeRune RuneError)) (unquote (drop 4 s'))
                       | Some b \<Rightarrow>
                           if pair_rune a b \<noteq> RuneError
                           then map_option ((@) (EncodeRune (pair_rune a b))) (unquote (drop 10 s'))
                           else map_option ((@) (EncodeRune RuneError)) (unquote (drop 4 s')))
                    else map_option ((@) (EncodeRune a)) (unquote (drop 4 s')))
             else (case map_of simple_escapes e of
                 None \<Rightarrow> None
               | Some d \<Rightarrow> map_option ((#) d) (unquote s')))
      else map_option ((@) (EncodeRune (fst (DecodeRune (c # s)))))
             (unquote (drop (snd (DecodeRune (c # s))) (c # s))))"
  by pat_completeness auto

termination
proof (relation "measure length", goal_cases)
  case (7 c s)
  then show ?case using DecodeRune_size [of "c # s"] by simp
qed auto

fun skip_digits :: "string \<Rightarrow> string" where
  "skip_digits [] = []"
| "skip_digits (c # s) = (if digit_val c \<noteq> None then skip_digits s else c # s)"

definition some_digits :: "string \<Rightarrow> string option" where
  "some_digits s = (case s of c # _ \<Rightarrow> if digit_val c \<noteq> None then Some (skip_digits s) else None | [] \<Rightarrow> None)"

text \<open>The grammar of a JSON number, each part giving the rest of the literal.\<close>

definition lead :: "char \<Rightarrow> string \<Rightarrow> string option" where
  "lead c s = (case s of x # r \<Rightarrow> if x = c then Some r else None | [] \<Rightarrow> None)"

definition num_int :: "string \<Rightarrow> string option" where
  "num_int s =
     (let s' = (case lead (CHR ''-'') s of Some r \<Rightarrow> r | None \<Rightarrow> s)
      in case lead (CHR ''0'') s' of Some r \<Rightarrow> Some r | None \<Rightarrow> some_digits s')"

definition num_frac :: "string \<Rightarrow> string option" where
  "num_frac s = (case lead (CHR ''.'') s of Some r \<Rightarrow> some_digits r | None \<Rightarrow> Some s)"

definition num_exp :: "string \<Rightarrow> string option" where
  "num_exp s =
     (case s of
        c # r \<Rightarrow>
          if c = CHR ''e'' \<or> c = CHR ''E''
          then some_digits (case r of d # r' \<Rightarrow> if d = CHR ''+'' \<or> d = CHR ''-'' then r' else r | [] \<Rightarrow> r)
          else Some s
      | [] \<Rightarrow> Some s)"

definition valid_number :: "string \<Rightarrow> bool" where
  "valid_number s = (Option.bind (num_int s) (\<lambda>a. Option.bind (num_frac a) num_exp) = Some [])"

definition word_value :: "string \<Rightarrow> json option" where
  "word_value w =
     (if w = ''null'' then Some JNull
      else if w = ''true'' then Some (JBool True)
      else if w = ''false'' then Some (JBool False)
      else if valid_number w then Some (JNum w) else None)"

section \<open>Parsing\<close>

text \<open>
  The stack holds the open arrays and objects with what they have so far, in reverse; an object
  also has the key whose value is being read.  \<open>MKey\<close> carries the members of the object whose next
  key is expected, with a flag that an end is allowed instead.
\<close>

datatype frame = FArr "json list" | FObj "(string \<times> json) list" string

datatype pmode =
    MVal
  | MValOrEnd
  | MKey bool "(string \<times> json) list"
  | MColon "(string \<times> json) list" string
  | MNext
  | MDone json

definition maxNestingDepth :: nat where "maxNestingDepth = 10000"

fun deliver :: "json \<Rightarrow> frame list \<Rightarrow> pmode \<times> frame list" where
  "deliver v [] = (MDone v, [])"
| "deliver v (FArr vs # fs) = (MNext, FArr (v # vs) # fs)"
| "deliver v (FObj ps k # fs) = (MNext, FObj ((k, v) # ps) k # fs)"

text \<open>An opening bracket where a value is expected; an object is on the stack once its key is known.\<close>

definition open_value :: "token \<Rightarrow> frame list \<Rightarrow> (pmode \<times> frame list) option" where
  "open_value t fs =
     (case t of
        TPunct c \<Rightarrow>
          if c = CHR ''['' \<and> length fs < maxNestingDepth then Some (MValOrEnd, FArr [] # fs)
          else if c = CHR ''{'' \<and> length fs < maxNestingDepth then Some (MKey True [], fs)
          else None
      | TStr raw \<Rightarrow> map_option (\<lambda>s. deliver (JStr s) fs) (unquote raw)
      | TWord w \<Rightarrow> map_option (\<lambda>v. deliver v fs) (word_value w))"

fun pstep :: "token \<Rightarrow> pmode \<times> frame list \<Rightarrow> (pmode \<times> frame list) option" where
  "pstep t (MVal, fs) = open_value t fs"
| "pstep t (MValOrEnd, fs) =
     (if t = TPunct (CHR '']'') then
        (case fs of FArr vs # fs' \<Rightarrow> Some (deliver (JArr (rev vs)) fs') | _ \<Rightarrow> None)
      else open_value t fs)"
| "pstep t (MKey e ps, fs) =
     (case t of
        TStr raw \<Rightarrow> map_option (\<lambda>k. (MColon ps k, fs)) (unquote raw)
      | _ \<Rightarrow> if e \<and> t = TPunct (CHR ''}'') then Some (deliver (JObj (rev ps)) fs) else None)"
| "pstep t (MColon ps k, fs) = (if t = TPunct (CHR '':'') then Some (MVal, FObj ps k # fs) else None)"
| "pstep t (MNext, fs) =
     (case fs of
        FArr vs # fs' \<Rightarrow>
          if t = TPunct (CHR '','') then Some (MVal, fs)
          else if t = TPunct (CHR '']'') then Some (deliver (JArr (rev vs)) fs') else None
      | FObj ps k # fs' \<Rightarrow>
          if t = TPunct (CHR '','') then Some (MKey False ps, fs')
          else if t = TPunct (CHR ''}'') then Some (deliver (JObj (rev ps)) fs') else None
      | [] \<Rightarrow> None)"
| "pstep t (MDone v, fs) = None"

fun prun :: "token list \<Rightarrow> pmode \<times> frame list \<Rightarrow> (pmode \<times> frame list) option" where
  "prun [] st = Some st"
| "prun (t # ts) st = Option.bind (pstep t st) (prun ts)"

definition parse_json :: "string \<Rightarrow> json option" where
  "parse_json s =
     (case lex LDef s of
        None \<Rightarrow> None
      | Some ts \<Rightarrow> (case prun ts (MVal, []) of Some (MDone v, _) \<Rightarrow> Some v | _ \<Rightarrow> None))"

section \<open>Printing\<close>

definition u_escape :: "nat \<Rightarrow> string" where
  "u_escape r = [CHR 0x5C, CHR ''u''] @
     [hex_digit (r div 4096 mod 16), hex_digit (r div 256 mod 16), hex_digit (r div 16 mod 16), hex_digit (r mod 16)]"

text \<open>How a rune with its size appears inside a string; the one-byte error is an invalid byte.\<close>

definition esc_rune :: "nat \<times> nat \<Rightarrow> string" where
  "esc_rune d =
     (let r = fst d
      in if d = (RuneError, 1) then u_escape RuneError
         else if r = 0x22 \<or> r = 0x5C then [CHR 0x5C, char_of r]
         else if r = 0x08 then [CHR 0x5C, CHR ''b'']
         else if r = 0x0C then [CHR 0x5C, CHR ''f'']
         else if r = 0x0A then [CHR 0x5C, CHR ''n'']
         else if r = 0x0D then [CHR 0x5C, CHR ''r'']
         else if r = 0x09 then [CHR 0x5C, CHR ''t'']
         else if r < 0x20 \<or> r \<in> {0x3C, 0x3E, 0x26, 0x2028, 0x2029} then u_escape r
         else EncodeRune r)"

text \<open>Quoting and printing are parametrised by the form a rune takes inside a string.\<close>

definition quote_content :: "(nat \<times> nat \<Rightarrow> string) \<Rightarrow> string \<Rightarrow> string" where
  "quote_content esc s = concat (map esc (decode_all s))"

definition quote_with :: "(nat \<times> nat \<Rightarrow> string) \<Rightarrow> string \<Rightarrow> string" where
  "quote_with esc s = [CHR 0x22] @ quote_content esc s @ [CHR 0x22]"

fun print_with :: "(nat \<times> nat \<Rightarrow> string) \<Rightarrow> json \<Rightarrow> string" where
  "print_with esc JNull = ''null''"
| "print_with esc (JBool b) = (if b then ''true'' else ''false'')"
| "print_with esc (JNum w) = w"
| "print_with esc (JStr s) = quote_with esc s"
| "print_with esc (JArr vs) = ''['' @ Join (map (print_with esc) vs) '','' @ '']''"
| "print_with esc (JObj ps) =
     ''{'' @ Join (map (\<lambda>(k, v). quote_with esc k @ '':'' @ print_with esc v) ps) '','' @ ''}''"

abbreviation print_json :: "json \<Rightarrow> string" where
  "print_json \<equiv> print_with esc_rune"

section \<open>Reading back what was printed\<close>

text \<open>Bytes outside the tokens of the grammar: they continue a word and stand for themselves in a string.\<close>

definition plain :: "char \<Rightarrow> bool" where
  "plain c = (0x20 \<le> byte c \<and> c \<noteq> CHR 0x22 \<and> c \<noteq> CHR 0x5C)"

lemma lex_plain: "list_all plain s \<Longrightarrow> lex (LStr False w) (s @ t) = lex (LStr False (rev s @ w)) t"
  by (induction s arbitrary: w) (auto simp: plain_def)

lemma lex_escape: "lex (LStr False w) (CHR 0x5C # c # t) = lex (LStr False (c # CHR 0x5C # w)) t"
  by simp

lemma hex_digit_table:
  "\<forall>d \<in> set [0..<16]. plain (hex_digit d) \<and> hex_val (hex_digit d) = Some d"
  by code_simp

lemma hex_digit_plain: "d < 16 \<Longrightarrow> plain (hex_digit d)"
  and hex_val_digit [simp]: "d < 16 \<Longrightarrow> hex_val (hex_digit d) = Some d"
  using hex_digit_table by simp_all

lemma hex4_digits:
  "a < 16 \<Longrightarrow> b < 16 \<Longrightarrow> c < 16 \<Longrightarrow> d < 16 \<Longrightarrow>
    hex4 (hex_digit a # hex_digit b # hex_digit c # hex_digit d # s) = Some (((a * 16 + b) * 16 + c) * 16 + d)"
  by (simp add: hex4_def)

lemma nibbles: "r < 0x10000 \<Longrightarrow> ((r div 4096 mod 16 * 16 + r div 256 mod 16) * 16 + r div 16 mod 16) * 16 + r mod 16 = r"
  for r :: nat
proof -
  assume r: "r < 0x10000"
  have a: "r = r div 16 * 16 + r mod 16" by simp
  have b: "r div 16 = r div 256 * 16 + r div 16 mod 16"
    using div_mult_mod_eq [of "r div 16" 16] by (simp add: div_mult2_eq [symmetric])
  have c: "r div 256 = r div 4096 * 16 + r div 256 mod 16"
    using div_mult_mod_eq [of "r div 256" 16] by (simp add: div_mult2_eq [symmetric])
  have d: "r div 4096 mod 16 = r div 4096" using r by auto
  show ?thesis unfolding d using a b c by presburger
qed

lemma hex4_u_escape: "r < 0x10000 \<Longrightarrow> hex4 (drop 2 (u_escape r) @ s) = Some r"
  using nibbles [of r] by (simp add: u_escape_def hex4_digits)

lemma lex_u_escape: "lex (LStr False w) (u_escape r @ t) = lex (LStr False (rev (u_escape r) @ w)) t"
proof -
  have "list_all plain (drop 2 (u_escape r))" by (simp add: u_escape_def hex_digit_plain)
  from lex_plain [OF this, of "CHR ''u'' # CHR 0x5C # w" t] show ?thesis by (simp add: u_escape_def)
qed

lemma unquote_u_escape:
  "r < 0x10000 \<Longrightarrow> \<not> surrogate r \<Longrightarrow> unquote (u_escape r @ t) = map_option ((@) (EncodeRune r)) (unquote t)"
proof -
  assume r: "r < 0x10000" "\<not> surrogate r"
  define h where "h = drop 2 (u_escape r)"
  have h: "u_escape r = [CHR 0x5C, CHR ''u''] @ h" "length h = 4" by (simp_all add: h_def u_escape_def)
  have "hex4 (h @ t) = Some r" using hex4_u_escape [OF r(1)] by (simp add: h_def)
  then show ?thesis using r h by simp
qed

lemma EncodeRune_high:
  assumes "scalar r" and "0x80 \<le> r"
  shows "list_all (\<lambda>c. 0x80 \<le> byte c) (EncodeRune r)"
proof -
  have n: "0x80 \<le> byte (char_of n)" if "0x80 \<le> n" "n < 256" for n :: nat
    using that byte_char_of [of n] by simp
  show ?thesis
    using assms by (auto simp: EncodeRune_def Let_def scalar_def intro!: n)
qed

lemma EncodeRune_plain:
  assumes "scalar r" and "0x20 \<le> r" and "r \<noteq> 0x22" and "r \<noteq> 0x5C"
  shows "list_all plain (EncodeRune r)"
proof (cases "r < 0x80")
  case True
  have "byte (char_of r) = r" using True by (intro byte_char_of) simp
  moreover have "char_of r \<noteq> CHR 0x22" "char_of r \<noteq> CHR 0x5C"
    using True assms by (simp_all add: char_of_iff_byte)
  ultimately show ?thesis using True assms by (simp add: EncodeRune_def plain_def)
next
  case False
  have "plain c" if "0x80 \<le> byte c" for c using that by (auto simp: plain_def)
  then show ?thesis using EncodeRune_high [of r] assms False by (auto simp: list_all_iff)
qed

lemma unquote_raw:
  assumes "scalar r" and "r \<noteq> 0x5C"
  shows "unquote (EncodeRune r @ t) = map_option ((@) (EncodeRune r)) (unquote t)"
proof -
  obtain c s where c: "EncodeRune r @ t = c # s" using EncodeRune_not_Nil [of r] by (cases "EncodeRune r") auto
  have d: "DecodeRune (c # s) = (r, RuneLen r)" using DecodeRune_EncodeRune [OF assms(1), of t] c by simp
  then have "c \<noteq> CHR 0x5C" using assms(2) by (auto simp: DecodeRune_def)
  moreover have "drop (RuneLen r) (c # s) = t"
    using c length_EncodeRune [OF assms(1)] by (metis append_eq_conv_conj)
  ultimately show ?thesis using c d by simp
qed

text \<open>The two halves of the round trip for one rune.\<close>

lemma short_escapes:
  "\<forall>r \<in> set [0x22, 0x5C, 0x08, 0x0C, 0x0A, 0x0D, 0x09]. \<exists>c \<in> set [CHR 0x22, CHR 0x5C, CHR ''b'', CHR ''f'', CHR ''n'', CHR ''r'', CHR ''t''].
    esc_rune (r, 1) = [CHR 0x5C, c] \<and> map_of simple_escapes c = Some (char_of r) \<and> c \<noteq> CHR ''u''"
  by (simp add: esc_rune_def simple_escapes_def RuneError_def char_of_iff_byte eq_commute [of _ "char_of _"])

lemma esc_rune_cases:
  assumes "d = (r, RuneLen r)"
  obtains (short) c where "r < 0x80" "esc_rune d = [CHR 0x5C, c]" "map_of simple_escapes c = Some (char_of r)"
      "c \<noteq> CHR ''u''"
    | (long) "r < 0x10000" "esc_rune d = u_escape r"
    | (raw) "esc_rune d = EncodeRune r" "0x20 \<le> r" "r \<noteq> 0x22" "r \<noteq> 0x5C"
proof -
  have d: "d \<noteq> (RuneError, 1)" using assms by (auto simp: RuneLen_def RuneError_def)
  consider (1) "r \<in> set [0x22, 0x5C, 0x08, 0x0C, 0x0A, 0x0D, 0x09]"
    | (2) "r \<notin> set [0x22, 0x5C, 0x08, 0x0C, 0x0A, 0x0D, 0x09]" "r < 0x20 \<or> r \<in> {0x3C, 0x3E, 0x26, 0x2028, 0x2029}"
    | (3) "r \<notin> set [0x22, 0x5C, 0x08, 0x0C, 0x0A, 0x0D, 0x09]" "\<not> (r < 0x20 \<or> r \<in> {0x3C, 0x3E, 0x26, 0x2028, 0x2029})"
    by blast
  then show thesis
  proof cases
    case 1
    then have r: "r < 0x80" by auto
    then have "d = (r, 1)" using assms by (simp add: RuneLen_def)
    then show thesis using bspec [OF short_escapes 1] r short by blast
  next
    case 2
    then have "r < 0x10000" by auto
    moreover have "esc_rune d = u_escape r" using 2 assms d unfolding esc_rune_def Let_def by simp
    ultimately show thesis by (rule long)
  next
    case 3
    then have "esc_rune d = EncodeRune r" using assms d unfolding esc_rune_def Let_def by auto
    with 3 show thesis by (intro raw) auto
  qed
qed

lemma esc_rune_lex:
  assumes "scalar r" and "d = (r, RuneLen r)"
  shows "lex (LStr False w) (esc_rune d @ t) = lex (LStr False (rev (esc_rune d) @ w)) t"
  using assms(2)
proof (cases rule: esc_rune_cases)
  case raw
  then show ?thesis using lex_plain [OF EncodeRune_plain [OF assms(1)]] by simp
qed (simp_all add: lex_u_escape)

lemma esc_rune_unquote:
  assumes "scalar r" and "d = (r, RuneLen r)"
  shows "unquote (esc_rune d @ t) = map_option ((@) (EncodeRune r)) (unquote t)"
  using assms(2)
proof (cases rule: esc_rune_cases)
  case (short c)
  then have "EncodeRune r = [char_of r]" by (simp add: EncodeRune_def scalar_def)
  then show ?thesis using short by (cases "unquote t") simp_all
next
  case long
  have "\<not> surrogate r" using assms(1) by (auto simp: scalar_def surrogate_def)
  then show ?thesis using long unquote_u_escape by simp
next
  case raw
  then show ?thesis using unquote_raw [OF assms(1)] by simp
qed

lemma map_option_append_Nil [simp]: "map_option ((@) []) x = x"
  by (cases x) simp_all

subsection \<open>Words\<close>

definition delim :: "char \<Rightarrow> bool" where
  "delim c = (json_space c \<or> json_punct c \<or> c = CHR 0x22)"

definition ends :: "string \<Rightarrow> bool" where
  "ends t = (t = [] \<or> delim (hd t))"

lemma lex_word_end: "ends t \<Longrightarrow> lex (LWord w) t = map_option ((#) (TWord (rev w))) (lex LDef t)"
  by (cases t) (auto simp: ends_def delim_def option.map_comp comp_def)

lemma lex_word_more: "list_all (\<lambda>c. \<not> delim c) s \<Longrightarrow> lex (LWord w) (s @ t) = lex (LWord (rev s @ w)) t"
  by (induction s arbitrary: w) (auto simp: delim_def)

lemma lex_word:
  assumes "list_all (\<lambda>c. \<not> delim c) s" and "s \<noteq> []" and "ends t"
  shows "lex LDef (s @ t) = map_option ((#) (TWord s)) (lex LDef t)"
proof -
  obtain c s' where s: "s = c # s'" using assms(2) by (cases s) auto
  then have "lex LDef (s @ t) = lex (LWord [c]) (s' @ t)"
    using assms(1) by (simp add: delim_def)
  then show ?thesis using assms s lex_word_more [of s' "[c]" t] lex_word_end [of t] by simp
qed

lemma skip_digits_split: "\<exists>ds. s = ds @ skip_digits s \<and> list_all (\<lambda>c. digit_val c \<noteq> None) ds"
proof (induction s)
  case (Cons c s)
  then obtain ds where "s = ds @ skip_digits s" "list_all (\<lambda>c. digit_val c \<noteq> None) ds" by blast
  then show ?case by (cases "digit_val c") (auto intro: exI [of _ "[]"] exI [of _ "c # ds"])
qed simp

lemma digit_not_delim: "digit_val c \<noteq> None \<Longrightarrow> \<not> delim c"
  by (auto simp: digit_val_def delim_def json_space_def json_punct_def Let_def split: if_splits)

lemma some_digits_all:
  assumes "some_digits s = Some r" and "list_all P r" and "\<And>c. digit_val c \<noteq> None \<Longrightarrow> P c"
  shows "list_all P s"
proof -
  obtain ds where ds: "s = ds @ skip_digits s" "list_all (\<lambda>c. digit_val c \<noteq> None) ds"
    using skip_digits_split by blast
  have "r = skip_digits s" using assms(1) by (auto simp: some_digits_def split: list.splits if_splits)
  moreover have "list_all P ds" using ds(2) assms(3) by (auto simp: list_all_iff)
  ultimately show ?thesis using assms(2) by (subst ds(1)) simp
qed

lemma lead_Some: "lead c s = Some r \<Longrightarrow> s = c # r"
  by (auto simp: lead_def split: list.splits if_splits)

lemma valid_number_chars:
  assumes "valid_number w" and dig: "\<And>c. digit_val c \<noteq> None \<Longrightarrow> P c" and sign: "\<And>c. c \<in> set ''0+-.eE'' \<Longrightarrow> P c"
  shows "w \<noteq> [] \<and> list_all P w"
proof -
  from assms(1) obtain a b where ab: "num_int w = Some a" "num_frac a = Some b" "num_exp b = Some []"
    by (auto simp: valid_number_def bind_eq_Some_conv)
  have 1: "list_all P b"
  proof (cases b)
    case (Cons c r)
    show ?thesis
    proof (cases "c = CHR ''e'' \<or> c = CHR ''E''")
      case True
      define r' where "r' = (case r of d # r' \<Rightarrow> if d = CHR ''+'' \<or> d = CHR ''-'' then r' else r | [] \<Rightarrow> r)"
      have "some_digits r' = Some []" using ab(3) Cons True by (simp add: num_exp_def r'_def)
      then have "list_all P r'" using some_digits_all [of r' "[]"] dig by simp
      moreover have "r = r' \<or> r = CHR ''+'' # r' \<or> r = CHR ''-'' # r'"
        by (auto simp: r'_def split: list.splits)
      ultimately have "list_all P r" using sign [of "CHR ''+''"] sign [of "CHR ''-''"] by auto
      moreover have "P c" using True sign [of c] by auto
      ultimately show ?thesis using Cons by simp
    next
      case False
      then show ?thesis using ab(3) Cons by (auto simp: num_exp_def)
    qed
  qed simp
  have 2: "list_all P a"
  proof (cases "lead (CHR ''.'') a")
    case None
    then show ?thesis using ab(2) 1 by (simp add: num_frac_def)
  next
    case (Some r)
    then have "list_all P r" using ab(2) 1 some_digits_all [of r b] dig by (simp add: num_frac_def)
    then show ?thesis using lead_Some [OF Some] sign [of "CHR ''.''"] by simp
  qed
  define s' where "s' = (case lead (CHR ''-'') w of Some r \<Rightarrow> r | None \<Rightarrow> w)"
  have w: "w = s' \<or> w = CHR ''-'' # s'"
    by (auto simp: s'_def dest!: lead_Some split: option.splits)
  have "some_digits s' = Some a \<or> s' = CHR ''0'' # a"
    using ab(1) by (auto simp: num_int_def s'_def [symmetric] dest!: lead_Some split: option.splits)
  then have "s' \<noteq> [] \<and> list_all P s'"
  proof
    assume d: "some_digits s' = Some a"
    have "s' \<noteq> []" using d by (auto simp: some_digits_def)
    then show ?thesis using some_digits_all [OF d 2 dig] by simp
  next
    assume "s' = CHR ''0'' # a"
    then show ?thesis using 2 sign [of "CHR ''0''"] by simp
  qed
  then show ?thesis using w sign [of "CHR ''-''"] by auto
qed

lemma valid_number_word: "valid_number w \<Longrightarrow> w \<noteq> [] \<and> list_all (\<lambda>c. \<not> delim c) w"
  by (rule valid_number_chars) (auto simp: digit_not_delim, auto simp: delim_def json_space_def json_punct_def)

lemma valid_number_ascii: "valid_number w \<Longrightarrow> list_all (\<lambda>c. byte c < 0x80) w"
  by (rule valid_number_chars [THEN conjunct2]) (auto simp: digit_val_def Let_def split: if_splits)

subsection \<open>Trees\<close>

fun wf_json :: "json \<Rightarrow> bool" where
  "wf_json (JNum w) = valid_number w"
| "wf_json (JStr s) = ValidString s"
| "wf_json (JArr vs) = list_all wf_json vs"
| "wf_json (JObj ps) = list_all (\<lambda>(k, v). ValidString k \<and> wf_json v) ps"
| "wf_json _ = True"

fun depth :: "json \<Rightarrow> nat" where
  "depth (JArr vs) = Suc (fold max (map depth vs) 0)"
| "depth (JObj ps) = Suc (fold max (map (\<lambda>(k, v). depth v) ps) 0)"
| "depth _ = 0"

fun commas :: "token list list \<Rightarrow> token list" where
  "commas [] = []"
| "commas [x] = x"
| "commas (x # y # ys) = x @ TPunct (CHR '','') # commas (y # ys)"

fun tokens :: "(nat \<times> nat \<Rightarrow> string) \<Rightarrow> json \<Rightarrow> token list" where
  "tokens esc JNull = [TWord ''null'']"
| "tokens esc (JBool b) = [TWord (if b then ''true'' else ''false'')]"
| "tokens esc (JNum w) = [TWord w]"
| "tokens esc (JStr s) = [TStr (quote_content esc s)]"
| "tokens esc (JArr vs) = TPunct (CHR ''['') # commas (map (tokens esc) vs) @ [TPunct (CHR '']'')]"
| "tokens esc (JObj ps) = TPunct (CHR ''{'')
     # commas (map (\<lambda>(k, v). TStr (quote_content esc k) # TPunct (CHR '':'') # tokens esc v) ps) @ [TPunct (CHR ''}'')]"

lemma lex_punct: "json_punct c \<Longrightarrow> lex LDef (c # t) = map_option ((#) (TPunct c)) (lex LDef t)"
proof -
  assume "json_punct c"
  then have "lex_start c = ([TPunct c], LDef)" by (auto simp: json_punct_def json_space_def)
  then show ?thesis by (cases "lex LDef t") simp_all
qed

lemma ends_punct: "json_punct c \<Longrightarrow> ends (c # t)"
  by (simp add: ends_def delim_def)

text \<open>A list of items separated by commas and closed by a bracket.\<close>

lemma lex_list:
  assumes "\<And>x t. x \<in> set xs \<Longrightarrow> ends t \<Longrightarrow> lex LDef (pr x @ t) = map_option ((@) (tk x)) (lex LDef t)"
    and "json_punct c"
  shows "lex LDef (Join (map pr xs) '','' @ c # t) = map_option ((@) (commas (map tk xs) @ [TPunct c])) (lex LDef t)"
  using assms(1)
proof (induction xs rule: induct_list012)
  case 1
  then show ?case using lex_punct [OF assms(2)] by (cases "lex LDef t") (simp_all del: lex.simps)
next
  case (2 x)
  have "lex LDef (pr x @ c # t) = map_option ((@) (tk x)) (lex LDef (c # t))"
    using 2 ends_punct [OF assms(2)] by simp
  then show ?case using lex_punct [OF assms(2)] by (cases "lex LDef t") (simp_all del: lex.simps)
next
  case (3 x y zs)
  let ?r = "Join (map pr (y # zs)) '','' @ c # t"
  have p: "json_punct (CHR '','')" by (simp add: json_punct_def)
  have "lex LDef (pr x @ CHR '','' # ?r) = map_option ((@) (tk x)) (lex LDef (CHR '','' # ?r))"
    using 3(3) ends_punct [OF p] by simp
  then have "lex LDef (pr x @ CHR '','' # ?r) = map_option ((@) (tk x)) (map_option ((#) (TPunct (CHR '',''))) (lex LDef ?r))"
    using lex_punct [OF p] by simp
  moreover have "lex LDef ?r = map_option ((@) (commas (map tk (y # zs)) @ [TPunct c])) (lex LDef t)"
    by (rule 3(2)) (use 3(3) in auto)
  ultimately show ?case by (cases "lex LDef t") (simp_all del: lex.simps)
qed

section \<open>Escapes that can be read back\<close>

text \<open>
  The contract of a string encoder: inside a string the lexer passes over the form of a rune without
  meeting the end, and unquoting the form yields the rune.  Everything that is printed with such forms
  is read back.
\<close>

locale string_escape =
  fixes esc :: "nat \<times> nat \<Rightarrow> string"
  assumes esc_lex: "scalar r \<Longrightarrow>
      lex (LStr False w) (esc (r, RuneLen r) @ t) = lex (LStr False (rev (esc (r, RuneLen r)) @ w)) t"
    and esc_unquote: "scalar r \<Longrightarrow>
      unquote (esc (r, RuneLen r) @ t) = map_option ((@) (EncodeRune r)) (unquote t)"
begin

lemma quote_content_rune:
  "scalar r \<Longrightarrow> quote_content esc (EncodeRune r @ s) = esc (r, RuneLen r) @ quote_content esc s"
  by (simp add: quote_content_def utf8_simps)

lemma quote_content_Nil [simp]: "quote_content esc [] = []"
  by (simp add: quote_content_def)

lemma lex_quote_runes:
  "list_all scalar rs \<Longrightarrow>
    lex (LStr False w) (quote_content esc (of_runes rs) @ t) = lex (LStr False (rev (quote_content esc (of_runes rs)) @ w)) t"
proof (induction rs arbitrary: w)
  case (Cons r rs)
  then show ?case using esc_lex [of r] by (simp add: of_runes_Cons quote_content_rune)
qed (simp add: of_runes_def)

lemma unquote_quote_runes: "list_all scalar rs \<Longrightarrow> unquote (quote_content esc (of_runes rs)) = Some (of_runes rs)"
proof (induction rs)
  case (Cons r rs)
  then show ?case
    using esc_unquote [of r] by (simp add: of_runes_Cons quote_content_rune del: unquote.simps)
qed (simp add: of_runes_def)

lemma lex_quote_with:
  "ValidString s \<Longrightarrow> lex LDef (quote_with esc s @ t) = map_option ((#) (TStr (quote_content esc s))) (lex LDef t)"
  using lex_quote_runes [of "runes s" "[]" "CHR 0x22 # t"] ValidString_runes [of s]
  by (simp add: quote_with_def json_space_def json_punct_def)

lemma unquote_quote: "ValidString s \<Longrightarrow> unquote (quote_content esc s) = Some s"
  using unquote_quote_runes [of "runes s"] ValidString_runes [of s] by simp

lemma lex_literal:
  "ends t \<Longrightarrow> w \<in> {''null'', ''true'', ''false''} \<Longrightarrow> lex LDef (w @ t) = map_option ((#) (TWord w)) (lex LDef t)"
  by (rule lex_word) (auto simp: delim_def json_space_def json_punct_def)

lemma map_option_Cons_append: "map_option ((#) x) y = map_option ((@) [x]) y"
  by (cases y) simp_all

lemma lex_member:
  assumes "ValidString k" and "\<And>t. ends t \<Longrightarrow> lex LDef (print_with esc v @ t) = map_option ((@) (tokens esc v)) (lex LDef t)" and "ends t"
  shows "lex LDef ((quote_with esc k @ '':'' @ print_with esc v) @ t)
    = map_option ((@) (TStr (quote_content esc k) # TPunct (CHR '':'') # tokens esc v)) (lex LDef t)"
proof -
  have p: "json_punct (CHR '':'')" by (simp add: json_punct_def)
  have "lex LDef (CHR '':'' # print_with esc v @ t) = map_option ((#) (TPunct (CHR '':''))) (lex LDef (print_with esc v @ t))"
    by (rule lex_punct [OF p])
  then show ?thesis
    using lex_quote_with [OF assms(1), of "CHR '':'' # print_with esc v @ t"] assms(2) [OF assms(3)]
    by (cases "lex LDef t") (simp_all del: lex.simps)
qed

theorem lex_print:
  "wf_json v \<Longrightarrow> ends t \<Longrightarrow> lex LDef (print_with esc v @ t) = map_option ((@) (tokens esc v)) (lex LDef t)"
proof (induction v arbitrary: t)
  case JNull
  then show ?case using lex_literal [of t "''null''"] by (simp add: map_option_Cons_append del: lex.simps)
next
  case (JBool b)
  then show ?case
    using lex_literal [of t "if b then ''true'' else ''false''"] by (simp add: map_option_Cons_append del: lex.simps)
next
  case (JNum w)
  then show ?case
    using lex_word [of w t] valid_number_word [of w] by (simp add: map_option_Cons_append del: lex.simps)
next
  case (JStr s)
  then show ?case using lex_quote_with [of s t] by (simp add: map_option_Cons_append del: lex.simps)
next
  case (JArr vs)
  have b: "json_punct (CHR ''['')" "json_punct (CHR '']'')" by (simp_all add: json_punct_def)
  have "lex LDef (Join (map (print_with esc) vs) '','' @ CHR '']'' # t)
      = map_option ((@) (commas (map (tokens esc) vs) @ [TPunct (CHR '']'')])) (lex LDef t)"
    using JArr by (intro lex_list [OF _ b(2)]) (auto simp: list_all_iff)
  then show ?case
    using lex_punct [OF b(1), of "Join (map (print_with esc) vs) '','' @ CHR '']'' # t"]
    by (cases "lex LDef t") (simp_all del: lex.simps)
next
  case (JObj ps)
  have b: "json_punct (CHR ''{'')" "json_punct (CHR ''}'')" by (simp_all add: json_punct_def)
  let ?pr = "\<lambda>(k, v). quote_with esc k @ '':'' @ print_with esc v"
  let ?tk = "\<lambda>(k, v). TStr (quote_content esc k) # TPunct (CHR '':'') # tokens esc v"
  have "lex LDef (Join (map ?pr ps) '','' @ CHR ''}'' # t)
      = map_option ((@) (commas (map ?tk ps) @ [TPunct (CHR ''}'')])) (lex LDef t)"
  proof (rule lex_list [OF _ b(2)])
    fix p t assume p: "p \<in> set ps" "ends t"
    obtain k v where kv: "p = (k, v)" by fastforce
    then have "ValidString k" "wf_json v" using JObj.prems(1) p by (auto simp: list_all_iff)
    moreover have "v \<in> Basic_BNFs.snds p" by (simp add: kv)
    ultimately have "lex LDef ((quote_with esc k @ '':'' @ print_with esc v) @ t)
        = map_option ((@) (TStr (quote_content esc k) # TPunct (CHR '':'') # tokens esc v)) (lex LDef t)"
      using JObj.IH [OF p(1)] p(2) by (intro lex_member) auto
    then show "lex LDef (?pr p @ t) = map_option ((@) (?tk p)) (lex LDef t)" by (simp add: kv del: lex.simps)
  qed
  then show ?case
    using lex_punct [OF b(1), of "Join (map ?pr ps) '','' @ CHR ''}'' # t"]
    by (cases "lex LDef t") (simp_all del: lex.simps)
qed

lemma word_value_number: "valid_number w \<Longrightarrow> word_value w = Some (JNum w)"
proof -
  assume w: "valid_number w"
  have "\<not> valid_number ''null'' \<and> \<not> valid_number ''true'' \<and> \<not> valid_number ''false''"
    by (simp add: valid_number_def num_int_def lead_def some_digits_def digit_val_def)
  then show ?thesis using w by (auto simp: word_value_def)
qed

lemma fold_max_ge: "x \<in> set xs \<union> {m} \<Longrightarrow> x \<le> fold max xs m"
  for x m :: nat
proof (induction xs arbitrary: m x)
  case (Cons a xs)
  have "a \<le> fold max xs (max a m)" "m \<le> fold max xs (max a m)"
    using Cons.IH [of "max a m" "max a m"] by simp_all
  then show ?case using Cons by auto
qed simp

text \<open>
  A value is read to its end and delivered to the frame around it, both where only a value and
  where a value or the end of an array is expected.
\<close>

definition reads :: "json \<Rightarrow> bool" where
  "reads v = (\<forall>fs ts. depth v + length fs \<le> maxNestingDepth \<longrightarrow>
     prun (tokens esc v @ ts) (MVal, fs) = prun ts (deliver v fs)
     \<and> prun (tokens esc v @ ts) (MValOrEnd, fs) = prun ts (deliver v fs))"

lemma reads_array:
  "vs \<noteq> [] \<Longrightarrow> list_all reads vs \<Longrightarrow> list_all (\<lambda>v. depth v + length (FArr us # fs) \<le> maxNestingDepth) vs \<Longrightarrow>
    prun (commas (map (tokens esc) vs) @ TPunct (CHR '']'') # ts) (MVal, FArr us # fs)
      = prun ts (deliver (JArr (rev us @ vs)) fs)"
proof (induction vs arbitrary: us rule: induct_list012)
  case (2 v)
  then show ?case by (simp add: reads_def)
next
  case (3 v w vs)
  have "prun (tokens esc v @ TPunct (CHR '','') # commas (map (tokens esc) (w # vs)) @ TPunct (CHR '']'') # ts) (MVal, FArr us # fs)
      = prun (TPunct (CHR '','') # commas (map (tokens esc) (w # vs)) @ TPunct (CHR '']'') # ts) (deliver v (FArr us # fs))"
    using 3 by (simp add: reads_def)
  also have "\<dots> = prun (commas (map (tokens esc) (w # vs)) @ TPunct (CHR '']'') # ts) (MVal, FArr (v # us) # fs)"
    by simp
  also have "\<dots> = prun ts (deliver (JArr (rev (v # us) @ w # vs)) fs)"
    using 3 by (intro 3(2)) auto
  finally show ?case by simp
qed simp

lemma reads_object:
  "ps \<noteq> [] \<Longrightarrow> list_all (\<lambda>(k, v). ValidString k \<and> reads v \<and> depth v + Suc (length fs) \<le> maxNestingDepth) ps \<Longrightarrow>
    prun (commas (map (\<lambda>(k, v). TStr (quote_content esc k) # TPunct (CHR '':'') # tokens esc v) ps) @ TPunct (CHR ''}'') # ts)
      (MKey e qs, fs) = prun ts (deliver (JObj (rev qs @ ps)) fs)"
proof (induction ps arbitrary: qs e rule: induct_list012)
  case (2 p)
  then show ?case by (cases p) (simp add: reads_def unquote_quote)
next
  case (3 p q ps)
  obtain k v where p: "p = (k, v)" by fastforce
  let ?m = "\<lambda>(k, v). TStr (quote_content esc k) # TPunct (CHR '':'') # tokens esc v"
  have "prun (commas (map ?m (p # q # ps)) @ TPunct (CHR ''}'') # ts) (MKey e qs, fs)
      = prun (tokens esc v @ TPunct (CHR '','') # commas (map ?m (q # ps)) @ TPunct (CHR ''}'') # ts) (MVal, FObj qs k # fs)"
    using 3 by (simp add: p unquote_quote)
  also have "\<dots> = prun (TPunct (CHR '','') # commas (map ?m (q # ps)) @ TPunct (CHR ''}'') # ts) (deliver v (FObj qs k # fs))"
    using 3 by (simp add: p reads_def)
  also have "\<dots> = prun (commas (map ?m (q # ps)) @ TPunct (CHR ''}'') # ts) (MKey False ((k, v) # qs), fs)"
    by simp
  also have "\<dots> = prun ts (deliver (JObj (rev ((k, v) # qs) @ q # ps)) fs)"
    using 3 by (intro 3(2)) auto
  finally show ?case by (simp add: p)
qed simp

lemma wf_reads: "wf_json v \<Longrightarrow> reads v"
proof (induction v)
  case (JArr vs)
  have r: "list_all reads vs" using JArr by (auto simp: list_all_iff)
  have d: "depth v < depth (JArr vs)" if "v \<in> set vs" for v
    using that fold_max_ge [of "depth v" "map depth vs" 0] by (simp add: le_imp_less_Suc)
  show ?case
    unfolding reads_def
  proof (intro allI impI)
    fix fs :: "frame list" and ts assume b: "depth (JArr vs) + length fs \<le> maxNestingDepth"
    then have l: "length fs < maxNestingDepth" by simp
    have "prun (commas (map (tokens esc) vs) @ TPunct (CHR '']'') # ts) (MValOrEnd, FArr [] # fs) = prun ts (deliver (JArr vs) fs)"
    proof (cases vs)
      case (Cons v ws)
      obtain t us where t: "commas (map (tokens esc) vs) @ TPunct (CHR '']'') # ts = t # us" "t \<noteq> TPunct (CHR '']'')"
        unfolding Cons by (cases ws; cases v) (auto split: if_splits)
      then have "prun (t # us) (MValOrEnd, FArr [] # fs) = prun (t # us) (MVal, FArr [] # fs)" by simp
      then show ?thesis
        using reads_array [of vs "[]" fs ts] r d b Cons unfolding t(1) [symmetric]
        by (fastforce simp: list_all_iff)
    qed simp
    then show "prun (tokens esc (JArr vs) @ ts) (MVal, fs) = prun ts (deliver (JArr vs) fs)
        \<and> prun (tokens esc (JArr vs) @ ts) (MValOrEnd, fs) = prun ts (deliver (JArr vs) fs)"
      using l by (simp add: open_value_def)
  qed
next
  case (JObj ps)
  have r: "ValidString k \<and> reads v" if "(k, v) \<in> set ps" for k v
    using that JObj.IH [OF that] JObj.prems by (auto simp: list_all_iff)
  have d: "depth v < depth (JObj ps)" if "(k, v) \<in> set ps" for k v
    using that fold_max_ge [of "depth v" "map (\<lambda>(k, v). depth v) ps" 0] by (force simp: le_imp_less_Suc)
  show ?case
    unfolding reads_def
  proof (intro allI impI)
    fix fs :: "frame list" and ts assume b: "depth (JObj ps) + length fs \<le> maxNestingDepth"
    then have l: "length fs < maxNestingDepth" by simp
    have "list_all (\<lambda>(k, v). ValidString k \<and> reads v \<and> depth v + Suc (length fs) \<le> maxNestingDepth) ps"
      using r d b by (fastforce simp: list_all_iff)
    then have "prun (commas (map (\<lambda>(k, v). TStr (quote_content esc k) # TPunct (CHR '':'') # tokens esc v) ps) @ TPunct (CHR ''}'') # ts)
        (MKey True [], fs) = prun ts (deliver (JObj ps) fs)"
      using reads_object [of ps fs ts True "[]"] by (cases "ps = []") simp_all
    then show "prun (tokens esc (JObj ps) @ ts) (MVal, fs) = prun ts (deliver (JObj ps) fs)
        \<and> prun (tokens esc (JObj ps) @ ts) (MValOrEnd, fs) = prun ts (deliver (JObj ps) fs)"
      using l by (simp add: open_value_def)
  qed
next
  case (JNum w)
  then show ?case by (simp add: reads_def open_value_def word_value_number)
next
  case (JStr s)
  then show ?case by (simp add: reads_def open_value_def unquote_quote)
next
  case (JBool b)
  then show ?case by (simp add: reads_def open_value_def word_value_def)
qed (simp add: reads_def open_value_def word_value_def)

theorem parse_print:
  assumes "wf_json v" and "depth v \<le> maxNestingDepth"
  shows "parse_json (print_with esc v) = Some v"
proof -
  have "lex LDef (print_with esc v) = Some (tokens esc v)"
    using lex_print [OF assms(1), of "[]"] by (simp add: ends_def del: lex.simps(4-))
  moreover have "prun (tokens esc v) (MVal, []) = Some (MDone v, [])"
    using wf_reads [OF assms(1), unfolded reads_def, rule_format, of "[]" "[]"] assms(2) by simp
  ultimately show ?thesis by (simp add: parse_json_def)
qed

end

interpretation json_escape: string_escape esc_rune
  by unfold_locales (rule esc_rune_lex esc_rune_unquote; simp)+

end
