(* ===== verification/Envelope.thy ===== *)
theory Envelope
  imports Json
begin

text \<open>
  What the envelopes of both versions of the ride-group protocol share: decoding into Go structures,
  the checks of \<^verbatim>\<open>ridegroup/protocol.go\<close> on size, encoding, keys and field types, identifiers
  and number ranges, and from \<^verbatim>\<open>ridegroup/protocol_v2.go\<close> the checks on Unicode escapes and the
  canonical form of strings.

  Shown: an envelope that passes \<open>decodeExact\<close> has exactly the expected keys, each once; canonicalising
  the encoding of a tree gives the same tree with the five HTML escapes written out, which reads back
  as the tree; identifiers made from random bytes are valid version 4 UUIDs.
\<close>

section \<open>Decoding into structures\<close>

text \<open>
  Case folding of field names: ASCII letters, and the two letters outside ASCII that fold into it,
  the long s and the Kelvin sign.
\<close>

definition fold_rune :: "nat \<Rightarrow> nat" where
  "fold_rune r = (if 97 \<le> r \<and> r \<le> 122 then r - 32 else if r = 0x17F then 83 else if r = 0x212A then 75 else r)"

definition fold_name :: "string \<Rightarrow> nat list" where
  "fold_name s = map fold_rune (runes s)"

type_synonym 'r setter = "json \<Rightarrow> 'r \<Rightarrow> 'r option"
type_synonym 'r table = "(string \<times> 'r setter) list"

definition find_field :: "'r table \<Rightarrow> string \<Rightarrow> 'r setter option" where
  "find_field tab k =
     (case map_of tab k of
        Some f \<Rightarrow> Some f
      | None \<Rightarrow> (case filter (\<lambda>(n, f). fold_name n = fold_name k) tab of [] \<Rightarrow> None | (n, f) # _ \<Rightarrow> Some f))"

text \<open>\<open>strict\<close> is \<^verbatim>\<open>DisallowUnknownFields\<close>.  A member of the wrong type fails the whole decoding.\<close>

fun decode_members :: "bool \<Rightarrow> 'r table \<Rightarrow> (string \<times> json) list \<Rightarrow> 'r \<Rightarrow> 'r option" where
  "decode_members strict tab [] r = Some r"
| "decode_members strict tab ((k, v) # ps) r =
     (case find_field tab k of
        None \<Rightarrow> if strict then None else decode_members strict tab ps r
      | Some f \<Rightarrow> (case f v r of None \<Rightarrow> None | Some r' \<Rightarrow> decode_members strict tab ps r'))"

definition decode_struct :: "bool \<Rightarrow> 'r table \<Rightarrow> json \<Rightarrow> 'r \<Rightarrow> 'r option" where
  "decode_struct strict tab j r =
     (case j of JObj ps \<Rightarrow> decode_members strict tab ps r | JNull \<Rightarrow> Some r | _ \<Rightarrow> None)"

text \<open>The setters of the field types; \<^verbatim>\<open>null\<close> leaves a plain field and clears a pointer or slice.\<close>

definition set_str :: "(string \<Rightarrow> 'r \<Rightarrow> 'r) \<Rightarrow> 'r setter" where
  "set_str upd j r = (case j of JStr s \<Rightarrow> Some (upd s r) | JNull \<Rightarrow> Some r | _ \<Rightarrow> None)"

definition set_bool :: "(bool \<Rightarrow> 'r \<Rightarrow> 'r) \<Rightarrow> 'r setter" where
  "set_bool upd j r = (case j of JBool b \<Rightarrow> Some (upd b r) | JNull \<Rightarrow> Some r | _ \<Rightarrow> None)"

definition number_in :: "nat \<Rightarrow> json \<Rightarrow> int option" where
  "number_in bits j = (case j of JNum w \<Rightarrow> ParseInt bits w | _ \<Rightarrow> None)"

definition set_int :: "nat \<Rightarrow> (int \<Rightarrow> 'r \<Rightarrow> 'r) \<Rightarrow> 'r setter" where
  "set_int bits upd j r = (if j = JNull then Some r else map_option (\<lambda>n. upd n r) (number_in bits j))"

definition float_in :: "golib \<Rightarrow> json \<Rightarrow> f64 option" where
  "float_in L j = (case j of JNum w \<Rightarrow> lib_ParseFloat L w | _ \<Rightarrow> None)"

definition set_float :: "golib \<Rightarrow> (f64 \<Rightarrow> 'r \<Rightarrow> 'r) \<Rightarrow> 'r setter" where
  "set_float L upd j r = (if j = JNull then Some r else map_option (\<lambda>x. upd x r) (float_in L j))"

definition set_str_ptr :: "(string option \<Rightarrow> 'r \<Rightarrow> 'r) \<Rightarrow> 'r setter" where
  "set_str_ptr upd j r = (case j of JStr s \<Rightarrow> Some (upd (Some s) r) | JNull \<Rightarrow> Some (upd None r) | _ \<Rightarrow> None)"

definition set_int_ptr :: "nat \<Rightarrow> (int option \<Rightarrow> 'r \<Rightarrow> 'r) \<Rightarrow> 'r setter" where
  "set_int_ptr bits upd j r =
     (if j = JNull then Some (upd None r) else map_option (\<lambda>n. upd (Some n) r) (number_in bits j))"

definition set_float_ptr :: "golib \<Rightarrow> (f64 option \<Rightarrow> 'r \<Rightarrow> 'r) \<Rightarrow> 'r setter" where
  "set_float_ptr L upd j r =
     (if j = JNull then Some (upd None r) else map_option (\<lambda>x. upd (Some x) r) (float_in L j))"

text \<open>A slice is \<open>None\<close> when it is nil; its elements are decoded one by one.\<close>

definition set_slice :: "(json \<Rightarrow> 'a option) \<Rightarrow> ('a list option \<Rightarrow> 'r \<Rightarrow> 'r) \<Rightarrow> 'r setter" where
  "set_slice dec upd j r =
     (case j of
        JArr vs \<Rightarrow> (if \<exists>v \<in> set vs. dec v = None then None else Some (upd (Some (map (the \<circ> dec) vs)) r))
      | JNull \<Rightarrow> Some (upd None r)
      | _ \<Rightarrow> None)"

definition str_elem :: "json \<Rightarrow> string option" where
  "str_elem j = (case j of JStr s \<Rightarrow> Some s | JNull \<Rightarrow> Some '''' | _ \<Rightarrow> None)"

section \<open>The checks of an envelope\<close>

definition MaxEnvelopeBytes :: nat where "MaxEnvelopeBytes = 1024"

text \<open>\<^verbatim>\<open>uniqueJSONValue\<close>: no object of the tree repeats a key.\<close>

fun uniqueJSONValue :: "json \<Rightarrow> bool" where
  "uniqueJSONValue (JArr vs) = list_all uniqueJSONValue vs"
| "uniqueJSONValue (JObj ps) = (distinct (map fst ps) \<and> list_all (\<lambda>(k, v). uniqueJSONValue v) ps)"
| "uniqueJSONValue _ = True"

definition rejectDuplicateKeys :: "string \<Rightarrow> bool" where
  "rejectDuplicateKeys data = (case parse_json data of None \<Rightarrow> True | Some j \<Rightarrow> \<not> uniqueJSONValue j)"

text \<open>
  \<^verbatim>\<open>json.Unmarshal\<close> into a \<^verbatim>\<open>map[string]json.RawMessage\<close>: the inner \<open>None\<close> is the nil map that
  \<^verbatim>\<open>null\<close> leaves, the outer one the error.  Of a repeated key the last value stays.
\<close>

definition json_fields :: "json \<Rightarrow> (string, json) go_map option option" where
  "json_fields j =
     (case j of
        JObj ps \<Rightarrow> Some (Some (fold (\<lambda>(k, v). gm_put k v) ps []))
      | JNull \<Rightarrow> Some None
      | _ \<Rightarrow> None)"

definition Unmarshal_map :: "string \<Rightarrow> (string, json) go_map option option" where
  "Unmarshal_map data = Option.bind (parse_json data) json_fields"

text \<open>The checks on the keys and the typed decoding, on the tree.\<close>

definition decode_fields :: "'r table \<Rightarrow> string list \<Rightarrow> 'r \<Rightarrow> json \<Rightarrow> 'r option" where
  "decode_fields tab keys r0 j =
     (case json_fields j of
        Some (Some ob) \<Rightarrow>
          if length ob \<noteq> length keys then None
          else if \<not> list_all (gm_has ob) keys then None
          else decode_struct True tab j r0
      | _ \<Rightarrow> None)"

definition decodeExact :: "'r table \<Rightarrow> string list \<Rightarrow> 'r \<Rightarrow> string \<Rightarrow> 'r option" where
  "decodeExact tab keys r0 data =
     (if data = [] \<or> length data > MaxEnvelopeBytes \<or> \<not> ValidString data \<or> rejectDuplicateKeys data then None
      else Option.bind (parse_json data) (decode_fields tab keys r0))"

text \<open>
  The kind of a field is read off the first byte of its raw text, an integer also has no fraction and
  no exponent.  A kind that is not listed is not checked.
\<close>

definition json_kind :: "string \<Rightarrow> json \<Rightarrow> bool" where
  "json_kind kind v =
     (if kind = ''bool'' then (case v of JBool b \<Rightarrow> True | _ \<Rightarrow> False)
      else if kind = ''array'' then (case v of JArr vs \<Rightarrow> True | _ \<Rightarrow> False)
      else if kind = ''string'' then (case v of JStr s \<Rightarrow> True | _ \<Rightarrow> False)
      else if kind = ''number'' then (case v of JNum w \<Rightarrow> True | _ \<Rightarrow> False)
      else if kind = ''integer'' then (case v of JNum w \<Rightarrow> list_all (\<lambda>c. c \<notin> {CHR ''.'', CHR ''e'', CHR ''E''}) w | _ \<Rightarrow> False)
      else True)"

definition fields_have_types :: "(string \<times> string) list \<Rightarrow> json \<Rightarrow> bool" where
  "fields_have_types expected j =
     (case json_fields j of
        None \<Rightarrow> False
      | Some ob \<Rightarrow>
          list_all (\<lambda>(key, kind). case map_of (case ob of None \<Rightarrow> [] | Some m \<Rightarrow> m) key of
                       None \<Rightarrow> False | Some raw \<Rightarrow> json_kind kind raw) expected)"

definition jsonFieldsHaveTypes :: "string \<Rightarrow> (string \<times> string) list \<Rightarrow> bool" where
  "jsonFieldsHaveTypes data expected =
     (expected = [] \<or> (case parse_json data of None \<Rightarrow> False | Some j \<Rightarrow> fields_have_types expected j))"

text \<open>
  A nullable field; the source wraps the raw text into an object with this one key and repeats the
  check on it.
\<close>

definition nullableJSONFieldType :: "string \<Rightarrow> string \<Rightarrow> string \<Rightarrow> bool" where
  "nullableJSONFieldType data name want =
     (case Unmarshal_map data of
        Some (Some ob) \<Rightarrow>
          (case map_of ob name of
             None \<Rightarrow> False
           | Some raw \<Rightarrow> raw = JNull \<or> fields_have_types [(name, want)] (JObj [(name, raw)]))
      | _ \<Rightarrow> False)"

section \<open>Identifiers and ranges\<close>

definition lower_hex :: "char \<Rightarrow> bool" where
  "lower_hex c = (c \<in> set ''0123456789abcdef'')"

text \<open>The pattern \<^verbatim>\<open>^[0-9a-f]{8}(?:-[0-9a-f]{4}){3}-[0-9a-f]{12}$\<close>.\<close>

definition validUUID :: "string \<Rightarrow> bool" where
  "validUUID s =
     (length s = 36
      \<and> list_all (\<lambda>i. if i \<in> {8, 13, 18, 23} then s ! i = CHR ''-'' else lower_hex (s ! i)) [0..<36])"

definition validUUIDPtr :: "string option \<Rightarrow> bool" where
  "validUUIDPtr p = (case p of None \<Rightarrow> False | Some s \<Rightarrow> validUUID s)"

definition maxSafeInteger :: int where "maxSafeInteger = 2 ^ 53 - 1"

definition safePositive :: "int \<Rightarrow> bool" where
  "safePositive n = (0 < n \<and> n \<le> maxSafeInteger)"

definition safeNonnegative :: "int \<Rightarrow> bool" where
  "safeNonnegative n = (0 \<le> n \<and> n \<le> maxSafeInteger)"

definition validOptionalGeneration :: "int option \<Rightarrow> bool" where
  "validOptionalGeneration p = (case p of None \<Rightarrow> True | Some n \<Rightarrow> safeNonnegative n)"

definition advancingGenerations :: "int option \<Rightarrow> int option \<Rightarrow> bool" where
  "advancingGenerations expected committed =
     (case (expected, committed) of
        (Some e, Some c) \<Rightarrow> safeNonnegative e \<and> safeNonnegative c \<and> c > e
      | _ \<Rightarrow> False)"

definition oneOf :: "string \<Rightarrow> string list \<Rightarrow> bool" where
  "oneOf value choices = (value \<in> set choices)"

definition jsonStringContentBytes :: "string \<Rightarrow> nat" where
  "jsonStringContentBytes value =
     sum_list (map (\<lambda>r. if r \<in> {0x22, 0x5C, 0x08, 0x0C, 0x0A, 0x0D, 0x09} then 2
                        else if r < 0x20 then 6 else RuneLen r) (runes value))"

definition validPeerLabel :: "string \<Rightarrow> bool" where
  "validPeerLabel value =
     (ValidString value \<and> RuneCountInString value \<le> 32 \<and> jsonStringContentBytes value \<le> 32)"

text \<open>
  \<open>newUUID\<close> from the sixteen random bytes, \<open>None\<close> when the random source fails.  The dashes split the
  hexadecimal digits into groups of 8, 4, 4, 4 and 12.
\<close>

definition newUUID :: "nat list option \<Rightarrow> string option" where
  "newUUID rand =
     map_option (\<lambda>bs.
       (let id = bs[6 := bs ! 6 mod 16 + 0x40, 8 := bs ! 8 mod 64 + 0x80]
        in hex_encode (take 4 id) @ ''-'' @ hex_encode (take 2 (drop 4 id)) @ ''-''
           @ hex_encode (take 2 (drop 6 id)) @ ''-'' @ hex_encode (take 2 (drop 8 id)) @ ''-''
           @ hex_encode (drop 10 id))) rand"

section \<open>Unicode escapes and the canonical form\<close>

function scalars_from :: "bool \<Rightarrow> string \<Rightarrow> bool" where
  "scalars_from inString [] = (\<not> inString)"
| "scalars_from inString (b # s) =
     (if \<not> inString then scalars_from (b = CHR 0x22) s
      else if b = CHR 0x22 then scalars_from False s
      else if b \<noteq> CHR 0x5C then
        byte b \<ge> 0x20 \<and> scalars_from True (drop (snd (DecodeRune (b # s))) (b # s))
      else if s = [] then False
      else if hd s \<noteq> CHR ''u'' then scalars_from True (tl s)
      else (case hex4 (tl s) of
          None \<Rightarrow> False
        | Some first \<Rightarrow>
            (let rest = drop 4 (tl s)
             in if 0xD800 \<le> first \<and> first \<le> 0xDBFF then
                  (case getu4 rest of
                     None \<Rightarrow> False
                   | Some second \<Rightarrow> 0xDC00 \<le> second \<and> second \<le> 0xDFFF \<and> scalars_from True (drop 6 rest))
                else if 0xDC00 \<le> first \<and> first \<le> 0xDFFF then False
                else scalars_from True rest)))"
  by pat_completeness auto

termination
proof (relation "measure (\<lambda>(i, s). length s)", goal_cases)
  case (4 i b s)
  then show ?case using DecodeRune_size [of "b # s"] by simp
qed auto

definition validJSONScalars :: "string \<Rightarrow> bool" where
  "validJSONScalars data = (ValidString data \<and> scalars_from False data)"

definition canonical_runes :: "nat set" where
  "canonical_runes = {0x3C, 0x3E, 0x26, 0x2028, 0x2029}"

function canonical_from :: "bool \<Rightarrow> string \<Rightarrow> string option" where
  "canonical_from inString [] = (if inString then None else Some [])"
| "canonical_from inString (b # s) =
     (if \<not> inString then map_option ((#) b) (canonical_from (b = CHR 0x22) s)
      else if b = CHR 0x22 then map_option ((#) b) (canonical_from False s)
      else if b \<noteq> CHR 0x5C then map_option ((#) b) (canonical_from True s)
      else if s = [] then None
      else if hd s \<noteq> CHR ''u'' then map_option ((@) [b, hd s]) (canonical_from True (tl s))
      else (case hex4 (tl s) of
          None \<Rightarrow> None
        | Some code \<Rightarrow>
            map_option ((@) (if code \<in> canonical_runes then EncodeRune code else take 6 (b # s)))
              (canonical_from True (drop 4 (tl s)))))"
  by pat_completeness auto

termination
  by (relation "measure (\<lambda>(i, s). length s)") auto

definition canonicalizeJSONStringEscapes :: "string \<Rightarrow> string option" where
  "canonicalizeJSONStringEscapes data = canonical_from False data"

definition CanonicalV2String :: "string \<Rightarrow> string option" where
  "CanonicalV2String value =
     (if ValidString value then canonicalizeJSONStringEscapes (print_json (JStr value)) else None)"

section \<open>The canonical form reads back\<close>

text \<open>Inside a string of the canonical form the five runes stand for themselves.\<close>

definition esc_canon :: "nat \<times> nat \<Rightarrow> string" where
  "esc_canon d = (if fst d \<in> canonical_runes then EncodeRune (fst d) else esc_rune d)"

lemma canonical_rune_facts: "r \<in> canonical_runes \<Longrightarrow> scalar r \<and> 0x20 \<le> r \<and> r \<noteq> 0x22 \<and> r \<noteq> 0x5C \<and> r < 0x10000"
  by (auto simp: canonical_runes_def scalar_def)

interpretation canon_escape: string_escape esc_canon
proof
  fix r w t
  assume r: "scalar r"
  show "lex (LStr False w) (esc_canon (r, RuneLen r) @ t) = lex (LStr False (rev (esc_canon (r, RuneLen r)) @ w)) t"
    using json_escape.esc_lex [OF r] lex_plain [OF EncodeRune_plain [OF r]] canonical_rune_facts [of r]
    by (auto simp: esc_canon_def)
  show "unquote (esc_canon (r, RuneLen r) @ t) = map_option ((@) (EncodeRune r)) (unquote t)"
    using json_escape.esc_unquote [OF r] unquote_raw [OF r] canonical_rune_facts [of r]
    by (auto simp: esc_canon_def simp del: unquote.simps)
qed

lemma canonical_copy: "list_all plain s \<Longrightarrow> canonical_from True (s @ t) = map_option ((@) s) (canonical_from True t)"
  by (cases "canonical_from True t"; induction s) (auto simp: plain_def)

lemma canonical_u_escape:
  assumes "r < 0x10000"
  shows "canonical_from True (u_escape r @ t)
    = map_option ((@) (if r \<in> canonical_runes then EncodeRune r else u_escape r)) (canonical_from True t)"
proof -
  define h where "h = drop 2 (u_escape r)"
  have h: "u_escape r = [CHR 0x5C, CHR ''u''] @ h" "length h = 4" by (simp_all add: h_def u_escape_def)
  have "hex4 (h @ t) = Some r" using hex4_u_escape [OF assms] by (simp add: h_def)
  then show ?thesis using h by simp
qed

lemma canonical_rune:
  assumes "scalar r"
  shows "canonical_from True (esc_rune (r, RuneLen r) @ t) = map_option ((@) (esc_canon (r, RuneLen r))) (canonical_from True t)"
  using refl [of "(r, RuneLen r)"]
proof (cases rule: esc_rune_cases)
  case (short c)
  then have "r \<notin> canonical_runes" using canonical_rune_facts [of r]
    by (auto simp: canonical_runes_def simple_escapes_def char_of_iff_byte eq_commute [of _ "char_of _"] split: if_splits)
  then show ?thesis using short by (simp add: esc_canon_def)
next
  case long
  then show ?thesis using canonical_u_escape by (auto simp: esc_canon_def simp del: canonical_from.simps)
next
  case raw
  then show ?thesis using canonical_copy [OF EncodeRune_plain [OF assms]] by (simp add: esc_canon_def del: canonical_from.simps)
qed

lemma canonical_quote:
  assumes "ValidString s"
  shows "canonical_from False (quote_with esc_rune s @ t) = map_option ((@) (quote_with esc_canon s)) (canonical_from False t)"
proof -
  have r: "canonical_from True (quote_content esc_rune (of_runes rs) @ u)
      = map_option ((@) (quote_content esc_canon (of_runes rs))) (canonical_from True u)"
    if "list_all scalar rs" for rs u
    using that
  proof (induction rs)
    case (Cons r rs)
    then show ?case
      using canonical_rune [of r]
      by (simp add: of_runes_Cons json_escape.quote_content_rune canon_escape.quote_content_rune
          option.map_comp comp_def del: canonical_from.simps)
  qed (simp add: of_runes_def json_escape.quote_content_Nil canon_escape.quote_content_Nil)
  from r [of "runes s" "CHR 0x22 # t"] ValidString_runes [OF assms] show ?thesis
    by (cases "canonical_from False t") (simp_all add: quote_with_def)
qed

lemma canonical_outside:
  "CHR 0x22 \<notin> set s \<Longrightarrow> canonical_from False (s @ t) = map_option ((@) s) (canonical_from False t)"
  by (cases "canonical_from False t"; induction s) auto

lemma canonical_outside_Cons:
  "c \<noteq> CHR 0x22 \<Longrightarrow> canonical_from False (c # t) = map_option ((#) c) (canonical_from False t)"
  by simp

lemma valid_number_no_quote: "valid_number w \<Longrightarrow> CHR 0x22 \<notin> set w"
  using valid_number_word [of w] by (auto simp: list_all_iff delim_def)

lemma canonical_list:
  assumes "\<And>x t. x \<in> set xs \<Longrightarrow> canonical_from False (pr x @ t) = map_option ((@) (pc x)) (canonical_from False t)"
  shows "canonical_from False (Join (map pr xs) '','' @ t) = map_option ((@) (Join (map pc xs) '','')) (canonical_from False t)"
  using assms
proof (induction xs rule: induct_list012)
  case (3 x y zs)
  let ?r = "Join (map pr (y # zs)) '','' @ t"
  have "canonical_from False (pr x @ CHR '','' # ?r) = map_option ((@) (pc x)) (canonical_from False (CHR '','' # ?r))"
    using 3(3) by simp
  moreover have "canonical_from False ?r = map_option ((@) (Join (map pc (y # zs)) '','')) (canonical_from False t)"
    by (rule 3(2)) (use 3(3) in auto)
  ultimately show ?case
    using canonical_outside_Cons [of "CHR '',''" ?r] by (cases "canonical_from False t") (simp_all del: canonical_from.simps)
qed simp_all

lemma canonical_print:
  "wf_json v \<Longrightarrow> canonical_from False (print_json v @ t) = map_option ((@) (print_with esc_canon v)) (canonical_from False t)"
proof (induction v arbitrary: t)
  case (JNum w)
  then show ?case using canonical_outside [OF valid_number_no_quote] by simp
next
  case (JStr s)
  then show ?case using canonical_quote by (simp del: canonical_from.simps)
next
  case (JArr vs)
  have "canonical_from False (Join (map print_json vs) '','' @ CHR '']'' # t)
      = map_option ((@) (Join (map (print_with esc_canon) vs) '','')) (canonical_from False (CHR '']'' # t))"
    using JArr by (intro canonical_list) (auto simp: list_all_iff)
  then show ?case
    using canonical_outside_Cons [of "CHR ''[''"] canonical_outside_Cons [of "CHR '']''" t]
    by (cases "canonical_from False t") (simp_all del: canonical_from.simps)
next
  case (JObj ps)
  let ?pr = "\<lambda>(k, v). quote_with esc_rune k @ '':'' @ print_json v"
  let ?pc = "\<lambda>(k, v). quote_with esc_canon k @ '':'' @ print_with esc_canon v"
  have "canonical_from False (Join (map ?pr ps) '','' @ CHR ''}'' # t)
      = map_option ((@) (Join (map ?pc ps) '','')) (canonical_from False (CHR ''}'' # t))"
  proof (rule canonical_list)
    fix p u assume p: "p \<in> set ps"
    obtain k v where kv: "p = (k, v)" by fastforce
    then have w: "ValidString k" "wf_json v" "v \<in> Basic_BNFs.snds p" using JObj.prems p by (auto simp: list_all_iff)
    show "canonical_from False (?pr p @ u) = map_option ((@) (?pc p)) (canonical_from False u)"
      using canonical_quote [OF w(1), of "CHR '':'' # print_json v @ u"] JObj.IH [OF p w(3,2), of u]
        canonical_outside_Cons [of "CHR '':''" "print_json v @ u"]
      by (cases "canonical_from False u") (simp_all add: kv del: canonical_from.simps)
  qed
  then show ?case
    using canonical_outside_Cons [of "CHR ''{''"] canonical_outside_Cons [of "CHR ''}''" t]
    by (cases "canonical_from False t") (simp_all del: canonical_from.simps)
next
  case (JBool b)
  show ?case using canonical_outside [of "if b then ''true'' else ''false''" t] by (simp del: canonical_from.simps)
next
  case JNull
  show ?case using canonical_outside [of "''null''" t] by (cases "canonical_from False t") (simp_all del: canonical_from.simps)
qed

theorem canonical_reads_back:
  assumes "wf_json v" and "depth v \<le> maxNestingDepth"
  shows "canonicalizeJSONStringEscapes (print_json v) = Some (print_with esc_canon v)
    \<and> parse_json (print_with esc_canon v) = Some v"
  using canonical_print [OF assms(1), of "[]"] canon_escape.parse_print [OF assms]
  by (simp add: canonicalizeJSONStringEscapes_def)

section \<open>Identifiers\<close>

lemma lower_hex_digit: "d < 16 \<Longrightarrow> lower_hex (hex_digit d)"
proof -
  have "\<forall>d \<in> set [0..<16]. lower_hex (hex_digit d)" by code_simp
  then show "d < 16 \<Longrightarrow> lower_hex (hex_digit d)" by simp
qed

lemma list_16:
  assumes "length bs = 16"
  obtains b0 b1 b2 b3 b4 b5 b6 b7 b8 b9 b10 b11 b12 b13 b14 b15
  where "bs = [b0, b1, b2, b3, b4, b5, b6, b7, b8, b9, b10, b11, b12, b13, b14, b15]"
  using assms by (auto simp: length_Suc_conv eval_nat_numeral)

lemma uuid_indices: "[0..<36] = [0, 1, 2, 3, 4, 5, 6, 7, 8, 9, 10, 11, 12, 13, 14, 15, 16, 17, 18, 19, 20, 21, 22, 23,
    24, 25, 26, 27, 28, 29, 30, 31, 32, 33, 34, 35 :: nat]"
  by code_simp

lemma newUUID_valid:
  assumes "newUUID (Some bs) = Some u" and "length bs = 16" and "list_all (\<lambda>b. b < 256) bs"
  shows "validUUID u" and "u ! 14 = CHR ''4''" and "u ! 19 \<in> set ''89ab''"
proof -
  obtain b0 b1 b2 b3 b4 b5 b6 b7 b8 b9 b10 b11 b12 b13 b14 b15
    where bs: "bs = [b0, b1, b2, b3, b4, b5, b6, b7, b8, b9, b10, b11, b12, b13, b14, b15]"
    using list_16 [OF assms(2)] .
  let ?h = "\<lambda>b. hex_digit (b div 16 mod 16)" and ?l = "\<lambda>b. hex_digit (b mod 16)"
  let ?v = "b6 mod 16 + 0x40" and ?w = "b8 mod 64 + 0x80"
  have u: "u = [?h b0, ?l b0, ?h b1, ?l b1, ?h b2, ?l b2, ?h b3, ?l b3, CHR ''-'', ?h b4, ?l b4, ?h b5, ?l b5, CHR ''-'',
      ?h ?v, ?l ?v, ?h b7, ?l b7, CHR ''-'', ?h ?w, ?l ?w, ?h b9, ?l b9, CHR ''-'',
      ?h b10, ?l b10, ?h b11, ?l b11, ?h b12, ?l b12, ?h b13, ?l b13, ?h b14, ?l b14, ?h b15, ?l b15]"
    using assms(1) by (simp add: newUUID_def bs hex_encode_def drop_Cons' take_Cons')
  show "validUUID u"
    by (simp add: u validUUID_def uuid_indices lower_hex_digit)
  have "(b6 mod 16 + 64) div 16 = 4" by (simp add: div_add1_eq)
  then show "u ! 14 = CHR ''4''" by (simp add: u hex_digit_def)
  have "(b8 mod 64 + 128) div 16 = b8 mod 64 div 16 + 8" by (simp add: div_add1_eq)
  moreover have "b8 mod 64 div 16 < 4" by auto
  ultimately have "(b8 mod 64 + 128) div 16 mod 16 \<in> {8, 9, 10, 11}" by auto
  then show "u ! 19 \<in> set ''89ab''" by (auto simp: u hex_digit_def)
qed

section \<open>Keys\<close>

lemma fold_gm_put_keys: "set (map fst (fold (\<lambda>(k, v). gm_put k v) ps m)) = set (map fst ps) \<union> set (map fst m)"
proof (induction ps arbitrary: m)
  case (Cons p ps)
  then show ?case by (cases p) (auto simp: dom_update [symmetric] dom_map_of_conv_image_fst [symmetric] update_conv')
qed simp

lemma fold_gm_put_wf: "gm_wf m \<Longrightarrow> gm_wf (fold (\<lambda>(k, v). gm_put k v) ps m)"
  by (induction ps arbitrary: m) (auto split: prod.splits)

lemma json_fields_keys:
  "json_fields j = Some (Some ob) \<Longrightarrow> \<exists>ps. j = JObj ps \<and> set (map fst ob) = set (map fst ps) \<and> gm_wf ob"
proof -
  assume "json_fields j = Some (Some ob)"
  then obtain ps where "j = JObj ps" "ob = fold (\<lambda>(k, v). gm_put k v) ps []"
    by (auto simp: json_fields_def split: json.splits)
  then show ?thesis using fold_gm_put_keys [of ps "[]"] fold_gm_put_wf [of "[]" ps] by simp
qed

lemma decodeExact_keys:
  assumes "decodeExact tab keys r0 data = Some r" and "distinct keys"
  shows "length data \<le> MaxEnvelopeBytes \<and> ValidString data
    \<and> (\<exists>ps. parse_json data = Some (JObj ps) \<and> distinct (map fst ps) \<and> set (map fst ps) = set keys
          \<and> decode_members True tab ps r0 = Some r)"
proof -
  have a: "length data \<le> MaxEnvelopeBytes" "ValidString data" "\<not> rejectDuplicateKeys data"
    using assms(1) by (auto simp: decodeExact_def split: if_splits)
  obtain j where j: "parse_json data = Some j" "decode_fields tab keys r0 j = Some r"
    using assms(1) by (auto simp: decodeExact_def bind_eq_Some_conv split: if_splits)
  then obtain ob where ob: "json_fields j = Some (Some ob)" "length ob = length keys" "list_all (gm_has ob) keys"
    by (auto simp: decode_fields_def split: if_splits option.splits)
  then obtain ps where ps: "j = JObj ps" "set (map fst ob) = set (map fst ps)" "gm_wf ob"
    using json_fields_keys by blast
  have "set keys \<subseteq> set (map fst ob)" using ob(3) by (auto simp: list_all_iff gm_has_iff)
  moreover have "card (set (map fst ob)) = card (set keys)"
    using ob(2) assms(2) distinct_card [OF ps(3)] by (simp add: distinct_card del: set_map)
  ultimately have "set keys = set (map fst ob)" by (metis card_subset_eq List.finite_set)
  moreover have "distinct (map fst ps)" using a(3) j ps(1) by (auto simp: rejectDuplicateKeys_def)
  moreover have "decode_members True tab ps r0 = Some r"
    using j ps(1) by (auto simp: decode_fields_def decode_struct_def split: if_splits option.splits)
  ultimately show ?thesis using a ps j by auto
qed

end
