(* ===== verification/Ride_Messages.thy ===== *)
theory Ride_Messages
  imports Envelope
begin

text \<open>
  The messages of the ride-group protocol, \<^verbatim>\<open>ridegroup/protocol.go\<close> and \<^verbatim>\<open>ridegroup/protocol_v2.go\<close>:
  the structures with their JSON fields, the parsers with all their checks, and the encoders.  The
  structures of both versions with the same fields are one record; a version 2 control extends a
  version 1 control.  A nil pointer or slice is \<open>None\<close>.
\<close>

section \<open>Structures\<close>

record Activity =
  act_Version :: int
  act_Type :: string
  act_BootNonce :: string
  act_Sequence :: int
  act_Active :: bool
  act_LocalStop :: bool
  act_SessionID :: "string option"
  act_MemberID :: "string option"
  act_Challenge :: string

record WireActivity = Activity +
  wact_ConnectionNonce :: string

record PeerDescriptor =
  pd_PeerID :: string
  pd_Label :: string
  pd_PaletteIndex :: int

record Control =
  ctl_Version :: int
  ctl_Type :: string
  ctl_ConnectionNonce :: string
  ctl_Action :: string
  ctl_SessionID :: "string option"
  ctl_MemberID :: "string option"
  ctl_Revision :: int
  ctl_TransportEpoch :: int
  ctl_StreamID :: "string option"
  ctl_Challenge :: string
  ctl_ServerTimeMS :: int
  ctl_LeaseTTLMS :: int
  ctl_CadenceMS :: "int option"
  ctl_Peers :: "PeerDescriptor list option"

record ControlV2 = Control +
  ctl_ConsentGeneration :: int
  ctl_StopOperationID :: "string option"
  ctl_StopResult :: "string option"
  ctl_StopExpectedGeneration :: "int option"

record Position =
  pos_Version :: int
  pos_Type :: string
  pos_SessionID :: string
  pos_Revision :: int
  pos_TransportEpoch :: int
  pos_StreamID :: string
  pos_Sequence :: int
  pos_CapturedAtMS :: int
  pos_TimestampSource :: string
  pos_Latitude :: f64
  pos_Longitude :: f64
  pos_AccuracyM :: "f64 option"
  pos_HeadingDeg :: "f64 option"
  pos_SpeedMPS :: "f64 option"
  pos_MotionSource :: string

record PeerPosition =
  peer_Version :: int
  peer_Type :: string
  peer_SessionID :: string
  peer_Revision :: int
  peer_TransportEpoch :: int
  peer_StreamID :: string
  peer_PeerStreamID :: string
  peer_PeerTransportEpoch :: int
  peer_Sequence :: int
  peer_PeerID :: string
  peer_Label :: string
  peer_PaletteIndex :: int
  peer_CapturedAtMS :: int
  peer_TimestampSource :: string
  peer_Latitude :: f64
  peer_Longitude :: f64
  peer_AccuracyM :: "f64 option"
  peer_HeadingDeg :: "f64 option"
  peer_SpeedMPS :: "f64 option"
  peer_MotionSource :: string
  peer_ReceivedAtMS :: int
  peer_ServerTimeMS :: int
  peer_ValidForMS :: int

record PeerStatus =
  pst_Version :: int
  pst_Type :: string
  pst_SessionID :: string
  pst_Revision :: int
  pst_TransportEpoch :: int
  pst_StreamID :: string
  pst_PeerID :: string
  pst_PeerStreamID :: string
  pst_PeerTransportEpoch :: int
  pst_Status :: string

record HelloV2 =
  hello_Version :: int
  hello_Type :: string
  hello_ConnectionNonce :: string
  hello_Capabilities :: "string list option"
  hello_Challenge :: string

record SourceStatusV2 =
  src_Version :: int
  src_Type :: string
  src_ConnectionNonce :: string
  src_SessionID :: string
  src_MemberID :: string
  src_Revision :: int
  src_TransportEpoch :: int
  src_StreamID :: string
  src_Sequence :: int
  src_State :: string
  src_CapturedAtMS :: "int option"

record StopV2 =
  stop_Version :: int
  stop_Type :: string
  stop_ConnectionNonce :: string
  stop_OperationID :: string
  stop_ExpectedConsentGeneration :: "int option"
  stop_Challenge :: string
  stop_Mode :: string

record LocalStopV2 =
  ls_Version :: int
  ls_Type :: string
  ls_OperationID :: "string option"
  ls_JournalRevision :: int
  ls_Phase :: string
  ls_Blocked :: bool
  ls_ExpectedGeneration :: "int option"
  ls_CommittedGeneration :: "int option"
  ls_Challenge :: string

record LocalStopProbeV2 =
  lsp_Version :: int
  lsp_Type :: string
  lsp_Adapter :: string
  lsp_Challenge :: string

record LocalStopResultV2 =
  lsr_Version :: int
  lsr_Type :: string
  lsr_Adapter :: string
  lsr_OperationID :: string
  lsr_JournalRevision :: int
  lsr_Challenge :: string
  lsr_ConnectionNonce :: string
  lsr_Result :: string
  lsr_ExpectedGeneration :: "int option"
  lsr_CommittedGeneration :: "int option"

record LocalStopAttemptV2 =
  lsa_Adapter :: string
  lsa_OperationID :: string
  lsa_JournalRevision :: int
  lsa_Challenge :: string
  lsa_ConnectionNonce :: string
  lsa_StartedAt :: instant

text \<open>The zero values the decoders start from.\<close>

definition zero_Activity :: WireActivity where
  "zero_Activity = \<lparr>act_Version = 0, act_Type = '''', act_BootNonce = '''', act_Sequence = 0, act_Active = False,
     act_LocalStop = False, act_SessionID = None, act_MemberID = None, act_Challenge = '''', wact_ConnectionNonce = ''''\<rparr>"

definition zero_PeerDescriptor :: PeerDescriptor where
  "zero_PeerDescriptor = \<lparr>pd_PeerID = '''', pd_Label = '''', pd_PaletteIndex = 0\<rparr>"

definition zero_Control :: ControlV2 where
  "zero_Control = \<lparr>ctl_Version = 0, ctl_Type = '''', ctl_ConnectionNonce = '''', ctl_Action = '''', ctl_SessionID = None,
     ctl_MemberID = None, ctl_Revision = 0, ctl_TransportEpoch = 0, ctl_StreamID = None, ctl_Challenge = '''',
     ctl_ServerTimeMS = 0, ctl_LeaseTTLMS = 0, ctl_CadenceMS = None, ctl_Peers = None, ctl_ConsentGeneration = 0,
     ctl_StopOperationID = None, ctl_StopResult = None, ctl_StopExpectedGeneration = None\<rparr>"

definition zero_Position :: Position where
  "zero_Position = \<lparr>pos_Version = 0, pos_Type = '''', pos_SessionID = '''', pos_Revision = 0, pos_TransportEpoch = 0,
     pos_StreamID = '''', pos_Sequence = 0, pos_CapturedAtMS = 0, pos_TimestampSource = '''', pos_Latitude = Fin 0,
     pos_Longitude = Fin 0, pos_AccuracyM = None, pos_HeadingDeg = None, pos_SpeedMPS = None, pos_MotionSource = ''''\<rparr>"

definition zero_PeerPosition :: PeerPosition where
  "zero_PeerPosition = \<lparr>peer_Version = 0, peer_Type = '''', peer_SessionID = '''', peer_Revision = 0,
     peer_TransportEpoch = 0, peer_StreamID = '''', peer_PeerStreamID = '''', peer_PeerTransportEpoch = 0,
     peer_Sequence = 0, peer_PeerID = '''', peer_Label = '''', peer_PaletteIndex = 0, peer_CapturedAtMS = 0,
     peer_TimestampSource = '''', peer_Latitude = Fin 0, peer_Longitude = Fin 0, peer_AccuracyM = None,
     peer_HeadingDeg = None, peer_SpeedMPS = None, peer_MotionSource = '''', peer_ReceivedAtMS = 0,
     peer_ServerTimeMS = 0, peer_ValidForMS = 0\<rparr>"

definition zero_PeerStatus :: PeerStatus where
  "zero_PeerStatus = \<lparr>pst_Version = 0, pst_Type = '''', pst_SessionID = '''', pst_Revision = 0, pst_TransportEpoch = 0,
     pst_StreamID = '''', pst_PeerID = '''', pst_PeerStreamID = '''', pst_PeerTransportEpoch = 0, pst_Status = ''''\<rparr>"

definition zero_Hello :: HelloV2 where
  "zero_Hello = \<lparr>hello_Version = 0, hello_Type = '''', hello_ConnectionNonce = '''', hello_Capabilities = None,
     hello_Challenge = ''''\<rparr>"

definition zero_SourceStatus :: SourceStatusV2 where
  "zero_SourceStatus = \<lparr>src_Version = 0, src_Type = '''', src_ConnectionNonce = '''', src_SessionID = '''',
     src_MemberID = '''', src_Revision = 0, src_TransportEpoch = 0, src_StreamID = '''', src_Sequence = 0,
     src_State = '''', src_CapturedAtMS = None\<rparr>"

definition zero_Stop :: StopV2 where
  "zero_Stop = \<lparr>stop_Version = 0, stop_Type = '''', stop_ConnectionNonce = '''', stop_OperationID = '''',
     stop_ExpectedConsentGeneration = None, stop_Challenge = '''', stop_Mode = ''''\<rparr>"

definition zero_LocalStop :: LocalStopV2 where
  "zero_LocalStop = \<lparr>ls_Version = 0, ls_Type = '''', ls_OperationID = None, ls_JournalRevision = 0, ls_Phase = '''',
     ls_Blocked = False, ls_ExpectedGeneration = None, ls_CommittedGeneration = None, ls_Challenge = ''''\<rparr>"

definition zero_LocalStopProbe :: LocalStopProbeV2 where
  "zero_LocalStopProbe = \<lparr>lsp_Version = 0, lsp_Type = '''', lsp_Adapter = '''', lsp_Challenge = ''''\<rparr>"

definition zero_LocalStopResult :: LocalStopResultV2 where
  "zero_LocalStopResult = \<lparr>lsr_Version = 0, lsr_Type = '''', lsr_Adapter = '''', lsr_OperationID = '''',
     lsr_JournalRevision = 0, lsr_Challenge = '''', lsr_ConnectionNonce = '''', lsr_Result = '''',
     lsr_ExpectedGeneration = None, lsr_CommittedGeneration = None\<rparr>"

section \<open>Tables of the JSON fields\<close>

definition peerDescriptor_table :: "golib \<Rightarrow> PeerDescriptor table" where
  "peerDescriptor_table L =
     [(''peer_id'', set_str (\<lambda>x r. r\<lparr>pd_PeerID := x\<rparr>)),
      (''label'', set_str (\<lambda>x r. r\<lparr>pd_Label := x\<rparr>)),
      (''palette_index'', set_int (lib_IntSize L) (\<lambda>x r. r\<lparr>pd_PaletteIndex := x\<rparr>))]"

definition peer_elem :: "golib \<Rightarrow> json \<Rightarrow> PeerDescriptor option" where
  "peer_elem L j = decode_struct True (peerDescriptor_table L) j zero_PeerDescriptor"

definition activity_table :: "golib \<Rightarrow> 'm Activity_scheme table" where
  "activity_table L =
     [(''v'', set_int (lib_IntSize L) (\<lambda>x r. r\<lparr>act_Version := x\<rparr>)),
      (''type'', set_str (\<lambda>x r. r\<lparr>act_Type := x\<rparr>)),
      (''boot_nonce'', set_str (\<lambda>x r. r\<lparr>act_BootNonce := x\<rparr>)),
      (''seq'', set_int 64 (\<lambda>x r. r\<lparr>act_Sequence := x\<rparr>)),
      (''active'', set_bool (\<lambda>x r. r\<lparr>act_Active := x\<rparr>)),
      (''local_stop'', set_bool (\<lambda>x r. r\<lparr>act_LocalStop := x\<rparr>)),
      (''session_id'', set_str_ptr (\<lambda>x r. r\<lparr>act_SessionID := x\<rparr>)),
      (''member_id'', set_str_ptr (\<lambda>x r. r\<lparr>act_MemberID := x\<rparr>)),
      (''challenge'', set_str (\<lambda>x r. r\<lparr>act_Challenge := x\<rparr>))]"

definition control_table :: "golib \<Rightarrow> 'm Control_scheme table" where
  "control_table L =
     [(''v'', set_int (lib_IntSize L) (\<lambda>x r. r\<lparr>ctl_Version := x\<rparr>)),
      (''type'', set_str (\<lambda>x r. r\<lparr>ctl_Type := x\<rparr>)),
      (''connection_nonce'', set_str (\<lambda>x r. r\<lparr>ctl_ConnectionNonce := x\<rparr>)),
      (''action'', set_str (\<lambda>x r. r\<lparr>ctl_Action := x\<rparr>)),
      (''session_id'', set_str_ptr (\<lambda>x r. r\<lparr>ctl_SessionID := x\<rparr>)),
      (''member_id'', set_str_ptr (\<lambda>x r. r\<lparr>ctl_MemberID := x\<rparr>)),
      (''revision'', set_int 64 (\<lambda>x r. r\<lparr>ctl_Revision := x\<rparr>)),
      (''transport_epoch'', set_int 64 (\<lambda>x r. r\<lparr>ctl_TransportEpoch := x\<rparr>)),
      (''stream_id'', set_str_ptr (\<lambda>x r. r\<lparr>ctl_StreamID := x\<rparr>)),
      (''challenge'', set_str (\<lambda>x r. r\<lparr>ctl_Challenge := x\<rparr>)),
      (''server_time_ms'', set_int 64 (\<lambda>x r. r\<lparr>ctl_ServerTimeMS := x\<rparr>)),
      (''lease_ttl_ms'', set_int 64 (\<lambda>x r. r\<lparr>ctl_LeaseTTLMS := x\<rparr>)),
      (''cadence_ms'', set_int_ptr 64 (\<lambda>x r. r\<lparr>ctl_CadenceMS := x\<rparr>)),
      (''peers'', set_slice (peer_elem L) (\<lambda>x r. r\<lparr>ctl_Peers := x\<rparr>))]"

definition position_table :: "golib \<Rightarrow> Position table" where
  "position_table L =
     [(''v'', set_int (lib_IntSize L) (\<lambda>x r. r\<lparr>pos_Version := x\<rparr>)),
      (''type'', set_str (\<lambda>x r. r\<lparr>pos_Type := x\<rparr>)),
      (''session_id'', set_str (\<lambda>x r. r\<lparr>pos_SessionID := x\<rparr>)),
      (''revision'', set_int 64 (\<lambda>x r. r\<lparr>pos_Revision := x\<rparr>)),
      (''transport_epoch'', set_int 64 (\<lambda>x r. r\<lparr>pos_TransportEpoch := x\<rparr>)),
      (''stream_id'', set_str (\<lambda>x r. r\<lparr>pos_StreamID := x\<rparr>)),
      (''seq'', set_int 64 (\<lambda>x r. r\<lparr>pos_Sequence := x\<rparr>)),
      (''captured_at_ms'', set_int 64 (\<lambda>x r. r\<lparr>pos_CapturedAtMS := x\<rparr>)),
      (''timestamp_source'', set_str (\<lambda>x r. r\<lparr>pos_TimestampSource := x\<rparr>)),
      (''lat'', set_float L (\<lambda>x r. r\<lparr>pos_Latitude := x\<rparr>)),
      (''lon'', set_float L (\<lambda>x r. r\<lparr>pos_Longitude := x\<rparr>)),
      (''accuracy_m'', set_float_ptr L (\<lambda>x r. r\<lparr>pos_AccuracyM := x\<rparr>)),
      (''heading_deg'', set_float_ptr L (\<lambda>x r. r\<lparr>pos_HeadingDeg := x\<rparr>)),
      (''speed_mps'', set_float_ptr L (\<lambda>x r. r\<lparr>pos_SpeedMPS := x\<rparr>)),
      (''motion_source'', set_str (\<lambda>x r. r\<lparr>pos_MotionSource := x\<rparr>))]"

definition peerPosition_table :: "golib \<Rightarrow> PeerPosition table" where
  "peerPosition_table L =
     [(''v'', set_int (lib_IntSize L) (\<lambda>x r. r\<lparr>peer_Version := x\<rparr>)),
      (''type'', set_str (\<lambda>x r. r\<lparr>peer_Type := x\<rparr>)),
      (''session_id'', set_str (\<lambda>x r. r\<lparr>peer_SessionID := x\<rparr>)),
      (''revision'', set_int 64 (\<lambda>x r. r\<lparr>peer_Revision := x\<rparr>)),
      (''transport_epoch'', set_int 64 (\<lambda>x r. r\<lparr>peer_TransportEpoch := x\<rparr>)),
      (''stream_id'', set_str (\<lambda>x r. r\<lparr>peer_StreamID := x\<rparr>)),
      (''peer_stream_id'', set_str (\<lambda>x r. r\<lparr>peer_PeerStreamID := x\<rparr>)),
      (''peer_transport_epoch'', set_int 64 (\<lambda>x r. r\<lparr>peer_PeerTransportEpoch := x\<rparr>)),
      (''seq'', set_int 64 (\<lambda>x r. r\<lparr>peer_Sequence := x\<rparr>)),
      (''peer_id'', set_str (\<lambda>x r. r\<lparr>peer_PeerID := x\<rparr>)),
      (''label'', set_str (\<lambda>x r. r\<lparr>peer_Label := x\<rparr>)),
      (''palette_index'', set_int (lib_IntSize L) (\<lambda>x r. r\<lparr>peer_PaletteIndex := x\<rparr>)),
      (''captured_at_ms'', set_int 64 (\<lambda>x r. r\<lparr>peer_CapturedAtMS := x\<rparr>)),
      (''timestamp_source'', set_str (\<lambda>x r. r\<lparr>peer_TimestampSource := x\<rparr>)),
      (''lat'', set_float L (\<lambda>x r. r\<lparr>peer_Latitude := x\<rparr>)),
      (''lon'', set_float L (\<lambda>x r. r\<lparr>peer_Longitude := x\<rparr>)),
      (''accuracy_m'', set_float_ptr L (\<lambda>x r. r\<lparr>peer_AccuracyM := x\<rparr>)),
      (''heading_deg'', set_float_ptr L (\<lambda>x r. r\<lparr>peer_HeadingDeg := x\<rparr>)),
      (''speed_mps'', set_float_ptr L (\<lambda>x r. r\<lparr>peer_SpeedMPS := x\<rparr>)),
      (''motion_source'', set_str (\<lambda>x r. r\<lparr>peer_MotionSource := x\<rparr>)),
      (''received_at_ms'', set_int 64 (\<lambda>x r. r\<lparr>peer_ReceivedAtMS := x\<rparr>)),
      (''server_time_ms'', set_int 64 (\<lambda>x r. r\<lparr>peer_ServerTimeMS := x\<rparr>)),
      (''valid_for_ms'', set_int 64 (\<lambda>x r. r\<lparr>peer_ValidForMS := x\<rparr>))]"

definition peerStatus_table :: "golib \<Rightarrow> PeerStatus table" where
  "peerStatus_table L =
     [(''v'', set_int (lib_IntSize L) (\<lambda>x r. r\<lparr>pst_Version := x\<rparr>)),
      (''type'', set_str (\<lambda>x r. r\<lparr>pst_Type := x\<rparr>)),
      (''session_id'', set_str (\<lambda>x r. r\<lparr>pst_SessionID := x\<rparr>)),
      (''revision'', set_int 64 (\<lambda>x r. r\<lparr>pst_Revision := x\<rparr>)),
      (''transport_epoch'', set_int 64 (\<lambda>x r. r\<lparr>pst_TransportEpoch := x\<rparr>)),
      (''stream_id'', set_str (\<lambda>x r. r\<lparr>pst_StreamID := x\<rparr>)),
      (''peer_id'', set_str (\<lambda>x r. r\<lparr>pst_PeerID := x\<rparr>)),
      (''peer_stream_id'', set_str (\<lambda>x r. r\<lparr>pst_PeerStreamID := x\<rparr>)),
      (''peer_transport_epoch'', set_int 64 (\<lambda>x r. r\<lparr>pst_PeerTransportEpoch := x\<rparr>)),
      (''status'', set_str (\<lambda>x r. r\<lparr>pst_Status := x\<rparr>))]"

definition hello_table :: "golib \<Rightarrow> HelloV2 table" where
  "hello_table L =
     [(''v'', set_int (lib_IntSize L) (\<lambda>x r. r\<lparr>hello_Version := x\<rparr>)),
      (''type'', set_str (\<lambda>x r. r\<lparr>hello_Type := x\<rparr>)),
      (''connection_nonce'', set_str (\<lambda>x r. r\<lparr>hello_ConnectionNonce := x\<rparr>)),
      (''capabilities'', set_slice str_elem (\<lambda>x r. r\<lparr>hello_Capabilities := x\<rparr>)),
      (''challenge'', set_str (\<lambda>x r. r\<lparr>hello_Challenge := x\<rparr>))]"

definition sourceStatus_table :: "golib \<Rightarrow> SourceStatusV2 table" where
  "sourceStatus_table L =
     [(''v'', set_int (lib_IntSize L) (\<lambda>x r. r\<lparr>src_Version := x\<rparr>)),
      (''type'', set_str (\<lambda>x r. r\<lparr>src_Type := x\<rparr>)),
      (''connection_nonce'', set_str (\<lambda>x r. r\<lparr>src_ConnectionNonce := x\<rparr>)),
      (''session_id'', set_str (\<lambda>x r. r\<lparr>src_SessionID := x\<rparr>)),
      (''member_id'', set_str (\<lambda>x r. r\<lparr>src_MemberID := x\<rparr>)),
      (''revision'', set_int 64 (\<lambda>x r. r\<lparr>src_Revision := x\<rparr>)),
      (''transport_epoch'', set_int 64 (\<lambda>x r. r\<lparr>src_TransportEpoch := x\<rparr>)),
      (''stream_id'', set_str (\<lambda>x r. r\<lparr>src_StreamID := x\<rparr>)),
      (''seq'', set_int 64 (\<lambda>x r. r\<lparr>src_Sequence := x\<rparr>)),
      (''state'', set_str (\<lambda>x r. r\<lparr>src_State := x\<rparr>)),
      (''captured_at_ms'', set_int_ptr 64 (\<lambda>x r. r\<lparr>src_CapturedAtMS := x\<rparr>))]"

definition stop_table :: "golib \<Rightarrow> StopV2 table" where
  "stop_table L =
     [(''v'', set_int (lib_IntSize L) (\<lambda>x r. r\<lparr>stop_Version := x\<rparr>)),
      (''type'', set_str (\<lambda>x r. r\<lparr>stop_Type := x\<rparr>)),
      (''connection_nonce'', set_str (\<lambda>x r. r\<lparr>stop_ConnectionNonce := x\<rparr>)),
      (''operation_id'', set_str (\<lambda>x r. r\<lparr>stop_OperationID := x\<rparr>)),
      (''expected_consent_generation'', set_int_ptr 64 (\<lambda>x r. r\<lparr>stop_ExpectedConsentGeneration := x\<rparr>)),
      (''challenge'', set_str (\<lambda>x r. r\<lparr>stop_Challenge := x\<rparr>)),
      (''mode'', set_str (\<lambda>x r. r\<lparr>stop_Mode := x\<rparr>))]"

definition localStop_table :: "golib \<Rightarrow> LocalStopV2 table" where
  "localStop_table L =
     [(''v'', set_int (lib_IntSize L) (\<lambda>x r. r\<lparr>ls_Version := x\<rparr>)),
      (''type'', set_str (\<lambda>x r. r\<lparr>ls_Type := x\<rparr>)),
      (''operation_id'', set_str_ptr (\<lambda>x r. r\<lparr>ls_OperationID := x\<rparr>)),
      (''journal_revision'', set_int 64 (\<lambda>x r. r\<lparr>ls_JournalRevision := x\<rparr>)),
      (''phase'', set_str (\<lambda>x r. r\<lparr>ls_Phase := x\<rparr>)),
      (''blocked'', set_bool (\<lambda>x r. r\<lparr>ls_Blocked := x\<rparr>)),
      (''expected_generation'', set_int_ptr 64 (\<lambda>x r. r\<lparr>ls_ExpectedGeneration := x\<rparr>)),
      (''committed_generation'', set_int_ptr 64 (\<lambda>x r. r\<lparr>ls_CommittedGeneration := x\<rparr>)),
      (''challenge'', set_str (\<lambda>x r. r\<lparr>ls_Challenge := x\<rparr>))]"

definition localStopProbe_table :: "golib \<Rightarrow> LocalStopProbeV2 table" where
  "localStopProbe_table L =
     [(''v'', set_int (lib_IntSize L) (\<lambda>x r. r\<lparr>lsp_Version := x\<rparr>)),
      (''type'', set_str (\<lambda>x r. r\<lparr>lsp_Type := x\<rparr>)),
      (''adapter'', set_str (\<lambda>x r. r\<lparr>lsp_Adapter := x\<rparr>)),
      (''challenge'', set_str (\<lambda>x r. r\<lparr>lsp_Challenge := x\<rparr>))]"

definition localStopResult_table :: "golib \<Rightarrow> LocalStopResultV2 table" where
  "localStopResult_table L =
     [(''v'', set_int (lib_IntSize L) (\<lambda>x r. r\<lparr>lsr_Version := x\<rparr>)),
      (''type'', set_str (\<lambda>x r. r\<lparr>lsr_Type := x\<rparr>)),
      (''adapter'', set_str (\<lambda>x r. r\<lparr>lsr_Adapter := x\<rparr>)),
      (''operation_id'', set_str (\<lambda>x r. r\<lparr>lsr_OperationID := x\<rparr>)),
      (''journal_revision'', set_int 64 (\<lambda>x r. r\<lparr>lsr_JournalRevision := x\<rparr>)),
      (''challenge'', set_str (\<lambda>x r. r\<lparr>lsr_Challenge := x\<rparr>)),
      (''connection_nonce'', set_str (\<lambda>x r. r\<lparr>lsr_ConnectionNonce := x\<rparr>)),
      (''result'', set_str (\<lambda>x r. r\<lparr>lsr_Result := x\<rparr>)),
      (''expected_generation'', set_int_ptr 64 (\<lambda>x r. r\<lparr>lsr_ExpectedGeneration := x\<rparr>)),
      (''committed_generation'', set_int_ptr 64 (\<lambda>x r. r\<lparr>lsr_CommittedGeneration := x\<rparr>))]"

definition wireActivity_table :: "golib \<Rightarrow> WireActivity table" where
  "wireActivity_table L =
     activity_table L @ [(''connection_nonce'', set_str (\<lambda>x r. r\<lparr>wact_ConnectionNonce := x\<rparr>))]"

definition controlV2_table :: "golib \<Rightarrow> ControlV2 table" where
  "controlV2_table L =
     control_table L @
     [(''consent_generation'', set_int 64 (\<lambda>x r. r\<lparr>ctl_ConsentGeneration := x\<rparr>)),
      (''stop_operation_id'', set_str_ptr (\<lambda>x r. r\<lparr>ctl_StopOperationID := x\<rparr>)),
      (''stop_result'', set_str_ptr (\<lambda>x r. r\<lparr>ctl_StopResult := x\<rparr>)),
      (''stop_expected_generation'', set_int_ptr 64 (\<lambda>x r. r\<lparr>ctl_StopExpectedGeneration := x\<rparr>))]"

section \<open>Encoders\<close>

text \<open>\<^verbatim>\<open>json.Marshal\<close> of a structure: its fields in their order.\<close>

definition enc_int :: "int \<Rightarrow> json" where
  "enc_int n = JNum (show_int n)"

definition enc_float :: "golib \<Rightarrow> f64 \<Rightarrow> json" where
  "enc_float L x = JNum (lib_JSONFloat L x)"

definition enc_ptr :: "('a \<Rightarrow> json) \<Rightarrow> 'a option \<Rightarrow> json" where
  "enc_ptr f p = (case p of None \<Rightarrow> JNull | Some x \<Rightarrow> f x)"

definition enc_slice :: "('a \<Rightarrow> json) \<Rightarrow> 'a list option \<Rightarrow> json" where
  "enc_slice f p = (case p of None \<Rightarrow> JNull | Some xs \<Rightarrow> JArr (map f xs))"

definition enc_PeerDescriptor :: "PeerDescriptor \<Rightarrow> json" where
  "enc_PeerDescriptor x = JObj
     [(''peer_id'', JStr (pd_PeerID x)),
      (''label'', JStr (pd_Label x)),
      (''palette_index'', enc_int (pd_PaletteIndex x))]"

definition enc_Activity :: "'m Activity_scheme \<Rightarrow> json" where
  "enc_Activity x = JObj
     [(''v'', enc_int (act_Version x)),
      (''type'', JStr (act_Type x)),
      (''boot_nonce'', JStr (act_BootNonce x)),
      (''seq'', enc_int (act_Sequence x)),
      (''active'', JBool (act_Active x)),
      (''local_stop'', JBool (act_LocalStop x)),
      (''session_id'', enc_ptr JStr (act_SessionID x)),
      (''member_id'', enc_ptr JStr (act_MemberID x)),
      (''challenge'', JStr (act_Challenge x))]"

definition enc_Control :: "'m Control_scheme \<Rightarrow> json" where
  "enc_Control x = JObj
     [(''v'', enc_int (ctl_Version x)),
      (''type'', JStr (ctl_Type x)),
      (''connection_nonce'', JStr (ctl_ConnectionNonce x)),
      (''action'', JStr (ctl_Action x)),
      (''session_id'', enc_ptr JStr (ctl_SessionID x)),
      (''member_id'', enc_ptr JStr (ctl_MemberID x)),
      (''revision'', enc_int (ctl_Revision x)),
      (''transport_epoch'', enc_int (ctl_TransportEpoch x)),
      (''stream_id'', enc_ptr JStr (ctl_StreamID x)),
      (''challenge'', JStr (ctl_Challenge x)),
      (''server_time_ms'', enc_int (ctl_ServerTimeMS x)),
      (''lease_ttl_ms'', enc_int (ctl_LeaseTTLMS x)),
      (''cadence_ms'', enc_ptr enc_int (ctl_CadenceMS x)),
      (''peers'', enc_slice enc_PeerDescriptor (ctl_Peers x))]"

definition enc_Position :: "golib \<Rightarrow> Position \<Rightarrow> json" where
  "enc_Position L x = JObj
     [(''v'', enc_int (pos_Version x)),
      (''type'', JStr (pos_Type x)),
      (''session_id'', JStr (pos_SessionID x)),
      (''revision'', enc_int (pos_Revision x)),
      (''transport_epoch'', enc_int (pos_TransportEpoch x)),
      (''stream_id'', JStr (pos_StreamID x)),
      (''seq'', enc_int (pos_Sequence x)),
      (''captured_at_ms'', enc_int (pos_CapturedAtMS x)),
      (''timestamp_source'', JStr (pos_TimestampSource x)),
      (''lat'', enc_float L (pos_Latitude x)),
      (''lon'', enc_float L (pos_Longitude x)),
      (''accuracy_m'', enc_ptr (enc_float L) (pos_AccuracyM x)),
      (''heading_deg'', enc_ptr (enc_float L) (pos_HeadingDeg x)),
      (''speed_mps'', enc_ptr (enc_float L) (pos_SpeedMPS x)),
      (''motion_source'', JStr (pos_MotionSource x))]"

definition enc_PeerPosition :: "golib \<Rightarrow> PeerPosition \<Rightarrow> json" where
  "enc_PeerPosition L x = JObj
     [(''v'', enc_int (peer_Version x)),
      (''type'', JStr (peer_Type x)),
      (''session_id'', JStr (peer_SessionID x)),
      (''revision'', enc_int (peer_Revision x)),
      (''transport_epoch'', enc_int (peer_TransportEpoch x)),
      (''stream_id'', JStr (peer_StreamID x)),
      (''peer_stream_id'', JStr (peer_PeerStreamID x)),
      (''peer_transport_epoch'', enc_int (peer_PeerTransportEpoch x)),
      (''seq'', enc_int (peer_Sequence x)),
      (''peer_id'', JStr (peer_PeerID x)),
      (''label'', JStr (peer_Label x)),
      (''palette_index'', enc_int (peer_PaletteIndex x)),
      (''captured_at_ms'', enc_int (peer_CapturedAtMS x)),
      (''timestamp_source'', JStr (peer_TimestampSource x)),
      (''lat'', enc_float L (peer_Latitude x)),
      (''lon'', enc_float L (peer_Longitude x)),
      (''accuracy_m'', enc_ptr (enc_float L) (peer_AccuracyM x)),
      (''heading_deg'', enc_ptr (enc_float L) (peer_HeadingDeg x)),
      (''speed_mps'', enc_ptr (enc_float L) (peer_SpeedMPS x)),
      (''motion_source'', JStr (peer_MotionSource x)),
      (''received_at_ms'', enc_int (peer_ReceivedAtMS x)),
      (''server_time_ms'', enc_int (peer_ServerTimeMS x)),
      (''valid_for_ms'', enc_int (peer_ValidForMS x))]"

definition enc_PeerStatus :: "PeerStatus \<Rightarrow> json" where
  "enc_PeerStatus x = JObj
     [(''v'', enc_int (pst_Version x)),
      (''type'', JStr (pst_Type x)),
      (''session_id'', JStr (pst_SessionID x)),
      (''revision'', enc_int (pst_Revision x)),
      (''transport_epoch'', enc_int (pst_TransportEpoch x)),
      (''stream_id'', JStr (pst_StreamID x)),
      (''peer_id'', JStr (pst_PeerID x)),
      (''peer_stream_id'', JStr (pst_PeerStreamID x)),
      (''peer_transport_epoch'', enc_int (pst_PeerTransportEpoch x)),
      (''status'', JStr (pst_Status x))]"

definition enc_Hello :: "HelloV2 \<Rightarrow> json" where
  "enc_Hello x = JObj
     [(''v'', enc_int (hello_Version x)),
      (''type'', JStr (hello_Type x)),
      (''connection_nonce'', JStr (hello_ConnectionNonce x)),
      (''capabilities'', enc_slice JStr (hello_Capabilities x)),
      (''challenge'', JStr (hello_Challenge x))]"

definition enc_SourceStatus :: "SourceStatusV2 \<Rightarrow> json" where
  "enc_SourceStatus x = JObj
     [(''v'', enc_int (src_Version x)),
      (''type'', JStr (src_Type x)),
      (''connection_nonce'', JStr (src_ConnectionNonce x)),
      (''session_id'', JStr (src_SessionID x)),
      (''member_id'', JStr (src_MemberID x)),
      (''revision'', enc_int (src_Revision x)),
      (''transport_epoch'', enc_int (src_TransportEpoch x)),
      (''stream_id'', JStr (src_StreamID x)),
      (''seq'', enc_int (src_Sequence x)),
      (''state'', JStr (src_State x)),
      (''captured_at_ms'', enc_ptr enc_int (src_CapturedAtMS x))]"

definition enc_Stop :: "StopV2 \<Rightarrow> json" where
  "enc_Stop x = JObj
     [(''v'', enc_int (stop_Version x)),
      (''type'', JStr (stop_Type x)),
      (''connection_nonce'', JStr (stop_ConnectionNonce x)),
      (''operation_id'', JStr (stop_OperationID x)),
      (''expected_consent_generation'', enc_ptr enc_int (stop_ExpectedConsentGeneration x)),
      (''challenge'', JStr (stop_Challenge x)),
      (''mode'', JStr (stop_Mode x))]"

definition enc_LocalStop :: "LocalStopV2 \<Rightarrow> json" where
  "enc_LocalStop x = JObj
     [(''v'', enc_int (ls_Version x)),
      (''type'', JStr (ls_Type x)),
      (''operation_id'', enc_ptr JStr (ls_OperationID x)),
      (''journal_revision'', enc_int (ls_JournalRevision x)),
      (''phase'', JStr (ls_Phase x)),
      (''blocked'', JBool (ls_Blocked x)),
      (''expected_generation'', enc_ptr enc_int (ls_ExpectedGeneration x)),
      (''committed_generation'', enc_ptr enc_int (ls_CommittedGeneration x)),
      (''challenge'', JStr (ls_Challenge x))]"

definition enc_LocalStopProbe :: "LocalStopProbeV2 \<Rightarrow> json" where
  "enc_LocalStopProbe x = JObj
     [(''v'', enc_int (lsp_Version x)),
      (''type'', JStr (lsp_Type x)),
      (''adapter'', JStr (lsp_Adapter x)),
      (''challenge'', JStr (lsp_Challenge x))]"

definition enc_LocalStopResult :: "LocalStopResultV2 \<Rightarrow> json" where
  "enc_LocalStopResult x = JObj
     [(''v'', enc_int (lsr_Version x)),
      (''type'', JStr (lsr_Type x)),
      (''adapter'', JStr (lsr_Adapter x)),
      (''operation_id'', JStr (lsr_OperationID x)),
      (''journal_revision'', enc_int (lsr_JournalRevision x)),
      (''challenge'', JStr (lsr_Challenge x)),
      (''connection_nonce'', JStr (lsr_ConnectionNonce x)),
      (''result'', JStr (lsr_Result x)),
      (''expected_generation'', enc_ptr enc_int (lsr_ExpectedGeneration x)),
      (''committed_generation'', enc_ptr enc_int (lsr_CommittedGeneration x))]"

text \<open>The nonce follows the type; a version 2 control has its fields behind those of version 1.\<close>

definition enc_WireActivity :: "WireActivity \<Rightarrow> json" where
  "enc_WireActivity x =
     (case enc_Activity x of
        JObj ps \<Rightarrow> JObj (take 2 ps @ [(''connection_nonce'', JStr (wact_ConnectionNonce x))] @ drop 2 ps)
      | j \<Rightarrow> j)"

definition enc_ControlV2 :: "ControlV2 \<Rightarrow> json" where
  "enc_ControlV2 x =
     (case enc_Control x of
        JObj ps \<Rightarrow> JObj (ps @
          [(''consent_generation'', enc_int (ctl_ConsentGeneration x)),
           (''stop_operation_id'', enc_ptr JStr (ctl_StopOperationID x)),
           (''stop_result'', enc_ptr JStr (ctl_StopResult x)),
           (''stop_expected_generation'', enc_ptr enc_int (ctl_StopExpectedGeneration x))])
      | j \<Rightarrow> j)"

end
