(* ===== verification/Ride_Protocol.thy ===== *)
theory Ride_Protocol
  imports Ride_Messages
begin

text \<open>
  Validation and parsing of the ride-group messages, \<^verbatim>\<open>ridegroup/protocol.go\<close> and
  \<^verbatim>\<open>ridegroup/protocol_v2.go\<close>, with the range checks of \<^verbatim>\<open>ridegroup/gps.go\<close>.  A parser returns the
  error text or the message.

  Shown: what a parser accepts passes the validation of its message, in particular the pointers that
  the adapter dereferences are set; a control that was encoded canonically and a fitted control stay
  within the envelope.
\<close>

section \<open>Ranges\<close>

definition f64_le :: "f64 \<Rightarrow> f64 \<Rightarrow> bool" where
  "f64_le x y = (\<not> f64_is_nan x \<and> \<not> f64_is_nan y \<and> \<not> f64_less y x)"

abbreviation finite_f64 :: "f64 \<Rightarrow> bool" where "finite_f64 \<equiv> f64_finite"

definition validCoordinates :: "f64 \<Rightarrow> f64 \<Rightarrow> bool" where
  "validCoordinates lat lon =
     (finite_f64 lat \<and> finite_f64 lon \<and> f64_le (Fin (-90)) lat \<and> f64_le lat (Fin 90)
      \<and> f64_le (Fin (-180)) lon \<and> f64_le lon (Fin 180))"

definition validAccuracy :: "f64 option \<Rightarrow> bool" where
  "validAccuracy p = (case p of None \<Rightarrow> True | Some x \<Rightarrow> finite_f64 x \<and> f64_less (Fin 0) x)"

definition validMotion :: "f64 option \<Rightarrow> f64 option \<Rightarrow> string \<Rightarrow> bool" where
  "validMotion heading speed source =
     (case (heading, speed) of
        (Some h, Some s) \<Rightarrow>
          source = ''position_delta'' \<and> finite_f64 h \<and> f64_le (Fin 0) h \<and> f64_less h (Fin 360)
          \<and> finite_f64 s \<and> f64_le (Fin 0) s \<and> f64_le s (Fin 40)
      | _ \<Rightarrow> heading = None \<and> speed = None \<and> source = ''unknown'')"

definition invalidV2 :: "string \<Rightarrow> go_error" where
  "invalidV2 subject = ''invalid ride-group v2 '' @ subject"

definition decodeExactV2 :: "'r table \<Rightarrow> string list \<Rightarrow> 'r \<Rightarrow> string \<Rightarrow> 'r option" where
  "decodeExactV2 tab keys r0 data = (if \<not> validJSONScalars data then None else decodeExact tab keys r0 data)"

section \<open>Version 1\<close>

abbreviation "v1_envelope \<equiv> ''invalid ride-group envelope''"

definition activity_keys :: "string list" where
  "activity_keys = [''v'', ''type'', ''boot_nonce'', ''seq'', ''active'', ''local_stop'', ''session_id'', ''member_id'', ''challenge'']"

definition wireActivity_keys :: "string list" where
  "wireActivity_keys = [''v'', ''type'', ''connection_nonce'', ''boot_nonce'', ''seq'', ''active'', ''local_stop'', ''session_id'', ''member_id'', ''challenge'']"

definition activity_types :: "(string \<times> string) list" where
  "activity_types = [(''v'', ''integer''), (''seq'', ''integer''), (''active'', ''bool''), (''local_stop'', ''bool''),
     (''type'', ''string''), (''boot_nonce'', ''string''), (''challenge'', ''string'')]"

definition validActivity :: "Activity \<Rightarrow> bool" where
  "validActivity a =
     (act_Version a = 1 \<and> act_Type a = ''ride_group_activity'' \<and> validUUID (act_BootNonce a) \<and> validUUID (act_Challenge a)
      \<and> 0 < act_Sequence a \<and> act_Sequence a \<le> maxSafeInteger
      \<and> (act_SessionID a = None) = (act_MemberID a = None)
      \<and> (act_SessionID a \<noteq> None \<longrightarrow> validUUIDPtr (act_SessionID a) \<and> validUUIDPtr (act_MemberID a))
      \<and> \<not> (act_Active a \<and> act_LocalStop a))"

definition ParseActivity :: "golib \<Rightarrow> string \<Rightarrow> go_error + Activity" where
  "ParseActivity L data =
     (case decodeExact (activity_table L) activity_keys (Activity.truncate zero_Activity) data of
        None \<Rightarrow> Inl v1_envelope
      | Some a \<Rightarrow>
          if \<not> jsonFieldsHaveTypes data activity_types then Inl v1_envelope
          else if validActivity a then Inr a else Inl ''invalid ride-group activity'')"

definition ParseWireActivity :: "golib \<Rightarrow> string \<Rightarrow> go_error + WireActivity" where
  "ParseWireActivity L data =
     (case decodeExact (wireActivity_table L) wireActivity_keys zero_Activity data of
        None \<Rightarrow> Inl v1_envelope
      | Some w \<Rightarrow>
          if \<not> jsonFieldsHaveTypes data activity_types then Inl v1_envelope
          else (case ParseActivity L (print_json (enc_Activity w)) of
              Inl e \<Rightarrow> Inl ''invalid ride-group activity''
            | Inr _ \<Rightarrow> if validUUID (wact_ConnectionNonce w) then Inr w else Inl ''invalid ride-group activity''))"

definition position_keys :: "string list" where
  "position_keys = [''v'', ''type'', ''session_id'', ''revision'', ''transport_epoch'', ''stream_id'', ''seq'', ''captured_at_ms'',
     ''timestamp_source'', ''lat'', ''lon'', ''accuracy_m'', ''heading_deg'', ''speed_mps'', ''motion_source'']"

definition position_types :: "(string \<times> string) list" where
  "position_types = [(''v'', ''integer''), (''revision'', ''integer''), (''transport_epoch'', ''integer''), (''seq'', ''integer''),
     (''captured_at_ms'', ''integer''), (''type'', ''string''), (''session_id'', ''string''), (''stream_id'', ''string''),
     (''timestamp_source'', ''string''), (''lat'', ''number''), (''lon'', ''number''), (''motion_source'', ''string'')]"

text \<open>The value checks of a position for a protocol version; both versions have the same.\<close>

definition validPosition :: "int \<Rightarrow> Position \<Rightarrow> bool" where
  "validPosition version p =
     (pos_Version p = version \<and> pos_Type p = ''ride_group_position'' \<and> validUUID (pos_SessionID p) \<and> validUUID (pos_StreamID p)
      \<and> safePositive (pos_Revision p) \<and> safePositive (pos_TransportEpoch p) \<and> safePositive (pos_Sequence p)
      \<and> safePositive (pos_CapturedAtMS p) \<and> pos_TimestampSource p = ''producer_fix''
      \<and> validCoordinates (pos_Latitude p) (pos_Longitude p) \<and> validAccuracy (pos_AccuracyM p)
      \<and> validMotion (pos_HeadingDeg p) (pos_SpeedMPS p) (pos_MotionSource p))"

definition ParsePosition :: "golib \<Rightarrow> string \<Rightarrow> go_error + Position" where
  "ParsePosition L data =
     (case decodeExact (position_table L) position_keys zero_Position data of
        None \<Rightarrow> Inl v1_envelope
      | Some p \<Rightarrow>
          if \<not> jsonFieldsHaveTypes data position_types then Inl v1_envelope
          else if validPosition 1 p then Inr p else Inl ''invalid ride-group position'')"

definition control_keys :: "string list" where
  "control_keys = [''v'', ''type'', ''connection_nonce'', ''action'', ''session_id'', ''member_id'', ''revision'', ''transport_epoch'',
     ''stream_id'', ''challenge'', ''server_time_ms'', ''lease_ttl_ms'', ''cadence_ms'', ''peers'']"

definition control_types :: "(string \<times> string) list" where
  "control_types = [(''v'', ''integer''), (''revision'', ''integer''), (''transport_epoch'', ''integer''), (''server_time_ms'', ''integer''),
     (''lease_ttl_ms'', ''integer''), (''type'', ''string''), (''connection_nonce'', ''string''), (''action'', ''string''),
     (''challenge'', ''string''), (''peers'', ''array'')]"

abbreviation peers_of :: "'m Control_scheme \<Rightarrow> PeerDescriptor list" where
  "peers_of c \<equiv> (case ctl_Peers c of None \<Rightarrow> [] | Some ps \<Rightarrow> ps)"

text \<open>
  \<open>validateControlPeers\<close> repeats the exact decoding on the raw text of every peer.  That text is part of an
  envelope that was already checked for size and encoding, so the check is made on the tree.
\<close>

definition validateControlPeers :: "golib \<Rightarrow> string \<Rightarrow> PeerDescriptor list \<Rightarrow> bool" where
  "validateControlPeers L data peers =
     (case Unmarshal_map data of
        Some (Some ob) \<Rightarrow>
          (case map_of ob ''peers'' of
             Some (JArr vs) \<Rightarrow>
               length vs = length peers
               \<and> list_all (\<lambda>v. uniqueJSONValue v
                     \<and> decode_fields (peerDescriptor_table L) [''peer_id'', ''label'', ''palette_index''] zero_PeerDescriptor v \<noteq> None
                     \<and> fields_have_types [(''peer_id'', ''string''), (''label'', ''string''), (''palette_index'', ''integer'')] v) vs
           | Some JNull \<Rightarrow> peers = []
           | _ \<Rightarrow> False)
      | _ \<Rightarrow> False)"

definition validControl :: "'m Control_scheme \<Rightarrow> bool" where
  "validControl c =
     (ctl_Version c = 1 \<and> ctl_Type c = ''ride_group_control'' \<and> validUUID (ctl_ConnectionNonce c) \<and> validUUID (ctl_Challenge c)
      \<and> safePositive (ctl_ServerTimeMS c) \<and> length (peers_of c) \<le> 5
      \<and> list_all (\<lambda>p. validUUID (pd_PeerID p) \<and> 0 \<le> pd_PaletteIndex p \<and> pd_PaletteIndex p \<le> 5
            \<and> RuneCountInString (pd_Label p) \<le> 32 \<and> jsonStringContentBytes (pd_Label p) \<le> 32) (peers_of c)
      \<and> (if ctl_Action c = ''grant'' \<or> ctl_Action c = ''renew'' then
           validUUIDPtr (ctl_SessionID c) \<and> validUUIDPtr (ctl_MemberID c) \<and> validUUIDPtr (ctl_StreamID c)
           \<and> safePositive (ctl_Revision c) \<and> safePositive (ctl_TransportEpoch c) \<and> safePositive (ctl_ServerTimeMS c)
           \<and> 1 \<le> ctl_LeaseTTLMS c \<and> ctl_LeaseTTLMS c \<le> 10000
           \<and> (case ctl_CadenceMS c of None \<Rightarrow> False | Some n \<Rightarrow> 1000 \<le> n \<and> n \<le> 5000)
         else if ctl_Action c = ''clear'' then
           validUUIDPtr (ctl_SessionID c) \<and> validUUIDPtr (ctl_MemberID c) \<and> validUUIDPtr (ctl_StreamID c)
           \<and> safePositive (ctl_Revision c) \<and> safePositive (ctl_TransportEpoch c)
           \<and> ctl_LeaseTTLMS c = 0 \<and> ctl_CadenceMS c = None \<and> peers_of c = []
         else if ctl_Action c = ''status'' then
           ctl_SessionID c = None \<and> ctl_MemberID c = None \<and> ctl_StreamID c = None \<and> ctl_Revision c = 0
           \<and> ctl_TransportEpoch c = 0 \<and> ctl_LeaseTTLMS c = 0 \<and> ctl_CadenceMS c = None \<and> peers_of c = []
         else False))"

definition ParseControl :: "golib \<Rightarrow> string \<Rightarrow> go_error + Control" where
  "ParseControl L data =
     (case decodeExact (control_table L) control_keys (Control.truncate zero_Control) data of
        None \<Rightarrow> Inl v1_envelope
      | Some c \<Rightarrow>
          if \<not> jsonFieldsHaveTypes data control_types then Inl v1_envelope
          else if \<not> validateControlPeers L data (peers_of c) then Inl ''invalid ride-group control''
          else if validControl c then Inr c else Inl ''invalid ride-group control'')"

definition peer_keys :: "string list" where
  "peer_keys = [''v'', ''type'', ''session_id'', ''revision'', ''transport_epoch'', ''stream_id'', ''peer_stream_id'',
     ''peer_transport_epoch'', ''seq'', ''peer_id'', ''label'', ''palette_index'', ''captured_at_ms'', ''timestamp_source'', ''lat'', ''lon'',
     ''accuracy_m'', ''heading_deg'', ''speed_mps'', ''motion_source'', ''received_at_ms'', ''server_time_ms'', ''valid_for_ms'']"

definition peer_types :: "(string \<times> string) list" where
  "peer_types = [(''v'', ''integer''), (''revision'', ''integer''), (''transport_epoch'', ''integer''), (''peer_transport_epoch'', ''integer''),
     (''seq'', ''integer''), (''palette_index'', ''integer''), (''captured_at_ms'', ''integer''), (''received_at_ms'', ''integer''),
     (''server_time_ms'', ''integer''), (''valid_for_ms'', ''integer''), (''type'', ''string''), (''session_id'', ''string''),
     (''stream_id'', ''string''), (''peer_stream_id'', ''string''), (''peer_id'', ''string''), (''label'', ''string''),
     (''timestamp_source'', ''string''), (''lat'', ''number''), (''lon'', ''number''), (''motion_source'', ''string'')]"

text \<open>The value checks of a peer position, apart from the label.\<close>

definition validPeer :: "int \<Rightarrow> PeerPosition \<Rightarrow> bool" where
  "validPeer version p =
     (peer_Version p = version \<and> peer_Type p = ''ride_group_peer'' \<and> validUUID (peer_SessionID p) \<and> validUUID (peer_StreamID p)
      \<and> validUUID (peer_PeerStreamID p) \<and> validUUID (peer_PeerID p) \<and> safePositive (peer_Revision p)
      \<and> safePositive (peer_TransportEpoch p) \<and> safePositive (peer_PeerTransportEpoch p) \<and> safePositive (peer_Sequence p)
      \<and> safePositive (peer_CapturedAtMS p) \<and> safePositive (peer_ReceivedAtMS p) \<and> safePositive (peer_ServerTimeMS p)
      \<and> 0 \<le> peer_ValidForMS p \<and> peer_ValidForMS p \<le> 10000 \<and> peer_TimestampSource p = ''producer_fix''
      \<and> 0 \<le> peer_PaletteIndex p \<and> peer_PaletteIndex p \<le> 5 \<and> validCoordinates (peer_Latitude p) (peer_Longitude p)
      \<and> validMotion (peer_HeadingDeg p) (peer_SpeedMPS p) (peer_MotionSource p) \<and> validAccuracy (peer_AccuracyM p))"

definition ParsePeerPosition :: "golib \<Rightarrow> string \<Rightarrow> go_error + PeerPosition" where
  "ParsePeerPosition L data =
     (case decodeExact (peerPosition_table L) peer_keys zero_PeerPosition data of
        None \<Rightarrow> Inl v1_envelope
      | Some p \<Rightarrow>
          if \<not> jsonFieldsHaveTypes data peer_types then Inl v1_envelope
          else if validPeer 1 p \<and> RuneCountInString (peer_Label p) \<le> 32 \<and> jsonStringContentBytes (peer_Label p) \<le> 32
          then Inr p else Inl ''invalid ride-group peer'')"

definition peerStatus_keys :: "string list" where
  "peerStatus_keys = [''v'', ''type'', ''session_id'', ''revision'', ''transport_epoch'', ''stream_id'', ''peer_id'', ''peer_stream_id'',
     ''peer_transport_epoch'', ''status'']"

definition peerStatus_types :: "(string \<times> string) list" where
  "peerStatus_types = [(''v'', ''integer''), (''revision'', ''integer''), (''transport_epoch'', ''integer''),
     (''peer_transport_epoch'', ''integer''), (''type'', ''string''), (''session_id'', ''string''), (''stream_id'', ''string''),
     (''peer_id'', ''string''), (''peer_stream_id'', ''string''), (''status'', ''string'')]"

definition validPeerStatus :: "int \<Rightarrow> PeerStatus \<Rightarrow> bool" where
  "validPeerStatus version v =
     (pst_Version v = version \<and> pst_Type v = ''ride_group_peer_status'' \<and> validUUID (pst_SessionID v) \<and> validUUID (pst_StreamID v)
      \<and> validUUID (pst_PeerID v) \<and> validUUID (pst_PeerStreamID v) \<and> safePositive (pst_Revision v)
      \<and> safePositive (pst_TransportEpoch v) \<and> safePositive (pst_PeerTransportEpoch v)
      \<and> oneOf (pst_Status v) [''no_fix'', ''inactive'', ''cleared''])"

definition ParsePeerStatus :: "golib \<Rightarrow> string \<Rightarrow> go_error + PeerStatus" where
  "ParsePeerStatus L data =
     (case decodeExact (peerStatus_table L) peerStatus_keys zero_PeerStatus data of
        None \<Rightarrow> Inl v1_envelope
      | Some v \<Rightarrow>
          if \<not> jsonFieldsHaveTypes data peerStatus_types then Inl v1_envelope
          else if validPeerStatus 1 v then Inr v else Inl ''invalid ride-group peer status'')"

section \<open>Version 2\<close>

datatype v2_value =
    VHello HelloV2
  | VActivity Activity
  | VWireActivity WireActivity
  | VControl ControlV2
  | VPosition Position
  | VPeer PeerPosition
  | VPeerStatus PeerStatus
  | VSourceStatus SourceStatusV2
  | VStop StopV2
  | VLocalStop LocalStopV2
  | VLocalStopProbe LocalStopProbeV2
  | VLocalStopResult LocalStopResultV2

definition validHelloV2 :: "HelloV2 \<Rightarrow> bool" where
  "validHelloV2 h =
     (hello_Version h = 2 \<and> hello_Type h = ''ride_group_hello'' \<and> validUUID (hello_ConnectionNonce h)
      \<and> validUUID (hello_Challenge h) \<and> hello_Capabilities h = Some [''ride_group_v2''])"

definition ParseHelloV2 :: "golib \<Rightarrow> string \<Rightarrow> go_error + HelloV2" where
  "ParseHelloV2 L data =
     (case decodeExactV2 (hello_table L) [''v'', ''type'', ''connection_nonce'', ''capabilities'', ''challenge''] zero_Hello data of
        None \<Rightarrow> Inl (invalidV2 ''hello'')
      | Some h \<Rightarrow>
          if jsonFieldsHaveTypes data [(''v'', ''integer''), (''type'', ''string''), (''connection_nonce'', ''string''),
               (''capabilities'', ''array''), (''challenge'', ''string'')] \<and> validHelloV2 h
          then Inr h else Inl (invalidV2 ''hello''))"

definition validateActivityFieldsV2 :: "'m Activity_scheme \<Rightarrow> go_error option" where
  "validateActivityFieldsV2 a =
     (if \<not> validUUID (act_BootNonce a) \<or> \<not> safePositive (act_Sequence a) \<or> act_LocalStop a \<or> \<not> validUUID (act_Challenge a)
      then Some (invalidV2 ''activity'')
      else if (act_SessionID a = None) \<noteq> (act_MemberID a = None)
              \<or> (act_SessionID a \<noteq> None \<and> (\<not> validUUIDPtr (act_SessionID a) \<or> \<not> validUUIDPtr (act_MemberID a)))
      then Some (invalidV2 ''activity'') else None)"

definition validateActivityV2 :: "'m Activity_scheme \<Rightarrow> go_error option" where
  "validateActivityV2 a =
     (if act_Version a \<noteq> 2 \<or> act_Type a \<noteq> ''ride_group_activity'' then Some (invalidV2 ''activity'')
      else validateActivityFieldsV2 a)"

definition ParseActivityV2 :: "golib \<Rightarrow> string \<Rightarrow> go_error + Activity" where
  "ParseActivityV2 L data =
     (case decodeExactV2 (activity_table L) activity_keys (Activity.truncate zero_Activity) data of
        None \<Rightarrow> Inl (invalidV2 ''activity'')
      | Some a \<Rightarrow>
          if \<not> jsonFieldsHaveTypes data activity_types then Inl (invalidV2 ''activity'')
          else (case validateActivityV2 a of Some e \<Rightarrow> Inl e | None \<Rightarrow> Inr a))"

definition validateWireActivityV2 :: "WireActivity \<Rightarrow> go_error option" where
  "validateWireActivityV2 w =
     (if act_Version w \<noteq> 2 \<or> act_Type w \<noteq> ''ride_group_activity'' \<or> \<not> validUUID (wact_ConnectionNonce w)
      then Some (invalidV2 ''activity'') else validateActivityFieldsV2 w)"

definition ParseWireActivityV2 :: "golib \<Rightarrow> string \<Rightarrow> go_error + WireActivity" where
  "ParseWireActivityV2 L data =
     (case decodeExactV2 (wireActivity_table L) wireActivity_keys zero_Activity data of
        None \<Rightarrow> Inl (invalidV2 ''activity'')
      | Some w \<Rightarrow>
          if \<not> jsonFieldsHaveTypes data ((''connection_nonce'', ''string'') # activity_types) then Inl (invalidV2 ''activity'')
          else (case validateWireActivityV2 w of Some e \<Rightarrow> Inl e | None \<Rightarrow> Inr w))"

definition validPeerDescriptorV2 :: "PeerDescriptor \<Rightarrow> bool" where
  "validPeerDescriptorV2 p =
     (validUUID (pd_PeerID p) \<and> validPeerLabel (pd_Label p) \<and> 0 \<le> pd_PaletteIndex p \<and> pd_PaletteIndex p \<le> 5)"

definition stop_results :: "string list" where
  "stop_results = [''committed'', ''not_found'', ''superseded'', ''expired'', ''unconfirmed'', ''error'']"

text \<open>The checks every control passes, whatever its action.\<close>

definition control_common :: "ControlV2 \<Rightarrow> bool \<Rightarrow> go_error option" where
  "control_common c checkLabels =
     (if ctl_Version c \<noteq> 2 \<or> ctl_Type c \<noteq> ''ride_group_control'' \<or> \<not> validUUID (ctl_ConnectionNonce c)
          \<or> \<not> validUUID (ctl_Challenge c) \<or> ctl_ConsentGeneration c < 0 \<or> ctl_ConsentGeneration c > maxSafeInteger
          \<or> \<not> safeNonnegative (ctl_Revision c) \<or> \<not> safeNonnegative (ctl_TransportEpoch c)
          \<or> \<not> safeNonnegative (ctl_ServerTimeMS c) \<or> \<not> safeNonnegative (ctl_LeaseTTLMS c)
          \<or> ctl_Peers c = None \<or> length (peers_of c) > 5
      then Some (invalidV2 ''control'')
      else if ctl_StopOperationID c \<noteq> None \<and> \<not> validUUIDPtr (ctl_StopOperationID c) then Some (invalidV2 ''control'')
      else if (case ctl_StopResult c of None \<Rightarrow> False | Some r \<Rightarrow> \<not> oneOf r stop_results) then Some (invalidV2 ''control'')
      else if \<not> validOptionalGeneration (ctl_StopExpectedGeneration c) then Some (invalidV2 ''control'')
      else if \<not> list_all (\<lambda>p. validUUID (pd_PeerID p) \<and> 0 \<le> pd_PaletteIndex p \<and> pd_PaletteIndex p \<le> 5
              \<and> ValidString (pd_Label p) \<and> (checkLabels \<longrightarrow> validPeerLabel (pd_Label p))) (peers_of c)
      then Some (invalidV2 ''control peer'') else None)"

definition no_stop :: "ControlV2 \<Rightarrow> bool" where
  "no_stop c = (ctl_StopOperationID c = None \<and> ctl_StopResult c = None \<and> ctl_StopExpectedGeneration c = None)"

definition bound_control :: "ControlV2 \<Rightarrow> bool" where
  "bound_control c =
     (no_stop c \<and> validUUIDPtr (ctl_SessionID c) \<and> validUUIDPtr (ctl_MemberID c) \<and> validUUIDPtr (ctl_StreamID c)
      \<and> safePositive (ctl_Revision c) \<and> safePositive (ctl_TransportEpoch c) \<and> safePositive (ctl_ServerTimeMS c))"

definition validate_stop_result :: "ControlV2 \<Rightarrow> go_error option" where
  "validate_stop_result c =
     (case ctl_StopResult c of
        None \<Rightarrow> if no_stop c then None else Some (invalidV2 ''control'')
      | Some r \<Rightarrow>
          if ctl_StopOperationID c = None then Some (invalidV2 ''control'')
          else if oneOf r [''committed'', ''superseded'', ''unconfirmed''] then
            (case ctl_StopExpectedGeneration c of
               None \<Rightarrow> Some (invalidV2 ''control stop result'')
             | Some g \<Rightarrow> if ctl_ConsentGeneration c \<le> g then Some (invalidV2 ''control stop result'') else None)
          else if oneOf r [''not_found'', ''expired''] then
            (if ctl_StopExpectedGeneration c \<noteq> None then Some (invalidV2 ''control stop result'') else None)
          else None)"

definition validateControlV2 :: "ControlV2 \<Rightarrow> bool \<Rightarrow> go_error option" where
  "validateControlV2 c checkLabels =
     (case control_common c checkLabels of
        Some e \<Rightarrow> Some e
      | None \<Rightarrow>
          if ctl_Action c = ''grant'' \<or> ctl_Action c = ''renew'' then
            (if \<not> bound_control c \<or> ctl_LeaseTTLMS c < 1 \<or> ctl_LeaseTTLMS c > 10000
                \<or> (case ctl_CadenceMS c of None \<Rightarrow> True | Some n \<Rightarrow> n < 1 \<or> n > 5000)
             then Some (invalidV2 ''control'')
             else if checkLabels \<and> \<not> list_all (\<lambda>p. RuneCountInString (pd_Label p) \<le> 32 \<and> jsonStringContentBytes (pd_Label p) \<le> 32) (peers_of c)
             then Some (invalidV2 ''control label'') else None)
          else if ctl_Action c = ''clear'' then
            (if \<not> bound_control c \<or> ctl_LeaseTTLMS c \<noteq> 0 \<or> ctl_CadenceMS c \<noteq> None \<or> peers_of c \<noteq> []
             then Some (invalidV2 ''control'') else None)
          else if ctl_Action c = ''status'' then
            (if ctl_SessionID c \<noteq> None \<or> ctl_MemberID c \<noteq> None \<or> ctl_StreamID c \<noteq> None \<or> ctl_Revision c \<noteq> 0
                \<or> ctl_TransportEpoch c \<noteq> 0 \<or> \<not> safePositive (ctl_ServerTimeMS c) \<or> ctl_LeaseTTLMS c \<noteq> 0
                \<or> ctl_CadenceMS c \<noteq> None \<or> peers_of c \<noteq> []
             then Some (invalidV2 ''control'') else validate_stop_result c)
          else Some (invalidV2 ''control action''))"

definition controlV2_keys :: "string list" where
  "controlV2_keys = control_keys @ [''consent_generation'', ''stop_operation_id'', ''stop_result'', ''stop_expected_generation'']"

definition ParseControlV2 :: "golib \<Rightarrow> string \<Rightarrow> go_error + ControlV2" where
  "ParseControlV2 L data =
     (case decodeExactV2 (controlV2_table L) controlV2_keys zero_Control data of
        None \<Rightarrow> Inl (invalidV2 ''control'')
      | Some c \<Rightarrow>
          if \<not> jsonFieldsHaveTypes data ((''consent_generation'', ''integer'') # control_types)
             \<or> \<not> nullableJSONFieldType data ''cadence_ms'' ''integer''
             \<or> \<not> nullableJSONFieldType data ''stop_expected_generation'' ''integer''
          then Inl (invalidV2 ''control'')
          else if \<not> list_all validPeerDescriptorV2 (peers_of c) then Inl (invalidV2 ''control peer'')
          else (case validateControlV2 c True of Some e \<Rightarrow> Inl e | None \<Rightarrow> Inr c))"

text \<open>The three optional floats of a position are nullable numbers.\<close>

definition motion_fields_ok :: "string \<Rightarrow> bool" where
  "motion_fields_ok data =
     (nullableJSONFieldType data ''accuracy_m'' ''number'' \<and> nullableJSONFieldType data ''heading_deg'' ''number''
      \<and> nullableJSONFieldType data ''speed_mps'' ''number'')"

definition ParsePositionV2 :: "golib \<Rightarrow> string \<Rightarrow> go_error + Position" where
  "ParsePositionV2 L data =
     (case decodeExactV2 (position_table L) position_keys zero_Position data of
        None \<Rightarrow> Inl (invalidV2 ''position'')
      | Some p \<Rightarrow>
          if jsonFieldsHaveTypes data position_types \<and> motion_fields_ok data \<and> validPosition 2 p
          then Inr p else Inl (invalidV2 ''position''))"

definition ParsePeerPositionV2 :: "golib \<Rightarrow> string \<Rightarrow> go_error + PeerPosition" where
  "ParsePeerPositionV2 L data =
     (case decodeExactV2 (peerPosition_table L) peer_keys zero_PeerPosition data of
        None \<Rightarrow> Inl (invalidV2 ''peer'')
      | Some p \<Rightarrow>
          if jsonFieldsHaveTypes data peer_types \<and> motion_fields_ok data \<and> validPeer 2 p \<and> validPeerLabel (peer_Label p)
          then Inr p else Inl (invalidV2 ''peer''))"

definition ParsePeerStatusV2 :: "golib \<Rightarrow> string \<Rightarrow> go_error + PeerStatus" where
  "ParsePeerStatusV2 L data =
     (case decodeExactV2 (peerStatus_table L) peerStatus_keys zero_PeerStatus data of
        None \<Rightarrow> Inl (invalidV2 ''peer status'')
      | Some v \<Rightarrow>
          if jsonFieldsHaveTypes data peerStatus_types \<and> validPeerStatus 2 v then Inr v else Inl (invalidV2 ''peer status''))"

definition validSourceStatusV2Value :: "SourceStatusV2 \<Rightarrow> bool" where
  "validSourceStatusV2Value v =
     (src_Version v = 2 \<and> src_Type v = ''ride_group_source_status'' \<and> validUUID (src_ConnectionNonce v)
      \<and> validUUID (src_SessionID v) \<and> validUUID (src_MemberID v) \<and> validUUID (src_StreamID v)
      \<and> safePositive (src_Revision v) \<and> safePositive (src_TransportEpoch v) \<and> safePositive (src_Sequence v)
      \<and> (if src_State v = ''no_fix'' then src_CapturedAtMS v = None
         else src_State v = ''fix_available''
              \<and> (case src_CapturedAtMS v of None \<Rightarrow> False | Some n \<Rightarrow> safePositive n)))"

definition ParseSourceStatusV2 :: "golib \<Rightarrow> string \<Rightarrow> go_error + SourceStatusV2" where
  "ParseSourceStatusV2 L data =
     (case decodeExactV2 (sourceStatus_table L) [''v'', ''type'', ''connection_nonce'', ''session_id'', ''member_id'', ''revision'',
             ''transport_epoch'', ''stream_id'', ''seq'', ''state'', ''captured_at_ms''] zero_SourceStatus data of
        None \<Rightarrow> Inl (invalidV2 ''source status'')
      | Some v \<Rightarrow>
          if jsonFieldsHaveTypes data [(''v'', ''integer''), (''type'', ''string''), (''connection_nonce'', ''string''),
               (''session_id'', ''string''), (''member_id'', ''string''), (''revision'', ''integer''), (''transport_epoch'', ''integer''),
               (''stream_id'', ''string''), (''seq'', ''integer''), (''state'', ''string'')]
             \<and> nullableJSONFieldType data ''captured_at_ms'' ''integer'' \<and> validSourceStatusV2Value v
          then Inr v else Inl (invalidV2 ''source status''))"

definition validStopV2Value :: "StopV2 \<Rightarrow> bool" where
  "validStopV2Value v =
     (stop_Version v = 2 \<and> stop_Type v = ''ride_group_stop'' \<and> validUUID (stop_ConnectionNonce v) \<and> validUUID (stop_OperationID v)
      \<and> validUUID (stop_Challenge v) \<and> oneOf (stop_Mode v) [''apply'', ''query'']
      \<and> (stop_Mode v = ''apply'' \<longrightarrow> stop_ExpectedConsentGeneration v \<noteq> None)
      \<and> validOptionalGeneration (stop_ExpectedConsentGeneration v))"

definition ParseStopV2 :: "golib \<Rightarrow> string \<Rightarrow> go_error + StopV2" where
  "ParseStopV2 L data =
     (case decodeExactV2 (stop_table L) [''v'', ''type'', ''connection_nonce'', ''operation_id'', ''expected_consent_generation'',
             ''challenge'', ''mode''] zero_Stop data of
        None \<Rightarrow> Inl (invalidV2 ''stop'')
      | Some v \<Rightarrow>
          if jsonFieldsHaveTypes data [(''v'', ''integer''), (''type'', ''string''), (''connection_nonce'', ''string''),
               (''operation_id'', ''string''), (''challenge'', ''string''), (''mode'', ''string'')]
             \<and> nullableJSONFieldType data ''expected_consent_generation'' ''integer'' \<and> validStopV2Value v
          then Inr v else Inl (invalidV2 ''stop''))"

definition validLocalStopV2Value :: "LocalStopV2 \<Rightarrow> bool" where
  "validLocalStopV2Value v =
     (ls_Version v = 2 \<and> ls_Type v = ''ride_group_local_stop'' \<and> validUUID (ls_Challenge v)
      \<and> safeNonnegative (ls_JournalRevision v) \<and> (ls_OperationID v \<noteq> None \<longrightarrow> validUUIDPtr (ls_OperationID v))
      \<and> validOptionalGeneration (ls_ExpectedGeneration v) \<and> validOptionalGeneration (ls_CommittedGeneration v))"

definition validLocalStopPhase :: "LocalStopV2 \<Rightarrow> bool" where
  "validLocalStopPhase v =
     (if ls_Phase v = ''idle'' then
        \<not> ls_Blocked v \<and> ls_OperationID v = None \<and> ls_ExpectedGeneration v = None \<and> ls_CommittedGeneration v = None
        \<and> ls_JournalRevision v \<noteq> 0
      else if ls_Phase v = ''preparing'' then
        ls_Blocked v \<and> ls_OperationID v \<noteq> None \<and> ls_ExpectedGeneration v = None \<and> ls_CommittedGeneration v = None
        \<and> ls_JournalRevision v \<noteq> 0
      else if ls_Phase v = ''prepared'' then
        ls_Blocked v \<and> ls_OperationID v \<noteq> None \<and> ls_ExpectedGeneration v \<noteq> None \<and> ls_CommittedGeneration v = None
        \<and> ls_JournalRevision v \<noteq> 0
      else if ls_Phase v = ''confirmed'' then
        ls_Blocked v \<and> ls_OperationID v \<noteq> None \<and> advancingGenerations (ls_ExpectedGeneration v) (ls_CommittedGeneration v)
        \<and> ls_JournalRevision v \<noteq> 0
      else if ls_Phase v = ''uncertain'' then
        ls_Blocked v
        \<and> \<not> (ls_JournalRevision v = 0 \<and> (ls_OperationID v \<noteq> None \<or> ls_ExpectedGeneration v \<noteq> None \<or> ls_CommittedGeneration v \<noteq> None))
        \<and> \<not> (ls_JournalRevision v > 0 \<and> ls_CommittedGeneration v \<noteq> None
             \<and> \<not> advancingGenerations (ls_ExpectedGeneration v) (ls_CommittedGeneration v))
      else False)"

text \<open>The kind \<^verbatim>\<open>boolean\<close> is none of those \<open>jsonFieldsHaveTypes\<close> knows, so \<^verbatim>\<open>blocked\<close> is not checked there.\<close>

definition localStop_types :: "(string \<times> string) list" where
  "localStop_types = [(''v'', ''integer''), (''type'', ''string''), (''journal_revision'', ''integer''), (''phase'', ''string''),
     (''blocked'', ''boolean''), (''challenge'', ''string'')]"

definition ParseLocalStopV2 :: "golib \<Rightarrow> string \<Rightarrow> go_error + LocalStopV2" where
  "ParseLocalStopV2 L data =
     (case decodeExactV2 (localStop_table L) [''v'', ''type'', ''operation_id'', ''journal_revision'', ''phase'', ''blocked'',
             ''expected_generation'', ''committed_generation'', ''challenge''] zero_LocalStop data of
        None \<Rightarrow> Inl (invalidV2 ''local stop'')
      | Some v \<Rightarrow>
          if jsonFieldsHaveTypes data localStop_types \<and> nullableJSONFieldType data ''expected_generation'' ''integer''
             \<and> nullableJSONFieldType data ''committed_generation'' ''integer'' \<and> validLocalStopV2Value v \<and> validLocalStopPhase v
          then Inr v else Inl (invalidV2 ''local stop''))"

definition validLocalStopProbeV2 :: "LocalStopProbeV2 \<Rightarrow> bool" where
  "validLocalStopProbeV2 v =
     (lsp_Version v = 2 \<and> lsp_Type v = ''ride_group_local_stop_probe'' \<and> oneOf (lsp_Adapter v) [''mqtt'', ''uplink'']
      \<and> validUUID (lsp_Challenge v))"

definition ParseLocalStopProbeV2 :: "golib \<Rightarrow> string \<Rightarrow> go_error + LocalStopProbeV2" where
  "ParseLocalStopProbeV2 L data =
     (case decodeExactV2 (localStopProbe_table L) [''v'', ''type'', ''adapter'', ''challenge''] zero_LocalStopProbe data of
        None \<Rightarrow> Inl (invalidV2 ''local stop probe'')
      | Some v \<Rightarrow>
          if jsonFieldsHaveTypes data [(''v'', ''integer''), (''type'', ''string''), (''adapter'', ''string''), (''challenge'', ''string'')]
             \<and> validLocalStopProbeV2 v
          then Inr v else Inl (invalidV2 ''local stop probe''))"

definition validLocalStopResultV2Value :: "LocalStopResultV2 \<Rightarrow> bool" where
  "validLocalStopResultV2Value v =
     (lsr_Version v = 2 \<and> lsr_Type v = ''ride_group_local_stop_result'' \<and> oneOf (lsr_Adapter v) [''mqtt'', ''uplink'']
      \<and> validUUID (lsr_OperationID v) \<and> safePositive (lsr_JournalRevision v) \<and> validUUID (lsr_Challenge v)
      \<and> validUUID (lsr_ConnectionNonce v) \<and> validOptionalGeneration (lsr_ExpectedGeneration v)
      \<and> validOptionalGeneration (lsr_CommittedGeneration v))"

definition validLocalStopOutcome :: "LocalStopResultV2 \<Rightarrow> bool" where
  "validLocalStopOutcome v =
     (if lsr_Result v = ''offer'' then lsr_ExpectedGeneration v \<noteq> None \<and> lsr_CommittedGeneration v = None
      else if oneOf (lsr_Result v) [''committed'', ''superseded'', ''unconfirmed''] then
        advancingGenerations (lsr_ExpectedGeneration v) (lsr_CommittedGeneration v)
      else if oneOf (lsr_Result v) [''not_found'', ''expired''] then lsr_CommittedGeneration v = None
      else if lsr_Result v = ''error'' then
        lsr_CommittedGeneration v \<noteq> None \<longrightarrow> advancingGenerations (lsr_ExpectedGeneration v) (lsr_CommittedGeneration v)
      else False)"

definition ParseLocalStopResultV2 :: "golib \<Rightarrow> string \<Rightarrow> go_error + LocalStopResultV2" where
  "ParseLocalStopResultV2 L data =
     (case decodeExactV2 (localStopResult_table L) [''v'', ''type'', ''adapter'', ''operation_id'', ''journal_revision'', ''challenge'',
             ''connection_nonce'', ''result'', ''expected_generation'', ''committed_generation''] zero_LocalStopResult data of
        None \<Rightarrow> Inl (invalidV2 ''local stop result'')
      | Some v \<Rightarrow>
          if jsonFieldsHaveTypes data [(''v'', ''integer''), (''type'', ''string''), (''adapter'', ''string''), (''operation_id'', ''string''),
               (''journal_revision'', ''integer''), (''challenge'', ''string''), (''connection_nonce'', ''string''), (''result'', ''string'')]
             \<and> nullableJSONFieldType data ''expected_generation'' ''integer''
             \<and> nullableJSONFieldType data ''committed_generation'' ''integer''
             \<and> validLocalStopResultV2Value v \<and> validLocalStopOutcome v
          then Inr v else Inl (invalidV2 ''local stop result''))"

definition MatchesLocalStopAttemptV2 :: "LocalStopResultV2 \<Rightarrow> 'm LocalStopAttemptV2_scheme \<Rightarrow> string \<Rightarrow> instant \<Rightarrow> bool" where
  "MatchesLocalStopAttemptV2 result attempt currentNonce now =
     (lsa_Adapter attempt = lsr_Adapter result \<and> (lsa_Adapter attempt = ''mqtt'' \<or> lsa_Adapter attempt = ''uplink'')
      \<and> lsa_OperationID attempt = lsr_OperationID result \<and> lsa_JournalRevision attempt = lsr_JournalRevision result
      \<and> lsa_Challenge attempt = lsr_Challenge result \<and> lsa_ConnectionNonce attempt = lsr_ConnectionNonce result
      \<and> currentNonce = lsa_ConnectionNonce attempt \<and> validUUID (lsa_OperationID attempt) \<and> validUUID (lsa_Challenge attempt)
      \<and> validUUID currentNonce \<and> safePositive (lsa_JournalRevision attempt) \<and> \<not> time_IsZero (lsa_StartedAt attempt)
      \<and> \<not> now < lsa_StartedAt attempt \<and> time_Sub now (lsa_StartedAt attempt) \<le> 10 * Second)"

text \<open>The type of an envelope, read without any of the other checks.\<close>

definition envelope_type :: "string \<Rightarrow> string option" where
  "envelope_type data =
     Option.bind (parse_json data) (\<lambda>j. decode_struct False [(''type'', set_str (\<lambda>x r. x))] j '''')"

definition ParseV2Message :: "golib \<Rightarrow> string \<Rightarrow> go_error + v2_value" where
  "ParseV2Message L data =
     (if \<not> validJSONScalars data then Inl (invalidV2 ''envelope'')
      else case envelope_type data of
        None \<Rightarrow> Inl (invalidV2 ''envelope'')
      | Some t \<Rightarrow>
          if t = ''ride_group_hello'' then map_sum id VHello (ParseHelloV2 L data)
          else if t = ''ride_group_activity'' then
            (case Unmarshal_map data of
               None \<Rightarrow> Inl (invalidV2 ''activity'')
             | Some ob \<Rightarrow>
                 if gm_has (case ob of None \<Rightarrow> [] | Some m \<Rightarrow> m) ''connection_nonce''
                 then map_sum id VWireActivity (ParseWireActivityV2 L data)
                 else map_sum id VActivity (ParseActivityV2 L data))
          else if t = ''ride_group_control'' then map_sum id VControl (ParseControlV2 L data)
          else if t = ''ride_group_position'' then map_sum id VPosition (ParsePositionV2 L data)
          else if t = ''ride_group_peer'' then map_sum id VPeer (ParsePeerPositionV2 L data)
          else if t = ''ride_group_peer_status'' then map_sum id VPeerStatus (ParsePeerStatusV2 L data)
          else if t = ''ride_group_source_status'' then map_sum id VSourceStatus (ParseSourceStatusV2 L data)
          else if t = ''ride_group_stop'' then map_sum id VStop (ParseStopV2 L data)
          else if t = ''ride_group_local_stop'' then map_sum id VLocalStop (ParseLocalStopV2 L data)
          else if t = ''ride_group_local_stop_probe'' then map_sum id VLocalStopProbe (ParseLocalStopProbeV2 L data)
          else if t = ''ride_group_local_stop_result'' then map_sum id VLocalStopResult (ParseLocalStopResultV2 L data)
          else Inl (invalidV2 ''type''))"

fun enc_value :: "golib \<Rightarrow> v2_value \<Rightarrow> json" where
  "enc_value L (VHello v) = enc_Hello v"
| "enc_value L (VActivity v) = enc_Activity v"
| "enc_value L (VWireActivity v) = enc_WireActivity v"
| "enc_value L (VControl v) = enc_ControlV2 v"
| "enc_value L (VPosition v) = enc_Position L v"
| "enc_value L (VPeer v) = enc_PeerPosition L v"
| "enc_value L (VPeerStatus v) = enc_PeerStatus v"
| "enc_value L (VSourceStatus v) = enc_SourceStatus v"
| "enc_value L (VStop v) = enc_Stop v"
| "enc_value L (VLocalStop v) = enc_LocalStop v"
| "enc_value L (VLocalStopProbe v) = enc_LocalStopProbe v"
| "enc_value L (VLocalStopResult v) = enc_LocalStopResult v"

text \<open>\<open>validateV2Value\<close> checks the value before it is encoded; \<open>True\<close> when there is no error.\<close>

fun validateV2Value :: "golib \<Rightarrow> v2_value \<Rightarrow> bool" where
  "validateV2Value L (VHello v) = (case ParseHelloV2 L (print_json (enc_Hello v)) of Inl _ \<Rightarrow> False | Inr _ \<Rightarrow> True)"
| "validateV2Value L (VActivity v) = (validateActivityV2 v = None)"
| "validateV2Value L (VWireActivity v) = (validateWireActivityV2 v = None)"
| "validateV2Value L (VControl v) = (validateControlV2 v True = None)"
| "validateV2Value L (VPosition v) = validPosition 2 v"
| "validateV2Value L (VPeer v) = (validPeer 2 v \<and> validPeerLabel (peer_Label v))"
| "validateV2Value L (VPeerStatus v) = validPeerStatus 2 v"
| "validateV2Value L (VSourceStatus v) = validSourceStatusV2Value v"
| "validateV2Value L (VStop v) = validStopV2Value v"
| "validateV2Value L (VLocalStop v) = validLocalStopV2Value v"
| "validateV2Value L (VLocalStopProbe v) = validLocalStopProbeV2 v"
| "validateV2Value L (VLocalStopResult v) = validLocalStopResultV2Value v"

text \<open>
  \<^verbatim>\<open>json.Marshal\<close> fails on floats that are not finite; the validation before it admits only finite
  ones.
\<close>

definition MarshalCanonicalV2 :: "golib \<Rightarrow> v2_value \<Rightarrow> string option" where
  "MarshalCanonicalV2 L value =
     (if \<not> validateV2Value L value then None
      else let encoded = print_json (enc_value L value)
           in case ParseV2Message L encoded of
                Inl e \<Rightarrow> None
              | Inr _ \<Rightarrow>
                  (case canonicalizeJSONStringEscapes encoded of
                     None \<Rightarrow> None
                   | Some canonical \<Rightarrow> if length canonical > MaxEnvelopeBytes then None else Some canonical))"

section \<open>Fitting labels into the envelope\<close>

text \<open>
  \<open>FitControlLabelsV2\<close> empties the labels and hands their runes back one at a time, a rune per peer and
  round, as long as the control can still be encoded; a label that does not take its next rune is
  finished.  \<open>rests\<close> are the runes of each label that were not tried yet.
\<close>

definition set_label :: "nat \<Rightarrow> string \<Rightarrow> ControlV2 \<Rightarrow> ControlV2" where
  "set_label i s c = c\<lparr>ctl_Peers := map_option (\<lambda>ps. ps[i := (ps ! i)\<lparr>pd_Label := s\<rparr>]) (ctl_Peers c)\<rparr>"

definition label_at :: "nat \<Rightarrow> ControlV2 \<Rightarrow> string" where
  "label_at i c = pd_Label (peers_of c ! i)"

definition fit_step :: "golib \<Rightarrow> nat \<Rightarrow> nat list list \<times> ControlV2 \<Rightarrow> nat list list \<times> ControlV2" where
  "fit_step L i st =
     (case fst st ! i of
        [] \<Rightarrow> st
      | r # rs \<Rightarrow>
          (let c = snd st; candidate = label_at i c @ EncodeRune r; c' = set_label i candidate c
           in if \<not> validPeerLabel candidate then ((fst st)[i := []], c)
              else if MarshalCanonicalV2 L (VControl c') = None then ((fst st)[i := []], c)
              else ((fst st)[i := rs], c')))"

definition fit_round :: "golib \<Rightarrow> nat list list \<times> ControlV2 \<Rightarrow> nat list list \<times> ControlV2" where
  "fit_round L st = fold (fit_step L) [0..<length (fst st)] st"

definition runes_left :: "nat list list \<Rightarrow> nat" where
  "runes_left rests = sum_list (map length rests)"

lemma runes_left_update:
  "i < length rests \<Longrightarrow> runes_left (rests[i := r]) + length (rests ! i) = runes_left rests + length r"
  using member_le_sum_list [of "length (rests ! i)" "map length rests"]
  by (simp add: runes_left_def map_update sum_list_update)

lemma fit_step_length [simp]: "length (fst (fit_step L i st)) = length (fst st)"
  by (simp add: fit_step_def Let_def split: list.splits)

lemma fit_step_other: "j \<noteq> i \<Longrightarrow> fst (fit_step L i st) ! j = fst st ! j"
  by (simp add: fit_step_def Let_def split: list.splits)

lemma fit_step_runes_left:
  assumes "i < length (fst st)"
  shows "if fst st ! i = [] then fit_step L i st = st else runes_left (fst (fit_step L i st)) < runes_left (fst st)"
proof (cases "fst st ! i")
  case (Cons r rs)
  then show ?thesis
    using runes_left_update [OF assms, of "[]"] runes_left_update [OF assms, of rs]
    by (auto simp: fit_step_def Let_def)
qed (simp add: fit_step_def)

lemma fit_steps_runes_left:
  assumes "set is \<subseteq> {..<length (fst st)}"
  shows "runes_left (fst (fold (fit_step L) is st)) \<le> runes_left (fst st)
    \<and> ((\<exists>i \<in> set is. fst st ! i \<noteq> []) \<longrightarrow> runes_left (fst (fold (fit_step L) is st)) < runes_left (fst st))"
  using assms
proof (induction "is" arbitrary: st)
  case (Cons j js)
  let ?st = "fit_step L j st"
  have IH: "runes_left (fst (fold (fit_step L) js ?st)) \<le> runes_left (fst ?st)"
    "(\<exists>i \<in> set js. fst ?st ! i \<noteq> []) \<Longrightarrow> runes_left (fst (fold (fit_step L) js ?st)) < runes_left (fst ?st)"
    using Cons.IH [of ?st] Cons.prems by simp_all
  have j: "j < length (fst st)" using Cons.prems by simp
  show ?case
  proof (cases "fst st ! j = []")
    case True
    then have "?st = st" using fit_step_runes_left [OF j] by simp
    then show ?thesis using IH True by simp
  next
    case False
    then have "runes_left (fst ?st) < runes_left (fst st)" using fit_step_runes_left [OF j, of L] by simp
    then show ?thesis using IH(1) by simp
  qed
qed simp

function fit_loop :: "golib \<Rightarrow> nat list list \<times> ControlV2 \<Rightarrow> ControlV2" where
  "fit_loop L st = (if list_all (\<lambda>r. r = []) (fst st) then snd st else fit_loop L (fit_round L st))"
  by pat_completeness auto

termination
proof (relation "measure (\<lambda>(L, st). runes_left (fst st))")
  fix L and st :: "nat list list \<times> ControlV2"
  assume "\<not> list_all (\<lambda>r. r = []) (fst st)"
  then have "\<exists>i \<in> set [0..<length (fst st)]. fst st ! i \<noteq> []"
    by (auto simp: list_all_length)
  then show "((L, fit_round L st), (L, st)) \<in> measure (\<lambda>(L, st). runes_left (fst st))"
    using fit_steps_runes_left [of "[0..<length (fst st)]" st L] by (simp add: fit_round_def lessThan_atLeast0)
qed simp

declare fit_loop.simps [simp del]

definition FitControlLabelsV2 :: "golib \<Rightarrow> ControlV2 \<Rightarrow> ControlV2 option" where
  "FitControlLabelsV2 L control =
     (if validateControlV2 control False \<noteq> None then None
      else let labels = map (\<lambda>p. runes (pd_Label p)) (peers_of control);
               bare = control\<lparr>ctl_Peers := map_option (map (\<lambda>p. p\<lparr>pd_Label := ''''\<rparr>)) (ctl_Peers control)\<rparr>
           in if MarshalCanonicalV2 L (VControl bare) = None then None
              else Some (fit_loop L (labels, bare)))"

text \<open>
  Invariant of the loop: the control can be encoded, it is the original up to its labels, and each
  label is the beginning of the original one.
\<close>

definition relabelled :: "string list \<Rightarrow> ControlV2 \<Rightarrow> ControlV2" where
  "relabelled ls c = c\<lparr>ctl_Peers := map_option (\<lambda>ps. map2 (\<lambda>p s. p\<lparr>pd_Label := s\<rparr>) ps ls) (ctl_Peers c)\<rparr>"

definition fit_inv :: "golib \<Rightarrow> ControlV2 \<Rightarrow> nat list list \<times> ControlV2 \<Rightarrow> bool" where
  "fit_inv L control st =
     (length (fst st) = length (peers_of control)
      \<and> MarshalCanonicalV2 L (VControl (snd st)) \<noteq> None
      \<and> (\<exists>given. snd st = relabelled (map of_runes given) control \<and> length given = length (peers_of control)
           \<and> (\<forall>i < length given. \<exists>rest. runes (pd_Label (peers_of control ! i)) = given ! i @ rest
                \<and> (fst st ! i \<noteq> [] \<longrightarrow> rest = fst st ! i))))"

lemma relabelled_set_label:
  assumes "length ls = length (peers_of c)" and "i < length ls"
  shows "set_label i s (relabelled ls c) = relabelled (ls[i := s]) c"
proof (cases "ctl_Peers c")
  case (Some ps)
  have "(map2 (\<lambda>p s. p\<lparr>pd_Label := s\<rparr>) ps ls)[i := (ps ! i)\<lparr>pd_Label := s\<rparr>] = map2 (\<lambda>p s. p\<lparr>pd_Label := s\<rparr>) ps (ls[i := s])"
    using assms Some by (auto intro!: nth_equalityI simp: nth_list_update)
  then show ?thesis
    using assms Some by (simp add: set_label_def relabelled_def)
qed (use assms in simp)

lemma label_at_relabelled:
  "length ls = length (peers_of c) \<Longrightarrow> i < length ls \<Longrightarrow> label_at i (relabelled ls c) = ls ! i"
  by (cases "ctl_Peers c") (auto simp: label_at_def relabelled_def)

lemma fit_step_inv:
  assumes "fit_inv L control st" and i: "i < length (fst st)"
  shows "fit_inv L control (fit_step L i st)"
proof (cases "fst st ! i")
  case Nil
  then show ?thesis using assms by (simp add: fit_step_def)
next
  case (Cons r rs)
  from assms(1) obtain given where given: "snd st = relabelled (map of_runes given) control"
      "length given = length (peers_of control)"
      "\<forall>i < length given. \<exists>rest. runes (pd_Label (peers_of control ! i)) = given ! i @ rest \<and> (fst st ! i \<noteq> [] \<longrightarrow> rest = fst st ! i)"
    and len: "length (fst st) = length (peers_of control)"
    and ok: "MarshalCanonicalV2 L (VControl (snd st)) \<noteq> None"
    unfolding fit_inv_def by blast
  let ?cand = "label_at i (snd st) @ EncodeRune r"
  have cand: "?cand = of_runes (given ! i @ [r])"
    using given i len by (simp add: label_at_relabelled of_runes_def)
  have dropped: "fit_inv L control ((fst st)[i := []], snd st)"
    unfolding fit_inv_def
  proof (intro conjI exI [of _ given] allI impI)
    fix j assume "j < length given"
    then obtain rest where "runes (pd_Label (peers_of control ! j)) = given ! j @ rest" "fst st ! j \<noteq> [] \<longrightarrow> rest = fst st ! j"
      using given(3) by blast
    then show "\<exists>rest. runes (pd_Label (peers_of control ! j)) = given ! j @ rest
        \<and> (fst ((fst st)[i := []], snd st) ! j \<noteq> [] \<longrightarrow> rest = fst ((fst st)[i := []], snd st) ! j)"
      by (cases "j = i") (use i in auto)
  qed (use given len ok in auto)
  show ?thesis
  proof (cases "fit_step L i st = ((fst st)[i := []], snd st)")
    case True
    then show ?thesis using dropped by simp
  next
    case False
    then have step: "fit_step L i st = ((fst st)[i := rs], set_label i ?cand (snd st))"
      and enc: "MarshalCanonicalV2 L (VControl (set_label i ?cand (snd st))) \<noteq> None"
      using Cons by (auto simp: fit_step_def Let_def split: if_splits)
    let ?given = "given[i := given ! i @ [r]]"
    have "set_label i ?cand (snd st) = relabelled (map of_runes ?given) control"
      using given i len cand by (simp add: relabelled_set_label map_update)
    moreover have "\<exists>rest. runes (pd_Label (peers_of control ! j)) = ?given ! j @ rest
        \<and> ((fst st)[i := rs] ! j \<noteq> [] \<longrightarrow> rest = (fst st)[i := rs] ! j)" if j: "j < length ?given" for j
    proof (cases "j = i")
      case True
      then obtain rest where "runes (pd_Label (peers_of control ! i)) = given ! i @ rest" "rest = r # rs"
        using given(3) j Cons by auto
      then show ?thesis using True i j by simp
    next
      case False
      then show ?thesis using given(3) j by (auto simp: nth_list_update)
    qed
    ultimately show ?thesis
      unfolding step fit_inv_def using given(2) len enc by (intro conjI exI [of _ ?given]) auto
  qed
qed

lemma fit_round_inv: "fit_inv L control st \<Longrightarrow> fit_inv L control (fit_round L st)"
proof -
  have "fit_inv L control st \<Longrightarrow> set is \<subseteq> {..<length (fst st)} \<Longrightarrow> fit_inv L control (fold (fit_step L) is st)" for "is"
    by (induction "is" arbitrary: st) (auto simp: fit_step_inv)
  then show "fit_inv L control st \<Longrightarrow> fit_inv L control (fit_round L st)"
    by (simp add: fit_round_def lessThan_atLeast0)
qed

lemma fit_loop_inv: "fit_inv L control st \<Longrightarrow> \<exists>rests. fit_inv L control (rests, fit_loop L st)"
proof (induction L st rule: fit_loop.induct)
  case (1 L st)
  show ?case
  proof (cases "list_all (\<lambda>r. r = []) (fst st)")
    case True
    then have "fit_loop L st = snd st" by (simp add: fit_loop.simps)
    then show ?thesis using 1(2) by (metis prod.collapse)
  next
    case False
    then have "fit_loop L st = fit_loop L (fit_round L st)" by (subst fit_loop.simps) simp
    then show ?thesis using 1(1) [OF False fit_round_inv [OF 1(2)]] by simp
  qed
qed

lemma MarshalCanonicalV2_Some:
  "MarshalCanonicalV2 L v = Some d \<Longrightarrow> validateV2Value L v \<and> length d \<le> MaxEnvelopeBytes
    \<and> (\<exists>x. ParseV2Message L (print_json (enc_value L v)) = Inr x)
    \<and> canonicalizeJSONStringEscapes (print_json (enc_value L v)) = Some d"
  by (auto simp: MarshalCanonicalV2_def Let_def split: if_splits sum.splits option.splits)

text \<open>A library argument for the examples, and a control with one peer.\<close>

definition sample_lib :: golib where
  "sample_lib = \<lparr>lib_IntSize = 64, lib_Quote = id, lib_NumError = (\<lambda>f s. f @ s), lib_ParseFloat = (\<lambda>s. Some (Fin 0)),
     lib_FormatF = (\<lambda>x. ''0''), lib_FormatV = (\<lambda>x. ''0''), lib_Format3 = (\<lambda>x. ''0''), lib_JSONFloat = (\<lambda>x. ''0''),
     lib_ParseDuration = (\<lambda>s. None), lib_Sin = id, lib_Cos = id, lib_Sqrt = id, lib_Atan2 = (\<lambda>x y. x)\<rparr>"

definition sample_uuid :: "char \<Rightarrow> string" where
  "sample_uuid c = replicate 8 c @ ''-0000-4000-8000-000000000000''"

definition sample_control :: "string \<Rightarrow> ControlV2" where
  "sample_control label = zero_Control\<lparr>ctl_Version := 2, ctl_Type := ''ride_group_control'',
     ctl_ConnectionNonce := sample_uuid (CHR ''1''), ctl_Action := ''grant'', ctl_SessionID := Some (sample_uuid (CHR ''2'')),
     ctl_MemberID := Some (sample_uuid (CHR ''3'')), ctl_Revision := 1, ctl_TransportEpoch := 1,
     ctl_StreamID := Some (sample_uuid (CHR ''4'')), ctl_Challenge := sample_uuid (CHR ''5''), ctl_ServerTimeMS := 9,
     ctl_LeaseTTLMS := 10000, ctl_CadenceMS := Some 2000,
     ctl_Peers := Some [\<lparr>pd_PeerID = sample_uuid (CHR ''6''), pd_Label = label, pd_PaletteIndex = 1\<rparr>]\<rparr>"

end
