(* ===== verification/Ride_Roundtrip.thy ===== *)
theory Ride_Roundtrip
  imports Ride_Protocol
begin

text \<open>
  The encoders and parsers of version 2 of the ride-group protocol fit together.  The contract of a string
  encoder is extended by the two checks a version 2 parser makes on the bytes of an envelope: they are
  UTF-8 and all their escapes are scalar values.  Then a message that was encoded canonically is parsed back
  to itself, for each of the twelve message types.
\<close>

section \<open>Printed trees pass the byte checks\<close>

locale scalar_escape = string_escape +
  assumes esc_valid: "scalar r \<Longrightarrow> ValidString (esc (r, RuneLen r))"
    and esc_scalars: "scalar r \<Longrightarrow> scalars_from True (esc (r, RuneLen r) @ t) = scalars_from True t"
begin

lemma quote_valid:
  assumes "ValidString s"
  shows "ValidString (quote_with esc s @ t) = ValidString t"
proof -
  have "ValidString (quote_content esc (of_runes rs) @ u) = ValidString u" if "list_all scalar rs" for rs u
    using that
  proof (induction rs)
    case (Cons r rs)
    then show ?case using esc_valid [of r] by (simp add: of_runes_Cons quote_content_rune ValidString_append)
  qed (simp add: of_runes_def)
  from this [of "runes s" "CHR 0x22 # t"] ValidString_runes [OF assms] show ?thesis
    by (simp add: quote_with_def ValidString_ascii)
qed

lemma quote_scalars:
  assumes "ValidString s"
  shows "scalars_from False (quote_with esc s @ t) = scalars_from False t"
proof -
  have "scalars_from True (quote_content esc (of_runes rs) @ u) = scalars_from True u" if "list_all scalar rs" for rs u
    using that
  proof (induction rs)
    case (Cons r rs)
    then show ?case using esc_scalars [of r] by (simp add: of_runes_Cons quote_content_rune del: scalars_from.simps)
  qed (simp add: of_runes_def)
  from this [of "runes s" "CHR 0x22 # t"] ValidString_runes [OF assms] show ?thesis
    by (simp add: quote_with_def)
qed

end

lemma scalars_outside: "CHR 0x22 \<notin> set s \<Longrightarrow> scalars_from False (s @ t) = scalars_from False t"
  by (induction s) auto

lemma ValidString_ascii_list: "list_all (\<lambda>c. byte c < 0x80) s \<Longrightarrow> ValidString (s @ t) = ValidString t"
  by (induction s) (simp_all add: ValidString_ascii)

lemma scalars_raw: "scalar r \<Longrightarrow> 0x20 \<le> r \<Longrightarrow> r \<noteq> 0x22 \<Longrightarrow> r \<noteq> 0x5C \<Longrightarrow>
    scalars_from True (EncodeRune r @ t) = scalars_from True t"
proof -
  assume r: "scalar r" "0x20 \<le> r" "r \<noteq> 0x22" "r \<noteq> 0x5C"
  obtain c s where c: "EncodeRune r @ t = c # s" using EncodeRune_not_Nil [of r] by (cases "EncodeRune r") auto
  have d: "DecodeRune (c # s) = (r, RuneLen r)" using DecodeRune_EncodeRune [OF r(1), of t] c by simp
  have "drop (RuneLen r) (c # s) = t" using c length_EncodeRune [OF r(1)] by (metis append_eq_conv_conj)
  moreover have "plain c" using EncodeRune_plain [OF r] c EncodeRune_not_Nil [of r] by (cases "EncodeRune r") auto
  ultimately show ?thesis using c d by (simp add: plain_def)
qed

lemma scalars_u_escape:
  assumes "r < 0x10000" and "\<not> surrogate r"
  shows "scalars_from True (u_escape r @ t) = scalars_from True t"
proof -
  define h where "h = drop 2 (u_escape r)"
  have h: "u_escape r = [CHR 0x5C, CHR ''u''] @ h" "length h = 4" by (simp_all add: h_def u_escape_def)
  have "hex4 (h @ t) = Some r" using hex4_u_escape [OF assms(1)] by (simp add: h_def)
  then show ?thesis using h assms(2) by (auto simp: surrogate_def)
qed

lemma hex_digit_ascii: "d < 16 \<Longrightarrow> byte (hex_digit d) < 0x80"
proof -
  have "\<forall>c \<in> set ''0123456789abcdef''. byte c < 0x80" by simp
  moreover have "hex_digit d \<in> set ''0123456789abcdef''" if "d < 16"
    unfolding hex_digit_def by (rule nth_mem) (use that in \<open>simp add: eval_nat_numeral\<close>)
  ultimately show "d < 16 \<Longrightarrow> byte (hex_digit d) < 0x80" by blast
qed

lemma scalar_not_surrogate: "scalar r \<Longrightarrow> \<not> surrogate r"
  by (auto simp: scalar_def surrogate_def)

lemma ValidString_u_escape: "ValidString (u_escape r)"
  using ValidString_ascii_list [of "u_escape r" "[]"] by (simp add: u_escape_def hex_digit_ascii ValidString_def)

lemma ValidString_EncodeRune': "scalar r \<Longrightarrow> ValidString (EncodeRune r)"
  using ValidString_EncodeRune [of r "[]"] by (simp add: ValidString_def)

lemma simple_escape_ascii: "map_of simple_escapes c = Some d \<Longrightarrow> byte c < 0x80"
  by (auto simp: simple_escapes_def split: if_splits)

interpretation json_scalar: scalar_escape esc_rune
proof
  fix r assume r: "scalar r"
  show "ValidString (esc_rune (r, RuneLen r))"
    using refl [of "(r, RuneLen r)"]
    by (cases rule: esc_rune_cases)
      (use r simple_escape_ascii ValidString_u_escape ValidString_EncodeRune' in \<open>auto simp: ValidString_ascii ValidString_def [of "[]"]\<close>)
  show "scalars_from True (esc_rune (r, RuneLen r) @ t) = scalars_from True t" for t
    using refl [of "(r, RuneLen r)"]
    by (cases rule: esc_rune_cases)
      (use scalars_u_escape [OF _ scalar_not_surrogate [OF r]] scalars_raw [OF r] in \<open>simp_all\<close>)
qed

interpretation canon_scalar: scalar_escape esc_canon
proof
  fix r assume r: "scalar r"
  show "ValidString (esc_canon (r, RuneLen r))"
    using json_scalar.esc_valid [OF r] ValidString_EncodeRune' [OF r] by (simp add: esc_canon_def)
  show "scalars_from True (esc_canon (r, RuneLen r) @ t) = scalars_from True t" for t
    using json_scalar.esc_scalars [OF r] scalars_raw [OF r] canonical_rune_facts [of r] by (simp add: esc_canon_def)
qed

lemma join_pass:
  assumes "\<And>x t. x \<in> set xs \<Longrightarrow> P (pr x @ t) = P t" and "\<And>t. P (CHR '','' # t) = P t"
  shows "P (Join (map pr xs) '','' @ t) = P t"
  using assms by (induction xs rule: induct_list012) auto

context scalar_escape
begin

lemma print_valid: "wf_json v \<Longrightarrow> ValidString (print_with esc v @ t) = ValidString t"
proof (induction v arbitrary: t)
  case (JArr vs)
  then have "ValidString (Join (map (print_with esc) vs) '','' @ CHR '']'' # t) = ValidString (CHR '']'' # t)"
    by (intro join_pass) (auto simp: list_all_iff ValidString_ascii)
  then show ?case by (simp add: ValidString_ascii)
next
  case (JObj ps)
  let ?pr = "\<lambda>(k, v). quote_with esc k @ '':'' @ print_with esc v"
  have "ValidString (Join (map ?pr ps) '','' @ CHR ''}'' # t) = ValidString (CHR ''}'' # t)"
  proof (rule join_pass)
    fix p u assume p: "p \<in> set ps"
    obtain k v where kv: "p = (k, v)" by fastforce
    then have w: "ValidString k" "wf_json v" "v \<in> Basic_BNFs.snds p" using JObj.prems p by (auto simp: list_all_iff)
    show "ValidString (?pr p @ u) = ValidString u"
      using quote_valid [OF w(1)] JObj.IH [OF p w(3,2)] by (simp add: kv ValidString_ascii)
  qed (simp add: ValidString_ascii)
  then show ?case by (simp add: ValidString_ascii)
qed (simp_all add: ValidString_ascii quote_valid ValidString_ascii_list valid_number_ascii)

lemma print_scalars: "wf_json v \<Longrightarrow> scalars_from False (print_with esc v @ t) = scalars_from False t"
proof (induction v arbitrary: t)
  case (JArr vs)
  then have "scalars_from False (Join (map (print_with esc) vs) '','' @ CHR '']'' # t) = scalars_from False (CHR '']'' # t)"
    by (intro join_pass) (auto simp: list_all_iff)
  then show ?case by simp
next
  case (JObj ps)
  let ?pr = "\<lambda>(k, v). quote_with esc k @ '':'' @ print_with esc v"
  have "scalars_from False (Join (map ?pr ps) '','' @ CHR ''}'' # t) = scalars_from False (CHR ''}'' # t)"
  proof (rule join_pass)
    fix p u assume p: "p \<in> set ps"
    obtain k v where kv: "p = (k, v)" by fastforce
    then have w: "ValidString k" "wf_json v" "v \<in> Basic_BNFs.snds p" using JObj.prems p by (auto simp: list_all_iff)
    show "scalars_from False (?pr p @ u) = scalars_from False u"
      using quote_scalars [OF w(1)] JObj.IH [OF p w(3,2)] by (simp add: kv)
  qed simp
  then show ?case by simp
next
  case (JNum w)
  then show ?case using scalars_outside [OF valid_number_no_quote] by simp
qed (simp_all add: quote_scalars)

lemma print_validJSONScalars: "wf_json v \<Longrightarrow> validJSONScalars (print_with esc v) \<and> ValidString (print_with esc v)"
  using print_valid [of v "[]"] print_scalars [of v "[]"] by (simp add: validJSONScalars_def ValidString_def)

end

section \<open>The parsers see only the tree\<close>

text \<open>
  Two envelopes within the size, with valid bytes and the same tree, are indistinguishable for the
  parsers.
\<close>

definition same_envelope :: "string \<Rightarrow> string \<Rightarrow> bool" where
  "same_envelope d e =
     (parse_json d = parse_json e \<and> validJSONScalars d \<and> validJSONScalars e
      \<and> d \<noteq> [] \<and> e \<noteq> [] \<and> length d \<le> MaxEnvelopeBytes \<and> length e \<le> MaxEnvelopeBytes)"

lemma same_decodeExactV2: "same_envelope d e \<Longrightarrow> decodeExactV2 tab keys r0 d = decodeExactV2 tab keys r0 e"
  by (simp add: same_envelope_def decodeExactV2_def decodeExact_def rejectDuplicateKeys_def validJSONScalars_def)

lemma same_types: "same_envelope d e \<Longrightarrow> jsonFieldsHaveTypes d ts = jsonFieldsHaveTypes e ts"
  by (simp add: same_envelope_def jsonFieldsHaveTypes_def)

lemma same_map: "same_envelope d e \<Longrightarrow> Unmarshal_map d = Unmarshal_map e"
  by (simp add: same_envelope_def Unmarshal_map_def)

lemma same_nullable: "same_envelope d e \<Longrightarrow> nullableJSONFieldType d n k = nullableJSONFieldType e n k"
  by (simp add: nullableJSONFieldType_def same_map)

lemma same_type: "same_envelope d e \<Longrightarrow> envelope_type d = envelope_type e"
  by (simp add: same_envelope_def envelope_type_def)

lemmas same_envelope_simps = same_decodeExactV2 same_types same_map same_nullable same_type

lemma same_message:
  assumes "same_envelope d e"
  shows "ParseV2Message L d = ParseV2Message L e"
proof -
  have "validJSONScalars d = validJSONScalars e" using assms by (simp add: same_envelope_def)
  then show ?thesis
    by (simp add: ParseV2Message_def ParseHelloV2_def ParseActivityV2_def ParseWireActivityV2_def ParseControlV2_def
        ParsePositionV2_def ParsePeerPositionV2_def ParsePeerStatusV2_def ParseSourceStatusV2_def ParseStopV2_def
        ParseLocalStopV2_def ParseLocalStopProbeV2_def ParseLocalStopResultV2_def
        motion_fields_ok_def same_envelope_simps [OF assms] cong: if_cong option.case_cong)
qed

section \<open>Decoding what was encoded\<close>

text \<open>
  A structure that was encoded and decodes at all decodes to itself: an integer out of the range of its
  field fails, everything else is what was written.  The conversion of floats is a library function:
  the shortest decimal text of a float, which \<^verbatim>\<open>encoding/json\<close> writes, reads back as the float.
\<close>

definition float_text :: "golib \<Rightarrow> f64 \<Rightarrow> bool" where
  "float_text L x = (lib_ParseFloat L (lib_JSONFloat L x) = Some x)"

abbreviation opt_floats :: "f64 option list \<Rightarrow> f64 list" where
  "opt_floats ps \<equiv> map the (filter (\<lambda>p. p \<noteq> None) ps)"

fun floats_of :: "v2_value \<Rightarrow> f64 list" where
  "floats_of (VPosition p) = [pos_Latitude p, pos_Longitude p] @ opt_floats [pos_AccuracyM p, pos_HeadingDeg p, pos_SpeedMPS p]"
| "floats_of (VPeer p) = [peer_Latitude p, peer_Longitude p] @ opt_floats [peer_AccuracyM p, peer_HeadingDeg p, peer_SpeedMPS p]"
| "floats_of _ = []"

lemma ParseInt_show_int_iff:
  "ParseInt bits (show_int v) = (if - (2 ^ (bits - 1)) \<le> v \<and> v < 2 ^ (bits - 1) then Some v else None)"
proof (cases "v < 0")
  case True
  then show ?thesis by (simp add: ParseInt_def show_int_def read_digits_show_nat)
next
  case False
  obtain d where d: "d < 10" "hd (show_nat (nat v)) = digit d" using hd_show_nat by blast
  obtain c cs where c: "show_nat (nat v) = c # cs" by (metis neq_Nil_conv show_nat_not_Nil)
  with d have "c \<noteq> CHR ''-''" and "c \<noteq> CHR ''+''" using digit_not_sign [of d] by auto
  then show ?thesis
    using False c read_digits_show_nat [of "nat v"] by (simp add: ParseInt_def show_int_def)
qed

lemma set_int_enc: "set_int b upd (enc_int n) r = Some r' \<Longrightarrow> r' = upd n r"
  by (simp add: set_int_def enc_int_def number_in_def ParseInt_show_int_iff split: if_splits)

lemma set_int_ptr_enc: "set_int_ptr b upd (enc_ptr enc_int p) r = Some r' \<Longrightarrow> r' = upd p r"
  by (cases p) (auto simp: set_int_ptr_def enc_ptr_def enc_int_def number_in_def ParseInt_show_int_iff split: if_splits)

lemma set_str_enc [simp]: "set_str upd (JStr s) r = Some (upd s r)"
  by (simp add: set_str_def)

lemma set_bool_enc [simp]: "set_bool upd (JBool s) r = Some (upd s r)"
  by (simp add: set_bool_def)

lemma set_str_ptr_enc [simp]: "set_str_ptr upd (enc_ptr JStr p) r = Some (upd p r)"
  by (cases p) (simp_all add: set_str_ptr_def enc_ptr_def)

lemma set_slice_enc:
  assumes "set_slice dec upd (enc_slice enc p) r = Some r'" and "\<And>x y. dec (enc x) = Some y \<Longrightarrow> y = x"
  shows "r' = upd p r"
proof (cases p)
  case (Some xs)
  then have "\<forall>x \<in> set xs. dec (enc x) \<noteq> None" and r': "r' = upd (Some (map (the \<circ> dec) (map enc xs))) r"
    using assms(1) by (auto simp: set_slice_def enc_slice_def split: if_splits)
  then have "the (dec (enc x)) = x" if "x \<in> set xs" for x using assms(2) that by fastforce
  then have "map (the \<circ> dec) (map enc xs) = xs" by (simp add: map_idI)
  then show ?thesis using r' Some by simp
qed (use assms in \<open>simp add: set_slice_def enc_slice_def\<close>)

lemma set_float_enc: "float_text L x \<Longrightarrow> set_float L upd (enc_float L x) r = Some (upd x r)"
  by (simp add: set_float_def enc_float_def float_in_def float_text_def)

lemma set_float_ptr_enc:
  "\<forall>x. p = Some x \<longrightarrow> float_text L x \<Longrightarrow> set_float_ptr L upd (enc_ptr (enc_float L) p) r = Some (upd p r)"
  by (cases p) (simp_all add: set_float_ptr_def enc_ptr_def enc_float_def float_in_def float_text_def)

lemma find_field_exact: "map_of tab k = Some f \<Longrightarrow> find_field tab k = Some f"
  by (simp add: find_field_def)


lemmas dec_rules = set_int_enc set_int_ptr_enc
lemmas dec_simps = decode_struct_def find_field_exact

lemma dec_PeerDescriptor:
  "decode_struct True (peerDescriptor_table L) (enc_PeerDescriptor x) zero_PeerDescriptor = Some y \<Longrightarrow> y = x"
  by (cases x) (auto simp: dec_simps peerDescriptor_table_def enc_PeerDescriptor_def zero_PeerDescriptor_def
      split: option.splits dest!: dec_rules)

lemma dec_Activity:
  "decode_struct True (activity_table L) (enc_Activity x) (Activity.truncate zero_Activity) = Some y \<Longrightarrow> y = (x :: Activity)"
  by (cases x) (auto simp: dec_simps activity_table_def enc_Activity_def zero_Activity_def Activity.defs
      split: option.splits dest!: dec_rules)

lemma dec_WireActivity: "decode_struct True (wireActivity_table L) (enc_WireActivity x) zero_Activity = Some y \<Longrightarrow> y = x"
  by (cases x) (auto simp: dec_simps wireActivity_table_def activity_table_def enc_WireActivity_def enc_Activity_def
      zero_Activity_def split: option.splits dest!: dec_rules)

lemma dec_peers: "set_slice (peer_elem L) upd (enc_slice enc_PeerDescriptor p) r = Some r' \<Longrightarrow> r' = upd p r"
  by (erule set_slice_enc) (rule dec_PeerDescriptor, simp add: peer_elem_def)

lemma dec_strings: "set_slice str_elem upd (enc_slice JStr p) r = Some r' \<Longrightarrow> r' = upd p r"
  by (erule set_slice_enc) (simp add: str_elem_def)

lemma dec_Control: "decode_struct True (controlV2_table L) (enc_ControlV2 x) zero_Control = Some y \<Longrightarrow> y = x"
  by (cases x) (auto simp: dec_simps controlV2_table_def control_table_def enc_ControlV2_def enc_Control_def zero_Control_def
      split: option.splits dest!: dec_rules dec_peers)

lemma dec_Hello: "decode_struct True (hello_table L) (enc_Hello x) zero_Hello = Some y \<Longrightarrow> y = x"
  by (cases x) (auto simp: dec_simps hello_table_def enc_Hello_def zero_Hello_def split: option.splits dest!: dec_rules dec_strings)

lemma dec_PeerStatus: "decode_struct True (peerStatus_table L) (enc_PeerStatus x) zero_PeerStatus = Some y \<Longrightarrow> y = x"
  by (cases x) (auto simp: dec_simps peerStatus_table_def enc_PeerStatus_def zero_PeerStatus_def split: option.splits dest!: dec_rules)

lemma dec_SourceStatus: "decode_struct True (sourceStatus_table L) (enc_SourceStatus x) zero_SourceStatus = Some y \<Longrightarrow> y = x"
  by (cases x) (auto simp: dec_simps sourceStatus_table_def enc_SourceStatus_def zero_SourceStatus_def split: option.splits dest!: dec_rules)

lemma dec_Stop: "decode_struct True (stop_table L) (enc_Stop x) zero_Stop = Some y \<Longrightarrow> y = x"
  by (cases x) (auto simp: dec_simps stop_table_def enc_Stop_def zero_Stop_def split: option.splits dest!: dec_rules)

lemma dec_LocalStop: "decode_struct True (localStop_table L) (enc_LocalStop x) zero_LocalStop = Some y \<Longrightarrow> y = x"
  by (cases x) (auto simp: dec_simps localStop_table_def enc_LocalStop_def zero_LocalStop_def split: option.splits dest!: dec_rules)

lemma dec_LocalStopProbe: "decode_struct True (localStopProbe_table L) (enc_LocalStopProbe x) zero_LocalStopProbe = Some y \<Longrightarrow> y = x"
  by (cases x) (auto simp: dec_simps localStopProbe_table_def enc_LocalStopProbe_def zero_LocalStopProbe_def split: option.splits dest!: dec_rules)

lemma dec_LocalStopResult: "decode_struct True (localStopResult_table L) (enc_LocalStopResult x) zero_LocalStopResult = Some y \<Longrightarrow> y = x"
  by (cases x) (auto simp: dec_simps localStopResult_table_def enc_LocalStopResult_def zero_LocalStopResult_def split: option.splits dest!: dec_rules)

lemma dec_Position:
  assumes "list_all (float_text L) (floats_of (VPosition x))"
    and "decode_struct True (position_table L) (enc_Position L x) zero_Position = Some y"
  shows "y = x"
proof -
  have "float_text L (pos_Latitude x)" "float_text L (pos_Longitude x)" "\<forall>a. pos_AccuracyM x = Some a \<longrightarrow> float_text L a"
    "\<forall>a. pos_HeadingDeg x = Some a \<longrightarrow> float_text L a" "\<forall>a. pos_SpeedMPS x = Some a \<longrightarrow> float_text L a"
    using assms(1) by (auto split: if_splits)
  then show ?thesis
    using assms(2)
    by (cases x) (auto simp: dec_simps position_table_def enc_Position_def zero_Position_def set_float_enc set_float_ptr_enc
        split: option.splits dest!: dec_rules)
qed

lemma dec_PeerPosition:
  assumes "list_all (float_text L) (floats_of (VPeer x))"
    and "decode_struct True (peerPosition_table L) (enc_PeerPosition L x) zero_PeerPosition = Some y"
  shows "y = x"
proof -
  have "float_text L (peer_Latitude x)" "float_text L (peer_Longitude x)" "\<forall>a. peer_AccuracyM x = Some a \<longrightarrow> float_text L a"
    "\<forall>a. peer_HeadingDeg x = Some a \<longrightarrow> float_text L a" "\<forall>a. peer_SpeedMPS x = Some a \<longrightarrow> float_text L a"
    using assms(1) by (auto split: if_splits)
  then show ?thesis
    using assms(2)
    by (cases x) (auto simp: dec_simps peerPosition_table_def enc_PeerPosition_def zero_PeerPosition_def set_float_enc set_float_ptr_enc
        split: option.splits dest!: dec_rules)
qed

section \<open>A message survives the wire\<close>

lemma decodeExactV2_Some:
  "decodeExactV2 tab keys r0 d = Some r \<Longrightarrow> parse_json d = Some j \<Longrightarrow>
    decode_struct True tab j r0 = Some r \<and> d \<noteq> [] \<and> length d \<le> MaxEnvelopeBytes \<and> validJSONScalars d"
  by (auto simp: decodeExactV2_def decodeExact_def decode_fields_def split: if_splits option.splits)

text \<open>What a parser of a structure accepts is what decoding gives, and the envelope was in bounds.\<close>

definition accepts :: "(golib \<Rightarrow> string \<Rightarrow> go_error + 'r) \<Rightarrow> 'r table \<Rightarrow> 'r \<Rightarrow> golib \<Rightarrow> bool" where
  "accepts parse tab r0 L = (\<forall>d j r. parse L d = Inr r \<longrightarrow> parse_json d = Some j \<longrightarrow>
     decode_struct True tab j r0 = Some r \<and> d \<noteq> [] \<and> length d \<le> MaxEnvelopeBytes \<and> validJSONScalars d)"

lemma acceptsI:
  assumes "\<And>d. parse L d = (case decodeExactV2 tab keys r0 d of None \<Rightarrow> Inl a | Some r \<Rightarrow> f d r)"
    and "\<And>d r r'. f d r = Inr r' \<Longrightarrow> r' = r"
  shows "accepts parse tab r0 L"
  unfolding accepts_def
proof (intro allI impI)
  fix d j r assume d: "parse L d = Inr r" "parse_json d = Some j"
  then obtain r' where "decodeExactV2 tab keys r0 d = Some r'" "f d r' = Inr r"
    using assms(1) by (auto split: option.splits)
  then show "decode_struct True tab j r0 = Some r \<and> d \<noteq> [] \<and> length d \<le> MaxEnvelopeBytes \<and> validJSONScalars d"
    using decodeExactV2_Some [OF _ d(2)] assms(2) [of d r' r] by simp
qed

lemma accepts_parsers:
  "accepts ParseHelloV2 (hello_table L) zero_Hello L"
  "accepts ParseActivityV2 (activity_table L) (Activity.truncate zero_Activity) L"
  "accepts ParseWireActivityV2 (wireActivity_table L) zero_Activity L"
  "accepts ParseControlV2 (controlV2_table L) zero_Control L"
  "accepts ParsePositionV2 (position_table L) zero_Position L"
  "accepts ParsePeerPositionV2 (peerPosition_table L) zero_PeerPosition L"
  "accepts ParsePeerStatusV2 (peerStatus_table L) zero_PeerStatus L"
  "accepts ParseSourceStatusV2 (sourceStatus_table L) zero_SourceStatus L"
  "accepts ParseStopV2 (stop_table L) zero_Stop L"
  "accepts ParseLocalStopV2 (localStop_table L) zero_LocalStop L"
  "accepts ParseLocalStopProbeV2 (localStopProbe_table L) zero_LocalStopProbe L"
  "accepts ParseLocalStopResultV2 (localStopResult_table L) zero_LocalStopResult L"
  by (rule acceptsI, rule ParseHelloV2_def ParseActivityV2_def ParseWireActivityV2_def ParseControlV2_def
        ParsePositionV2_def ParsePeerPositionV2_def ParsePeerStatusV2_def ParseSourceStatusV2_def ParseStopV2_def
        ParseLocalStopV2_def ParseLocalStopProbeV2_def ParseLocalStopResultV2_def, simp split: if_splits option.splits)+

lemma runes_ascii: "list_all (\<lambda>c. byte c < 0x80) s \<Longrightarrow> runes s = map byte s"
  by (induction s) (simp_all add: runes_def decode_all_ascii del: decode_all.simps(2))

text \<open>No other key of a message folds to \<^verbatim>\<open>type\<close>.\<close>

definition type_only :: "json \<Rightarrow> string \<Rightarrow> bool" where
  "type_only j t = (\<exists>ps. j = JObj ps \<and> map_of ps ''type'' = Some (JStr t) \<and> distinct (map fst ps)
     \<and> (\<forall>k \<in> set (map fst ps). k \<noteq> ''type'' \<longrightarrow> fold_name k \<noteq> fold_name ''type''))"

lemma decode_type_skip:
  "\<forall>k \<in> set (map fst ps). k \<noteq> ''type'' \<and> fold_name k \<noteq> fold_name ''type'' \<Longrightarrow>
    decode_members False [(''type'', set_str (\<lambda>x r. x))] ps t = Some t"
  by (induction ps) (auto simp: find_field_def)

lemma decode_type:
  assumes "type_only j t"
  shows "decode_struct False [(''type'', set_str (\<lambda>x r. x))] j '''' = Some t"
proof -
  obtain ps where ps: "j = JObj ps" "map_of ps ''type'' = Some (JStr t)" "distinct (map fst ps)"
    "\<forall>k \<in> set (map fst ps). k \<noteq> ''type'' \<longrightarrow> fold_name k \<noteq> fold_name ''type''"
    using assms unfolding type_only_def by blast
  have "decode_members False [(''type'', set_str (\<lambda>x r. x))] ps s = Some t" for s
    using ps(2-4)
  proof (induction ps arbitrary: s)
    case (Cons p ps)
    show ?case
    proof (cases "fst p = ''type''")
      case True
      then have "''type'' \<notin> set (map fst ps)" using Cons.prems(2) by simp
      then have "\<forall>k \<in> set (map fst ps). k \<noteq> ''type'' \<and> fold_name k \<noteq> fold_name ''type''"
        using Cons.prems(3) by (metis list.set_intros(2) list.simps(9))
      then show ?thesis using True Cons.prems decode_type_skip by (cases p) (simp add: find_field_def)
    next
      case False
      then show ?thesis using Cons by (cases p) (auto simp: find_field_def)
    qed
  qed simp
  then show ?thesis using ps(1) by (simp add: decode_struct_def)
qed

lemmas enc_defs = enc_Hello_def enc_Activity_def enc_WireActivity_def enc_ControlV2_def enc_Control_def enc_Position_def
  enc_PeerPosition_def enc_PeerStatus_def enc_SourceStatus_def enc_Stop_def enc_LocalStop_def enc_LocalStopProbe_def
  enc_LocalStopResult_def

fun type_of :: "v2_value \<Rightarrow> string" where
  "type_of (VHello v) = hello_Type v"
| "type_of (VActivity v) = act_Type v"
| "type_of (VWireActivity v) = act_Type v"
| "type_of (VControl v) = ctl_Type v"
| "type_of (VPosition v) = pos_Type v"
| "type_of (VPeer v) = peer_Type v"
| "type_of (VPeerStatus v) = pst_Type v"
| "type_of (VSourceStatus v) = src_Type v"
| "type_of (VStop v) = stop_Type v"
| "type_of (VLocalStop v) = ls_Type v"
| "type_of (VLocalStopProbe v) = lsp_Type v"
| "type_of (VLocalStopResult v) = lsr_Type v"

lemma type_only_enc: "type_only (enc_value L v) (type_of v)"
  by (cases v) (simp_all add: type_only_def enc_defs fold_name_def runes_ascii fold_rune_def)

lemma fold_max_le: "(\<forall>x \<in> set xs. x \<le> m) \<Longrightarrow> a \<le> m \<Longrightarrow> fold max xs a \<le> (m :: nat)"
  by (induction xs arbitrary: a) auto

lemma depth_enc_slice: "(\<And>x. depth (f x) \<le> 1) \<Longrightarrow> depth (enc_slice f p) \<le> 2"
  by (cases p) (auto simp: enc_slice_def intro!: fold_max_le)

lemma depth_enc_ptr [simp]: "depth (enc_ptr JStr p) = 0" "depth (enc_ptr enc_int q) = 0" "depth (enc_ptr (enc_float L) r) = 0"
    "depth (enc_int n) = 0" "depth (enc_float L x) = 0"
  by (cases p; cases q; cases r; simp add: enc_ptr_def enc_int_def enc_float_def)+

lemma depth_enc: "depth (enc_value L v) \<le> 3"
proof -
  have "depth (enc_slice JStr p) \<le> 2" "depth (enc_slice enc_PeerDescriptor q) \<le> 2" for p q
    using depth_enc_slice [of JStr p] depth_enc_slice [of enc_PeerDescriptor q] by (simp_all add: enc_PeerDescriptor_def enc_int_def)
  then show ?thesis by (cases v) (simp_all add: enc_defs)
qed

text \<open>Which value a parsed message is: that of the parser chosen by its type.\<close>

lemma Unmarshal_has:
  "parse_json d = Some (JObj ps) \<Longrightarrow> \<exists>m. Unmarshal_map d = Some (Some m) \<and> gm_has m k = (k \<in> fst ` set ps)"
  using fold_gm_put_keys [of ps "[]"] by (simp add: Unmarshal_map_def json_fields_def gm_has_iff)

definition has_nonce :: "json \<Rightarrow> bool" where
  "has_nonce j = (case j of JObj ps \<Rightarrow> ''connection_nonce'' \<in> fst ` set ps | _ \<Rightarrow> False)"

lemma ParseV2Message_type:
  assumes "parse_json d = Some j" and "type_only j t" and "validJSONScalars d"
  shows "ParseV2Message L d =
     (if t = ''ride_group_hello'' then map_sum id VHello (ParseHelloV2 L d)
      else if t = ''ride_group_activity'' then
        (if has_nonce j then map_sum id VWireActivity (ParseWireActivityV2 L d)
         else map_sum id VActivity (ParseActivityV2 L d))
      else if t = ''ride_group_control'' then map_sum id VControl (ParseControlV2 L d)
      else if t = ''ride_group_position'' then map_sum id VPosition (ParsePositionV2 L d)
      else if t = ''ride_group_peer'' then map_sum id VPeer (ParsePeerPositionV2 L d)
      else if t = ''ride_group_peer_status'' then map_sum id VPeerStatus (ParsePeerStatusV2 L d)
      else if t = ''ride_group_source_status'' then map_sum id VSourceStatus (ParseSourceStatusV2 L d)
      else if t = ''ride_group_stop'' then map_sum id VStop (ParseStopV2 L d)
      else if t = ''ride_group_local_stop'' then map_sum id VLocalStop (ParseLocalStopV2 L d)
      else if t = ''ride_group_local_stop_probe'' then map_sum id VLocalStopProbe (ParseLocalStopProbeV2 L d)
      else if t = ''ride_group_local_stop_result'' then map_sum id VLocalStopResult (ParseLocalStopResultV2 L d)
      else Inl (invalidV2 ''type''))"
proof -
  obtain ps where ps: "j = JObj ps" using assms(2) by (auto simp: type_only_def)
  obtain m where m: "Unmarshal_map d = Some (Some m)" "gm_has m ''connection_nonce'' = (''connection_nonce'' \<in> fst ` set ps)"
    using Unmarshal_has [of d ps "''connection_nonce''"] assms(1) ps by blast
  have "envelope_type d = Some t" using assms(1) decode_type [OF assms(2)] by (simp add: envelope_type_def)
  then show ?thesis using assms(3) by (simp add: ParseV2Message_def m ps has_nonce_def)
qed

lemma map_sum_Inr: "map_sum id f s = Inr x \<Longrightarrow> \<exists>y. s = Inr y \<and> x = f y"
  by (cases s) auto

text \<open>The type of a value that passes its validation is that of its structure.\<close>

definition type_ok :: "v2_value \<Rightarrow> bool" where
  "type_ok v = (type_of v = (case v of VHello _ \<Rightarrow> ''ride_group_hello'' | VActivity _ \<Rightarrow> ''ride_group_activity''
     | VWireActivity _ \<Rightarrow> ''ride_group_activity'' | VControl _ \<Rightarrow> ''ride_group_control'' | VPosition _ \<Rightarrow> ''ride_group_position''
     | VPeer _ \<Rightarrow> ''ride_group_peer'' | VPeerStatus _ \<Rightarrow> ''ride_group_peer_status'' | VSourceStatus _ \<Rightarrow> ''ride_group_source_status''
     | VStop _ \<Rightarrow> ''ride_group_stop'' | VLocalStop _ \<Rightarrow> ''ride_group_local_stop''
     | VLocalStopProbe _ \<Rightarrow> ''ride_group_local_stop_probe'' | VLocalStopResult _ \<Rightarrow> ''ride_group_local_stop_result''))"

lemma validate_type_ok:
  assumes "validateV2Value L v" and "wf_json (enc_value L v)"
  shows "type_ok v"
proof (cases v)
  case (VHello h)
  then obtain h' where h': "ParseHelloV2 L (print_json (enc_Hello h)) = Inr h'"
    using assms(1) by (auto split: sum.splits)
  have p: "parse_json (print_json (enc_Hello h)) = Some (enc_Hello h)"
    using json_escape.parse_print [OF assms(2)] depth_enc [of L v] VHello by (simp add: maxNestingDepth_def)
  have "h' = h" using accepts_parsers(1) [unfolded accepts_def, rule_format, OF h' p] dec_Hello by blast
  then show ?thesis using h' VHello by (auto simp: type_ok_def ParseHelloV2_def validHelloV2_def split: option.splits if_splits)
qed (use assms(1) in \<open>auto simp: type_ok_def validateActivityV2_def validateWireActivityV2_def validateControlV2_def control_common_def
       validPosition_def validPeer_def validPeerStatus_def validSourceStatusV2Value_def validStopV2Value_def
       validLocalStopV2Value_def validLocalStopProbeV2_def validLocalStopResultV2Value_def split: if_splits option.splits\<close>)

lemma nonce_key [simp]:
  "has_nonce (enc_WireActivity w)" "\<not> has_nonce (enc_Activity a)"
  by (simp_all add: has_nonce_def enc_WireActivity_def enc_Activity_def)

lemma accepts_D:
  "accepts parse tab r0 L \<Longrightarrow> parse L d = Inr r \<Longrightarrow> parse_json d = Some j \<Longrightarrow>
    decode_struct True tab j r0 = Some r \<and> d \<noteq> [] \<and> length d \<le> MaxEnvelopeBytes"
  by (simp add: accepts_def)

lemma parsed_is_encoded:
  assumes p: "parse_json d = Some (enc_value L v)" and sc: "validJSONScalars d" and fl: "list_all (float_text L) (floats_of v)"
    and t: "type_ok v" and x: "ParseV2Message L d = Inr x"
  shows "x = v \<and> d \<noteq> [] \<and> length d \<le> MaxEnvelopeBytes"
proof -
  note m = ParseV2Message_type [OF p type_only_enc sc, of L]
  note acc = accepts_parsers [THEN accepts_D, OF _ p]
  show ?thesis
  proof (cases v)
    case (VHello w)
    then show ?thesis using x t by (auto simp: type_ok_def m dest!: map_sum_Inr acc(1) dest: dec_Hello)
  next
    case (VActivity w)
    then show ?thesis using x t by (auto simp: type_ok_def m dest!: map_sum_Inr acc(2) dest: dec_Activity)
  next
    case (VWireActivity w)
    then show ?thesis using x t by (auto simp: type_ok_def m dest!: map_sum_Inr acc(3) dest: dec_WireActivity)
  next
    case (VControl w)
    then show ?thesis using x t by (auto simp: type_ok_def m dest!: map_sum_Inr acc(4) dest: dec_Control)
  next
    case (VPosition w)
    then show ?thesis using x t fl by (auto simp: type_ok_def m simp del: floats_of.simps dest!: map_sum_Inr acc(5) dest: dec_Position)
  next
    case (VPeer w)
    then show ?thesis using x t fl by (auto simp: type_ok_def m simp del: floats_of.simps dest!: map_sum_Inr acc(6) dest: dec_PeerPosition)
  next
    case (VPeerStatus w)
    then show ?thesis using x t by (auto simp: type_ok_def m dest!: map_sum_Inr acc(7) dest: dec_PeerStatus)
  next
    case (VSourceStatus w)
    then show ?thesis using x t by (auto simp: type_ok_def m dest!: map_sum_Inr acc(8) dest: dec_SourceStatus)
  next
    case (VStop w)
    then show ?thesis using x t by (auto simp: type_ok_def m dest!: map_sum_Inr acc(9) dest: dec_Stop)
  next
    case (VLocalStop w)
    then show ?thesis using x t by (auto simp: type_ok_def m dest!: map_sum_Inr acc(10) dest: dec_LocalStop)
  next
    case (VLocalStopProbe w)
    then show ?thesis using x t by (auto simp: type_ok_def m dest!: map_sum_Inr acc(11) dest: dec_LocalStopProbe)
  next
    case (VLocalStopResult w)
    then show ?thesis using x t by (auto simp: type_ok_def m dest!: map_sum_Inr acc(12) dest: dec_LocalStopResult)
  qed
qed

text \<open>
  C37: A ride-group message survives the wire: the canonical encoding of a message, when there is one,
  fits into an envelope and parses to the message that was encoded, whichever of the twelve kinds it
  is; no field is lost, rounded or changed by escaping.  The strings of the message are valid UTF-8,
  and the conversion between floats and their shortest decimal text is that of the Go library.
\<close>

theorem message_roundtrip:
  assumes "MarshalCanonicalV2 L v = Some d" and "wf_json (enc_value L v)" and "list_all (float_text L) (floats_of v)"
  shows "ParseV2Message L d = Inr v \<and> length d \<le> 1024"
proof -
  let ?e = "print_json (enc_value L v)"
  obtain x where v: "validateV2Value L v" "length d \<le> MaxEnvelopeBytes" "ParseV2Message L ?e = Inr x"
    "canonicalizeJSONStringEscapes ?e = Some d"
    using MarshalCanonicalV2_Some [OF assms(1)] by blast
  have dep: "depth (enc_value L v) \<le> maxNestingDepth" using depth_enc [of L v] by (simp add: maxNestingDepth_def)
  have d: "d = print_with esc_canon (enc_value L v)" "parse_json d = Some (enc_value L v)"
    using canonical_reads_back [OF assms(2) dep] v(4) by simp_all
  have e: "parse_json ?e = Some (enc_value L v)" by (rule json_escape.parse_print [OF assms(2) dep])
  have sc: "validJSONScalars ?e" "validJSONScalars d"
    using json_scalar.print_validJSONScalars [OF assms(2)] canon_scalar.print_validJSONScalars [OF assms(2)] d(1) by simp_all
  have "x = v" "?e \<noteq> []" "length ?e \<le> MaxEnvelopeBytes"
    using parsed_is_encoded [OF e sc(1) assms(3) validate_type_ok [OF v(1) assms(2)] v(3)] by simp_all
  moreover have "d \<noteq> []" using d by (cases v) (simp_all add: enc_defs)
  ultimately have "ParseV2Message L d = Inr v"
    using same_message [of d ?e L] v d(2) e sc by (simp add: same_envelope_def)
  then show ?thesis using v(2) by (simp add: MaxEnvelopeBytes_def)
qed

section \<open>Examples\<close>

text \<open>Encoding succeeds on messages that decode: the checks on the text reduce to checks on the tree.\<close>

definition plain_ascii :: "char \<Rightarrow> bool" where
  "plain_ascii c = (0x20 \<le> byte c \<and> byte c < 0x80 \<and> byte c \<notin> {0x22, 0x5C, 0x3C, 0x3E, 0x26})"

lemma quote_plain: "list_all plain_ascii s \<Longrightarrow> quote_content esc_rune s = s \<and> quote_content esc_canon s = s"
proof (induction s)
  case (Cons c s)
  then have "esc_rune (byte c, 1) = [c]" "esc_canon (byte c, 1) = [c]"
    by (auto simp: esc_rune_def esc_canon_def plain_ascii_def RuneError_def ascii_EncodeRune canonical_runes_def Let_def)
  then show ?case using Cons by (simp add: quote_content_def decode_all_ascii plain_ascii_def del: decode_all.simps)
qed (simp add: quote_content_def)

lemma quote_plain_length [simp]:
  "list_all plain_ascii s \<Longrightarrow> length (quote_with esc_rune s) = length s + 2"
  "list_all plain_ascii s \<Longrightarrow> length (quote_with esc_canon s) = length s + 2"
  using quote_plain [of s] by (simp_all add: quote_with_def)

lemma plain_valid: "list_all plain_ascii s \<Longrightarrow> ValidString s"
  using ValidString_ascii_list [of s "[]"] by (simp add: plain_ascii_def list_all_iff ValidString_def)

lemma decodeExactV2_print:
  assumes "wf_json j" and "depth j \<le> maxNestingDepth" and "uniqueJSONValue j" and "length (print_json j) \<le> MaxEnvelopeBytes"
    and "print_json j \<noteq> []"
  shows "decodeExactV2 tab keys r0 (print_json j) = decode_fields tab keys r0 j"
  using assms json_escape.parse_print [OF assms(1,2)] json_scalar.print_validJSONScalars [OF assms(1)]
  by (simp add: decodeExactV2_def decodeExact_def rejectDuplicateKeys_def)

definition sample_probe :: LocalStopProbeV2 where
  "sample_probe = \<lparr>lsp_Version = 2, lsp_Type = ''ride_group_local_stop_probe'', lsp_Adapter = ''uplink'',
     lsp_Challenge = sample_uuid (CHR ''7'')\<rparr>"

lemma sample_uuid_ok:
  assumes "lower_hex c"
  shows "validUUID (sample_uuid c)" "list_all plain_ascii (sample_uuid c)" "length (sample_uuid c) = 36"
proof -
  have u: "sample_uuid c = [c, c, c, c, c, c, c, c] @ ''-0000-4000-8000-000000000000''"
    by (simp add: sample_uuid_def eval_nat_numeral)
  show "length (sample_uuid c) = 36" by (simp add: u)
  have "lower_hex (CHR ''0'')" "lower_hex (CHR ''4'')" "lower_hex (CHR ''8'')" by (simp_all add: lower_hex_def)
  then show "validUUID (sample_uuid c)" using assms by (simp add: u validUUID_def uuid_indices)
  have "plain_ascii c" using assms by (auto simp: lower_hex_def plain_ascii_def)
  then show "list_all plain_ascii (sample_uuid c)" by (simp add: u) (simp add: plain_ascii_def)
qed

lemma printed_tree:
  assumes "wf_json j" and "depth j \<le> 3" and "uniqueJSONValue j" and "length (print_json j) \<le> MaxEnvelopeBytes"
    and "print_json j \<noteq> []"
  shows "decodeExactV2 tab keys r0 (print_json j) = decode_fields tab keys r0 j"
    and "jsonFieldsHaveTypes (print_json j) ts = (ts = [] \<or> fields_have_types ts j)"
    and "Unmarshal_map (print_json j) = json_fields j"
    and "type_only j t \<Longrightarrow> envelope_type (print_json j) = Some t"
    and "validJSONScalars (print_json j)"
    and "canonicalizeJSONStringEscapes (print_json j) = Some (print_with esc_canon j)"
proof -
  have d: "depth j \<le> maxNestingDepth" using assms(2) by (simp add: maxNestingDepth_def)
  note p = json_escape.parse_print [OF assms(1) d]
  show "decodeExactV2 tab keys r0 (print_json j) = decode_fields tab keys r0 j"
    by (rule decodeExactV2_print [OF assms(1) d assms(3-5)])
  show "jsonFieldsHaveTypes (print_json j) ts = (ts = [] \<or> fields_have_types ts j)"
    "Unmarshal_map (print_json j) = json_fields j"
    using p by (simp_all add: jsonFieldsHaveTypes_def Unmarshal_map_def)
  show "type_only j t \<Longrightarrow> envelope_type (print_json j) = Some t"
    using p decode_type by (simp add: envelope_type_def)
  show "validJSONScalars (print_json j)" using json_scalar.print_validJSONScalars [OF assms(1)] by simp
  show "canonicalizeJSONStringEscapes (print_json j) = Some (print_with esc_canon j)"
    using canonical_reads_back [OF assms(1) d] by simp
qed

lemma plain_facts:
  assumes "list_all plain_ascii s"
  shows "ValidString s" "length (quote_with esc_rune s) = length s + 2" "length (quote_with esc_canon s) = length s + 2"
  using assms by (simp_all add: plain_valid)

text \<open>The tree of a sample control; its label has no character that would need an escape.\<close>

lemma sample_numbers: "show_int 0 = ''0''" "show_int 1 = ''1''" "show_int 2 = ''2''" "show_int 9 = ''9''"
    "show_int 2000 = ''2000''" "show_int 10000 = ''10000''"
  by (simp_all add: show_int_def show_nat.simps digit_def)

lemma sample_number_words: "valid_number ''0''" "valid_number ''1''" "valid_number ''2''" "valid_number ''9''"
    "valid_number ''2000''" "valid_number ''10000''"
  by code_simp+

lemma sample_tree:
  assumes "list_all plain_ascii label" and "length label \<le> 32"
  shows "let j = enc_ControlV2 (sample_control label) in
     wf_json j \<and> depth j \<le> 3 \<and> uniqueJSONValue j \<and> length (print_json j) \<le> MaxEnvelopeBytes \<and> print_json j \<noteq> []
     \<and> length (print_with esc_canon j) \<le> MaxEnvelopeBytes"
proof -
  have h: "lower_hex (CHR ''1'')" "lower_hex (CHR ''2'')" "lower_hex (CHR ''3'')" "lower_hex (CHR ''4'')" "lower_hex (CHR ''5'')"
    "lower_hex (CHR ''6'')" by (simp_all add: lower_hex_def)
  note u = h [THEN sample_uuid_ok(2)] h [THEN sample_uuid_ok(3)]
  show ?thesis
    using assms u depth_enc [of sample_lib "VControl (sample_control label)"]
    by (simp add: enc_ControlV2_def enc_Control_def sample_control_def zero_Control_def enc_ptr_def enc_slice_def enc_PeerDescriptor_def
        enc_int_def sample_numbers sample_number_words plain_facts MaxEnvelopeBytes_def Let_def plain_ascii_def)
qed

lemma sample_valid:
  assumes "list_all plain_ascii label" and "length label \<le> 32"
  shows "validateControlV2 (sample_control label) check = None" and "list_all validPeerDescriptorV2 (peers_of (sample_control label))"
proof -
  have h: "lower_hex (CHR ''1'')" "lower_hex (CHR ''2'')" "lower_hex (CHR ''3'')" "lower_hex (CHR ''4'')" "lower_hex (CHR ''5'')"
    "lower_hex (CHR ''6'')" by (simp_all add: lower_hex_def)
  note u = h [THEN sample_uuid_ok(1)]
  have r: "runes label = map byte label" using assms(1) by (intro runes_ascii) (auto simp: list_all_iff plain_ascii_def)
  have "jsonStringContentBytes label \<le> length label"
    unfolding jsonStringContentBytes_def r map_map
    using assms(1) by (induction label) (auto simp: plain_ascii_def RuneLen_def)
  then have l: "validPeerLabel label" "RuneCountInString label \<le> 32" "jsonStringContentBytes label \<le> 32" "ValidString label"
    using assms r by (simp_all add: validPeerLabel_def RuneCount_runes plain_valid)
  show "list_all validPeerDescriptorV2 (peers_of (sample_control label))"
    using u l by (simp add: validPeerDescriptorV2_def sample_control_def zero_Control_def)
  show "validateControlV2 (sample_control label) check = None"
    using u l
    by (simp add: validateControlV2_def control_common_def bound_control_def no_stop_def sample_control_def zero_Control_def
        safeNonnegative_def safePositive_def maxSafeInteger_def validUUIDPtr_def validOptionalGeneration_def)
qed

lemma sample_decodes: "decode_fields (controlV2_table sample_lib) controlV2_keys zero_Control (enc_ControlV2 (sample_control label)) = Some (sample_control label)"
  by (simp add: decode_fields_def json_fields_def enc_ControlV2_def enc_Control_def controlV2_keys_def control_keys_def gm_has_def
      dec_simps controlV2_table_def control_table_def sample_control_def zero_Control_def set_int_def set_int_ptr_def enc_ptr_def
      enc_int_def sample_lib_def number_in_def ParseInt_show_int_iff set_slice_def enc_slice_def peer_elem_def set_str_ptr_def enc_PeerDescriptor_def
      peerDescriptor_table_def zero_PeerDescriptor_def)

lemma sample_types:
  "fields_have_types ((''consent_generation'', ''integer'') # control_types) (enc_ControlV2 (sample_control label))"
  by (simp add: fields_have_types_def json_fields_def control_types_def enc_ControlV2_def enc_Control_def json_kind_def enc_slice_def
      sample_control_def zero_Control_def enc_int_def sample_numbers)

lemma sample_control_parses:
  assumes "list_all plain_ascii label" and "length label \<le> 32"
  defines "d \<equiv> print_json (enc_ControlV2 (sample_control label))"
  shows "ParseControlV2 sample_lib d = Inr (sample_control label)" and "envelope_type d = Some ''ride_group_control''"
    and "validJSONScalars d" and "canonicalizeJSONStringEscapes d = Some (print_with esc_canon (enc_ControlV2 (sample_control label)))"
proof -
  let ?c = "sample_control label" let ?j = "enc_ControlV2 ?c" let ?d = "print_json ?j"
  from sample_tree [OF assms(1,2)] have t: "wf_json ?j" "depth ?j \<le> 3" "uniqueJSONValue ?j" "length ?d \<le> MaxEnvelopeBytes" "?d \<noteq> []"
    by (simp_all add: Let_def)
  note p = printed_tree [OF t]
  show "envelope_type d = Some ''ride_group_control''" "validJSONScalars d"
    "canonicalizeJSONStringEscapes d = Some (print_with esc_canon ?j)"
    using p(4-6) type_only_enc [of sample_lib "VControl ?c"] by (simp_all add: sample_control_def d_def)
  have "nullableJSONFieldType ?d ''cadence_ms'' ''integer''" "nullableJSONFieldType ?d ''stop_expected_generation'' ''integer''"
    unfolding nullableJSONFieldType_def p(3)
    by (simp_all add: enc_ControlV2_def enc_Control_def fields_have_types_def
        json_fields_def json_kind_def sample_control_def zero_Control_def enc_ptr_def enc_int_def sample_numbers)
  then show "ParseControlV2 sample_lib d = Inr ?c"
    using sample_valid [OF assms(1,2)] sample_decodes sample_types by (simp add: ParseControlV2_def p d_def)
qed

lemma sample_encodes:
  assumes "list_all plain_ascii label" and "length label \<le> 32"
  shows "MarshalCanonicalV2 sample_lib (VControl (sample_control label)) \<noteq> None"
proof -
  note p = sample_control_parses [OF assms]
  have "ParseV2Message sample_lib (print_json (enc_ControlV2 (sample_control label))) = Inr (VControl (sample_control label))"
    by (simp add: ParseV2Message_def p(1-3))
  then show ?thesis
    using sample_valid(1) [OF assms] sample_tree [OF assms] by (simp add: MarshalCanonicalV2_def p(4) Let_def)
qed

text \<open>A position on the equator, without motion.\<close>

definition sample_position :: Position where
  "sample_position = zero_Position\<lparr>pos_Version := 2, pos_Type := ''ride_group_position'', pos_SessionID := sample_uuid (CHR ''2''),
     pos_Revision := 1, pos_TransportEpoch := 1, pos_StreamID := sample_uuid (CHR ''4''), pos_Sequence := 1, pos_CapturedAtMS := 10000,
     pos_TimestampSource := ''producer_fix'', pos_MotionSource := ''unknown''\<rparr>"

lemma sample_position_tree:
  "let j = enc_Position sample_lib sample_position in
     wf_json j \<and> depth j \<le> 3 \<and> uniqueJSONValue j \<and> length (print_json j) \<le> MaxEnvelopeBytes \<and> print_json j \<noteq> []
     \<and> length (print_with esc_canon j) \<le> MaxEnvelopeBytes"
proof -
  have h: "lower_hex (CHR ''2'')" "lower_hex (CHR ''4'')" by (simp_all add: lower_hex_def)
  note u = h [THEN sample_uuid_ok(2)] h [THEN sample_uuid_ok(3)]
  show ?thesis
    using u depth_enc [of sample_lib "VPosition sample_position"]
    by (simp add: enc_Position_def sample_position_def zero_Position_def enc_ptr_def enc_float_def sample_lib_def
        enc_int_def sample_numbers sample_number_words plain_facts MaxEnvelopeBytes_def Let_def plain_ascii_def)
qed

lemma sample_position_valid: "validPosition 2 sample_position"
proof -
  have h: "lower_hex (CHR ''2'')" "lower_hex (CHR ''4'')" by (simp_all add: lower_hex_def)
  then show ?thesis
    using h [THEN sample_uuid_ok(1)]
    by (simp add: validPosition_def sample_position_def zero_Position_def safePositive_def maxSafeInteger_def
        validCoordinates_def validAccuracy_def validMotion_def f64_le_def f64_less_def)
qed

lemma sample_position_encodes: "MarshalCanonicalV2 sample_lib (VPosition sample_position) \<noteq> None"
proof -
  let ?c = "sample_position" let ?j = "enc_Position sample_lib ?c" let ?d = "print_json ?j"
  from sample_position_tree have t: "wf_json ?j" "depth ?j \<le> 3" "uniqueJSONValue ?j" "length ?d \<le> MaxEnvelopeBytes" "?d \<noteq> []"
    "length (print_with esc_canon ?j) \<le> MaxEnvelopeBytes" by (simp_all add: Let_def)
  note p = printed_tree [OF t(1-5)]
  have ty: "envelope_type ?d = Some ''ride_group_position''"
    using p(4) type_only_enc [of sample_lib "VPosition ?c"] by (simp add: sample_position_def)
  have "motion_fields_ok ?d"
    unfolding motion_fields_ok_def nullableJSONFieldType_def p(3)
    by (simp add: enc_Position_def json_fields_def sample_position_def zero_Position_def enc_ptr_def)
  moreover have "fields_have_types position_types ?j"
    by (simp add: fields_have_types_def json_fields_def position_types_def enc_Position_def json_kind_def sample_position_def
        zero_Position_def enc_int_def enc_float_def sample_numbers)
  moreover have "decode_fields (position_table sample_lib) position_keys zero_Position ?j = Some ?c"
    by (simp add: decode_fields_def json_fields_def enc_Position_def position_keys_def gm_has_def dec_simps position_table_def
        sample_position_def zero_Position_def set_int_def enc_ptr_def set_float_def set_float_ptr_def float_in_def enc_float_def
        enc_int_def sample_lib_def number_in_def ParseInt_show_int_iff)
  ultimately have "ParsePositionV2 sample_lib ?d = Inr ?c"
    using sample_position_valid by (simp add: ParsePositionV2_def p)
  then have "ParseV2Message sample_lib ?d = Inr (VPosition ?c)" by (simp add: ParseV2Message_def p(5) ty)
  then show ?thesis
    using sample_position_valid t(6) by (simp add: MarshalCanonicalV2_def p(6) Let_def)
qed

theorem message_roundtrip_witness:
  "\<exists>d. MarshalCanonicalV2 sample_lib (VPosition sample_position) = Some d
    \<and> ParseV2Message sample_lib d = Inr (VPosition sample_position) \<and> length d \<le> 1024"
proof -
  obtain d where d: "MarshalCanonicalV2 sample_lib (VPosition sample_position) = Some d" using sample_position_encodes by blast
  have "wf_json (enc_value sample_lib (VPosition sample_position))" using sample_position_tree by (simp add: Let_def)
  moreover have "list_all (float_text sample_lib) (floats_of (VPosition sample_position))"
    by (simp add: float_text_def sample_lib_def sample_position_def zero_Position_def)
  ultimately show ?thesis using message_roundtrip [OF d] d by blast
qed



definition null_blocked :: json where
  "null_blocked = JObj
     [(''v'', JNum ''2''), (''type'', JStr ''ride_group_local_stop''), (''operation_id'', JNull), (''journal_revision'', JNum ''1''),
      (''phase'', JStr ''idle''), (''blocked'', JNull), (''expected_generation'', JNull), (''committed_generation'', JNull),
      (''challenge'', JStr (sample_uuid (CHR ''5'')))]"


end
