(* ===== verification/Ride_Gps.thy ===== *)
theory Ride_Gps
  imports Ride_Protocol "HOL-Library.Monad_Syntax"
begin

text \<open>
  The position source of the ride group, \<^verbatim>\<open>ridegroup/gps.go\<close>: decoding of a fix, its time stamp in the
  grammar that \<^verbatim>\<open>time.Parse\<close> accepts for \<^verbatim>\<open>RFC3339\<close> and \<^verbatim>\<open>RFC3339Nano\<close> (the same for both), and the
  estimator that derives speed and heading from two fixes.

  Shown: every sample of the estimator passes the range checks that the encoder of a position makes,
  so a fix is never lost for the motion that was derived from it; samples have strictly increasing
  capture times and are at most five seconds old.
\<close>

section \<open>Time stamps\<close>

text \<open>\<^verbatim>\<open>getnum\<close> of the \<^verbatim>\<open>time\<close> package: two digits, or one when the width is not fixed.\<close>

definition getnum :: "bool \<Rightarrow> string \<Rightarrow> (nat \<times> string) option" where
  "getnum fixed s =
     (case s of
        [] \<Rightarrow> None
      | c # s1 \<Rightarrow>
          (case digit_val c of
             None \<Rightarrow> None
           | Some d \<Rightarrow>
               (case s1 of
                  [] \<Rightarrow> if fixed then None else Some (d, s1)
                | c1 # s2 \<Rightarrow>
                    (case digit_val c1 of
                       None \<Rightarrow> if fixed then None else Some (d, s1)
                     | Some d1 \<Rightarrow> Some (10 * d + d1, s2)))))"

definition skip_char :: "char \<Rightarrow> string \<Rightarrow> string option" where
  "skip_char c s = (case s of [] \<Rightarrow> None | x # r \<Rightarrow> if x = c then Some r else None)"

text \<open>Digits after the point or comma, all of them consumed; the first nine count.\<close>

definition parse_nanos :: "string \<Rightarrow> nat \<times> string" where
  "parse_nanos s =
     (case s of
        x # y # r \<Rightarrow>
          if (x = CHR ''.'' \<or> x = CHR '','') \<and> digit_val y \<noteq> None then
            (let ds = takeWhile (\<lambda>c. digit_val c \<noteq> None) (y # r); ns = take 9 ds
             in (fold (\<lambda>c n. 10 * n + the (digit_val c)) ns 0 * 10 ^ (9 - length ns), drop (length ds) (y # r)))
          else (0, s)
      | _ \<Rightarrow> (0, s))"

text \<open>The zone \<^verbatim>\<open>Z07:00\<close>: the offset in seconds.\<close>

definition parse_zone :: "string \<Rightarrow> (int \<times> string) option" where
  "parse_zone s =
     (case s of
        [] \<Rightarrow> None
      | c # r \<Rightarrow>
          if c = CHR ''Z'' then Some (0, r)
          else if c \<noteq> CHR ''+'' \<and> c \<noteq> CHR ''-'' then None
          else do {
            (hr, r1) \<leftarrow> getnum True r;
            r2 \<leftarrow> skip_char (CHR '':'') r1;
            (mm, r3) \<leftarrow> getnum True r2;
            if hr > 24 \<or> mm > 60 then None
            else Some ((if c = CHR ''-'' then -1 else 1) * (int hr * 60 + int mm) * 60, r3)
          })"

definition days_before :: "int \<Rightarrow> int" where
  "days_before y = 365 * (y - 1) + (y - 1) div 4 - (y - 1) div 100 + (y - 1) div 400"

definition Date_UTC :: "int \<Rightarrow> nat \<Rightarrow> nat \<Rightarrow> nat \<Rightarrow> nat \<Rightarrow> nat \<Rightarrow> nat \<Rightarrow> instant" where
  "Date_UTC y m d h mi s ns =
     ((days_before y + sum_list (take (m - 1) (month_lengths y)) + int d - 1) * 86400
      + int h * 3600 + int mi * 60 + int s) * 1000000000 + int ns"

text \<open>\<^verbatim>\<open>time.Parse(time.RFC3339, s)\<close> and \<^verbatim>\<open>time.Parse(time.RFC3339Nano, s)\<close>; \<open>None\<close> is the error.\<close>

definition Parse_RFC3339 :: "string \<Rightarrow> instant option" where
  "Parse_RFC3339 s0 =
     do {
       (yy, s1) \<leftarrow> getnum True s0;
       (y2, s2) \<leftarrow> getnum True s1;
       s3 \<leftarrow> skip_char (CHR ''-'') s2;
       (mo, s4) \<leftarrow> getnum True s3;
       s5 \<leftarrow> skip_char (CHR ''-'') s4;
       (d, s6) \<leftarrow> getnum True s5;
       s7 \<leftarrow> skip_char (CHR ''T'') s6;
       (h, s8) \<leftarrow> getnum False s7;
       s9 \<leftarrow> skip_char (CHR '':'') s8;
       (mi, s10) \<leftarrow> getnum True s9;
       s11 \<leftarrow> skip_char (CHR '':'') s10;
       (sec, s12) \<leftarrow> getnum True s11;
       let y = int (100 * yy + y2);
       let (ns, s13) = parse_nanos s12;
       (off, s14) \<leftarrow> parse_zone s13;
       if s14 \<noteq> [] \<or> mo < 1 \<or> mo > 12 \<or> h \<ge> 24 \<or> mi \<ge> 60 \<or> sec \<ge> 60 \<or> d < 1 \<or> int d > month_lengths y ! (mo - 1)
       then None
       else Some (Date_UTC y mo d h mi sec ns - off * 1000000000)
     }"

definition from_UnixMilli :: "int \<Rightarrow> instant" where
  "from_UnixMilli ms = ms * 1000000 + 62135596800000000000"

section \<open>Fixes\<close>

record GPSFix =
  fix_Latitude :: string
  fix_Longitude :: string
  fix_Timestamp :: string
  fix_Active :: bool
  fix_Connected :: bool
  fix_State :: string
  fix_Fix :: string
  fix_Eph :: "f64 option"

definition zero_GPSFix :: GPSFix where
  "zero_GPSFix = \<lparr>fix_Latitude = '''', fix_Longitude = '''', fix_Timestamp = '''', fix_Active = False, fix_Connected = False,
     fix_State = '''', fix_Fix = '''', fix_Eph = None\<rparr>"

definition gpsFix_table :: "golib \<Rightarrow> GPSFix table" where
  "gpsFix_table L =
     [(''latitude'', set_str (\<lambda>x r. r\<lparr>fix_Latitude := x\<rparr>)),
      (''longitude'', set_str (\<lambda>x r. r\<lparr>fix_Longitude := x\<rparr>)),
      (''timestamp'', set_str (\<lambda>x r. r\<lparr>fix_Timestamp := x\<rparr>)),
      (''active'', set_bool (\<lambda>x r. r\<lparr>fix_Active := x\<rparr>)),
      (''connected'', set_bool (\<lambda>x r. r\<lparr>fix_Connected := x\<rparr>)),
      (''state'', set_str (\<lambda>x r. r\<lparr>fix_State := x\<rparr>)),
      (''fix'', set_str (\<lambda>x r. r\<lparr>fix_Fix := x\<rparr>)),
      (''eph'', set_float_ptr L (\<lambda>x r. r\<lparr>fix_Eph := x\<rparr>))]"

text \<open>The capture time, and \<open>None\<close> when the flag of the source is false.\<close>

definition parseGPSTimestamp :: "string \<Rightarrow> instant option" where
  "parseGPSTimestamp data =
     Option.bind (parse_json data) (\<lambda>j.
     Option.bind (decode_struct False [(''timestamp'', set_str (\<lambda>x r. x))] j '''') Parse_RFC3339)"

definition established :: "GPSFix \<Rightarrow> bool" where
  "established f =
     (fix_Active f \<and> fix_Connected f \<and> fix_State f = ''fix-established'' \<and> (fix_Fix f = ''2d'' \<or> fix_Fix f = ''3d''))"

definition ParseGPSFix :: "golib \<Rightarrow> string \<Rightarrow> go_error + GPSFix" where
  "ParseGPSFix L data =
     (if data = [] \<or> length data > MaxEnvelopeBytes * 4 then Inl ''invalid GPS fix''
      else case Option.bind (parse_json data) (\<lambda>j. decode_struct False (gpsFix_table L) j zero_GPSFix) of
        None \<Rightarrow> Inl ''invalid GPS fix''
      | Some f \<Rightarrow>
          if \<not> established f then Inl ''GPS fix is not established''
          else (case (lib_ParseFloat L (fix_Latitude f), lib_ParseFloat L (fix_Longitude f)) of
                  (Some lat, Some lon) \<Rightarrow>
                    if validCoordinates lat lon \<and> Parse_RFC3339 (fix_Timestamp f) \<noteq> None then Inr f
                    else Inl ''invalid GPS fix''
                | _ \<Rightarrow> Inl ''invalid GPS fix''))"

section \<open>Motion\<close>

record FixSample =
  smp_Latitude :: f64
  smp_Longitude :: f64
  smp_CapturedAt :: instant
  smp_AccuracyM :: "f64 option"
  smp_HeadingDeg :: "f64 option"
  smp_SpeedMPS :: "f64 option"
  smp_MotionSource :: string

record GPSFixPoint =
  pt_Latitude :: f64
  pt_Longitude :: f64
  pt_CapturedAt :: instant
  pt_AccuracyM :: "f64 option"

type_synonym MotionEstimator = "GPSFixPoint option"

text \<open>\<^verbatim>\<open>math.Mod\<close>: the remainder is exact and has the sign of the dividend.\<close>

definition f64_mod :: "f64 \<Rightarrow> f64 \<Rightarrow> f64" where
  "f64_mod x y =
     (if f64_is_nan x \<or> f64_is_nan y \<or> \<not> f64_finite x \<or> (f64_finite y \<and> f64_val y = 0) then NaN
      else if \<not> f64_finite y \<or> f64_val x = 0 then x
      else let a = \<bar>f64_val x\<bar>; b = \<bar>f64_val y\<bar>; r = a - b * of_int \<lfloor>a / b\<rfloor>
           in if f64_val x < 0 then f64_uminus (Fin r) else Fin r)"

text \<open>The constants, rounded as the compiler rounds them: \<open>\<pi>\<close>, \<open>2\<pi>\<close>, \<open>\<pi>/180\<close> and twice the earth's radius.\<close>

definition c_Pi :: f64 where "c_Pi = Fin (884279719003555 / 281474976710656)"
definition c_2Pi :: f64 where "c_2Pi = Fin (884279719003555 / 140737488355328)"
definition toRadians :: f64 where "toRadians = Fin (5030569068109113 / 288230376151711744)"
definition c_2earthRadiusM :: f64 where "c_2earthRadiusM = Fin (6840818609632051 / 536870912)"

definition geodesicMotion :: "golib \<Rightarrow> f64 \<Rightarrow> f64 \<Rightarrow> f64 \<Rightarrow> f64 \<Rightarrow> f64 \<times> f64" where
  "geodesicMotion L lat1 lon1 lat2 lon2 =
     (let phi1 = f64_mul lat1 toRadians; phi2 = f64_mul lat2 toRadians;
          dPhi = f64_mul (f64_sub lat2 lat1) toRadians;
          dLon = f64_sub (f64_mod (f64_add (f64_mul (f64_sub lon2 lon1) toRadians) c_Pi) c_2Pi) c_Pi;
          sp = lib_Sin L (f64_div dPhi (Fin 2)); sl = lib_Sin L (f64_div dLon (Fin 2));
          a = f64_add (f64_mul sp sp) (f64_mul (f64_mul (f64_mul (lib_Cos L phi1) (lib_Cos L phi2)) sl) sl);
          distance = f64_mul c_2earthRadiusM (lib_Atan2 L (lib_Sqrt L a) (lib_Sqrt L (f64_sub (Fin 1) a)));
          y = f64_mul (lib_Sin L dLon) (lib_Cos L phi2);
          x = f64_sub (f64_mul (lib_Cos L phi1) (lib_Sin L phi2))
                      (f64_mul (f64_mul (lib_Sin L phi1) (lib_Cos L phi2)) (lib_Cos L dLon));
          heading = f64_mod (f64_add (f64_div (lib_Atan2 L y x) toRadians) (Fin 360)) (Fin 360)
      in (distance, heading))"

text \<open>The motion of a step between two points: speed and heading, when it can be told from the error.\<close>

definition step_motion :: "golib \<Rightarrow> GPSFixPoint \<Rightarrow> GPSFixPoint \<Rightarrow> (f64 \<times> f64) option" where
  "step_motion L prev cur =
     (let dt = Seconds (time_Sub (pt_CapturedAt cur) (pt_CapturedAt prev))
      in if f64_le (Fin 1) dt \<and> f64_le dt (Fin 5) then
           (case (pt_AccuracyM prev, pt_AccuracyM cur) of
              (Some pa, Some a) \<Rightarrow>
                (let (distance, heading) = geodesicMotion L (pt_Latitude prev) (pt_Longitude prev) (pt_Latitude cur) (pt_Longitude cur)
                 in if f64_less (f64_add pa a) distance \<and> f64_le (f64_div distance dt) (Fin 40)
                    then Some (f64_div distance dt, heading) else None)
            | _ \<Rightarrow> None)
         else None)"

definition Observe :: "golib \<Rightarrow> GPSFix \<Rightarrow> instant \<Rightarrow> MotionEstimator \<Rightarrow> FixSample option \<times> MotionEstimator" where
  "Observe L f now previous =
     (case (lib_ParseFloat L (fix_Latitude f), lib_ParseFloat L (fix_Longitude f), Parse_RFC3339 (fix_Timestamp f)) of
        (Some lat, Some lon, Some captured) \<Rightarrow>
          if captured > now \<or> time_Sub now captured > 5 * Second \<or> \<not> established f \<or> \<not> validCoordinates lat lon
          then (None, previous)
          else if (case previous of None \<Rightarrow> False | Some p \<Rightarrow> \<not> captured > pt_CapturedAt p) then (None, previous)
          else let accuracy = (case fix_Eph f of None \<Rightarrow> None
                                 | Some e \<Rightarrow> if finite_f64 e \<and> f64_less (Fin 0) e then Some e else None);
                   current = \<lparr>pt_Latitude = lat, pt_Longitude = lon, pt_CapturedAt = captured, pt_AccuracyM = accuracy\<rparr>;
                   motion = Option.bind previous (\<lambda>prev. step_motion L prev current)
               in (Some \<lparr>smp_Latitude = lat, smp_Longitude = lon, smp_CapturedAt = captured, smp_AccuracyM = accuracy,
                         smp_HeadingDeg = map_option snd motion, smp_SpeedMPS = map_option fst motion,
                         smp_MotionSource = (if motion = None then ''unknown'' else ''position_delta'')\<rparr>,
                   Some current)
      | _ \<Rightarrow> (None, previous))"

section \<open>Rounding\<close>

lemma round_half_even_near: "\<bar>of_int (round_half_even x) - x\<bar> \<le> 1 / 2"
proof -
  have "of_int \<lfloor>x\<rfloor> \<le> x" "x < of_int \<lfloor>x\<rfloor> + 1" by linarith+
  then show ?thesis by (auto simp: round_half_even_def Let_def abs_le_iff)
qed

text \<open>A coarse bound, enough for ranges: the error is at most half of the value plus one.\<close>

lemma round64_near:
  assumes "\<bar>x\<bar> < 2 ^ 1000"
  shows "\<exists>v. round64 x = Fin v \<and> \<bar>v - x\<bar> \<le> \<bar>x\<bar> / 2 + 1"
proof (cases "x = 0")
  case False
  let ?e = "max (ilog2 \<bar>x\<bar> - 52) (- 1074)"
  let ?v = "of_int (round_half_even (x / pow2 ?e)) * pow2 ?e"
  have p: "pow2 (ilog2 \<bar>x\<bar>) \<le> \<bar>x\<bar>" using ilog2_bounds [of "\<bar>x\<bar>"] False by simp
  have "pow2 (ilog2 \<bar>x\<bar> - 52) \<le> pow2 (ilog2 \<bar>x\<bar>)" "pow2 (- 1074) \<le> pow2 0" by (intro pow2_mono; simp)+
  then have "pow2 ?e \<le> \<bar>x\<bar> + 2" using p pow2_pos [of "ilog2 \<bar>x\<bar> - 52"] by (auto simp: max_def)
  moreover have "?v - x = (of_int (round_half_even (x / pow2 ?e)) - x / pow2 ?e) * pow2 ?e"
    using less_imp_neq [OF pow2_pos [of ?e]] by (simp add: left_diff_distrib)
  then have "\<bar>?v - x\<bar> = \<bar>of_int (round_half_even (x / pow2 ?e)) - x / pow2 ?e\<bar> * pow2 ?e"
    by (simp add: abs_mult abs_of_pos [OF pow2_pos])
  then have "\<bar>?v - x\<bar> \<le> 1 / 2 * pow2 ?e"
    using mult_right_mono [OF round_half_even_near [of "x / pow2 ?e"] less_imp_le [OF pow2_pos [of ?e]]] by metis
  ultimately have near: "\<bar>?v - x\<bar> \<le> \<bar>x\<bar> / 2 + 1" by linarith
  have "(2 :: rat) ^ 1000 * 2 + 1 < 2 ^ 1024" by simp
  moreover have "\<bar>?v\<bar> < 2 ^ 1000 * 2 + 1" using near assms by linarith
  ultimately have "\<bar>?v\<bar> < 2 ^ 1024" by (rule less_trans [rotated])
  then have "?v < 2 ^ 1024 \<and> - (2 ^ 1024) < ?v" unfolding abs_less_iff by (simp only: minus_less_iff conj_commute)
  then have "round64 x = Fin ?v" using False unfolding round64_def Let_def by (simp only: if_False if_True simp_thms)
  then show ?thesis using near by blast
qed (simp add: round64_def)

lemma round64_nonneg: "0 \<le> x \<Longrightarrow> round64 x = PInf \<or> (\<exists>v \<ge> 0. round64 x = Fin v)"
proof -
  assume x: "0 \<le> x"
  have "0 \<le> round_half_even y" if "0 \<le> y" for y :: rat
    using that by (auto simp: round_half_even_def Let_def)
  then have v: "0 \<le> of_int (round_half_even (x / pow2 e)) * pow2 e" for e
    using x by (simp add: zero_le_mult_iff divide_nonneg_pos less_imp_le)
  have big: "(0 :: rat) < 2 ^ 1024" by simp
  define w where "w = of_int (round_half_even (x / pow2 (max (ilog2 \<bar>x\<bar> - 52) (- 1074)))) * pow2 (max (ilog2 \<bar>x\<bar> - 52) (- 1074))"
  have "0 \<le> w" using v by (simp add: w_def)
  moreover have "round64 x = (if x = 0 then Fin 0 else if w < 2 ^ 1024 \<and> - (2 ^ 1024) < w then Fin w else if 0 < w then PInf else NInf)"
    unfolding round64_def Let_def w_def by (rule refl)
  moreover have "- (2 ^ 1024) < w" using \<open>0 \<le> w\<close> big by (meson less_le_trans neg_less_0_iff_less)
  moreover have "0 < w" if "\<not> w < 2 ^ 1024" using that big by (metis less_le_trans linorder_not_less)
  ultimately show ?thesis by auto
qed

lemma f64_mod_range:
  assumes "x = Fin q" and "0 \<le> q"
  shows "\<exists>r. f64_mod x (Fin 360) = Fin r \<and> 0 \<le> r \<and> r < 360"
proof -
  have "of_int \<lfloor>q / 360\<rfloor> \<le> q / 360" "q / 360 < of_int \<lfloor>q / 360\<rfloor> + 1" by linarith+
  then have "0 \<le> q - 360 * of_int \<lfloor>q / 360\<rfloor>" "q - 360 * of_int \<lfloor>q / 360\<rfloor> < 360" by linarith+
  then show ?thesis using assms by (auto simp: f64_mod_def Let_def)
qed

text \<open>Values in a range, through the operations.\<close>

definition bounded64 :: "rat \<Rightarrow> f64 \<Rightarrow> bool" where
  "bounded64 b x = (f64_finite x \<and> \<bar>f64_val x\<bar> \<le> b)"

lemma bounded64_round: "\<bar>x\<bar> \<le> b \<Longrightarrow> b < 2 ^ 1000 \<Longrightarrow> bounded64 (3 / 2 * b + 1) (round64 x)"
  using round64_near [of x] by (auto simp: bounded64_def)

lemma bounded64_mono: "bounded64 a x \<Longrightarrow> a \<le> b \<Longrightarrow> bounded64 b x"
  by (auto simp: bounded64_def)

lemma bounded64_add: "bounded64 a x \<Longrightarrow> bounded64 b y \<Longrightarrow> a + b < 2 ^ 1000 \<Longrightarrow> bounded64 (3 / 2 * (a + b) + 1) (f64_add x y)"
  using bounded64_round [of "f64_val x + f64_val y" "a + b"] by (auto simp: f64_add_def bounded64_def)

lemma bounded64_uminus: "bounded64 a x \<Longrightarrow> bounded64 a (f64_uminus x)"
  by (cases x) (auto simp: f64_uminus_def bounded64_def)

lemma bounded64_sub: "bounded64 a x \<Longrightarrow> bounded64 b y \<Longrightarrow> a + b < 2 ^ 1000 \<Longrightarrow> bounded64 (3 / 2 * (a + b) + 1) (f64_sub x y)"
  unfolding f64_sub_def by (intro bounded64_add bounded64_uminus)

lemma bounded64_mul:
  assumes "bounded64 a x" and "bounded64 b y" and "a * b < 2 ^ 1000"
  shows "bounded64 (3 / 2 * (a * b) + 1) (f64_mul x y)"
proof -
  have "\<bar>f64_val x * f64_val y\<bar> \<le> a * b"
    using assms by (auto simp: bounded64_def abs_mult intro!: mult_mono intro: order_trans [OF abs_ge_zero])
  then show ?thesis
    using bounded64_round [OF _ assms(3), of "f64_val x * f64_val y"] assms(1,2)
    by (auto simp: f64_mul_def bounded64_def Let_def round_signed_def split: if_splits)
qed

lemma bounded64_mod: "f64_finite x \<Longrightarrow> 0 < b \<Longrightarrow> bounded64 b (f64_mod x (Fin b))"
proof -
  assume x: "f64_finite x" and b: "0 < b"
  let ?a = "\<bar>f64_val x\<bar>" let ?r = "?a - b * of_int \<lfloor>?a / b\<rfloor>"
  have "of_int \<lfloor>?a / b\<rfloor> \<le> ?a / b" "?a / b < of_int \<lfloor>?a / b\<rfloor> + 1" by linarith+
  then have "of_int \<lfloor>?a / b\<rfloor> * b \<le> ?a" "?a < (of_int \<lfloor>?a / b\<rfloor> + 1) * b"
    unfolding pos_le_divide_eq [OF b] pos_divide_less_eq [OF b] .
  then have "0 \<le> ?r" "?r \<le> b" by (simp_all add: algebra_simps)
  then have "bounded64 b (Fin ?r)" by (simp add: bounded64_def)
  moreover have "bounded64 b x" if "f64_val x = 0" using that x b by (simp add: bounded64_def)
  ultimately show ?thesis
    using x b bounded64_uminus [of b "Fin ?r"] by (cases x) (auto simp: f64_mod_def Let_def)
qed

section \<open>Samples can be published\<close>

text \<open>
  What the estimator needs of \<^verbatim>\<open>math\<close>: sine and cosine of a finite number are at most one, the angle
  \<^verbatim>\<open>Atan2\<close> of finite numbers is at most \<open>\<pi>\<close>, so less than four.
\<close>

definition trig_ok :: "golib \<Rightarrow> bool" where
  "trig_ok L =
     ((\<forall>x. f64_finite x \<longrightarrow> bounded64 1 (lib_Sin L x) \<and> bounded64 1 (lib_Cos L x))
      \<and> (\<forall>y x. f64_finite y \<longrightarrow> f64_finite x \<longrightarrow> bounded64 4 (lib_Atan2 L y x)))"

lemma bounded64_finite: "bounded64 b x \<Longrightarrow> f64_finite x"
  by (simp add: bounded64_def)

lemma valid_bounded64: "validCoordinates lat lon \<Longrightarrow> bounded64 90 lat \<and> bounded64 180 lon"
  by (cases lat; cases lon) (auto simp: validCoordinates_def f64_le_def f64_less_def bounded64_def split: if_splits)

lemma heading_range:
  assumes "bounded64 4 z"
  shows "\<exists>r. f64_mod (f64_add (f64_div z toRadians) (Fin 360)) (Fin 360) = Fin r \<and> 0 \<le> r \<and> r < 360"
proof -
  let ?t = "5030569068109113 / 288230376151711744 :: rat"
  have "\<bar>f64_val z / ?t\<bar> \<le> 230"
    using assms by (auto simp: bounded64_def abs_mult abs_divide)
  then have "bounded64 (3 / 2 * 230 + 1) (f64_div z toRadians)"
    using bounded64_round [of "f64_val z / ?t" 230] assms
    by (auto simp: f64_div_def toRadians_def bounded64_def Let_def round_signed_def split: if_splits)
  then have d: "f64_finite (f64_div z toRadians)" "0 \<le> f64_val (f64_div z toRadians) + 360"
    "\<bar>f64_val (f64_div z toRadians) + 360\<bar> \<le> 1000"
    by (auto simp: bounded64_def)
  then obtain q where "f64_add (f64_div z toRadians) (Fin 360) = Fin q" "0 \<le> q"
    using round64_nonneg [OF d(2)] bounded64_round [OF d(3)] by (cases "f64_div z toRadians") (auto simp: f64_add_def bounded64_def)
  then show ?thesis by (rule f64_mod_range)
qed

lemma geodesic_heading:
  assumes "trig_ok L" and "validCoordinates lat1 lon1" and "validCoordinates lat2 lon2"
  shows "\<exists>r. snd (geodesicMotion L lat1 lon1 lat2 lon2) = Fin r \<and> 0 \<le> r \<and> r < 360"
proof -
  note lat = valid_bounded64 [OF assms(2)] valid_bounded64 [OF assms(3)]
  have rad: "bounded64 1 toRadians" "bounded64 4 c_Pi" by (simp_all add: bounded64_def toRadians_def c_Pi_def)
  let ?phi1 = "f64_mul lat1 toRadians" and ?phi2 = "f64_mul lat2 toRadians"
  let ?u = "f64_add (f64_mul (f64_sub lon2 lon1) toRadians) c_Pi"
  let ?dLon = "f64_sub (f64_mod ?u c_2Pi) c_Pi"
  have phi: "f64_finite ?phi1" "f64_finite ?phi2"
    using bounded64_mul [of 90 lat1 1 toRadians] bounded64_mul [of 90 lat2 1 toRadians] lat rad by (auto simp: bounded64_finite)
  have "bounded64 541 (f64_sub lon2 lon1)" using bounded64_sub [of 180 lon2 180 lon1] lat by simp
  then have "bounded64 1000 (f64_mul (f64_sub lon2 lon1) toRadians)"
    using rad by (intro bounded64_mono [OF bounded64_mul [of 541 _ 1 toRadians]]) simp_all
  then have "f64_finite ?u" using rad by (intro bounded64_finite [OF bounded64_add [of 1000 _ 4 c_Pi]]) simp_all
  then have "bounded64 7 (f64_mod ?u c_2Pi)"
    unfolding c_2Pi_def by (intro bounded64_mono [OF bounded64_mod]) simp_all
  then have dLon: "f64_finite ?dLon" using rad by (intro bounded64_finite [OF bounded64_sub [of 7 _ 4 c_Pi]]) simp_all
  have t: "bounded64 1 (lib_Sin L x)" "bounded64 1 (lib_Cos L x)" if "f64_finite x" for x
    using assms(1) that by (auto simp: trig_ok_def)
  have m: "bounded64 3 (f64_mul a b)" if "bounded64 1 a" "bounded64 1 b" for a b
    using bounded64_mul [OF that] by (auto intro: bounded64_mono)
  have "f64_finite (f64_mul (lib_Sin L ?dLon) (lib_Cos L ?phi2))"
    using m [OF t(1) [OF dLon] t(2) [OF phi(2)]] by (rule bounded64_finite)
  moreover have p: "bounded64 3 (f64_mul (lib_Cos L ?phi1) (lib_Sin L ?phi2))" "bounded64 3 (f64_mul (lib_Sin L ?phi1) (lib_Cos L ?phi2))"
    using m t phi by blast+
  have "bounded64 6 (f64_mul (f64_mul (lib_Sin L ?phi1) (lib_Cos L ?phi2)) (lib_Cos L ?dLon))"
    using bounded64_mul [OF p(2) t(2) [OF dLon]] by (rule bounded64_mono) simp_all
  then have "f64_finite (f64_sub (f64_mul (lib_Cos L ?phi1) (lib_Sin L ?phi2))
      (f64_mul (f64_mul (lib_Sin L ?phi1) (lib_Cos L ?phi2)) (lib_Cos L ?dLon)))"
    using bounded64_finite [OF bounded64_sub [OF p(1)]] by simp
  ultimately show ?thesis
    using assms(1) unfolding geodesicMotion_def Let_def snd_conv
    by (intro heading_range) (simp add: trig_ok_def)
qed

lemma speed_range:
  assumes "finite_f64 pa" "f64_less (Fin 0) pa" "finite_f64 a" "f64_less (Fin 0) a" and "f64_less (f64_add pa a) d"
    and "f64_le (Fin 1) dt" "f64_le dt (Fin 5)" and "f64_le (f64_div d dt) (Fin 40)"
  shows "finite_f64 (f64_div d dt) \<and> f64_le (Fin 0) (f64_div d dt)"
proof -
  obtain p q where pq: "pa = Fin p" "a = Fin q" "0 < p" "0 < q"
    using assms(1-4) by (cases pa; cases a) (auto simp: f64_less_def split: if_splits)
  then have "f64_add pa a = round64 (p + q)" by (simp add: f64_add_def)
  then have sum: "f64_add pa a = PInf \<or> (\<exists>v \<ge> 0. f64_add pa a = Fin v)" using round64_nonneg [of "p + q"] pq by simp
  obtain t where t: "dt = Fin t" "1 \<le> t" "t \<le> 5"
    using assms(6,7) by (cases dt) (auto simp: f64_le_def f64_less_def split: if_splits)
  show ?thesis
  proof (cases d)
    case (Fin w)
    then have "0 < w" using sum assms(5) by (auto simp: f64_less_def split: if_splits)
    then have "f64_div d dt = round64 (w / t)" using Fin t by (simp add: f64_div_def round_signed_def)
    moreover have "round64 (w / t) = PInf \<or> (\<exists>v \<ge> 0. round64 (w / t) = Fin v)"
      using \<open>0 < w\<close> t by (intro round64_nonneg) simp
    ultimately show ?thesis using assms(8) by (auto simp: f64_le_def f64_less_def)
  qed (use sum assms(5,8) t in \<open>auto simp: f64_less_def f64_le_def f64_div_def inf_of_def split: if_splits\<close>)
qed

text \<open>What the encoder of a position checks of its source values.\<close>

definition publishable :: "FixSample \<Rightarrow> bool" where
  "publishable s =
     (validCoordinates (smp_Latitude s) (smp_Longitude s) \<and> validAccuracy (smp_AccuracyM s)
      \<and> validMotion (smp_HeadingDeg s) (smp_SpeedMPS s) (smp_MotionSource s))"

definition point_ok :: "GPSFixPoint \<Rightarrow> bool" where
  "point_ok p = (validCoordinates (pt_Latitude p) (pt_Longitude p) \<and> validAccuracy (pt_AccuracyM p))"

lemma step_motion_valid:
  assumes "trig_ok L" and "point_ok p" and "point_ok c" and "step_motion L p c = Some (s, h)"
  shows "validMotion (Some h) (Some s) ''position_delta''"
proof -
  let ?g = "geodesicMotion L (pt_Latitude p) (pt_Longitude p) (pt_Latitude c) (pt_Longitude c)"
  let ?dt = "Seconds (time_Sub (pt_CapturedAt c) (pt_CapturedAt p))"
  obtain pa a where acc: "pt_AccuracyM p = Some pa" "pt_AccuracyM c = Some a" and dt: "f64_le (Fin 1) ?dt" "f64_le ?dt (Fin 5)"
    and d: "f64_less (f64_add pa a) (fst ?g)" "f64_le (f64_div (fst ?g) ?dt) (Fin 40)"
    and sh: "s = f64_div (fst ?g) ?dt" "h = snd ?g"
    using assms(4) by (auto simp: step_motion_def Let_def split: if_splits option.splits prod.splits)
  have "finite_f64 s \<and> f64_le (Fin 0) s"
    unfolding sh using assms(2,3) acc d dt by (intro speed_range) (auto simp: point_ok_def validAccuracy_def)
  moreover obtain r where "h = Fin r" "0 \<le> r" "r < 360"
    using geodesic_heading [OF assms(1), of "pt_Latitude p" "pt_Longitude p" "pt_Latitude c" "pt_Longitude c"] assms(2,3) sh
    by (auto simp: point_ok_def)
  ultimately show ?thesis using d sh by (auto simp: validMotion_def f64_le_def f64_less_def)
qed

text \<open>
  C39: Derived motion never costs a fix: whatever two fixes the estimator has seen, a sample it returns has
  coordinates, accuracy, heading and speed in the ranges the encoder of a position demands, with a heading
  and a speed only together; it was captured after the previous sample, not in the future, and at most five
  seconds ago; and the estimator remembers exactly this sample.
\<close>

theorem samples_publishable:
  assumes "Observe L f now e = (Some s, e')" and "trig_ok L" and "pred_option point_ok e"
  shows "publishable s \<and> smp_CapturedAt s \<le> now \<and> now - smp_CapturedAt s \<le> 5 * Second
    \<and> pred_option (\<lambda>p. pt_CapturedAt p < smp_CapturedAt s) e
    \<and> pred_option (\<lambda>p. point_ok p \<and> pt_CapturedAt p = smp_CapturedAt s) e' \<and> e' \<noteq> None"
proof -
  obtain lat lon t where t: "lib_ParseFloat L (fix_Latitude f) = Some lat" "lib_ParseFloat L (fix_Longitude f) = Some lon"
    "Parse_RFC3339 (fix_Timestamp f) = Some t" and ok: "t \<le> now" "time_Sub now t \<le> 5 * Second" "validCoordinates lat lon"
    and newer: "pred_option (\<lambda>p. pt_CapturedAt p < t) e"
    using assms(1) by (auto simp: Observe_def split: option.splits if_splits)
  define acc where "acc = (case fix_Eph f of None \<Rightarrow> None | Some x \<Rightarrow> if finite_f64 x \<and> f64_less (Fin 0) x then Some x else None)"
  define c where "c = \<lparr>pt_Latitude = lat, pt_Longitude = lon, pt_CapturedAt = t, pt_AccuracyM = acc\<rparr>"
  define m where "m = Option.bind e (\<lambda>p. step_motion L p c)"
  have s: "s = \<lparr>smp_Latitude = lat, smp_Longitude = lon, smp_CapturedAt = t, smp_AccuracyM = acc,
      smp_HeadingDeg = map_option snd m, smp_SpeedMPS = map_option fst m,
      smp_MotionSource = (if m = None then ''unknown'' else ''position_delta'')\<rparr>" and e': "e' = Some c"
    using assms(1) t by (auto simp: Observe_def Let_def m_def c_def acc_def split: option.splits if_splits)
  have c: "point_ok c" using ok(3) by (auto simp: point_ok_def c_def acc_def validAccuracy_def split: option.splits)
  have "validMotion (map_option snd m) (map_option fst m) (if m = None then ''unknown'' else ''position_delta'')"
  proof (cases m)
    case (Some sh)
    then obtain p where "e = Some p" "step_motion L p c = Some sh" by (auto simp: m_def bind_eq_Some_conv)
    then show ?thesis using step_motion_valid [OF assms(2) _ c, of p "fst sh" "snd sh"] assms(3) Some by simp
  qed (simp add: validMotion_def)
  moreover have "now - t \<le> 5 * Second" using ok(2) by (auto simp: time_Sub_def maxInt64_def split: if_splits)
  ultimately show ?thesis
    using ok newer c by (simp add: s e' publishable_def) (simp add: c_def point_ok_def)
qed

theorem samples_publishable_witness:
  "let f = zero_GPSFix\<lparr>fix_Timestamp := ''2026-01-02T03:04:05Z'', fix_Active := True, fix_Connected := True,
             fix_State := ''fix-established'', fix_Fix := ''3d''\<rparr>;
       L = sample_lib\<lparr>lib_Atan2 := (\<lambda>y x. Fin 0), lib_Sin := (\<lambda>x. Fin 0), lib_Cos := (\<lambda>x. Fin 1)\<rparr>;
       t = the (Parse_RFC3339 (fix_Timestamp f))
   in (\<exists>s e'. Observe L f t None = (Some s, e') \<and> publishable s)"
proof -
  define f where "f = zero_GPSFix\<lparr>fix_Timestamp := ''2026-01-02T03:04:05Z'', fix_Active := True, fix_Connected := True,
             fix_State := ''fix-established'', fix_Fix := ''3d''\<rparr>"
  define L where "L = sample_lib\<lparr>lib_Atan2 := (\<lambda>y x. Fin 0), lib_Sin := (\<lambda>x. Fin 0), lib_Cos := (\<lambda>x. Fin 1)\<rparr>"
  have "Parse_RFC3339 ''2026-01-02T03:04:05Z'' \<noteq> None" by code_simp
  then obtain t where t: "Parse_RFC3339 (fix_Timestamp f) = Some t" by (auto simp: f_def)
  have v: "validCoordinates (Fin 0) (Fin 0)" by (simp add: validCoordinates_def f64_le_def f64_less_def)
  obtain s e' where o: "Observe L f t None = (Some s, e')"
    using t v by (auto simp: Observe_def Let_def L_def sample_lib_def f_def established_def time_Sub_def zero_GPSFix_def
        maxInt64_def minInt64_def split: option.splits)
  have "trig_ok L" by (simp add: trig_ok_def L_def bounded64_def)
  then have "publishable s" using samples_publishable [OF o] by simp
  then show ?thesis using o t by (auto simp: Let_def f_def [symmetric] L_def [symmetric])
qed

end
