(* ===== verification/Ride_Egress.thy ===== *)
theory Ride_Egress
  imports Ride_Gps
begin

text \<open>
  The state of the ride-group adapter, \<^verbatim>\<open>ridegroup/adapter.go\<close> and \<^verbatim>\<open>ridegroup/protocol_v2_adapter.go\<close>, and
  its way out, \<^verbatim>\<open>ridegroup/egress.go\<close>: the pending publications towards the cloud, at most one per kind, the
  decision whether a publication is still authorised, the worker that hands publications to the live
  transport, the bounded queue towards Redis and the queue of acknowledgements.

  The mutexes make every operation atomic: a critical section is a function of the state, and it runs at one
  instant, the argument \<open>env\<close>.  The 64-bit counters of generations and orders are natural numbers; they
  are only ever incremented, so that no run of the program wraps them.  A nil pointer is \<open>None\<close>.

  Shown in \<open>Ride_Queues\<close> and \<open>Ride_Properties\<close>: a position is authorised only for the current generation, so
  that advancing the generation withdraws every position that was queued before; the orders of pending
  publications are distinct and the worker takes them oldest first; the queues are bounded.
\<close>

section \<open>State\<close>

text \<open>
  What a critical section sees of the world: \<open>a.currentTime()\<close>, \<^verbatim>\<open>time.Now()\<close>, which clients are
  connected, and how far the iteration of a map is rotated, which is how an arbitrary first entry and an
  arbitrary one of several equal entries are chosen.
\<close>

record env =
  e_now :: instant
  e_wall :: instant
  e_up :: "nat \<Rightarrow> bool"
  e_rot :: nat

record mqttPublication =
  mp_client :: "nat option"
  mp_connection :: string
  mp_topic :: string
  mp_qos :: nat
  mp_retained :: bool
  mp_payload :: string
  mp_expiresAt :: instant
  mp_priority :: int
  mp_kind :: string
  mp_order :: nat
  mp_unsubscribe :: string
  mp_activityBootNonce :: string
  mp_activitySequence :: int
  mp_activityActive :: bool
  mp_activityLocalStop :: bool
  mp_positionSessionID :: string
  mp_positionMemberID :: string
  mp_positionStreamID :: string
  mp_positionRevision :: int
  mp_positionEpoch :: int
  mp_positionGeneration :: nat
  mp_positionCapturedAt :: instant
  mp_stopChallenge :: string
  mp_sourceState :: string
  mp_sourceSequence :: int
  mp_sourceCapturedAt :: instant
  mp_sourceGeneration :: nat

definition zero_publication :: mqttPublication where
  "zero_publication = \<lparr>mp_client = None, mp_connection = '''', mp_topic = '''', mp_qos = 0, mp_retained = False, mp_payload = '''',
     mp_expiresAt = 0, mp_priority = 0, mp_kind = '''', mp_order = 0, mp_unsubscribe = '''', mp_activityBootNonce = '''',
     mp_activitySequence = 0, mp_activityActive = False, mp_activityLocalStop = False, mp_positionSessionID = '''',
     mp_positionMemberID = '''', mp_positionStreamID = '''', mp_positionRevision = 0, mp_positionEpoch = 0,
     mp_positionGeneration = 0, mp_positionCapturedAt = 0, mp_stopChallenge = '''', mp_sourceState = '''',
     mp_sourceSequence = 0, mp_sourceCapturedAt = 0, mp_sourceGeneration = 0\<rparr>"

record redisPublication =
  rp_channel :: string
  rp_payload :: string
  rp_expiresAt :: instant
  rp_queuedAt :: instant

text \<open>A downlink message of the transport.\<close>

record message_in =
  mi_payload :: string
  mi_retained :: bool
  mi_qos :: nat

record peerReplayState =
  prs_streamID :: string
  prs_epoch :: int
  prs_sequence :: int
  prs_captured :: int
  prs_status :: string
  prs_closed :: bool

definition zero_replay :: peerReplayState where
  "zero_replay = \<lparr>prs_streamID = '''', prs_epoch = 0, prs_sequence = 0, prs_captured = 0, prs_status = '''', prs_closed = False\<rparr>"

datatype probePurposeV2 = ProbeReconcileV2 | ProbeApplyConfirmationV2 | ProbeOfferV2

record localProbeV2 =
  lp_challenge :: string
  lp_connection :: string
  lp_issuedAt :: instant
  lp_deadline :: instant
  lp_purpose :: probePurposeV2
  lp_operationID :: string
  lp_revision :: int
  lp_fence :: "int option"
  lp_ipcEpoch :: nat
  lp_consumed :: bool

record localStopAttemptV2 = LocalStopAttemptV2 +
  att_mode :: string
  att_fence :: "int option"
  att_deadline :: instant
  att_ipcEpoch :: nat
  att_consumed :: bool

record preparedQueryV2 =
  pq_operationID :: string
  pq_revision :: int
  pq_fence :: int
  pq_connection :: string
  pq_ipcEpoch :: nat
  pq_deadline :: instant
  pq_queryChallenge :: string

text \<open>
  The adapter.  \<open>a_random\<close> is what \<^verbatim>\<open>rand.Read\<close> will return, call by call; when it runs out the random
  source fails.  A client is its number, a channel the list of its elements.
\<close>

record Adapter =
  a_Enabled :: bool
  a_Identifier :: string
  a_protocolVersion :: nat
  a_redis :: bool
  a_ctx_done :: bool
  a_random :: "nat list option list"
  a_mqttWorker :: bool
  a_redisWorker :: bool
  a_ackWorker :: bool
  a_mqttWake :: "unit list"
  a_mqttPending :: "(string, mqttPublication) go_map"
  a_mqttOrder :: nat
  a_mqttClosing :: bool
  a_redisQueue :: "redisPublication list"
  a_ackQueue :: "message_in list"
  a_mqtt :: "nat option"
  a_connecting :: bool
  a_connectAttempt :: nat
  a_connection :: string
  a_lastHelloAt :: instant
  a_bootNonce :: string
  a_stopSequence :: int
  a_activity :: "Activity option"
  a_activityAt :: instant
  a_activityBootNonce :: string
  a_activitySequence :: int
  a_challenges :: "(string, instant) go_map"
  a_grant :: "Control option"
  a_grantAt :: instant
  a_grantTTL :: duration
  a_grantActive :: bool
  a_lastCleared :: "Control option"
  a_cadence :: duration
  a_positionSeq :: int
  a_positionStreamID :: string
  a_positionSessionID :: string
  a_positionEpoch :: int
  a_positionGeneration :: nat
  a_lastPositionAt :: instant
  a_gpsObservedAt :: instant
  a_blocked :: bool
  a_localStopPending :: bool
  a_settingsReady :: bool
  a_peerStreams :: "(string, peerReplayState) go_map"
  a_peerScope :: string
  a_estimator :: MotionEstimator
  a_activityV2 :: "Activity option"
  a_grantV2 :: "ControlV2 option"
  a_lastClearedV2 :: "ControlV2 option"
  a_lastAuthorityV2 :: "ControlV2 option"
  a_journalReady :: bool
  a_journalStateV2 :: "LocalStopV2 option"
  a_journalBlockedV2 :: bool
  a_journalIPCEpochV2 :: nat
  a_journalProbesV2 :: "(string, localProbeV2) go_map"
  a_localAttemptsV2 :: "(string, localStopAttemptV2) go_map"
  a_usedLocalChallenges :: "(string, string) go_map"
  a_pendingQueryV2 :: "preparedQueryV2 option"
  a_lastSourceStatusV2 :: "SourceStatusV2 option"
  a_sourceSequenceV2 :: int
  a_noFixClosedV2 :: bool
  a_sourceStatusRetryAt :: instant
  a_probeTimesV2 :: "instant list"
  a_offerPermitV2 :: "localProbeV2 option"
  a_fixAvailablePendingV2 :: bool
  a_recoveryFixAfterV2 :: instant
  a_sourceStatusGeneration :: nat

definition defaultCadence :: duration where "defaultCadence = 2 * Second"
definition leaseDuration :: duration where "leaseDuration = 10 * Second"
definition v2AttemptLifetime :: duration where "v2AttemptLifetime = 10 * Second"
definition redisEgressQueueSize :: nat where "redisEgressQueueSize = 8"

text \<open>\<open>a.mqtt != nil && a.mqtt.IsConnected()\<close>\<close>

definition link_up :: "env \<Rightarrow> Adapter \<Rightarrow> bool" where
  "link_up E a = (case a_mqtt a of None \<Rightarrow> False | Some c \<Rightarrow> e_up E c)"

definition elapsedSince :: "env \<Rightarrow> instant \<Rightarrow> duration" where
  "elapsedSince E t = time_Sub (e_now E) t"

definition draw_UUID :: "Adapter \<Rightarrow> string option \<times> Adapter" where
  "draw_UUID a = (case a_random a of [] \<Rightarrow> (None, a) | r # rs \<Rightarrow> (newUUID r, a\<lparr>a_random := rs\<rparr>))"

text \<open>The topics of a vehicle.\<close>

definition topic_up :: "Adapter \<Rightarrow> string" where
  "topic_up a = ''scooters/'' @ a_Identifier a @ ''/ride_group/up''"

definition topic_down :: "Adapter \<Rightarrow> string" where
  "topic_down a = ''scooters/'' @ a_Identifier a @ ''/ride_group/down''"

section \<open>Pending publications\<close>

definition startMQTTWorker :: "Adapter \<Rightarrow> Adapter" where
  "startMQTTWorker a = a\<lparr>a_mqttWorker := True\<rparr>"

definition wake_worker :: "unit list \<Rightarrow> unit list" where
  "wake_worker w = (case chan_try 1 () w of Some w' \<Rightarrow> w' | None \<Rightarrow> w)"

definition queueMQTTPublication :: "mqttPublication \<Rightarrow> Adapter \<Rightarrow> Adapter" where
  "queueMQTTPublication pub0 a0 =
     (let a = startMQTTWorker a0
      in if a_mqttClosing a then a
         else let pub = (if mp_unsubscribe pub0 \<noteq> '''' then pub0\<lparr>mp_kind := ''unsubscribe''\<rparr> else pub0);
                  found = map_of (a_mqttPending a) (mp_kind pub);
                  previous = (case found of None \<Rightarrow> zero_publication | Some p \<Rightarrow> p);
                  replaceClearedStop =
                    (mp_kind pub = ''activity'' \<and> \<not> mp_activityLocalStop pub \<and> mp_activityLocalStop previous);
                  a1 = (if found = None \<or> mp_priority pub \<ge> mp_priority previous \<or> replaceClearedStop
                             \<or> mp_unsubscribe pub \<noteq> ''''
                        then a\<lparr>a_mqttOrder := Suc (a_mqttOrder a),
                               a_mqttPending := gm_put (mp_kind pub) (pub\<lparr>mp_order := Suc (a_mqttOrder a)\<rparr>) (a_mqttPending a)\<rparr>
                        else a)
              in a1\<lparr>a_mqttWake := wake_worker (a_mqttWake a1)\<rparr>)"

definition dropPendingPosition :: "Adapter \<Rightarrow> Adapter" where
  "dropPendingPosition a = a\<lparr>a_mqttPending := gm_del ''v2_position'' (gm_del ''position'' (a_mqttPending a))\<rparr>"

definition dropPendingV2Source :: "Adapter \<Rightarrow> Adapter" where
  "dropPendingV2Source a = a\<lparr>a_mqttPending := gm_del ''v2_source_status'' (a_mqttPending a)\<rparr>"

section \<open>Authorisation\<close>

text \<open>The lease of a version 2 grant is current.\<close>

definition grantCurrentV2Locked :: "env \<Rightarrow> instant \<Rightarrow> Adapter \<Rightarrow> bool" where
  "grantCurrentV2Locked E now a =
     (a_protocolVersion a = 2 \<and> a_settingsReady a \<and> a_journalReady a \<and> \<not> a_blocked a \<and> \<not> a_journalBlockedV2 a
      \<and> (case a_journalStateV2 a of None \<Rightarrow> False | Some j \<Rightarrow> ls_Phase j = ''idle'')
      \<and> link_up E a \<and> a_grantV2 a \<noteq> None \<and> a_grantActive a \<and> \<not> time_IsZero (a_grantAt a) \<and> \<not> now < a_grantAt a
      \<and> time_Sub now (a_grantAt a) < a_grantTTL a
      \<and> (case a_activityV2 a of None \<Rightarrow> False | Some act \<Rightarrow> act_Active act)
      \<and> time_Sub now (a_activityAt a) \<ge> 0 \<and> time_Sub now (a_activityAt a) < leaseDuration)"

text \<open>
  A publication carries the session, member, stream, revision and epoch of the grant, which are also those
  of the activity; all pointers on the way are set.
\<close>

definition position_bound :: "mqttPublication \<Rightarrow> 'c Control_scheme \<Rightarrow> 'm Activity_scheme \<Rightarrow> bool" where
  "position_bound pub g act =
     (ctl_SessionID g = Some (mp_positionSessionID pub) \<and> ctl_MemberID g = Some (mp_positionMemberID pub)
      \<and> ctl_StreamID g = Some (mp_positionStreamID pub) \<and> ctl_Revision g = mp_positionRevision pub
      \<and> ctl_TransportEpoch g = mp_positionEpoch pub
      \<and> act_SessionID act = ctl_SessionID g \<and> act_MemberID act = ctl_MemberID g)"

definition fresh :: "instant \<Rightarrow> instant \<Rightarrow> bool" where
  "fresh now t = (time_Sub now t \<ge> 0 \<and> time_Sub now t \<le> 5 * Second)"

definition within_lease :: "instant \<Rightarrow> instant \<Rightarrow> bool" where
  "within_lease now t = (time_Sub now t \<ge> 0 \<and> time_Sub now t < leaseDuration)"

definition idle_journal :: "Adapter \<Rightarrow> bool" where
  "idle_journal a = (case a_journalStateV2 a of None \<Rightarrow> False | Some j \<Rightarrow> ls_Phase j = ''idle'')"

definition source_status_authorized :: "instant \<Rightarrow> mqttPublication \<Rightarrow> ControlV2 \<Rightarrow> Activity \<Rightarrow> SourceStatusV2 \<Rightarrow> Adapter \<Rightarrow> bool" where
  "source_status_authorized now pub g act status a =
     (ctl_MemberID g \<noteq> None \<and> ctl_StreamID g \<noteq> None \<and> act_SessionID act \<noteq> None \<and> act_MemberID act \<noteq> None
      \<and> mp_sourceGeneration pub = a_sourceStatusGeneration a \<and> mp_sourceSequence pub = src_Sequence status
      \<and> mp_sourceState pub = src_State status \<and> ctl_SessionID g = Some (src_SessionID status)
      \<and> ctl_MemberID g = Some (src_MemberID status) \<and> ctl_StreamID g = Some (src_StreamID status)
      \<and> src_Revision status = ctl_Revision g \<and> src_TransportEpoch status = ctl_TransportEpoch g
      \<and> src_ConnectionNonce status = a_connection a
      \<and> act_SessionID act = Some (src_SessionID status) \<and> act_MemberID act = Some (src_MemberID status)
      \<and> (if src_State status = ''no_fix'' then a_noFixClosedV2 a
         else src_CapturedAtMS status \<noteq> None \<and> fresh now (mp_sourceCapturedAt pub)))"

definition stop_authorized :: "instant \<Rightarrow> mqttPublication \<Rightarrow> Adapter \<Rightarrow> bool" where
  "stop_authorized now pub a =
     (case (map_of (a_localAttemptsV2 a) (mp_stopChallenge pub), a_journalStateV2 a) of
        (Some attempt, Some j) \<Rightarrow>
          \<not> att_consumed attempt \<and> lsa_ConnectionNonce attempt = a_connection a \<and> att_ipcEpoch attempt = a_journalIPCEpochV2 a
          \<and> \<not> now < lsa_StartedAt attempt \<and> \<not> now > att_deadline attempt
          \<and> ls_OperationID j = Some (lsa_OperationID attempt) \<and> ls_JournalRevision j = lsa_JournalRevision attempt
          \<and> (if att_mode attempt = ''apply'' then
               ls_Phase j = ''prepared'' \<and> ls_ExpectedGeneration j = att_fence attempt \<and> ls_CommittedGeneration j = None
             else (ls_Phase j = ''prepared'' \<or> ls_Phase j = ''uncertain'') \<and> ls_ExpectedGeneration j = att_fence attempt)
      | _ \<Rightarrow> False)"

definition mqttPublicationAuthorizedLocked :: "env \<Rightarrow> mqttPublication \<Rightarrow> Adapter \<Rightarrow> bool" where
  "mqttPublicationAuthorizedLocked E pub a =
     (let now = e_now E; kind = mp_kind pub
      in if kind = ''v2_hello'' then a_settingsReady a \<and> a_protocolVersion a = 2 \<and> link_up E a
         else if kind = ''v2_activity'' then
           a_settingsReady a \<and> a_journalReady a \<and> \<not> a_blocked a \<and> \<not> a_journalBlockedV2 a \<and> idle_journal a \<and> link_up E a
           \<and> (case a_activityV2 a of
                None \<Rightarrow> False
              | Some act \<Rightarrow> act_BootNonce act = mp_activityBootNonce pub \<and> act_Sequence act = mp_activitySequence pub
                           \<and> act_Active act = mp_activityActive pub)
           \<and> within_lease now (a_activityAt a)
         else if kind = ''v2_position'' then
           grantCurrentV2Locked E now a \<and> \<not> a_noFixClosedV2 a
           \<and> (case (a_grantV2 a, a_activityV2 a) of
                (Some g, Some act) \<Rightarrow>
                  mp_positionGeneration pub = a_positionGeneration a \<and> position_bound pub g act
                  \<and> fresh now (mp_positionCapturedAt pub)
              | _ \<Rightarrow> False)
         else if kind = ''v2_source_status'' then
           grantCurrentV2Locked E now a
           \<and> (case (a_grantV2 a, a_activityV2 a, a_lastSourceStatusV2 a) of
                (Some g, Some act, Some status) \<Rightarrow> source_status_authorized now pub g act status a
              | _ \<Rightarrow> False)
         else if kind = ''v2_stop'' then stop_authorized now pub a
         else if kind = ''position'' then
           a_settingsReady a \<and> \<not> a_blocked a \<and> \<not> a_localStopPending a \<and> a_mqtt a \<noteq> None
           \<and> (case (a_grant a, a_activity a) of
                (Some g, Some act) \<Rightarrow>
                  a_grantActive a \<and> \<not> time_IsZero (a_grantAt a) \<and> time_Sub now (a_grantAt a) \<ge> 0
                  \<and> time_Sub now (a_grantAt a) < a_grantTTL a \<and> act_Active act \<and> \<not> act_LocalStop act
                  \<and> within_lease now (a_activityAt a)
                  \<and> mp_positionGeneration pub = a_positionGeneration a \<and> position_bound pub g act
                  \<and> fresh now (mp_positionCapturedAt pub)
              | _ \<Rightarrow> False)
         else if kind = ''activity'' then
           (if mp_activityLocalStop pub then a_localStopPending a
            else if mp_activityActive pub then
              a_settingsReady a \<and> \<not> a_blocked a \<and> \<not> a_localStopPending a
              \<and> (case a_activity a of
                   None \<Rightarrow> False
                 | Some act \<Rightarrow> act_Active act \<and> \<not> act_LocalStop act \<and> a_activityBootNonce a = mp_activityBootNonce pub
                              \<and> a_activitySequence a = mp_activitySequence pub \<and> within_lease now (a_activityAt a))
            else if a_blocked a \<or> a_localStopPending a then False
            else (case a_activity a of
                    None \<Rightarrow> True
                  | Some act \<Rightarrow> \<not> act_Active act \<and> \<not> act_LocalStop act \<and> a_activityBootNonce a = mp_activityBootNonce pub
                               \<and> a_activitySequence a = mp_activitySequence pub))
         else True)"

section \<open>The worker towards the cloud\<close>

text \<open>The loop of \<open>nextMQTTPublicationLocked\<close> over the map: the entry with the smallest order so far.\<close>

fun least_order :: "(string \<times> mqttPublication) option \<Rightarrow> (string, mqttPublication) go_map \<Rightarrow> (string \<times> mqttPublication) option" where
  "least_order best [] = best"
| "least_order best (kp # rest) =
     least_order (case best of
                    None \<Rightarrow> Some kp
                  | Some next \<Rightarrow> if mp_order (snd kp) < mp_order (snd next) then Some kp else best) rest"

definition nextMQTTPublicationLocked :: "Adapter \<Rightarrow> mqttPublication option \<times> Adapter" where
  "nextMQTTPublicationLocked a =
     (case least_order None (a_mqttPending a) of
        None \<Rightarrow> (None, a)
      | Some (kind, p) \<Rightarrow> (Some p, a\<lparr>a_mqttPending := gm_del kind (a_mqttPending a)\<rparr>))"

text \<open>
  One turn of the worker's inner loop, split where it gives up the locks: \<open>worker_take\<close> takes the next
  publication, \<open>worker_admit\<close> decides what to do with it.  \<open>PublishLive\<close> is handed the payload, the expiry and
  the closure \<open>still_authorized\<close>, which the transport calls again when it writes.
\<close>

datatype worker_action =
    ReturnWorker
  | AwaitWake
  | Unsubscribed nat string
  | SkipPublication
  | PublishedLive nat string instant mqttPublication

definition still_authorized :: "mqttPublication \<Rightarrow> env \<Rightarrow> Adapter \<Rightarrow> bool" where
  "still_authorized pub E a =
     (a_mqtt a = mp_client pub \<and> a_connection a = mp_connection pub \<and> mqttPublicationAuthorizedLocked E pub a)"

definition worker_take :: "Adapter \<Rightarrow> (worker_action + mqttPublication) \<times> Adapter" where
  "worker_take a =
     (case nextMQTTPublicationLocked a of
        (None, a1) \<Rightarrow> (Inl (if a_mqttClosing a then ReturnWorker else AwaitWake), a1)
      | (Some p, a1) \<Rightarrow> (Inr p, a1))"

definition worker_admit :: "env \<Rightarrow> mqttPublication \<Rightarrow> Adapter \<Rightarrow> worker_action" where
  "worker_admit E pub a =
     (case mp_client pub of
        None \<Rightarrow> SkipPublication
      | Some c \<Rightarrow>
          if mp_unsubscribe pub \<noteq> '''' then (if e_up E c then Unsubscribed c (mp_unsubscribe pub) else SkipPublication)
          else if (\<not> time_IsZero (mp_expiresAt pub) \<and> \<not> e_wall E < mp_expiresAt pub) \<or> \<not> e_up E c then SkipPublication
          else if \<not> still_authorized pub E a then SkipPublication
          else PublishedLive c (mp_payload pub) (mp_expiresAt pub) pub)"

definition stopMQTTWorker :: "nat option \<Rightarrow> string \<Rightarrow> Adapter \<Rightarrow> Adapter" where
  "stopMQTTWorker client topic a0 =
     (let a = (startMQTTWorker a0)\<lparr>a_mqttClosing := True, a_mqttPending := []\<rparr>;
          a1 = (if client \<noteq> None \<and> topic \<noteq> ''''
                then a\<lparr>a_mqttOrder := Suc (a_mqttOrder a),
                       a_mqttPending := [(''unsubscribe'', zero_publication\<lparr>mp_client := client, mp_unsubscribe := topic,
                          mp_priority := 100, mp_kind := ''unsubscribe'', mp_order := Suc (a_mqttOrder a)\<rparr>)]\<rparr>
                else a)
      in a1\<lparr>a_mqttWake := wake_worker (a_mqttWake a1)\<rparr>)"

section \<open>The queues towards Redis and of acknowledgements\<close>

definition startRedisWorker :: "Adapter \<Rightarrow> Adapter" where
  "startRedisWorker a = a\<lparr>a_redisWorker := True\<rparr>"

text \<open>A full queue loses its oldest entry.\<close>

definition queueRedisPublication :: "env \<Rightarrow> string \<Rightarrow> string \<Rightarrow> duration \<Rightarrow> Adapter \<Rightarrow> Adapter" where
  "queueRedisPublication E channel payload maxAge a0 =
     (let a = startRedisWorker a0;
          pub = \<lparr>rp_channel = channel, rp_payload = payload, rp_expiresAt = (if maxAge > 0 then e_wall E + maxAge else 0),
                 rp_queuedAt = e_now E\<rparr>
      in case chan_try redisEgressQueueSize pub (a_redisQueue a) of
           Some q \<Rightarrow> a\<lparr>a_redisQueue := q\<rparr>
         | None \<Rightarrow>
             (case chan_try redisEgressQueueSize pub (tl (a_redisQueue a)) of
                Some q \<Rightarrow> a\<lparr>a_redisQueue := q\<rparr>
              | None \<Rightarrow> a\<lparr>a_redisQueue := tl (a_redisQueue a)\<rparr>))"

definition startAckWorker :: "Adapter \<Rightarrow> Adapter" where
  "startAckWorker a = a\<lparr>a_ackWorker := True\<rparr>"

definition queueAck :: "message_in option \<Rightarrow> Adapter \<Rightarrow> Adapter" where
  "queueAck message a0 =
     (case message of
        None \<Rightarrow> a0
      | Some m \<Rightarrow>
          if mi_qos m = 0 then a0
          else let a = startAckWorker a0
               in case chan_try redisEgressQueueSize m (a_ackQueue a) of
                    Some q \<Rightarrow> a\<lparr>a_ackQueue := q\<rparr>
                  | None \<Rightarrow> a)"

definition startWorkers :: "Adapter \<Rightarrow> Adapter" where
  "startWorkers a = startAckWorker (startRedisWorker (startMQTTWorker a))"

end
