(* ===== verification/Ride_Lease.thy ===== *)
theory Ride_Lease
  imports Ride_Egress
begin

text \<open>
  What both versions of the ride-group adapter share, from \<^verbatim>\<open>ridegroup/adapter.go\<close>: withdrawing a grant,
  resetting the state of a connection, the outstanding challenges and the replay protection of the peers.
  An operation that dereferences a pointer it did not check returns \<open>None\<close> when the pointer is nil: the
  program would panic.

  Dropping the oldest challenges ends, and leaves fewer than ten.  That withdrawing a grant advances the
  generation and that no position of an earlier generation stays pending is shown in \<open>Ride_Queues\<close> and
  \<open>Ride_Properties\<close>.
\<close>

definition ptr_eq :: "'a option \<Rightarrow> 'a option \<Rightarrow> bool option" where
  "ptr_eq p q = do { x \<leftarrow> p; y \<leftarrow> q; Some (x = y) }"

definition ptr_neq :: "'a option \<Rightarrow> 'a option \<Rightarrow> bool option" where
  "ptr_neq p q = map_option Not (ptr_eq p q)"

text \<open>\<open>c1 || c2 || \<dots>\<close>, stopping at the first condition that holds.\<close>

fun any_of :: "bool option list \<Rightarrow> bool option" where
  "any_of [] = Some False"
| "any_of (c # cs) = (case c of None \<Rightarrow> None | Some b \<Rightarrow> if b then Some True else any_of cs)"

section \<open>Withdrawing a grant\<close>

definition clearGrantV2Locked :: "Adapter \<Rightarrow> Adapter" where
  "clearGrantV2Locked a =
     (dropPendingV2Source (dropPendingPosition (a\<lparr>a_positionGeneration := Suc (a_positionGeneration a)\<rparr>)))
       \<lparr>a_grantV2 := None, a_grantActive := False, a_grantAt := 0, a_grantTTL := 0, a_lastPositionAt := 0, a_estimator := None\<rparr>"

definition invalidatePositionPublicationsLocked :: "Adapter \<Rightarrow> Adapter" where
  "invalidatePositionPublicationsLocked a =
     dropPendingPosition (a\<lparr>a_positionGeneration := Suc (a_positionGeneration a)\<rparr>)"

definition clearGrantLocked :: "Adapter \<Rightarrow> Adapter" where
  "clearGrantLocked a =
     clearGrantV2Locked
       ((invalidatePositionPublicationsLocked a)
          \<lparr>a_grant := None, a_grantAt := 0, a_grantTTL := 0, a_grantActive := False, a_lastPositionAt := 0, a_estimator := None\<rparr>)"

definition invalidateLocalAttemptsV2Locked :: "Adapter \<Rightarrow> Adapter" where
  "invalidateLocalAttemptsV2Locked a =
     a\<lparr>a_journalProbesV2 := [], a_localAttemptsV2 := [], a_usedLocalChallenges := [], a_pendingQueryV2 := None\<rparr>"

definition resetConnectionLocked :: "nat option \<Rightarrow> string \<Rightarrow> Adapter \<Rightarrow> Adapter" where
  "resetConnectionLocked client conn a0 =
     (let a1 = a0\<lparr>a_mqtt := client, a_connection := conn, a_lastHelloAt := 0, a_positionSeq := 0, a_positionStreamID := '''',
                  a_positionSessionID := '''', a_positionEpoch := 0, a_activity := None, a_activityAt := 0, a_challenges := []\<rparr>;
          a2 = invalidateLocalAttemptsV2Locked a1
      in clearGrantLocked
           (a2\<lparr>a_offerPermitV2 := None, a_journalReady := False, a_journalIPCEpochV2 := Suc (a_journalIPCEpochV2 a2),
               a_activityV2 := None, a_grantV2 := None, a_lastClearedV2 := None, a_lastAuthorityV2 := None,
               a_journalStateV2 := None, a_journalBlockedV2 := False, a_pendingQueryV2 := None\<rparr>))"

section \<open>Challenges\<close>

text \<open>The scan for the oldest challenge; the empty string stands for none.\<close>

fun oldest_challenge :: "string \<times> instant \<Rightarrow> (string, instant) go_map \<Rightarrow> string \<times> instant" where
  "oldest_challenge best [] = best"
| "oldest_challenge (oldest, oldestAt) ((challenge, sent) # rest) =
     oldest_challenge (if oldest = '''' \<or> sent < oldestAt then (challenge, sent) else (oldest, oldestAt)) rest"

lemma oldest_challenge_in:
  "fst (oldest_challenge best m) \<in> insert (fst best) (fst ` set m) \<and> (m \<noteq> [] \<and> fst best = '''' \<longrightarrow> fst (oldest_challenge best m) \<in> fst ` set m)"
proof (induction best m rule: oldest_challenge.induct)
  case (2 oldest oldestAt challenge sent rest)
  then show ?case by (cases "oldest = '''' \<or> sent < oldestAt") auto
qed simp

lemma gm_del_length_less: "k \<in> fst ` set m \<Longrightarrow> length (gm_del k m) < length m"
  by (induction m) (auto simp: le_imp_less_Suc length_delete_le)

function drop_oldest :: "nat \<Rightarrow> (string, instant) go_map \<Rightarrow> (string, instant) go_map" where
  "drop_oldest rot m =
     (if length m \<ge> 10 then drop_oldest rot (gm_del (fst (oldest_challenge ('''', 0) (rotate rot m))) m) else m)"
  by pat_completeness auto

termination
proof (relation "measure (\<lambda>(rot, m). length m)")
  fix rot :: nat and m :: "(string, instant) go_map"
  assume "length m \<ge> 10"
  then have "fst (oldest_challenge ('''', 0) (rotate rot m)) \<in> fst ` set m"
    using oldest_challenge_in [of "('''', 0)" "rotate rot m"] by (cases m) auto
  then show "((rot, gm_del (fst (oldest_challenge ('''', 0) (rotate rot m))) m), (rot, m)) \<in> measure (\<lambda>(rot, m). length m)"
    by (simp add: gm_del_length_less)
qed simp

declare drop_oldest.simps [simp del]

definition pruneChallengesLocked :: "env \<Rightarrow> instant \<Rightarrow> Adapter \<Rightarrow> Adapter" where
  "pruneChallengesLocked E now a =
     a\<lparr>a_challenges := drop_oldest (e_rot E) (filter (\<lambda>(challenge, sent). \<not> time_Sub now sent \<ge> leaseDuration) (a_challenges a))\<rparr>"

section \<open>Peers\<close>

text \<open>The session of the control is dereferenced.\<close>

definition setPeerReplayScopeLocked :: "string option \<Rightarrow> PeerDescriptor list \<Rightarrow> Adapter \<Rightarrow> Adapter option" where
  "setPeerReplayScopeLocked session peers a =
     do {
       scope \<leftarrow> session;
       let a1 = (if a_peerScope a \<noteq> scope then a\<lparr>a_peerStreams := [], a_peerScope := scope\<rparr> else a);
       Some (a1\<lparr>a_peerStreams := filter (\<lambda>(peerID, s). peerID \<in> set (map pd_PeerID peers)) (a_peerStreams a1)\<rparr>)
     }"

definition peerInGrantLocked :: "string \<Rightarrow> Adapter \<Rightarrow> bool" where
  "peerInGrantLocked peerID a =
     (let peers = (case a_grantV2 a of
                     Some g \<Rightarrow> if a_protocolVersion a = 2 then peers_of g
                               else (case a_grant a of None \<Rightarrow> [] | Some g1 \<Rightarrow> peers_of g1)
                   | None \<Rightarrow> (case a_grant a of None \<Rightarrow> [] | Some g1 \<Rightarrow> peers_of g1))
      in list_ex (\<lambda>p. pd_PeerID p = peerID) peers)"

end
