(* ===== verification/Ride_V1.thy ===== *)
theory Ride_V1
  imports Ride_Lease
begin

text \<open>
  Version 1 of the ride-group adapter, \<^verbatim>\<open>ridegroup/adapter.go\<close>: activities of the vehicle and the
  challenges they carry, grants of the cloud, positions of the vehicle and of its peers, and the local stop.

  An operation returns \<open>None\<close> where the program would panic on a nil pointer.
\<close>

text \<open>\<open>c1 && c2 && \<dots>\<close>, stopping at the first condition that fails.\<close>

fun all_of :: "bool option list \<Rightarrow> bool option" where
  "all_of [] = Some True"
| "all_of (c # cs) = (case c of None \<Rightarrow> None | Some b \<Rightarrow> if b then all_of cs else Some False)"

section \<open>Publications\<close>

definition publishHelloLocked :: "env \<Rightarrow> Adapter \<Rightarrow> Adapter" where
  "publishHelloLocked E a =
     (if \<not> link_up E a \<or> a_connection a = '''' then a
      else let encoded = print_json (JObj [(''v'', enc_int 1), (''type'', JStr ''ride_group_hello''),
                 (''connection_nonce'', JStr (a_connection a)), (''capabilities'', JArr [JStr ''ride_group_v1''])])
           in (queueMQTTPublication (zero_publication\<lparr>mp_client := a_mqtt a, mp_connection := a_connection a,
                 mp_topic := topic_up a, mp_payload := encoded, mp_priority := 3, mp_kind := ''hello''\<rparr>) a)
                \<lparr>a_lastHelloAt := e_now E\<rparr>)"

definition publishActivityQoSLocked :: "env \<Rightarrow> Activity \<Rightarrow> nat \<Rightarrow> Adapter \<Rightarrow> Adapter" where
  "publishActivityQoSLocked E act qos a =
     (if \<not> link_up E a \<or> a_connection a = '''' then a
      else let encoded = print_json (enc_WireActivity
                 \<lparr>act_Version = 1, act_Type = ''ride_group_activity'', act_BootNonce = act_BootNonce act,
                  act_Sequence = act_Sequence act, act_Active = act_Active act, act_LocalStop = act_LocalStop act,
                  act_SessionID = act_SessionID act, act_MemberID = act_MemberID act, act_Challenge = act_Challenge act,
                  wact_ConnectionNonce = a_connection a\<rparr>)
           in if length encoded > MaxEnvelopeBytes then a
              else queueMQTTPublication (zero_publication\<lparr>mp_client := a_mqtt a, mp_connection := a_connection a,
                     mp_topic := topic_up a, mp_qos := qos, mp_payload := encoded, mp_expiresAt := e_wall E + leaseDuration,
                     mp_priority := (if act_LocalStop act then 4 else 2), mp_kind := ''activity'',
                     mp_activityBootNonce := act_BootNonce act, mp_activitySequence := act_Sequence act,
                     mp_activityActive := act_Active act, mp_activityLocalStop := act_LocalStop act\<rparr>) a)"

definition publishActivityLocked :: "env \<Rightarrow> Activity \<Rightarrow> Adapter \<Rightarrow> Adapter" where
  "publishActivityLocked E act = publishActivityQoSLocked E act 0"

text \<open>The activity the adapter makes up itself, from its own nonce and counter.\<close>

definition own_activity :: "bool \<Rightarrow> string \<Rightarrow> Adapter \<Rightarrow> Activity" where
  "own_activity stop challenge a =
     \<lparr>act_Version = 1, act_Type = ''ride_group_activity'', act_BootNonce = a_bootNonce a, act_Sequence = a_stopSequence a,
      act_Active = False, act_LocalStop = stop, act_SessionID = None, act_MemberID = None, act_Challenge = challenge\<rparr>"

definition publishInactiveLocked :: "env \<Rightarrow> Adapter \<Rightarrow> Adapter" where
  "publishInactiveLocked E a =
     (if \<not> link_up E a \<or> a_connection a = '''' then a
      else case draw_UUID a of
             (None, a1) \<Rightarrow> a1
           | (Some challenge, a1) \<Rightarrow>
               (let a2 = a1\<lparr>a_stopSequence := a_stopSequence a1 + 1\<rparr>
                in publishActivityLocked E (own_activity False challenge a2) a2))"

definition publishLocalStopLocked :: "env \<Rightarrow> Adapter \<Rightarrow> Adapter" where
  "publishLocalStopLocked E a =
     (if \<not> link_up E a \<or> a_connection a = '''' then a
      else case draw_UUID a of
             (None, a1) \<Rightarrow> a1
           | (Some challenge, a1) \<Rightarrow>
               (let a2 = a1\<lparr>a_stopSequence := a_stopSequence a1 + 1, a_localStopPending := True\<rparr>
                in publishActivityQoSLocked E (own_activity True challenge a2) 1 a2))"

section \<open>Activity\<close>

text \<open>The lease of a version 1 grant is current.\<close>

definition grantCurrentLocked :: "env \<Rightarrow> instant \<Rightarrow> Adapter \<Rightarrow> bool" where
  "grantCurrentLocked E now a =
     (a_settingsReady a \<and> link_up E a \<and> a_grant a \<noteq> None \<and> a_grantActive a \<and> \<not> time_IsZero (a_grantAt a)
      \<and> time_Sub now (a_grantAt a) \<ge> 0 \<and> time_Sub now (a_grantAt a) < a_grantTTL a
      \<and> (case a_activity a of None \<Rightarrow> False | Some act \<Rightarrow> act_Active act \<and> \<not> act_LocalStop act)
      \<and> time_Sub now (a_activityAt a) \<ge> 0 \<and> time_Sub now (a_activityAt a) < leaseDuration \<and> \<not> a_blocked a)"

text \<open>An inactive activity or a local stop ends everything that was granted.\<close>

definition end_activity :: "env \<Rightarrow> Activity \<Rightarrow> Adapter \<Rightarrow> Adapter" where
  "end_activity E act a =
     (let a1 = clearGrantLocked (a\<lparr>a_activity := Some act, a_activityAt := e_now E, a_activityBootNonce := act_BootNonce act,
                 a_activitySequence := act_Sequence act, a_challenges := []\<rparr>);
          a2 = (if act_LocalStop act then a1\<lparr>a_localStopPending := True\<rparr> else a1)
      in if link_up E a2 then publishActivityQoSLocked E act (if act_LocalStop act then 1 else 0) a2 else a2)"

text \<open>An active activity is taken over and its challenge sent, unless it contradicts the grant.\<close>

definition other_session :: "Activity \<Rightarrow> Adapter \<Rightarrow> bool option" where
  "other_session act a =
     (case a_grant a of
        None \<Rightarrow> Some False
      | Some g \<Rightarrow>
          if ctl_SessionID g = None then Some False
          else if act_SessionID act = None then Some True
          else any_of [Some (act_SessionID act \<noteq> ctl_SessionID g), ptr_neq (act_MemberID act) (ctl_MemberID g)])"

definition take_activity :: "env \<Rightarrow> Activity \<Rightarrow> Adapter \<Rightarrow> Adapter option" where
  "take_activity E act a =
     do {
       let now = e_now E;
       let a1 = a\<lparr>a_activity := Some act, a_activityBootNonce := act_BootNonce act, a_activitySequence := act_Sequence act\<rparr>;
       same \<leftarrow> (case a_grant a1 of
                   None \<Rightarrow> Some False
                 | Some g \<Rightarrow> all_of [Some (ctl_SessionID g \<noteq> None), Some (act_SessionID act \<noteq> None),
                                    Some (act_SessionID act = ctl_SessionID g), ptr_eq (act_MemberID act) (ctl_MemberID g)]);
       let a2 = (if same then a1\<lparr>a_grantActive := True\<rparr> else a1)\<lparr>a_activityAt := now\<rparr>;
       let a3 = (if (a_grant a2 = None \<or> \<not> grantCurrentLocked E now a2)
                    \<and> (time_IsZero (a_lastHelloAt a2) \<or> time_Sub now (a_lastHelloAt a2) \<ge> 30 * Second)
                 then publishHelloLocked E a2 else a2);
       let a4 = pruneChallengesLocked E now (a3\<lparr>a_challenges := gm_put (act_Challenge act) now (a_challenges a3)\<rparr>);
       Some (publishActivityLocked E act a4)
     }"

definition handleActivity :: "golib \<Rightarrow> env \<Rightarrow> string \<Rightarrow> Adapter \<Rightarrow> Adapter option" where
  "handleActivity L E payload a =
     (case ParseActivity L payload of
        Inl _ \<Rightarrow> Some a
      | Inr act \<Rightarrow>
          if \<not> a_settingsReady a then Some a
          else if act_BootNonce act = a_activityBootNonce a \<and> act_Sequence act \<le> a_activitySequence a then Some a
          else if a_blocked a \<or> a_localStopPending a then
            Some (if act_LocalStop act \<and> a_blocked a
                  then publishLocalStopLocked E (a\<lparr>a_activityBootNonce := act_BootNonce act, a_activitySequence := act_Sequence act\<rparr>)
                  else a)
          else if gm_has (a_challenges a) (act_Challenge act) then Some a
          else if \<not> act_Active act \<or> act_LocalStop act then Some (end_activity E act a)
          else if \<not> link_up E a then Some a
          else if \<not> time_IsZero (a_activityAt a) \<and> elapsedSince E (a_activityAt a) < Second then Some a
          else if (act_SessionID act = None) \<noteq> (act_MemberID act = None) then Some a
          else do {
            other \<leftarrow> other_session act a;
            if other then Some a else take_activity E act a
          })"

section \<open>Control\<close>

text \<open>Which clears are ignored when there is a grant, and which when there is none.\<close>

definition clear_ignored :: "Control \<Rightarrow> Adapter \<Rightarrow> bool option" where
  "clear_ignored control a =
     (case a_grant a of
        Some g \<Rightarrow>
          any_of [Some (ctl_SessionID g = None \<or> ctl_MemberID g = None \<or> ctl_StreamID g = None \<or> ctl_SessionID control = None
                        \<or> ctl_MemberID control = None \<or> ctl_StreamID control = None),
                  ptr_neq (ctl_SessionID control) (ctl_SessionID g), ptr_neq (ctl_MemberID control) (ctl_MemberID g),
                  Some (ctl_TransportEpoch control < ctl_TransportEpoch g \<or> ctl_Revision control < ctl_Revision g
                        \<or> (ctl_TransportEpoch control = ctl_TransportEpoch g \<and> ctl_Revision control = ctl_Revision g
                           \<and> ctl_StreamID control \<noteq> ctl_StreamID g))]
      | None \<Rightarrow>
          if a_localStopPending a then Some True
          else (case a_lastCleared a of
                  None \<Rightarrow> Some True
                | Some c \<Rightarrow>
                    any_of [Some (ctl_SessionID control = None \<or> ctl_MemberID control = None \<or> ctl_StreamID control = None),
                            ptr_neq (ctl_SessionID control) (ctl_SessionID c), ptr_neq (ctl_MemberID control) (ctl_MemberID c),
                            ptr_neq (ctl_StreamID control) (ctl_StreamID c), Some (ctl_Revision control \<noteq> ctl_Revision c),
                            Some (ctl_TransportEpoch control \<noteq> ctl_TransportEpoch c)]))"

text \<open>A grant that answers a challenge is refused when it is not newer than what was cleared or is granted.\<close>

definition grant_refused :: "Control \<Rightarrow> Adapter \<Rightarrow> bool option" where
  "grant_refused control a =
     any_of [
       (case a_lastCleared a of
          None \<Rightarrow> Some False
        | Some c \<Rightarrow>
            all_of [Some (ctl_SessionID control \<noteq> None), Some (ctl_MemberID control \<noteq> None),
                    ptr_eq (ctl_SessionID control) (ctl_SessionID c), ptr_eq (ctl_MemberID control) (ctl_MemberID c),
                    Some (ctl_Revision control < ctl_Revision c \<or> ctl_TransportEpoch control < ctl_TransportEpoch c
                          \<or> (ctl_Revision control = ctl_Revision c \<and> ctl_TransportEpoch control = ctl_TransportEpoch c))]),
       (case a_grant a of
          None \<Rightarrow> Some False
        | Some g \<Rightarrow>
            any_of [Some (ctl_SessionID g = None \<or> ctl_MemberID g = None \<or> ctl_StreamID g = None),
                    ptr_neq (ctl_SessionID control) (ctl_SessionID g), ptr_neq (ctl_MemberID control) (ctl_MemberID g),
                    Some (ctl_TransportEpoch control < ctl_TransportEpoch g \<or> ctl_Revision control < ctl_Revision g),
                    if ctl_TransportEpoch control = ctl_TransportEpoch g then ptr_neq (ctl_StreamID control) (ctl_StreamID g)
                    else Some False]),
       (case a_activity a of
          None \<Rightarrow> None
        | Some act \<Rightarrow>
            if act_SessionID act = None then Some False
            else any_of [ptr_neq (act_SessionID act) (ctl_SessionID control), ptr_neq (act_MemberID act) (ctl_MemberID control)])]"

text \<open>
  The lease of \<open>control\<close> begins with \<open>remaining\<close> left of it.  The sequence of positions restarts with the
  stream, and a position that was queued for another grant is withdrawn.
\<close>

definition install_grant :: "env \<Rightarrow> Control \<Rightarrow> duration \<Rightarrow> Adapter \<Rightarrow> Adapter option" where
  "install_grant E control remaining a =
     do {
       stream \<leftarrow> ctl_StreamID control;
       session \<leftarrow> ctl_SessionID control;
       let a1 = (if a_positionStreamID a \<noteq> stream \<or> a_positionSessionID a \<noteq> session \<or> a_positionEpoch a \<noteq> ctl_TransportEpoch control
                 then a\<lparr>a_positionSeq := 0, a_positionStreamID := stream, a_positionSessionID := session,
                        a_positionEpoch := ctl_TransportEpoch control\<rparr>
                 else a);
       changed \<leftarrow> (case a_grant a1 of
                      None \<Rightarrow> Some True
                    | Some g \<Rightarrow> any_of [ptr_neq (ctl_SessionID g) (ctl_SessionID control), ptr_neq (ctl_MemberID g) (ctl_MemberID control),
                                       ptr_neq (ctl_StreamID g) (ctl_StreamID control),
                                       Some (ctl_Revision g \<noteq> ctl_Revision control
                                             \<or> ctl_TransportEpoch g \<noteq> ctl_TransportEpoch control)]);
       let a2 = (if changed then invalidatePositionPublicationsLocked a1 else a1);
       a3 \<leftarrow> setPeerReplayScopeLocked (ctl_SessionID control) (peers_of control) a2;
       act \<leftarrow> a_activity a3;
       active \<leftarrow> all_of [Some (act_SessionID act \<noteq> None), Some (act_MemberID act \<noteq> None),
                        ptr_eq (act_SessionID act) (ctl_SessionID control), ptr_eq (act_MemberID act) (ctl_MemberID control)];
       cadence \<leftarrow> ctl_CadenceMS control;
       Some (a3\<lparr>a_grant := Some control, a_lastCleared := None, a_grantAt := e_now E, a_grantTTL := remaining,
                a_grantActive := active, a_cadence := cadence * Millisecond\<rparr>)
     }"

definition handleControl :: "golib \<Rightarrow> env \<Rightarrow> string \<Rightarrow> Adapter \<Rightarrow> Adapter option" where
  "handleControl L E payload a =
     (case ParseControl L payload of
        Inl _ \<Rightarrow> Some a
      | Inr control \<Rightarrow>
          if \<not> link_up E a \<or> ctl_ConnectionNonce control \<noteq> a_connection a then Some a
          else if ctl_Action control = ''clear'' then
            do {
              ignored \<leftarrow> clear_ignored control a;
              if ignored then Some a
              else do {
                let a1 = (if a_grant a \<noteq> None then clearGrantLocked (a\<lparr>a_lastCleared := Some control\<rparr>) else a);
                Some (queueRedisPublication E ''ride-group:control'' payload 0 (a1\<lparr>a_challenges := []\<rparr>))
              }
            }
          else if a_blocked a \<or> a_localStopPending a then Some a
          else (case map_of (a_challenges a) (ctl_Challenge control) of
                  None \<Rightarrow> Some a
                | Some sentAt \<Rightarrow>
                    if \<not> within_lease (e_now E) sentAt
                       \<or> (case a_activity a of None \<Rightarrow> True | Some act \<Rightarrow> \<not> act_Active act \<or> act_LocalStop act)
                       \<or> \<not> within_lease (e_now E) (a_activityAt a)
                    then Some a
                    else let answered = (\<lambda>b. queueRedisPublication E ''ride-group:control'' payload (leaseDuration - elapsedSince E sentAt)
                                              (b\<lparr>a_challenges := gm_del (ctl_Challenge control) (a_challenges b)\<rparr>))
                         in if ctl_Action control = ''grant'' \<or> ctl_Action control = ''renew'' then
                              do {
                                refused \<leftarrow> grant_refused control a;
                                let remaining = ctl_LeaseTTLMS control * Millisecond - elapsedSince E sentAt;
                                if refused \<or> remaining \<le> 0 then Some a
                                else map_option answered (install_grant E control remaining a)
                              }
                            else Some (answered a)))"

section \<open>Peers\<close>

definition in_current_grant_v1 :: "string \<Rightarrow> int \<Rightarrow> int \<Rightarrow> string \<Rightarrow> env \<Rightarrow> Adapter \<Rightarrow> bool" where
  "in_current_grant_v1 session revision epoch stream E a =
     (grantCurrentLocked E (e_now E) a
      \<and> (case a_grant a of None \<Rightarrow> False
         | Some g \<Rightarrow> ctl_MemberID g \<noteq> None \<and> ctl_SessionID g = Some session \<and> ctl_Revision g = revision
                    \<and> ctl_TransportEpoch g = epoch \<and> ctl_StreamID g = Some stream))"

definition replay_scope :: "Adapter \<Rightarrow> Adapter option" where
  "replay_scope a = do { g \<leftarrow> a_grant a; setPeerReplayScopeLocked (ctl_SessionID g) (peers_of g) a }"

definition handlePeer :: "golib \<Rightarrow> env \<Rightarrow> string \<Rightarrow> Adapter \<Rightarrow> Adapter option" where
  "handlePeer L E payload a =
     (case ParsePeerPosition L payload of
        Inl _ \<Rightarrow> Some a
      | Inr peer \<Rightarrow>
          if \<not> in_current_grant_v1 (peer_SessionID peer) (peer_Revision peer) (peer_TransportEpoch peer) (peer_StreamID peer) E a
             \<or> \<not> peerInGrantLocked (peer_PeerID peer) a
          then Some a
          else do {
            a1 \<leftarrow> replay_scope a;
            if (case map_of (a_peerStreams a1) (peer_PeerID peer) of None \<Rightarrow> False
                | Some previous \<Rightarrow> peer_PeerTransportEpoch peer < prs_epoch previous
                    \<or> (peer_PeerTransportEpoch peer = prs_epoch previous
                       \<and> (peer_PeerStreamID peer \<noteq> prs_streamID previous \<or> prs_closed previous
                          \<or> peer_Sequence peer \<le> prs_sequence previous \<or> peer_CapturedAtMS peer \<le> prs_captured previous)))
            then Some a1
            else Some (queueRedisPublication E ''ride-group:peers'' payload Second
                   (a1\<lparr>a_peerStreams := gm_put (peer_PeerID peer)
                      (zero_replay\<lparr>prs_streamID := peer_PeerStreamID peer, prs_epoch := peer_PeerTransportEpoch peer,
                         prs_sequence := peer_Sequence peer, prs_captured := peer_CapturedAtMS peer\<rparr>) (a_peerStreams a1)\<rparr>))
          })"

definition handlePeerStatus :: "golib \<Rightarrow> env \<Rightarrow> string \<Rightarrow> Adapter \<Rightarrow> Adapter option" where
  "handlePeerStatus L E payload a =
     (case ParsePeerStatus L payload of
        Inl _ \<Rightarrow> Some a
      | Inr status \<Rightarrow>
          if \<not> in_current_grant_v1 (pst_SessionID status) (pst_Revision status) (pst_TransportEpoch status) (pst_StreamID status) E a
             \<or> \<not> peerInGrantLocked (pst_PeerID status) a
          then Some a
          else do {
            a1 \<leftarrow> replay_scope a;
            let found = map_of (a_peerStreams a1) (pst_PeerID status);
            if (case found of None \<Rightarrow> False
                | Some previous \<Rightarrow> pst_PeerTransportEpoch status < prs_epoch previous
                    \<or> (pst_PeerTransportEpoch status = prs_epoch previous \<and> pst_PeerStreamID status \<noteq> prs_streamID previous))
            then Some a1
            else do {
              let fresh_state = zero_replay\<lparr>prs_streamID := pst_PeerStreamID status, prs_epoch := pst_PeerTransportEpoch status\<rparr>;
              let previous = (case found of None \<Rightarrow> fresh_state
                              | Some p \<Rightarrow> if pst_PeerTransportEpoch status > prs_epoch p then fresh_state else p);
              let closed = (prs_closed previous \<or> oneOf (pst_Status status) [''inactive'', ''cleared'']);
              Some (queueRedisPublication E ''ride-group:peers'' payload Second
                     (a1\<lparr>a_peerStreams := gm_put (pst_PeerID status)
                        (previous\<lparr>prs_status := pst_Status status, prs_closed := closed\<rparr>) (a_peerStreams a1)\<rparr>))
            }
          })"

section \<open>Positions\<close>

text \<open>\<^verbatim>\<open>json.Marshal\<close> refuses floats that are not finite.\<close>

definition marshal_position :: "golib \<Rightarrow> Position \<Rightarrow> string option" where
  "marshal_position L p =
     (let ptr_finite = (\<lambda>q. case q of None \<Rightarrow> True | Some x \<Rightarrow> f64_finite x)
      in if f64_finite (pos_Latitude p) \<and> f64_finite (pos_Longitude p) \<and> ptr_finite (pos_AccuracyM p)
            \<and> ptr_finite (pos_HeadingDeg p) \<and> ptr_finite (pos_SpeedMPS p)
         then Some (print_json (enc_Position L p)) else None)"

definition withdraw_positions :: "Adapter \<Rightarrow> Adapter" where
  "withdraw_positions a = (invalidatePositionPublicationsLocked a)\<lparr>a_estimator := None\<rparr>"

text \<open>
  A sample becomes a position when the lease, the match of activity and grant, the age and the cadence
  allow it.
\<close>

definition sharing_refused :: "env \<Rightarrow> FixSample \<Rightarrow> Control \<Rightarrow> Activity \<Rightarrow> Adapter \<Rightarrow> bool option" where
  "sharing_refused E sample g act a =
     any_of [Some (act_SessionID act = None \<or> act_MemberID act = None \<or> ctl_SessionID g = None),
             ptr_neq (act_SessionID act) (ctl_SessionID g), ptr_neq (act_MemberID act) (ctl_MemberID g),
             Some (time_Sub (e_now E) (smp_CapturedAt sample) > 5 * Second),
             Some (\<not> time_IsZero (a_lastPositionAt a) \<and> time_Sub (e_now E) (a_lastPositionAt a) < a_cadence a)]"

definition publish_position :: "golib \<Rightarrow> env \<Rightarrow> FixSample \<Rightarrow> Adapter \<Rightarrow> Adapter option" where
  "publish_position L E sample a =
     (if \<not> grantCurrentLocked E (e_now E) a then Some a
      else do {
        g \<leftarrow> a_grant a;
        act \<leftarrow> a_activity a;
        refused \<leftarrow> sharing_refused E sample g act a;
        if refused then Some a
        else do {
          session \<leftarrow> ctl_SessionID g;
          stream \<leftarrow> ctl_StreamID g;
          let position = \<lparr>pos_Version = 1, pos_Type = ''ride_group_position'', pos_SessionID = session,
                pos_Revision = ctl_Revision g, pos_TransportEpoch = ctl_TransportEpoch g, pos_StreamID = stream,
                pos_Sequence = a_positionSeq a + 1, pos_CapturedAtMS = UnixMilli (smp_CapturedAt sample),
                pos_TimestampSource = ''producer_fix'', pos_Latitude = smp_Latitude sample,
                pos_Longitude = smp_Longitude sample, pos_AccuracyM = smp_AccuracyM sample,
                pos_HeadingDeg = smp_HeadingDeg sample, pos_SpeedMPS = smp_SpeedMPS sample,
                pos_MotionSource = smp_MotionSource sample\<rparr>;
          case marshal_position L position of
            None \<Rightarrow> Some a
          | Some encoded \<Rightarrow>
              if length encoded > MaxEnvelopeBytes then Some a
              else do {
                member \<leftarrow> ctl_MemberID g;
                Some ((queueMQTTPublication (zero_publication\<lparr>mp_client := a_mqtt a, mp_connection := a_connection a,
                         mp_topic := topic_up a, mp_payload := encoded, mp_expiresAt := e_wall E + 5 * Second, mp_priority := 1,
                         mp_kind := ''position'', mp_positionSessionID := session, mp_positionMemberID := member,
                         mp_positionStreamID := stream, mp_positionRevision := ctl_Revision g,
                         mp_positionEpoch := ctl_TransportEpoch g, mp_positionGeneration := a_positionGeneration a,
                         mp_positionCapturedAt := smp_CapturedAt sample\<rparr>) a)
                       \<lparr>a_positionSeq := a_positionSeq a + 1, a_lastPositionAt := e_now E\<rparr>)
              }
        }
      })"

definition handleGPS :: "golib \<Rightarrow> env \<Rightarrow> string \<Rightarrow> Adapter \<Rightarrow> Adapter option" where
  "handleGPS L E payload a =
     (let now = e_now E; parsed = ParseGPSFix L payload
      in case parseGPSTimestamp payload of
           None \<Rightarrow> Some (case parsed of Inl _ \<Rightarrow> withdraw_positions a | Inr _ \<Rightarrow> invalidatePositionPublicationsLocked a)
         | Some capturedAt \<Rightarrow>
             if capturedAt > now then Some (withdraw_positions a)
             else if \<not> capturedAt > a_gpsObservedAt a then
               Some (case parsed of Inl _ \<Rightarrow> withdraw_positions a | Inr _ \<Rightarrow> a)
             else let a1 = a\<lparr>a_gpsObservedAt := capturedAt\<rparr>
                  in case parsed of
                       Inl _ \<Rightarrow> Some (withdraw_positions a1)
                     | Inr fx \<Rightarrow>
                         (case Observe L fx now (a_estimator a1) of
                            (None, e) \<Rightarrow> Some (withdraw_positions (a1\<lparr>a_estimator := e\<rparr>))
                          | (Some sample, e) \<Rightarrow> publish_position L E sample (a1\<lparr>a_estimator := e\<rparr>)))"

end
