(* ===== verification/Ride_V2.thy ===== *)
theory Ride_V2
  imports Ride_Lease
begin

text \<open>
  Version 2 of the ride-group adapter: \<^verbatim>\<open>ridegroup/protocol_v2_adapter.go\<close>, the position source
  \<^verbatim>\<open>ridegroup/gps_v2.go\<close> and the last check before Redis, \<^verbatim>\<open>ridegroup/ipc_v2.go\<close>.

  The consent journal of the vehicle is read through probes: a probe is a fresh challenge, the journal
  answers it with its state, and only an answer to a pending probe of this connection and epoch counts.  The
  activity of the vehicle produces challenges for the cloud, a grant answers one of them and starts a lease,
  positions and source statuses are published during the lease.  A stop of the group is queried first and
  applied only after a second probe confirmed the journal.

  An operation returns \<open>None\<close> where the program would panic on a nil pointer.
\<close>

section \<open>Publications\<close>

definition publishHelloV2Locked :: "golib \<Rightarrow> env \<Rightarrow> string \<Rightarrow> Adapter \<Rightarrow> Adapter" where
  "publishHelloV2Locked L E challenge0 a0 =
     (if \<not> link_up E a0 \<or> a_connection a0 = '''' then a0
      else let (drawn, a) = (if challenge0 = '''' then draw_UUID a0 else (Some challenge0, a0))
           in case drawn of
                None \<Rightarrow> a
              | Some challenge \<Rightarrow>
                  (case MarshalCanonicalV2 L (VHello \<lparr>hello_Version = 2, hello_Type = ''ride_group_hello'',
                          hello_ConnectionNonce = a_connection a, hello_Capabilities = Some [''ride_group_v2''],
                          hello_Challenge = challenge\<rparr>) of
                     None \<Rightarrow> a
                   | Some payload \<Rightarrow>
                       (queueMQTTPublication (zero_publication\<lparr>mp_client := a_mqtt a, mp_connection := a_connection a,
                          mp_topic := topic_up a, mp_payload := payload, mp_priority := 3, mp_kind := ''v2_hello'',
                          mp_expiresAt := e_wall E + v2AttemptLifetime\<rparr>) a)\<lparr>a_lastHelloAt := e_now E\<rparr>))"

definition wire_activity :: "string \<Rightarrow> Activity \<Rightarrow> WireActivity" where
  "wire_activity conn act =
     \<lparr>act_Version = 2, act_Type = ''ride_group_activity'', act_BootNonce = act_BootNonce act, act_Sequence = act_Sequence act,
      act_Active = act_Active act, act_LocalStop = False, act_SessionID = act_SessionID act, act_MemberID = act_MemberID act,
      act_Challenge = act_Challenge act, wact_ConnectionNonce = conn\<rparr>"

definition publishActivityV2Locked :: "golib \<Rightarrow> env \<Rightarrow> Activity \<Rightarrow> Adapter \<Rightarrow> Adapter" where
  "publishActivityV2Locked L E act a =
     (if \<not> link_up E a \<or> a_connection a = '''' then a
      else case MarshalCanonicalV2 L (VWireActivity (wire_activity (a_connection a) act)) of
             None \<Rightarrow> a
           | Some payload \<Rightarrow>
               queueMQTTPublication (zero_publication\<lparr>mp_client := a_mqtt a, mp_connection := a_connection a,
                 mp_topic := topic_up a, mp_payload := payload, mp_expiresAt := e_wall E + 5 * Second, mp_priority := 2,
                 mp_kind := ''v2_activity'', mp_activityBootNonce := act_BootNonce act, mp_activitySequence := act_Sequence act,
                 mp_activityActive := act_Active act\<rparr>) a)"

section \<open>Probing the journal\<close>

text \<open>At most one probe is pending, and at most ten are issued within ten seconds.\<close>

definition issueLocalProbeV2Locked :: "golib \<Rightarrow> env \<Rightarrow> probePurposeV2 \<Rightarrow> preparedQueryV2 option \<Rightarrow> Adapter \<Rightarrow> bool \<times> Adapter" where
  "issueLocalProbeV2Locked L E purpose query a0 =
     (if a_protocolVersion a0 \<noteq> 2 \<or> \<not> a_redis a0 \<or> \<not> a_settingsReady a0 \<or> \<not> link_up E a0 \<or> a_connection a0 = ''''
      then (False, a0)
      else let now = e_now E;
               a1 = a0\<lparr>a_journalProbesV2 := filter (\<lambda>(challenge, pending). \<not> (now > lp_deadline pending
                         \<or> lp_connection pending \<noteq> a_connection a0 \<or> lp_ipcEpoch pending \<noteq> a_journalIPCEpochV2 a0))
                       (a_journalProbesV2 a0)\<rparr>
           in if length (a_journalProbesV2 a1) \<ge> 1 then (False, a1)
              else let a2 = a1\<lparr>a_probeTimesV2 := filter (\<lambda>issued. \<not> issued < now - v2AttemptLifetime) (a_probeTimesV2 a1)\<rparr>
                   in if length (a_probeTimesV2 a2) \<ge> 10 then (False, a2)
                      else (case draw_UUID a2 of
                              (None, a3) \<Rightarrow> (False, a3)
                            | (Some challenge, a3) \<Rightarrow>
                                (case MarshalCanonicalV2 L (VLocalStopProbe \<lparr>lsp_Version = 2, lsp_Type = ''ride_group_local_stop_probe'',
                                        lsp_Adapter = ''uplink'', lsp_Challenge = challenge\<rparr>) of
                                   None \<Rightarrow> (False, a3)
                                 | Some payload \<Rightarrow>
                                     let attempt0 = \<lparr>lp_challenge = challenge, lp_connection = a_connection a3, lp_issuedAt = now,
                                           lp_deadline = now + v2AttemptLifetime, lp_purpose = purpose, lp_operationID = '''',
                                           lp_revision = 0, lp_fence = None, lp_ipcEpoch = a_journalIPCEpochV2 a3, lp_consumed = False\<rparr>;
                                         attempt = (case query of
                                             None \<Rightarrow> attempt0
                                           | Some q \<Rightarrow> attempt0\<lparr>lp_operationID := pq_operationID q, lp_revision := pq_revision q,
                                               lp_fence := Some (pq_fence q),
                                               lp_deadline := (if lp_deadline attempt0 > pq_deadline q then pq_deadline q
                                                               else lp_deadline attempt0)\<rparr>)
                                     in (True, queueRedisPublication E ''ride-group:control'' payload v2AttemptLifetime
                                           (a3\<lparr>a_journalProbesV2 := gm_put challenge attempt (a_journalProbesV2 a3),
                                               a_probeTimesV2 := a_probeTimesV2 a3 @ [now]\<rparr>)))))"

definition maybeIssueReconciliationProbeV2Locked :: "golib \<Rightarrow> env \<Rightarrow> Adapter \<Rightarrow> Adapter" where
  "maybeIssueReconciliationProbeV2Locked L E a =
     (if a_protocolVersion a = 2 \<and> a_settingsReady a \<and> link_up E a
      then snd (issueLocalProbeV2Locked L E ProbeReconcileV2 None a) else a)"

definition inhibitJournalV2Locked :: "Adapter \<Rightarrow> Adapter" where
  "inhibitJournalV2Locked a =
     (let a1 = invalidateLocalAttemptsV2Locked
                 (a\<lparr>a_journalReady := False, a_journalBlockedV2 := True, a_activityV2 := None, a_activity := None,
                    a_activityAt := 0, a_challenges := [], a_offerPermitV2 := None, a_pendingQueryV2 := None\<rparr>)
      in clearGrantV2Locked (a1\<lparr>a_journalIPCEpochV2 := Suc (a_journalIPCEpochV2 a1)\<rparr>))"

definition acceptJournalRevisionV2Locked :: "LocalStopV2 \<Rightarrow> Adapter \<Rightarrow> bool" where
  "acceptJournalRevisionV2Locked state a =
     (case a_journalStateV2 a of
        None \<Rightarrow> True
      | Some previous \<Rightarrow>
          if ls_JournalRevision state < ls_JournalRevision previous then False
          else if ls_JournalRevision state = ls_JournalRevision previous then
            ls_Phase state = ls_Phase previous \<and> ls_OperationID state = ls_OperationID previous
            \<and> ls_ExpectedGeneration state = ls_ExpectedGeneration previous
            \<and> ls_CommittedGeneration state = ls_CommittedGeneration previous \<and> ls_Blocked state = ls_Blocked previous
          else True)"

text \<open>An entry of the map of used challenges goes as soon as there are more than ten; which one is up to the map.\<close>

function drop_any :: "nat \<Rightarrow> (string, string) go_map \<Rightarrow> (string, string) go_map" where
  "drop_any rot m = (if length m > 10 then drop_any rot (gm_del (fst (hd (rotate rot m))) m) else m)"
  by pat_completeness auto

termination
proof (relation "measure (\<lambda>(rot, m). length m)")
  fix rot :: nat and m :: "(string, string) go_map"
  assume "length m > 10"
  then have "hd (rotate rot m) \<in> set (rotate rot m)" by (intro hd_in_set) auto
  then have "fst (hd (rotate rot m)) \<in> fst ` set m" by auto
  then show "((rot, gm_del (fst (hd (rotate rot m))) m), (rot, m)) \<in> measure (\<lambda>(rot, m). length m)"
    by (simp add: gm_del_length_less)
qed simp

declare drop_any.simps [simp del]

definition consumeProbeV2Locked :: "env \<Rightarrow> localProbeV2 \<Rightarrow> string \<Rightarrow> Adapter \<Rightarrow> Adapter" where
  "consumeProbeV2Locked E probe payload a =
     a\<lparr>a_journalProbesV2 := gm_del (lp_challenge probe) (a_journalProbesV2 a),
       a_usedLocalChallenges := drop_any (e_rot E) (gm_put (lp_challenge probe) payload (a_usedLocalChallenges a))\<rparr>"

section \<open>Stopping the group\<close>

definition sendStopV2Locked ::
    "golib \<Rightarrow> env \<Rightarrow> string \<Rightarrow> int \<Rightarrow> int option \<Rightarrow> string \<Rightarrow> string \<Rightarrow> instant \<Rightarrow> Adapter \<Rightarrow> bool \<times> Adapter" where
  "sendStopV2Locked L E operationID revision expected challenge mode deadline0 a =
     (case a_journalStateV2 a of
        None \<Rightarrow> (False, a)
      | Some j \<Rightarrow>
          if \<not> link_up E a \<or> a_connection a = '''' \<or> ls_OperationID j \<noteq> Some operationID \<or> ls_JournalRevision j \<noteq> revision
             \<or> a_journalIPCEpochV2 a = 0
          then (False, a)
          else if mode = ''apply'' \<and> (ls_Phase j \<noteq> ''prepared'' \<or> ls_ExpectedGeneration j \<noteq> expected \<or> ls_CommittedGeneration j \<noteq> None)
          then (False, a)
          else (case MarshalCanonicalV2 L (VStop \<lparr>stop_Version = 2, stop_Type = ''ride_group_stop'',
                       stop_ConnectionNonce = a_connection a, stop_OperationID = operationID,
                       stop_ExpectedConsentGeneration = expected, stop_Challenge = challenge, stop_Mode = mode\<rparr>) of
                  None \<Rightarrow> (False, a)
                | Some encoded \<Rightarrow>
                    let now = e_now E;
                        deadline = (if time_IsZero deadline0 \<or> deadline0 > now + v2AttemptLifetime then now + v2AttemptLifetime
                                    else deadline0);
                        attempt = \<lparr>lsa_Adapter = ''uplink'', lsa_OperationID = operationID, lsa_JournalRevision = revision,
                          lsa_Challenge = challenge, lsa_ConnectionNonce = a_connection a, lsa_StartedAt = now, att_mode = mode,
                          att_fence = expected, att_deadline = deadline, att_ipcEpoch = a_journalIPCEpochV2 a, att_consumed = False\<rparr>
                    in if list_ex (\<lambda>(k, pending). \<not> att_consumed pending \<and> now < att_deadline pending) (a_localAttemptsV2 a)
                       then (False, a)
                       else if length (a_localAttemptsV2 a) \<ge> 10 then (False, a)
                       else (True, queueMQTTPublication (zero_publication\<lparr>mp_client := a_mqtt a, mp_connection := a_connection a,
                                mp_topic := topic_up a, mp_payload := encoded, mp_expiresAt := deadline, mp_priority := 3,
                                mp_kind := ''v2_stop'', mp_stopChallenge := challenge\<rparr>)
                              (a\<lparr>a_localAttemptsV2 := gm_put challenge attempt (a_localAttemptsV2 a)\<rparr>))))"

definition maybeSendOfferV2Locked :: "golib \<Rightarrow> env \<Rightarrow> ControlV2 \<Rightarrow> Adapter \<Rightarrow> Adapter" where
  "maybeSendOfferV2Locked L E control a =
     (case (a_offerPermitV2 a, a_journalStateV2 a) of
        (Some permit, Some j) \<Rightarrow>
          if lp_consumed permit \<or> lp_connection permit \<noteq> a_connection a \<or> lp_ipcEpoch permit \<noteq> a_journalIPCEpochV2 a
             \<or> e_now E > lp_deadline permit \<or> ctl_Challenge control \<noteq> lp_challenge permit \<or> ctl_StopResult control \<noteq> None
             \<or> ls_Phase j \<noteq> ''preparing'' \<or> ls_OperationID j \<noteq> Some (lp_operationID permit)
             \<or> ls_JournalRevision j \<noteq> lp_revision permit
          then a
          else (case MarshalCanonicalV2 L (VLocalStopResult \<lparr>lsr_Version = 2, lsr_Type = ''ride_group_local_stop_result'',
                       lsr_Adapter = ''uplink'', lsr_OperationID = lp_operationID permit, lsr_JournalRevision = lp_revision permit,
                       lsr_Challenge = lp_challenge permit, lsr_ConnectionNonce = a_connection a, lsr_Result = ''offer'',
                       lsr_ExpectedGeneration = Some (ctl_ConsentGeneration control), lsr_CommittedGeneration = None\<rparr>) of
                  None \<Rightarrow> a
                | Some encoded \<Rightarrow>
                    queueRedisPublication E ''ride-group:control'' encoded (time_Sub (lp_deadline permit) (e_wall E))
                      (a\<lparr>a_offerPermitV2 := None\<rparr>))
      | _ \<Rightarrow> a)"

definition pendingQueryMatchesV2 :: "env \<Rightarrow> localStopAttemptV2 \<Rightarrow> Adapter \<Rightarrow> bool" where
  "pendingQueryMatchesV2 E attempt a =
     (case (a_pendingQueryV2 a, a_journalStateV2 a) of
        (Some q, Some j) \<Rightarrow>
          pq_operationID q = lsa_OperationID attempt \<and> pq_revision q = lsa_JournalRevision attempt
          \<and> att_fence attempt = Some (pq_fence q) \<and> pq_connection q = a_connection a \<and> pq_ipcEpoch q = a_journalIPCEpochV2 a
          \<and> pq_queryChallenge q = lsa_Challenge attempt \<and> pq_deadline q = att_deadline attempt \<and> e_now E < pq_deadline q
          \<and> ls_Phase j = ''prepared'' \<and> ls_OperationID j = Some (pq_operationID q) \<and> ls_JournalRevision j = pq_revision q
          \<and> ls_ExpectedGeneration j = Some (pq_fence q)
      | _ \<Rightarrow> False)"

text \<open>The caller has checked that the control has a stop result, \<open>result\<close>.\<close>

definition handleStopStatusV2Locked :: "golib \<Rightarrow> env \<Rightarrow> ControlV2 \<Rightarrow> string \<Rightarrow> Adapter \<Rightarrow> Adapter" where
  "handleStopStatusV2Locked L E control result a =
     (case map_of (a_localAttemptsV2 a) (ctl_Challenge control) of
        None \<Rightarrow> a
      | Some attempt \<Rightarrow>
          if att_consumed attempt \<or> lsa_ConnectionNonce attempt \<noteq> a_connection a \<or> att_ipcEpoch attempt \<noteq> a_journalIPCEpochV2 a
             \<or> e_now E > att_deadline attempt \<or> ctl_StopOperationID control \<noteq> Some (lsa_OperationID attempt)
             \<or> ctl_ConnectionNonce control \<noteq> lsa_ConnectionNonce attempt
          then a
          else if (case a_journalStateV2 a of None \<Rightarrow> True
                   | Some j \<Rightarrow> ls_OperationID j \<noteq> Some (lsa_OperationID attempt) \<or> ls_JournalRevision j \<noteq> lsa_JournalRevision attempt
                       \<or> (att_mode attempt = ''apply'' \<and> (ls_Phase j \<noteq> ''prepared'' \<or> ls_ExpectedGeneration j \<noteq> att_fence attempt)))
          then inhibitJournalV2Locked a
          else if result = ''committed'' \<and> att_fence attempt \<noteq> None \<and> ctl_StopExpectedGeneration control \<noteq> att_fence attempt
          then inhibitJournalV2Locked a
          else let a1 = a\<lparr>a_localAttemptsV2 := gm_put (ctl_Challenge control) (attempt\<lparr>att_consumed := True\<rparr>) (a_localAttemptsV2 a)\<rparr>;
                   encoded = MarshalCanonicalV2 L (VLocalStopResult \<lparr>lsr_Version = 2, lsr_Type = ''ride_group_local_stop_result'',
                     lsr_Adapter = ''uplink'', lsr_OperationID = lsa_OperationID attempt, lsr_JournalRevision = lsa_JournalRevision attempt,
                     lsr_Challenge = lsa_Challenge attempt, lsr_ConnectionNonce = lsa_ConnectionNonce attempt, lsr_Result = result,
                     lsr_ExpectedGeneration = ctl_StopExpectedGeneration control,
                     lsr_CommittedGeneration = (if oneOf result [''committed'', ''superseded'', ''unconfirmed'']
                                                then Some (ctl_ConsentGeneration control) else None)\<rparr>);
                   a2 = (case encoded of
                           None \<Rightarrow> a1
                         | Some data \<Rightarrow> queueRedisPublication E ''ride-group:control'' data (time_Sub (att_deadline attempt) (e_now E)) a1);
                   (confirming, a3) =
                     (if att_mode attempt = ''query'' \<and> result = ''not_found'' \<and> pendingQueryMatchesV2 E attempt a2 then
                        (case issueLocalProbeV2Locked L E ProbeApplyConfirmationV2 (a_pendingQueryV2 a2) a2 of
                           (True, b) \<Rightarrow> (True, b)
                         | (False, b) \<Rightarrow> (False, b\<lparr>a_pendingQueryV2 := None\<rparr>))
                      else (False, a2))
               in if confirming then a3
                  else if att_mode attempt = ''apply'' then a3\<lparr>a_pendingQueryV2 := None\<rparr> else a3)"

definition finalizeApplyConfirmationV2Locked :: "golib \<Rightarrow> env \<Rightarrow> LocalStopV2 \<Rightarrow> localProbeV2 \<Rightarrow> Adapter \<Rightarrow> Adapter" where
  "finalizeApplyConfirmationV2Locked L E state probe a =
     (case a_pendingQueryV2 a of
        None \<Rightarrow> a\<lparr>a_pendingQueryV2 := None\<rparr>
      | Some query \<Rightarrow>
          if ls_OperationID state = None \<or> lp_purpose probe \<noteq> ProbeApplyConfirmationV2 \<or> lp_connection probe \<noteq> a_connection a
             \<or> lp_ipcEpoch probe \<noteq> a_journalIPCEpochV2 a \<or> \<not> e_now E < lp_deadline probe \<or> \<not> e_now E < pq_deadline query
             \<or> ls_OperationID state \<noteq> Some (pq_operationID query) \<or> pq_revision query \<noteq> ls_JournalRevision state
             \<or> ls_Phase state \<noteq> ''prepared'' \<or> ls_ExpectedGeneration state \<noteq> Some (pq_fence query)
             \<or> ls_CommittedGeneration state \<noteq> None \<or> pq_connection query \<noteq> a_connection a
             \<or> pq_ipcEpoch query \<noteq> a_journalIPCEpochV2 a
          then a\<lparr>a_pendingQueryV2 := None\<rparr>
          else (case sendStopV2Locked L E (pq_operationID query) (pq_revision query) (Some (pq_fence query)) (lp_challenge probe)
                       ''apply'' (pq_deadline query) a of
                  (True, a1) \<Rightarrow> a1\<lparr>a_pendingQueryV2 := None\<rparr>
                | (False, a1) \<Rightarrow> a1))"

definition publishQueuedV2ActivityLocked :: "golib \<Rightarrow> env \<Rightarrow> Adapter \<Rightarrow> Adapter" where
  "publishQueuedV2ActivityLocked L E a =
     (case a_activityV2 a of
        None \<Rightarrow> a
      | Some act \<Rightarrow> if a_journalReady a \<and> \<not> a_blocked a \<and> \<not> a_journalBlockedV2 a then publishActivityV2Locked L E act a else a)"

text \<open>The reaction to a journal state that answers a pending probe, by its phase.\<close>

definition react_to_phase :: "golib \<Rightarrow> env \<Rightarrow> LocalStopV2 \<Rightarrow> localProbeV2 \<Rightarrow> Adapter \<Rightarrow> Adapter" where
  "react_to_phase L E state probe a =
     (if ls_Phase state = ''idle'' then (if ls_Blocked state then a else publishQueuedV2ActivityLocked L E a)
      else if ls_Phase state = ''preparing'' then
        (case ls_OperationID state of
           None \<Rightarrow> a
         | Some op \<Rightarrow>
             if ls_ExpectedGeneration state = None \<and> ls_CommittedGeneration state = None then
               publishHelloV2Locked L E (ls_Challenge state)
                 (a\<lparr>a_offerPermitV2 := Some \<lparr>lp_challenge = ls_Challenge state, lp_connection = lp_connection probe,
                      lp_issuedAt = lp_issuedAt probe, lp_deadline = lp_deadline probe, lp_purpose = ProbeOfferV2,
                      lp_operationID = op, lp_revision = ls_JournalRevision state, lp_fence = None,
                      lp_ipcEpoch = lp_ipcEpoch probe, lp_consumed = False\<rparr>\<rparr>)
             else a)
      else if ls_Phase state = ''prepared'' then
        (case (ls_OperationID state, ls_ExpectedGeneration state) of
           (Some op, Some g) \<Rightarrow>
             if ls_CommittedGeneration state = None then
               snd (sendStopV2Locked L E op (ls_JournalRevision state) (Some g) (ls_Challenge state) ''query'' (lp_deadline probe)
                 (a\<lparr>a_pendingQueryV2 := Some \<lparr>pq_operationID = op, pq_revision = ls_JournalRevision state, pq_fence = g,
                      pq_connection = a_connection a, pq_ipcEpoch = a_journalIPCEpochV2 a, pq_deadline = lp_deadline probe,
                      pq_queryChallenge = ls_Challenge state\<rparr>\<rparr>))
             else a
         | _ \<Rightarrow> a)
      else if ls_Phase state = ''uncertain'' then
        (case ls_OperationID state of
           None \<Rightarrow> a
         | Some op \<Rightarrow> snd (sendStopV2Locked L E op (ls_JournalRevision state) (ls_ExpectedGeneration state) (ls_Challenge state)
                        ''query'' (lp_deadline probe) a))
      else a)"

definition probe_answered :: "env \<Rightarrow> localProbeV2 \<Rightarrow> Adapter \<Rightarrow> bool" where
  "probe_answered E probe a =
     (\<not> lp_consumed probe \<and> \<not> e_now E < lp_issuedAt probe \<and> \<not> e_now E > lp_deadline probe \<and> lp_connection probe = a_connection a
      \<and> lp_ipcEpoch probe = a_journalIPCEpochV2 a \<and> link_up E a)"

definition answer_probe :: "golib \<Rightarrow> env \<Rightarrow> LocalStopV2 \<Rightarrow> localProbeV2 \<Rightarrow> string \<Rightarrow> Adapter \<Rightarrow> Adapter" where
  "answer_probe L E state probe canonical a =
     (let a1 = (consumeProbeV2Locked E probe canonical a)\<lparr>a_journalStateV2 := Some state, a_journalBlockedV2 := ls_Blocked state,
                  a_journalReady := (ls_Phase state = ''idle'' \<and> \<not> ls_Blocked state)\<rparr>;
          a2 = (if ls_Blocked state \<or> ls_Phase state \<noteq> ''idle'' then clearGrantV2Locked a1 else a1)
      in if lp_purpose probe = ProbeApplyConfirmationV2 then finalizeApplyConfirmationV2Locked L E state probe a2
         else react_to_phase L E state probe a2)"

definition handleLocalStopSnapshotV2 :: "golib \<Rightarrow> env \<Rightarrow> LocalStopV2 \<Rightarrow> Adapter \<Rightarrow> Adapter" where
  "handleLocalStopSnapshotV2 L E state a =
     (case MarshalCanonicalV2 L (VLocalStop state) of
        None \<Rightarrow> a
      | Some canonical \<Rightarrow>
          (case map_of (a_usedLocalChallenges a) (ls_Challenge state) of
             Some prior \<Rightarrow>
               if prior \<noteq> canonical then maybeIssueReconciliationProbeV2Locked L E (inhibitJournalV2Locked a) else a
           | None \<Rightarrow>
               (let stale = maybeIssueReconciliationProbeV2Locked L E
                      (if ls_Blocked state \<or> ls_Phase state \<noteq> ''idle'' then inhibitJournalV2Locked a else a)
                in case map_of (a_journalProbesV2 a) (ls_Challenge state) of
                     None \<Rightarrow> stale
                   | Some probe \<Rightarrow>
                       if \<not> probe_answered E probe a then stale
                       else if \<not> acceptJournalRevisionV2Locked state a then
                         maybeIssueReconciliationProbeV2Locked L E (consumeProbeV2Locked E probe canonical (inhibitJournalV2Locked a))
                       else answer_probe L E state probe canonical a)))"

section \<open>Activity\<close>

definition acceptActivityV2 :: "golib \<Rightarrow> env \<Rightarrow> Activity \<Rightarrow> Adapter \<Rightarrow> Adapter option" where
  "acceptActivityV2 L E act a =
     (if \<not> a_settingsReady a \<or> \<not> a_journalReady a \<or> a_blocked a \<or> a_journalBlockedV2 a \<or> \<not> idle_journal a \<or> \<not> link_up E a
      then Some a
      else if act_BootNonce act = a_activityBootNonce a \<and> act_Sequence act \<le> a_activitySequence a then Some a
      else if gm_has (a_challenges a) (act_Challenge act) then Some a
      else do {
        moved \<leftarrow> (case a_activityV2 a of
                     None \<Rightarrow> Some False
                   | Some cur \<Rightarrow>
                       if act_Active act \<and> act_SessionID cur \<noteq> None \<and> act_SessionID act \<noteq> None then
                         any_of [Some (act_SessionID cur \<noteq> act_SessionID act), ptr_neq (act_MemberID cur) (act_MemberID act)]
                       else Some (act_Active act \<and> act_SessionID cur \<noteq> None \<and> act_SessionID act = None));
        let now = e_now E;
        if moved then Some a
        else if act_Active act \<and> \<not> time_IsZero (a_activityAt a) \<and> time_Sub now (a_activityAt a) < Second then Some a
        else do {
          let a1 = a\<lparr>a_activityV2 := Some act, a_activity := None, a_activityBootNonce := act_BootNonce act,
                     a_activitySequence := act_Sequence act, a_activityAt := now\<rparr>;
          let a2 = (if act_Active act then a1 else clearGrantV2Locked a1);
          same \<leftarrow> (case a_grantV2 a2 of
                      None \<Rightarrow> Some False
                    | Some g \<Rightarrow> if ctl_SessionID g \<noteq> None \<and> act_SessionID act \<noteq> None \<and> ctl_SessionID g = act_SessionID act
                               then ptr_eq (ctl_MemberID g) (act_MemberID act) else Some False);
          let a3 = (if same then a2\<lparr>a_grantActive := True\<rparr> else a2);
          let a4 = pruneChallengesLocked E now (a3\<lparr>a_challenges := gm_put (act_Challenge act) now (a_challenges a3)\<rparr>);
          Some (publishActivityV2Locked L E act (publishHelloV2Locked L E (act_Challenge act) a4))
        }
      })"

definition handleActivityV2 :: "golib \<Rightarrow> env \<Rightarrow> string \<Rightarrow> Adapter \<Rightarrow> Adapter option" where
  "handleActivityV2 L E payload a =
     (case envelope_type payload of
        None \<Rightarrow> Some a
      | Some t \<Rightarrow>
          if t = ''ride_group_local_stop'' then
            (case ParseLocalStopV2 L payload of Inl _ \<Rightarrow> Some a | Inr state \<Rightarrow> Some (handleLocalStopSnapshotV2 L E state a))
          else if t = ''ride_group_activity'' then
            (case ParseActivityV2 L payload of Inl _ \<Rightarrow> Some a | Inr act \<Rightarrow> acceptActivityV2 L E act a)
          else Some a)"

end
