(* ===== verification/Ride_Grant.thy ===== *)
theory Ride_Grant
  imports Ride_V2
begin

text \<open>
  Grants and what is shared under them, version 2: the control messages of the cloud
  (\<^verbatim>\<open>ridegroup/protocol_v2_adapter.go\<close>), the positions and source statuses of the vehicle
  (\<^verbatim>\<open>ridegroup/gps_v2.go\<close>), the positions of the peers, and the check of a message just before it is
  handed to Redis (\<^verbatim>\<open>ridegroup/ipc_v2.go\<close>).
\<close>

section \<open>Source status\<close>

definition activityMatchesGrantV2Locked :: "Adapter \<Rightarrow> bool" where
  "activityMatchesGrantV2Locked a =
     (case (a_activityV2 a, a_grantV2 a) of
        (Some act, Some g) \<Rightarrow>
          act_SessionID act \<noteq> None \<and> act_MemberID act \<noteq> None \<and> ctl_SessionID g \<noteq> None \<and> ctl_MemberID g \<noteq> None
          \<and> act_SessionID act = ctl_SessionID g \<and> act_MemberID act = ctl_MemberID g
      | _ \<Rightarrow> False)"

definition source_publication :: "env \<Rightarrow> string \<Rightarrow> SourceStatusV2 \<Rightarrow> Adapter \<Rightarrow> mqttPublication" where
  "source_publication E payload status a =
     zero_publication\<lparr>mp_client := a_mqtt a, mp_connection := a_connection a, mp_topic := topic_up a, mp_payload := payload,
       mp_expiresAt := e_wall E + 5 * Second, mp_priority := 2, mp_kind := ''v2_source_status'',
       mp_sourceState := src_State status, mp_sourceSequence := src_Sequence status,
       mp_sourceCapturedAt := (case src_CapturedAtMS status of None \<Rightarrow> 0 | Some ms \<Rightarrow> from_UnixMilli ms),
       mp_sourceGeneration := a_sourceStatusGeneration a\<rparr>"

definition publishSourceStatusValueV2Locked :: "golib \<Rightarrow> env \<Rightarrow> SourceStatusV2 \<Rightarrow> Adapter \<Rightarrow> bool \<times> Adapter" where
  "publishSourceStatusValueV2Locked L E status a =
     (case MarshalCanonicalV2 L (VSourceStatus status) of
        None \<Rightarrow> (False, a)
      | Some encoded \<Rightarrow>
          (let a1 = dropPendingV2Source (a\<lparr>a_lastSourceStatusV2 := Some status,
                      a_sourceStatusGeneration := Suc (a_sourceStatusGeneration a),
                      a_sourceStatusRetryAt := e_now E + 3 * Second\<rparr>)
           in (True, queueMQTTPublication (source_publication E encoded status a1) a1)))"

text \<open>The status of the current grant; the three identifiers of the grant are given.\<close>

definition source_status :: "string \<Rightarrow> string \<Rightarrow> string \<Rightarrow> ControlV2 \<Rightarrow> string \<Rightarrow> int option \<Rightarrow> Adapter \<Rightarrow> SourceStatusV2" where
  "source_status session member stream g state captured a =
     \<lparr>src_Version = 2, src_Type = ''ride_group_source_status'', src_ConnectionNonce = a_connection a, src_SessionID = session,
      src_MemberID = member, src_Revision = ctl_Revision g, src_TransportEpoch = ctl_TransportEpoch g, src_StreamID = stream,
      src_Sequence = a_sourceSequenceV2 a + 1, src_State = state, src_CapturedAtMS = captured\<rparr>"

definition publishNoFixStatusV2Locked :: "golib \<Rightarrow> env \<Rightarrow> Adapter \<Rightarrow> Adapter" where
  "publishNoFixStatusV2Locked L E a =
     (if \<not> a_noFixClosedV2 a then a
      else case a_grantV2 a of
        None \<Rightarrow> a
      | Some g \<Rightarrow>
          (case (ctl_SessionID g, ctl_MemberID g, ctl_StreamID g) of
             (Some session, Some member, Some stream) \<Rightarrow>
               (let status = source_status session member stream g ''no_fix'' None a
                in case publishSourceStatusValueV2Locked L E status a of
                     (True, a1) \<Rightarrow> a1\<lparr>a_sourceSequenceV2 := src_Sequence status\<rparr>
                   | (False, a1) \<Rightarrow> a1)
           | _ \<Rightarrow> a))"

definition publishSourceStatusV2Locked :: "golib \<Rightarrow> env \<Rightarrow> string \<Rightarrow> instant \<Rightarrow> Adapter \<Rightarrow> bool \<times> Adapter" where
  "publishSourceStatusV2Locked L E state capturedAt a =
     (if \<not> grantCurrentV2Locked E (e_now E) a \<or> \<not> activityMatchesGrantV2Locked a then (False, a)
      else case a_grantV2 a of
        None \<Rightarrow> (False, a)
      | Some g \<Rightarrow>
          (case (ctl_SessionID g, ctl_MemberID g, ctl_StreamID g) of
             (Some session, Some member, Some stream) \<Rightarrow>
               if state = ''fix_available'' \<and> (time_IsZero capturedAt \<or> capturedAt > e_now E
                    \<or> time_Sub (e_now E) capturedAt > 5 * Second)
               then (False, a)
               else if state \<noteq> ''fix_available'' \<and> state \<noteq> ''no_fix'' then (False, a)
               else let status = source_status session member stream g state
                                   (if state = ''fix_available'' then Some (UnixMilli capturedAt) else None) a
                    in (case publishSourceStatusValueV2Locked L E status a of
                          (True, a1) \<Rightarrow> (True, a1\<lparr>a_sourceSequenceV2 := src_Sequence status\<rparr>)
                        | (False, a1) \<Rightarrow> (False, a1))
           | _ \<Rightarrow> (False, a)))"

definition retryNoFixStatusV2Locked :: "golib \<Rightarrow> env \<Rightarrow> instant \<Rightarrow> Adapter \<Rightarrow> Adapter" where
  "retryNoFixStatusV2Locked L E now a =
     (case a_lastSourceStatusV2 a of
        None \<Rightarrow> a
      | Some status \<Rightarrow>
          if (src_State status \<noteq> ''no_fix'' \<and> src_State status \<noteq> ''fix_available'') \<or> a_grantV2 a = None
             \<or> \<not> grantCurrentV2Locked E now a \<or> \<not> activityMatchesGrantV2Locked a \<or> now < a_sourceStatusRetryAt a
          then a
          else if src_State status = ''fix_available''
               \<and> (case src_CapturedAtMS status of None \<Rightarrow> True
                  | Some ms \<Rightarrow> time_Sub now (from_UnixMilli ms) < 0 \<or> time_Sub now (from_UnixMilli ms) > 5 * Second)
          then a
          else (case MarshalCanonicalV2 L (VSourceStatus status) of
                  None \<Rightarrow> a
                | Some encoded \<Rightarrow>
                    (let a1 = a\<lparr>a_sourceStatusRetryAt := now + 3 * Second\<rparr>
                     in queueMQTTPublication (source_publication E encoded status a1) a1)))"

definition closeSourceFixV2Locked :: "golib \<Rightarrow> env \<Rightarrow> Adapter \<Rightarrow> Adapter" where
  "closeSourceFixV2Locked L E a =
     (if a_noFixClosedV2 a \<and> (case a_lastSourceStatusV2 a of None \<Rightarrow> True | Some s \<Rightarrow> src_State s \<noteq> ''fix_available'')
      then retryNoFixStatusV2Locked L E (e_now E) a
      else snd (publishSourceStatusV2Locked L E ''no_fix'' 0
             ((invalidatePositionPublicationsLocked
                 (a\<lparr>a_noFixClosedV2 := True, a_fixAvailablePendingV2 := False, a_recoveryFixAfterV2 := 0\<rparr>))\<lparr>a_estimator := None\<rparr>)))"

section \<open>Positions\<close>

definition withdraw_source :: "golib \<Rightarrow> env \<Rightarrow> Adapter \<Rightarrow> Adapter" where
  "withdraw_source L E a = closeSourceFixV2Locked L E ((invalidatePositionPublicationsLocked a)\<lparr>a_estimator := None\<rparr>)"

text \<open>A sample becomes a position when the lease, the match of activity and grant and the cadence allow it.\<close>

definition publish_position_v2 :: "golib \<Rightarrow> env \<Rightarrow> FixSample \<Rightarrow> Adapter \<Rightarrow> Adapter option" where
  "publish_position_v2 L E sample a =
     (let now = e_now E
      in if \<not> grantCurrentV2Locked E now a \<or> \<not> activityMatchesGrantV2Locked a \<or> smp_CapturedAt sample > now
            \<or> time_Sub now (smp_CapturedAt sample) > 5 * Second
            \<or> (\<not> time_IsZero (a_lastPositionAt a) \<and> time_Sub now (a_lastPositionAt a) < a_cadence a)
         then Some a
         else do {
           g \<leftarrow> a_grantV2 a;
           session \<leftarrow> ctl_SessionID g;
           member \<leftarrow> ctl_MemberID g;
           stream \<leftarrow> ctl_StreamID g;
           let position = \<lparr>pos_Version = 2, pos_Type = ''ride_group_position'', pos_SessionID = session, pos_Revision = ctl_Revision g,
                 pos_TransportEpoch = ctl_TransportEpoch g, pos_StreamID = stream, pos_Sequence = a_sourceSequenceV2 a + 1,
                 pos_CapturedAtMS = UnixMilli (smp_CapturedAt sample), pos_TimestampSource = ''producer_fix'',
                 pos_Latitude = smp_Latitude sample, pos_Longitude = smp_Longitude sample, pos_AccuracyM = smp_AccuracyM sample,
                 pos_HeadingDeg = smp_HeadingDeg sample, pos_SpeedMPS = smp_SpeedMPS sample,
                 pos_MotionSource = smp_MotionSource sample\<rparr>;
           case MarshalCanonicalV2 L (VPosition position) of
             None \<Rightarrow> Some a
           | Some encoded \<Rightarrow>
               Some ((queueMQTTPublication (zero_publication\<lparr>mp_client := a_mqtt a, mp_connection := a_connection a,
                        mp_topic := topic_up a, mp_payload := encoded, mp_expiresAt := e_wall E + 5 * Second, mp_priority := 1,
                        mp_kind := ''v2_position'', mp_positionSessionID := session, mp_positionMemberID := member,
                        mp_positionStreamID := stream, mp_positionRevision := ctl_Revision g,
                        mp_positionEpoch := ctl_TransportEpoch g, mp_positionGeneration := a_positionGeneration a,
                        mp_positionCapturedAt := smp_CapturedAt sample, mp_sourceSequence := pos_Sequence position\<rparr>) a)
                      \<lparr>a_sourceSequenceV2 := pos_Sequence position, a_lastPositionAt := now\<rparr>)
         })"

definition handleGPSV2 :: "golib \<Rightarrow> env \<Rightarrow> string \<Rightarrow> Adapter \<Rightarrow> Adapter option" where
  "handleGPSV2 L E payload a =
     (let now = e_now E; parsed = ParseGPSFix L payload
      in case parseGPSTimestamp payload of
           None \<Rightarrow> Some (withdraw_source L E a)
         | Some capturedAt \<Rightarrow>
             if capturedAt > now then Some (withdraw_source L E a)
             else if \<not> capturedAt > a_gpsObservedAt a then
               Some (case parsed of Inl _ \<Rightarrow> withdraw_source L E a | Inr _ \<Rightarrow> a)
             else let a1 = a\<lparr>a_gpsObservedAt := capturedAt\<rparr>
                  in case parsed of
                       Inl _ \<Rightarrow> Some (withdraw_source L E a1)
                     | Inr fx \<Rightarrow>
                         if time_Sub now capturedAt > 5 * Second then Some (withdraw_source L E a1)
                         else if a_noFixClosedV2 a1 then
                           (if a_fixAvailablePendingV2 a1
                               \<and> (case Option.bind (a_lastSourceStatusV2 a1) src_CapturedAtMS of None \<Rightarrow> False
                                  | Some ms \<Rightarrow> time_Sub now (from_UnixMilli ms) \<le> 5 * Second)
                            then Some (retryNoFixStatusV2Locked L E now a1)
                            else (case publishSourceStatusV2Locked L E ''fix_available'' capturedAt a1 of
                                    (True, a2) \<Rightarrow> Some (a2\<lparr>a_fixAvailablePendingV2 := True, a_recoveryFixAfterV2 := capturedAt\<rparr>)
                                  | (False, a2) \<Rightarrow> Some a2))
                         else (case Observe L fx now (a_estimator a1) of
                                 (None, e) \<Rightarrow> Some ((invalidatePositionPublicationsLocked (a1\<lparr>a_estimator := e\<rparr>))\<lparr>a_estimator := None\<rparr>)
                               | (Some sample, e) \<Rightarrow> publish_position_v2 L E sample (a1\<lparr>a_estimator := e\<rparr>)))"

section \<open>Control\<close>

definition grantableV2Locked :: "env \<Rightarrow> Adapter \<Rightarrow> bool" where
  "grantableV2Locked E a =
     (a_protocolVersion a = 2 \<and> a_settingsReady a \<and> \<not> a_blocked a \<and> a_journalReady a \<and> \<not> a_journalBlockedV2 a \<and> idle_journal a
      \<and> (case a_activityV2 a of None \<Rightarrow> False | Some act \<Rightarrow> act_Active act) \<and> within_lease (e_now E) (a_activityAt a))"

definition grantChallengeCurrentV2Locked :: "env \<Rightarrow> string \<Rightarrow> Adapter \<Rightarrow> bool" where
  "grantChallengeCurrentV2Locked E challenge a =
     (case map_of (a_challenges a) challenge of
        None \<Rightarrow> False
      | Some sentAt \<Rightarrow> within_lease (e_now E) sentAt \<and> (case a_activityV2 a of None \<Rightarrow> False | Some act \<Rightarrow> act_Active act))"

text \<open>A control that moves behind another one: an older epoch, revision or consent, or a member that changed.\<close>

definition behind :: "ControlV2 \<Rightarrow> ControlV2 \<Rightarrow> bool" where
  "behind control g =
     (ctl_TransportEpoch control < ctl_TransportEpoch g \<or> ctl_Revision control < ctl_Revision g
      \<or> ctl_ConsentGeneration control < ctl_ConsentGeneration g)"

definition clear_v2 :: "env \<Rightarrow> string \<Rightarrow> ControlV2 \<Rightarrow> Adapter \<Rightarrow> Adapter" where
  "clear_v2 E payload control a =
     (let done = (\<lambda>a1. queueRedisPublication E ''ride-group:control'' payload 0 (a1\<lparr>a_challenges := []\<rparr>))
      in case a_grantV2 a of
           Some g \<Rightarrow>
             if ctl_SessionID g \<noteq> ctl_SessionID control \<or> ctl_MemberID g \<noteq> ctl_MemberID control \<or> behind control g
                \<or> (ctl_TransportEpoch control = ctl_TransportEpoch g \<and> ctl_StreamID g \<noteq> ctl_StreamID control)
             then a
             else done ((clearGrantV2Locked (a\<lparr>a_lastClearedV2 := Some control\<rparr>))\<lparr>a_activityV2 := None, a_activityAt := 0\<rparr>)
         | None \<Rightarrow> if a_journalBlockedV2 a then a else done a)"

text \<open>The order in which a control and its predecessors are compared; \<open>Some True\<close> is a refusal.\<close>

definition grant_refused_v2 :: "ControlV2 \<Rightarrow> Activity \<Rightarrow> Adapter \<Rightarrow> bool option" where
  "grant_refused_v2 control act a =
     any_of [
       Some (ctl_SessionID control = None \<or> ctl_MemberID control = None
             \<or> (act_SessionID act \<noteq> None
                \<and> (act_SessionID act \<noteq> ctl_SessionID control \<or> act_MemberID act \<noteq> ctl_MemberID control))),
       Some (case a_lastClearedV2 a of None \<Rightarrow> False
             | Some c \<Rightarrow> ctl_SessionID c = ctl_SessionID control
                        \<and> (ctl_TransportEpoch control \<le> ctl_TransportEpoch c \<or> ctl_Revision control < ctl_Revision c)),
       Some (case a_lastAuthorityV2 a of None \<Rightarrow> False
             | Some p \<Rightarrow> ctl_SessionID p = ctl_SessionID control
                        \<and> (behind control p \<or> (ctl_TransportEpoch control = ctl_TransportEpoch p \<and> ctl_StreamID p \<noteq> ctl_StreamID control))),
       (case a_grantV2 a of None \<Rightarrow> Some False
        | Some g \<Rightarrow> any_of [Some (ctl_SessionID g \<noteq> ctl_SessionID control \<or> ctl_MemberID g \<noteq> ctl_MemberID control \<or> behind control g),
                           if ctl_TransportEpoch control = ctl_TransportEpoch g then ptr_neq (ctl_StreamID control) (ctl_StreamID g)
                           else Some False])]"

text \<open>A grant for another stream or epoch restarts the sequence and withdraws what was queued.\<close>

definition new_stream_v2 :: "ControlV2 \<Rightarrow> Adapter \<Rightarrow> bool" where
  "new_stream_v2 control a =
     (case a_grantV2 a of None \<Rightarrow> True
      | Some g \<Rightarrow> ctl_StreamID control = None \<or> ctl_StreamID g = None \<or> ctl_StreamID control \<noteq> ctl_StreamID g
                 \<or> ctl_TransportEpoch control \<noteq> ctl_TransportEpoch g)"

definition restart_stream_v2 :: "ControlV2 \<Rightarrow> Adapter \<Rightarrow> Adapter option" where
  "restart_stream_v2 control a =
     do {
       stream \<leftarrow> ctl_StreamID control;
       session \<leftarrow> ctl_SessionID control;
       let b = (dropPendingV2Source (dropPendingPosition (a\<lparr>a_positionSeq := 0, a_sourceSequenceV2 := 0,
                 a_positionGeneration := Suc (a_positionGeneration a)\<rparr>)))
                 \<lparr>a_positionStreamID := stream, a_positionSessionID := session, a_positionEpoch := ctl_TransportEpoch control\<rparr>;
       Some (if a_fixAvailablePendingV2 b then b\<lparr>a_noFixClosedV2 := False, a_fixAvailablePendingV2 := False\<rparr> else b)
     }"

definition install_v2 :: "golib \<Rightarrow> env \<Rightarrow> ControlV2 \<Rightarrow> Activity \<Rightarrow> duration \<Rightarrow> Adapter \<Rightarrow> Adapter option" where
  "install_v2 L E control act remaining a =
     do {
       a1 \<leftarrow> (if new_stream_v2 control a then restart_stream_v2 control a else Some a);
       cadence \<leftarrow> ctl_CadenceMS control;
       a2 \<leftarrow> setPeerReplayScopeLocked (ctl_SessionID control) (peers_of control)
              (a1\<lparr>a_grantV2 := Some control, a_lastAuthorityV2 := Some control, a_lastClearedV2 := None, a_grantAt := e_now E,
                  a_grantTTL := remaining,
                  a_grantActive := (act_SessionID act \<noteq> None \<and> act_SessionID act = ctl_SessionID control
                                    \<and> act_MemberID act = ctl_MemberID control),
                  a_cadence := (if cadence * Millisecond < Second then Second else cadence * Millisecond)\<rparr>);
       Some (if a_noFixClosedV2 a2 then publishNoFixStatusV2Locked L E a2 else a2)
     }"

definition grant_v2 :: "golib \<Rightarrow> env \<Rightarrow> string \<Rightarrow> ControlV2 \<Rightarrow> Adapter \<Rightarrow> Adapter option" where
  "grant_v2 L E payload control a =
     (if \<not> grantChallengeCurrentV2Locked E (ctl_Challenge control) a \<or> \<not> grantableV2Locked E a then Some a
      else do {
        act \<leftarrow> a_activityV2 a;
        refused \<leftarrow> grant_refused_v2 control act a;
        let sentAt = (case map_of (a_challenges a) (ctl_Challenge control) of None \<Rightarrow> 0 | Some t \<Rightarrow> t);
        let remaining = ctl_LeaseTTLMS control * Millisecond - elapsedSince E sentAt;
        if refused \<or> remaining \<le> 0 then Some a
        else map_option (\<lambda>b. queueRedisPublication E ''ride-group:control'' payload (leaseDuration - elapsedSince E sentAt)
                            (b\<lparr>a_challenges := gm_put (ctl_Challenge control) sentAt (a_challenges b)\<rparr>))
               (install_v2 L E control act remaining a)
      })"

definition handleControlV2 :: "golib \<Rightarrow> env \<Rightarrow> string \<Rightarrow> Adapter \<Rightarrow> Adapter option" where
  "handleControlV2 L E payload a =
     (case ParseControlV2 L payload of
        Inl _ \<Rightarrow> Some a
      | Inr control \<Rightarrow>
          if \<not> link_up E a \<or> ctl_ConnectionNonce control \<noteq> a_connection a then Some a
          else if ctl_Action control = ''status'' then
            (case ctl_StopResult control of
               Some result \<Rightarrow> Some (handleStopStatusV2Locked L E control result a)
             | None \<Rightarrow> Some (queueRedisPublication E ''ride-group:control'' payload v2AttemptLifetime
                              (maybeSendOfferV2Locked L E control a)))
          else if ctl_Action control = ''clear'' then Some (clear_v2 E payload control a)
          else if ctl_Action control \<noteq> ''grant'' \<and> ctl_Action control \<noteq> ''renew'' then Some a
          else grant_v2 L E payload control a)"

section \<open>Peers\<close>

definition in_current_grant :: "string \<Rightarrow> int \<Rightarrow> int \<Rightarrow> string \<Rightarrow> env \<Rightarrow> Adapter \<Rightarrow> bool" where
  "in_current_grant session revision epoch stream E a =
     (grantCurrentV2Locked E (e_now E) a
      \<and> (case a_grantV2 a of None \<Rightarrow> False
         | Some g \<Rightarrow> ctl_SessionID g = Some session \<and> ctl_Revision g = revision \<and> ctl_TransportEpoch g = epoch
                    \<and> ctl_StreamID g = Some stream))"

definition handlePeerV2 :: "golib \<Rightarrow> env \<Rightarrow> string \<Rightarrow> Adapter \<Rightarrow> Adapter" where
  "handlePeerV2 L E payload a =
     (case ParsePeerPositionV2 L payload of
        Inl _ \<Rightarrow> a
      | Inr peer \<Rightarrow>
          if \<not> in_current_grant (peer_SessionID peer) (peer_Revision peer) (peer_TransportEpoch peer) (peer_StreamID peer) E a
             \<or> \<not> peerInGrantLocked (peer_PeerID peer) a
          then a
          else if (case map_of (a_peerStreams a) (peer_PeerID peer) of None \<Rightarrow> False
                   | Some previous \<Rightarrow> peer_PeerTransportEpoch peer < prs_epoch previous
                       \<or> (peer_PeerTransportEpoch peer = prs_epoch previous
                          \<and> (peer_PeerStreamID peer \<noteq> prs_streamID previous \<or> prs_closed previous
                             \<or> peer_Sequence peer \<le> prs_sequence previous \<or> peer_CapturedAtMS peer \<le> prs_captured previous)))
          then a
          else queueRedisPublication E ''ride-group:peers'' payload Second
                 (a\<lparr>a_peerStreams := gm_put (peer_PeerID peer)
                    (zero_replay\<lparr>prs_streamID := peer_PeerStreamID peer, prs_epoch := peer_PeerTransportEpoch peer,
                       prs_sequence := peer_Sequence peer, prs_captured := peer_CapturedAtMS peer\<rparr>) (a_peerStreams a)\<rparr>))"

definition handlePeerStatusV2 :: "golib \<Rightarrow> env \<Rightarrow> string \<Rightarrow> Adapter \<Rightarrow> Adapter" where
  "handlePeerStatusV2 L E payload a =
     (case ParsePeerStatusV2 L payload of
        Inl _ \<Rightarrow> a
      | Inr status \<Rightarrow>
          if \<not> in_current_grant (pst_SessionID status) (pst_Revision status) (pst_TransportEpoch status) (pst_StreamID status) E a
             \<or> \<not> peerInGrantLocked (pst_PeerID status) a
          then a
          else let found = map_of (a_peerStreams a) (pst_PeerID status)
               in if (case found of None \<Rightarrow> False
                      | Some previous \<Rightarrow> pst_PeerTransportEpoch status < prs_epoch previous
                          \<or> (pst_PeerTransportEpoch status = prs_epoch previous \<and> pst_PeerStreamID status \<noteq> prs_streamID previous))
                  then a
                  else let fresh_state = zero_replay\<lparr>prs_streamID := pst_PeerStreamID status, prs_epoch := pst_PeerTransportEpoch status\<rparr>;
                           previous = (case found of None \<Rightarrow> fresh_state
                                       | Some p \<Rightarrow> if pst_PeerTransportEpoch status > prs_epoch p then fresh_state else p);
                           closed = (prs_closed previous \<or> oneOf (pst_Status status) [''inactive'', ''cleared'', ''no_fix''])
                       in queueRedisPublication E ''ride-group:peers'' payload Second
                            (a\<lparr>a_peerStreams := gm_put (pst_PeerID status)
                               (previous\<lparr>prs_status := pst_Status status, prs_closed := closed\<rparr>) (a_peerStreams a)\<rparr>))"

section \<open>Expiry\<close>

definition expireV2LeaseLocked :: "instant \<Rightarrow> Adapter \<Rightarrow> Adapter" where
  "expireV2LeaseLocked now a =
     (let a1 = (if a_activityV2 a \<noteq> None \<and> (time_Sub now (a_activityAt a) \<ge> leaseDuration \<or> now < a_activityAt a)
                then clearGrantV2Locked (a\<lparr>a_activityV2 := None, a_activity := None, a_activityAt := 0, a_challenges := []\<rparr>)
                else a);
          a2 = (if a_grantV2 a1 \<noteq> None \<and> (now < a_grantAt a1 \<or> time_Sub now (a_grantAt a1) \<ge> a_grantTTL a1)
                then clearGrantV2Locked a1 else a1)
      in a2\<lparr>a_journalProbesV2 := filter (\<lambda>(k, p). \<not> (now > lp_deadline p \<or> lp_connection p \<noteq> a_connection a2
                  \<or> lp_ipcEpoch p \<noteq> a_journalIPCEpochV2 a2)) (a_journalProbesV2 a2),
            a_localAttemptsV2 := filter (\<lambda>(k, p). \<not> (now > att_deadline p \<or> lsa_ConnectionNonce p \<noteq> a_connection a2
                  \<or> att_ipcEpoch p \<noteq> a_journalIPCEpochV2 a2)) (a_localAttemptsV2 a2)\<rparr>)"

section \<open>The last check before Redis\<close>

definition receiverTupleCurrentV2Locked :: "string \<Rightarrow> int \<Rightarrow> int \<Rightarrow> string \<Rightarrow> env \<Rightarrow> Adapter \<Rightarrow> bool" where
  "receiverTupleCurrentV2Locked session revision epoch stream E a = in_current_grant session revision epoch stream E a"

definition sameControlIdentityV2 :: "ControlV2 option \<Rightarrow> ControlV2 \<Rightarrow> bool" where
  "sameControlIdentityV2 p v =
     (case p of None \<Rightarrow> False
      | Some g \<Rightarrow> ctl_SessionID g = ctl_SessionID v \<and> ctl_MemberID g = ctl_MemberID v \<and> ctl_StreamID g = ctl_StreamID v
                 \<and> ctl_Revision g = ctl_Revision v)"

definition Milliseconds :: "duration \<Rightarrow> int" where
  "Milliseconds d = go_quot d 1000000"

definition final_grant :: "golib \<Rightarrow> env \<Rightarrow> redisPublication \<Rightarrow> ControlV2 \<Rightarrow> Adapter \<Rightarrow> string option" where
  "final_grant L E p v a =
     (let now = e_now E
      in case a_grantV2 a of
           None \<Rightarrow> None
         | Some g \<Rightarrow>
             if \<not> grantableV2Locked E a \<or> time_IsZero (a_grantAt a) \<or> now < a_grantAt a
                \<or> time_Sub now (a_grantAt a) \<ge> a_grantTTL a \<or> \<not> sameControlIdentityV2 (a_grantV2 a) v
                \<or> ctl_TransportEpoch v \<noteq> ctl_TransportEpoch g \<or> ctl_ConsentGeneration v \<noteq> ctl_ConsentGeneration g
             then None
             else let ttl0 = a_grantTTL a - time_Sub now (a_grantAt a);
                      queuedTTL = ctl_LeaseTTLMS v * Millisecond - time_Sub now (rp_queuedAt p);
                      ttl = (if queuedTTL < ttl0 then queuedTTL else ttl0)
                  in if ttl \<le> 0 then None else MarshalCanonicalV2 L (VControl (v\<lparr>ctl_LeaseTTLMS := Milliseconds ttl\<rparr>)))"

definition replay_of :: "string \<Rightarrow> Adapter \<Rightarrow> peerReplayState" where
  "replay_of peerID a = (case map_of (a_peerStreams a) peerID of None \<Rightarrow> zero_replay | Some s \<Rightarrow> s)"

definition when_ok :: "bool \<Rightarrow> 'a \<Rightarrow> 'a option" where
  "when_ok b x = (if b then Some x else None)"

definition finalRedisPayloadV2Locked :: "golib \<Rightarrow> env \<Rightarrow> redisPublication \<Rightarrow> Adapter \<Rightarrow> string option" where
  "finalRedisPayloadV2Locked L E p a =
     (if a_protocolVersion a \<noteq> 2 then Some (rp_payload p)
      else if \<not> a_settingsReady a \<or> \<not> link_up E a then None
      else case ParseV2Message L (rp_payload p) of
        Inl _ \<Rightarrow> None
      | Inr (VLocalStopProbe v) \<Rightarrow>
          (case map_of (a_journalProbesV2 a) (lsp_Challenge v) of
             None \<Rightarrow> None
           | Some probe \<Rightarrow> when_ok (\<not> lp_consumed probe \<and> lp_connection probe = a_connection a
               \<and> lp_ipcEpoch probe = a_journalIPCEpochV2 a \<and> \<not> e_now E < lp_issuedAt probe \<and> e_now E < lp_deadline probe) (rp_payload p))
      | Inr (VLocalStopResult v) \<Rightarrow>
          (case a_journalStateV2 a of
             None \<Rightarrow> None
           | Some j \<Rightarrow>
               if lsr_ConnectionNonce v \<noteq> a_connection a \<or> ls_OperationID j \<noteq> Some (lsr_OperationID v)
                  \<or> ls_JournalRevision j \<noteq> lsr_JournalRevision v
               then None
               else if lsr_Result v = ''offer'' then when_ok (ls_Phase j = ''preparing'') (rp_payload p)
               else when_ok (ls_Phase j = ''prepared'' \<or> ls_Phase j = ''uncertain'') (rp_payload p))
      | Inr (VControl v) \<Rightarrow>
          if ctl_ConnectionNonce v \<noteq> a_connection a then None
          else if ctl_Action v = ''grant'' \<or> ctl_Action v = ''renew'' then final_grant L E p v a
          else when_ok (\<not> (ctl_Action v = ''clear'' \<and> a_grantV2 a \<noteq> None)) (rp_payload p)
      | Inr (VPeer v) \<Rightarrow>
          if \<not> receiverTupleCurrentV2Locked (peer_SessionID v) (peer_Revision v) (peer_TransportEpoch v) (peer_StreamID v) E a then None
          else let peer = replay_of (peer_PeerID v) a; age = Milliseconds (time_Sub (e_now E) (rp_queuedAt p))
               in if prs_closed peer \<or> prs_epoch peer \<noteq> peer_PeerTransportEpoch v \<or> prs_streamID peer \<noteq> peer_PeerStreamID v
                     \<or> prs_sequence peer \<noteq> peer_Sequence v \<or> prs_captured peer \<noteq> peer_CapturedAtMS v \<or> age < 0
                     \<or> peer_ValidForMS v - age \<le> 0
                  then None
                  else MarshalCanonicalV2 L (VPeer (v\<lparr>peer_ValidForMS := peer_ValidForMS v - age\<rparr>))
      | Inr (VPeerStatus v) \<Rightarrow>
          (let peer = replay_of (pst_PeerID v) a
           in when_ok (receiverTupleCurrentV2Locked (pst_SessionID v) (pst_Revision v) (pst_TransportEpoch v) (pst_StreamID v) E a
                \<and> prs_closed peer \<and> prs_epoch peer = pst_PeerTransportEpoch v \<and> prs_streamID peer = pst_PeerStreamID v) (rp_payload p))
      | Inr _ \<Rightarrow> None)"

text \<open>One turn of the worker towards Redis: the channel and the payload it publishes, if any.\<close>

definition runRedisWorker_turn :: "golib \<Rightarrow> env \<Rightarrow> Adapter \<Rightarrow> (string \<times> string) option \<times> Adapter" where
  "runRedisWorker_turn L E a =
     (case a_redisQueue a of
        [] \<Rightarrow> (None, a)
      | p # q \<Rightarrow>
          (let a1 = a\<lparr>a_redisQueue := q\<rparr>
           in if (\<not> time_IsZero (rp_expiresAt p) \<and> \<not> e_wall E < rp_expiresAt p) \<or> \<not> a_redis a1 then (None, a1)
              else (map_option (\<lambda>payload. (rp_channel p, payload)) (finalRedisPayloadV2Locked L E p a1), a1)))"

end
