(* ===== verification/Ride_System.thy ===== *)
theory Ride_System
  imports Ride_V1 Ride_Grant
begin

text \<open>
  The ride-group adapter as a whole, \<^verbatim>\<open>ridegroup/adapter.go\<close>: its construction, the life of a connection,
  the subscriptions to Redis with their recovery, the ticker, the messages of the cloud, and the step
  relation in which all of these and the workers interleave.

  Subscribing at the broker and reading the settings hash are outside of the program; what they return is
  an argument.
\<close>

section \<open>Construction and life of a connection\<close>

record rideConfig =
  rc_Enabled :: bool
  rc_Identifier :: string
  rc_ProtocolVersion :: int

definition NewAdapter :: "rideConfig \<Rightarrow> bool \<Rightarrow> nat list option list \<Rightarrow> go_error + Adapter" where
  "NewAdapter cfg redis random =
     (case (case random of [] \<Rightarrow> None | r # _ \<Rightarrow> newUUID r) of
        None \<Rightarrow> Inl ''rand''
      | Some bootNonce \<Rightarrow>
          (let version = (if rc_ProtocolVersion cfg = 0 then 2 else rc_ProtocolVersion cfg)
           in if version \<noteq> 1 \<and> version \<noteq> 2 then Inl (''unsupported ride-group protocol version '' @ show_int version)
              else Inr
                \<lparr>a_Enabled = rc_Enabled cfg, a_Identifier = rc_Identifier cfg, a_protocolVersion = nat version, a_redis = redis,
                 a_ctx_done = False, a_random = tl random, a_mqttWorker = False, a_redisWorker = False, a_ackWorker = False,
                 a_mqttWake = [], a_mqttPending = [], a_mqttOrder = 0, a_mqttClosing = False, a_redisQueue = [], a_ackQueue = [],
                 a_mqtt = None, a_connecting = False, a_connectAttempt = 0, a_connection = '''', a_lastHelloAt = 0,
                 a_bootNonce = bootNonce, a_stopSequence = 0, a_activity = None, a_activityAt = 0, a_activityBootNonce = '''',
                 a_activitySequence = 0, a_challenges = [], a_grant = None, a_grantAt = 0, a_grantTTL = 0, a_grantActive = False,
                 a_lastCleared = None, a_cadence = defaultCadence, a_positionSeq = 0, a_positionStreamID = '''',
                 a_positionSessionID = '''', a_positionEpoch = 0, a_positionGeneration = 0, a_lastPositionAt = 0,
                 a_gpsObservedAt = 0, a_blocked = False, a_localStopPending = False, a_settingsReady = False,
                 a_peerStreams = [], a_peerScope = '''', a_estimator = None, a_activityV2 = None, a_grantV2 = None,
                 a_lastClearedV2 = None, a_lastAuthorityV2 = None, a_journalReady = False, a_journalStateV2 = None,
                 a_journalBlockedV2 = False, a_journalIPCEpochV2 = 0, a_journalProbesV2 = [], a_localAttemptsV2 = [],
                 a_usedLocalChallenges = [], a_pendingQueryV2 = None, a_lastSourceStatusV2 = None, a_sourceSequenceV2 = 0,
                 a_noFixClosedV2 = False, a_sourceStatusRetryAt = 0, a_probeTimesV2 = [], a_offerPermitV2 = None,
                 a_fixAvailablePendingV2 = False, a_recoveryFixAfterV2 = 0, a_sourceStatusGeneration = 0\<rparr>))"

text \<open>\<open>Start\<close> starts the workers, and \<open>run\<close>, when the result is \<open>True\<close>.\<close>

definition Start :: "Adapter \<Rightarrow> bool \<times> Adapter" where
  "Start a = (if \<not> a_Enabled a \<or> \<not> a_redis a then (False, a) else (True, startWorkers a))"

text \<open>
  \<open>Stop\<close> withdraws everything under the lock; then it cancels the context and closes the queue of
  publications.
\<close>

definition Stop_begin :: "env \<Rightarrow> Adapter \<Rightarrow> (nat option \<times> string) \<times> Adapter" where
  "Stop_begin E a =
     ((a_mqtt a, if a_Enabled a \<and> link_up E a then topic_down a else ''''),
      (clearGrantLocked (a\<lparr>a_connectAttempt := Suc (a_connectAttempt a), a_connecting := False\<rparr>))\<lparr>a_mqtt := None\<rparr>)"

definition Stop_finish :: "nat option \<Rightarrow> string \<Rightarrow> Adapter \<Rightarrow> Adapter" where
  "Stop_finish client topic a = stopMQTTWorker client topic (a\<lparr>a_ctx_done := True\<rparr>)"

text \<open>
  \<open>OnConnected\<close> in the three sections it runs in: the decision to subscribe and the number of the attempt,
  the nonce of the connection, and the end, when the subscription has succeeded or not.
\<close>

definition OnConnected_begin :: "env \<Rightarrow> nat \<Rightarrow> Adapter \<Rightarrow> nat option \<times> Adapter" where
  "OnConnected_begin E client a =
     (if \<not> a_Enabled a \<or> \<not> e_up E client \<or> a_ctx_done a then (None, a)
      else if (a_mqtt a = Some client \<and> a_connection a \<noteq> '''') \<or> a_connecting a then (None, a)
      else (Some (Suc (a_connectAttempt a)), a\<lparr>a_connecting := True, a_connectAttempt := Suc (a_connectAttempt a)\<rparr>))"

definition OnConnected_abandon :: "nat \<Rightarrow> Adapter \<Rightarrow> Adapter" where
  "OnConnected_abandon attempt a = (if a_connectAttempt a = attempt then a\<lparr>a_connecting := False\<rparr> else a)"

definition OnConnected_nonce :: "nat \<Rightarrow> Adapter \<Rightarrow> string option \<times> Adapter" where
  "OnConnected_nonce attempt a =
     (case draw_UUID a of
        (None, a1) \<Rightarrow> (None, OnConnected_abandon attempt a1)
      | (Some connection, a1) \<Rightarrow> (Some connection, a1))"

definition OnConnected_subscribed :: "golib \<Rightarrow> env \<Rightarrow> nat \<Rightarrow> nat \<Rightarrow> string \<Rightarrow> Adapter \<Rightarrow> Adapter" where
  "OnConnected_subscribed L E client attempt connection a =
     (if a_connectAttempt a \<noteq> attempt then a
      else let a1 = (resetConnectionLocked (Some client) connection (a\<lparr>a_connecting := False\<rparr>))\<lparr>a_lastCleared := None\<rparr>
           in if a_protocolVersion a1 = 2 then
                (let a2 = publishHelloV2Locked L E '''' a1
                 in if a_settingsReady a2 then snd (issueLocalProbeV2Locked L E ProbeReconcileV2 None a2) else a2)
              else let a2 = publishHelloLocked E a1
                   in if a_blocked a2 \<or> a_localStopPending a2 then publishLocalStopLocked E a2 else a2)"

definition OnDisconnected :: "nat option \<Rightarrow> Adapter \<Rightarrow> Adapter" where
  "OnDisconnected client a =
     (if a_mqtt a = client \<or> a_connecting a
      then let a1 = a\<lparr>a_connectAttempt := Suc (a_connectAttempt a), a_connecting := False\<rparr>
           in if a_mqtt a1 = client then resetConnectionLocked None '''' a1 else a1
      else a)"

section \<open>Failing closed and expiry\<close>

definition failClosed :: "env \<Rightarrow> Adapter \<Rightarrow> Adapter" where
  "failClosed E a0 =
     (let a = (if (case a_activity a0 of None \<Rightarrow> False | Some act \<Rightarrow> act_Active act) then publishInactiveLocked E a0 else a0);
          a1 = a\<lparr>a_settingsReady := False, a_activity := None, a_activityV2 := None, a_activityAt := 0, a_challenges := []\<rparr>;
          a2 = (if a_protocolVersion a1 = 2
                then (invalidateLocalAttemptsV2Locked a1)
                       \<lparr>a_offerPermitV2 := None, a_journalReady := False, a_journalBlockedV2 := True, a_journalStateV2 := None,
                        a_journalIPCEpochV2 := Suc (a_journalIPCEpochV2 a1)\<rparr>
                else a1)
      in clearGrantLocked a2)"

definition expireLease :: "golib \<Rightarrow> env \<Rightarrow> Adapter \<Rightarrow> Adapter" where
  "expireLease L E a0 =
     (let now = e_now E;
          a = (if a_protocolVersion a0 = 2 then retryNoFixStatusV2Locked L E now (expireV2LeaseLocked now a0) else a0)
      in if a_activity a \<noteq> None \<and> a_protocolVersion a = 2 then a
         else let a1 = (if a_activity a \<noteq> None \<and> (time_Sub now (a_activityAt a) \<ge> leaseDuration \<or> now < a_activityAt a)
                        then clearGrantLocked (a\<lparr>a_activity := None, a_activityAt := 0, a_challenges := []\<rparr>) else a)
              in if a_grant a1 \<noteq> None \<and> (time_Sub now (a_grantAt a1) \<ge> a_grantTTL a1 \<or> now < a_grantAt a1)
                 then clearGrantLocked a1 else a1)"

section \<open>The settings\<close>

text \<open>\<^verbatim>\<open>strings.EqualFold\<close>: equality under simple folding, for a second argument of ASCII letters.\<close>

definition EqualFold :: "string \<Rightarrow> string \<Rightarrow> bool" where
  "EqualFold s t = (fold_name s = fold_name t)"

definition blocked_value :: "string \<Rightarrow> bool" where
  "blocked_value value = (value = ''1'' \<or> EqualFold value ''true'' \<or> EqualFold value ''yes'')"

text \<open>
  \<open>refreshBlocked\<close>; \<open>hget\<close> is what Redis returns for the field, \<open>Inr None\<close> when the field is missing.  The
  result tells whether it succeeded.
\<close>

definition refreshBlocked :: "golib \<Rightarrow> env \<Rightarrow> go_error + string option \<Rightarrow> Adapter \<Rightarrow> bool \<times> Adapter" where
  "refreshBlocked L E hget a0 =
     (case hget of
        Inl e \<Rightarrow> (False, a0)
      | Inr found \<Rightarrow>
          (let blocked = blocked_value (case found of None \<Rightarrow> '''' | Some value \<Rightarrow> value);
               wasBlocked = a_blocked a0; wasReady = a_settingsReady a0;
               a = a0\<lparr>a_blocked := blocked, a_settingsReady := True\<rparr>
           in (True,
               if a_protocolVersion a = 2 then
                 (let a1 = (if \<not> wasReady \<and> link_up E a
                            then snd (issueLocalProbeV2Locked L E ProbeReconcileV2 None (publishHelloV2Locked L E '''' a)) else a)
                  in if blocked \<or> wasBlocked
                     then let a2 = invalidateLocalAttemptsV2Locked (inhibitJournalV2Locked a1)
                          in maybeIssueReconciliationProbeV2Locked L E (a2\<lparr>a_journalIPCEpochV2 := Suc (a_journalIPCEpochV2 a2)\<rparr>)
                     else a1)
               else if blocked then
                 (let a1 = clearGrantLocked (a\<lparr>a_localStopPending := True, a_activity := None, a_activityAt := 0, a_challenges := []\<rparr>)
                  in if link_up E a1 then publishLocalStopLocked E a1 else a1)
               else if wasBlocked then a\<lparr>a_activity := None, a_activityAt := 0\<rparr>
               else a)))"

section \<open>Messages from Redis and from the cloud\<close>

definition activityChannel :: string where "activityChannel = ''ride-group:activity''"
definition gpsChannel :: string where "gpsChannel = ''gps:tpv''"
definition settingsChannel :: string where "settingsChannel = ''settings''"

definition containsChannel :: "string list \<Rightarrow> string \<Rightarrow> bool" where
  "containsChannel channels name = list_ex (\<lambda>channel. channel = name) channels"

text \<open>\<^verbatim>\<open>strings.Contains\<close>\<close>

fun Contains :: "string \<Rightarrow> string \<Rightarrow> bool" where
  "Contains [] sub = (sub = [])"
| "Contains (c # s) sub = (take (length sub) (c # s) = sub \<or> Contains s sub)"

definition names_blocked :: "string \<Rightarrow> bool" where
  "names_blocked payload = Contains payload ''ride-group.blocked''"

text \<open>The result tells whether the settings have to be read again.\<close>

definition handleRedisMessage :: "golib \<Rightarrow> env \<Rightarrow> string \<Rightarrow> string \<Rightarrow> Adapter \<Rightarrow> (bool \<times> Adapter) option" where
  "handleRedisMessage L E channel payload a =
     (if channel = activityChannel then
        map_option (Pair False) (if a_protocolVersion a = 2 then handleActivityV2 L E payload a else handleActivity L E payload a)
      else if channel = gpsChannel then
        map_option (Pair False) (if a_protocolVersion a = 2 then handleGPSV2 L E payload a else handleGPS L E payload a)
      else Some (channel = settingsChannel \<and> names_blocked payload, a))"

definition dispatch_downlink :: "golib \<Rightarrow> env \<Rightarrow> string \<Rightarrow> string \<Rightarrow> Adapter \<Rightarrow> Adapter option" where
  "dispatch_downlink L E type payload a =
     (if type = ''ride_group_control'' then
        (if a_protocolVersion a = 2 then handleControlV2 L E payload a else handleControl L E payload a)
      else if type = ''ride_group_peer'' then
        (if a_protocolVersion a = 2 then Some (handlePeerV2 L E payload a) else handlePeer L E payload a)
      else if type = ''ride_group_peer_status'' then
        (if a_protocolVersion a = 2 then Some (handlePeerStatusV2 L E payload a) else handlePeerStatus L E payload a)
      else Some a)"

definition handleDownlink :: "golib \<Rightarrow> env \<Rightarrow> message_in option \<Rightarrow> Adapter \<Rightarrow> Adapter option" where
  "handleDownlink L E message a =
     (case message of
        None \<Rightarrow> Some a
      | Some m \<Rightarrow>
          map_option (queueAck message)
            (if mi_retained m \<or> length (mi_payload m) > MaxEnvelopeBytes then Some a
             else case envelope_type (mi_payload m) of
                    None \<Rightarrow> Some a
                  | Some type \<Rightarrow> dispatch_downlink L E type (mi_payload m) a))"

section \<open>The subscription to Redis\<close>

datatype redis_event =
    RedisClosed
  | RedisSubscription string string
  | RedisMessage string string
  | RedisOther

text \<open>\<open>None\<close> for an error; otherwise whether a change of the setting was among the drained events.\<close>

fun drainRedisEvents :: "bool \<Rightarrow> redis_event list \<Rightarrow> bool option" where
  "drainRedisEvents settingsChanged [] = Some settingsChanged"
| "drainRedisEvents settingsChanged (RedisClosed # events) = None"
| "drainRedisEvents settingsChanged (RedisSubscription kind channel # events) = None"
| "drainRedisEvents settingsChanged (RedisMessage channel payload # events) =
     drainRedisEvents (settingsChanged \<or> (channel = settingsChannel \<and> names_blocked payload)) events"
| "drainRedisEvents settingsChanged (RedisOther # events) = drainRedisEvents settingsChanged events"

text \<open>
  Where \<open>run\<close> is: waiting for the subscriptions, at one of the three places of \<open>completeRedisRecovery\<close>
  (the first drain, reading the settings, the second drain), serving messages, reading the settings after
  a change, waiting to subscribe again, or ended.
\<close>

datatype run_phase =
    Awaiting "string list"
  | Draining
  | Recovering
  | Checking
  | Serving
  | Refreshing
  | Restarting
  | Ended

datatype run_input =
    Event redis_event
  | Drained "redis_event list"
  | Hget "go_error + string option"
  | Tick
  | Resubscribe
  | Cancelled

definition run_failed :: "env \<Rightarrow> Adapter \<Rightarrow> run_phase \<times> Adapter" where
  "run_failed E a = (Restarting, failClosed E a)"

definition completeRedisRecovery_begin :: "Adapter \<Rightarrow> run_phase \<times> Adapter" where
  "completeRedisRecovery_begin a = (Draining, a\<lparr>a_settingsReady := False\<rparr>)"

definition completeRedisRecovery_step :: "golib \<Rightarrow> env \<Rightarrow> run_input \<Rightarrow> run_phase \<Rightarrow> Adapter \<Rightarrow> run_phase \<times> Adapter" where
  "completeRedisRecovery_step L E input phase a =
     (case (phase, input) of
        (Draining, Drained events) \<Rightarrow>
          (case drainRedisEvents False events of None \<Rightarrow> run_failed E a | Some _ \<Rightarrow> (Recovering, a))
      | (Recovering, Hget r) \<Rightarrow>
          (case refreshBlocked L E r a of (True, a1) \<Rightarrow> (Checking, a1) | (False, a1) \<Rightarrow> run_failed E a1)
      | (Checking, Drained events) \<Rightarrow>
          (case drainRedisEvents False events of
             None \<Rightarrow> run_failed E a
           | Some True \<Rightarrow> (Draining, a)
           | Some False \<Rightarrow> (Serving, if a_protocolVersion a = 2 then snd (issueLocalProbeV2Locked L E ProbeReconcileV2 None a) else a))
      | _ \<Rightarrow> (phase, a))"

definition run_channels :: "string list" where
  "run_channels = [activityChannel, gpsChannel, settingsChannel]"

text \<open>One turn of \<open>run\<close>; an input that it does not wait for leaves everything as it is.\<close>

definition run_step :: "golib \<Rightarrow> env \<Rightarrow> run_input \<Rightarrow> run_phase \<Rightarrow> Adapter \<Rightarrow> (run_phase \<times> Adapter) option" where
  "run_step L E input phase a =
     (case input of
        Cancelled \<Rightarrow> Some (if a_ctx_done a then Ended else phase, a)
      | Resubscribe \<Rightarrow> Some (if phase = Restarting then Awaiting [] else phase, a)
      | _ \<Rightarrow>
          (case phase of
             Awaiting subscribed \<Rightarrow>
               Some (case input of
                       Event RedisClosed \<Rightarrow> run_failed E a
                     | Event (RedisSubscription kind channel) \<Rightarrow>
                         if kind \<noteq> ''subscribe'' \<or> \<not> containsChannel run_channels channel then (phase, a)
                         else let subscribed' = List.insert channel subscribed
                              in if length subscribed' = length run_channels then completeRedisRecovery_begin a
                                 else (Awaiting subscribed', a)
                     | Tick \<Rightarrow> (phase, expireLease L E a)
                     | _ \<Rightarrow> (phase, a))
           | Serving \<Rightarrow>
               (case input of
                  Event RedisClosed \<Rightarrow> Some (run_failed E a)
                | Event (RedisSubscription kind channel) \<Rightarrow>
                    Some (if kind \<noteq> ''subscribe'' \<or> \<not> containsChannel run_channels channel then (phase, a) else run_failed E a)
                | Event (RedisMessage channel payload) \<Rightarrow>
                    map_option (\<lambda>(again, a1). (if again then Refreshing else Serving, a1)) (handleRedisMessage L E channel payload a)
                | Tick \<Rightarrow> Some (phase, expireLease L E a)
                | _ \<Rightarrow> Some (phase, a))
           | Refreshing \<Rightarrow>
               Some (case input of
                       Hget r \<Rightarrow> (case refreshBlocked L E r a of (True, a1) \<Rightarrow> (Serving, a1) | (False, a1) \<Rightarrow> run_failed E a1)
                     | _ \<Rightarrow> (phase, a))
           | _ \<Rightarrow> Some (completeRedisRecovery_step L E input phase a)))"

section \<open>Interleaving\<close>

text \<open>
  The whole: the adapter, where \<open>run\<close> is, the calls of \<open>OnConnected\<close> that wait for the broker, with their
  client, attempt and, once drawn, nonce, the call of \<open>Stop\<close> between its two sections, and the publication
  the worker holds between its two.
\<close>

record ride =
  rd_adapter :: Adapter
  rd_run :: run_phase
  rd_connects :: "(nat \<times> nat \<times> string option) list"
  rd_stopping :: "(nat option \<times> string) option"
  rd_taken :: "mqttPublication option"
  rd_handed :: "mqttPublication list"

datatype ride_op =
    OpConnected nat
  | OpNonce nat
  | OpSubscribed nat bool
  | OpDisconnected "nat option"
  | OpRun run_input
  | OpDownlink "message_in option"
  | OpTake
  | OpAdmit
  | OpRedis
  | OpAck
  | OpStop
  | OpStopped

text \<open>
  One critical section of some goroutine; \<open>None\<close> when it panics.  An operation that is not due leaves the
  state as it is.
\<close>

fun ride_exec :: "golib \<Rightarrow> env \<Rightarrow> ride_op \<Rightarrow> ride \<Rightarrow> ride option" where
  "ride_exec L E (OpConnected client) s =
     Some (case OnConnected_begin E client (rd_adapter s) of
             (None, a) \<Rightarrow> s\<lparr>rd_adapter := a\<rparr>
           | (Some attempt, a) \<Rightarrow> s\<lparr>rd_adapter := a, rd_connects := (client, attempt, None) # rd_connects s\<rparr>)"
| "ride_exec L E (OpNonce i) s =
     Some (if i < length (rd_connects s) then
             (case rd_connects s ! i of
                (client, attempt, None) \<Rightarrow>
                  (case OnConnected_nonce attempt (rd_adapter s) of
                     (None, a) \<Rightarrow> s\<lparr>rd_adapter := a, rd_connects := take i (rd_connects s) @ drop (Suc i) (rd_connects s)\<rparr>
                   | (Some nonce, a) \<Rightarrow> s\<lparr>rd_adapter := a, rd_connects := (rd_connects s)[i := (client, attempt, Some nonce)]\<rparr>)
              | _ \<Rightarrow> s)
           else s)"
| "ride_exec L E (OpSubscribed i ok) s =
     Some (if i < length (rd_connects s) then
             (case rd_connects s ! i of
                (client, attempt, Some nonce) \<Rightarrow>
                  s\<lparr>rd_adapter := (if ok then OnConnected_subscribed L E client attempt nonce (rd_adapter s)
                                  else OnConnected_abandon attempt (rd_adapter s)),
                    rd_connects := take i (rd_connects s) @ drop (Suc i) (rd_connects s)\<rparr>
              | _ \<Rightarrow> s)
           else s)"
| "ride_exec L E (OpDisconnected client) s = Some (s\<lparr>rd_adapter := OnDisconnected client (rd_adapter s)\<rparr>)"
| "ride_exec L E (OpRun input) s =
     map_option (\<lambda>(phase, a). s\<lparr>rd_run := phase, rd_adapter := a\<rparr>) (run_step L E input (rd_run s) (rd_adapter s))"
| "ride_exec L E (OpDownlink message) s = map_option (\<lambda>a. s\<lparr>rd_adapter := a\<rparr>) (handleDownlink L E message (rd_adapter s))"
| "ride_exec L E OpTake s =
     Some (case rd_taken s of
             Some _ \<Rightarrow> s
           | None \<Rightarrow> (case worker_take (rd_adapter s) of
                       (Inl _, a) \<Rightarrow> s\<lparr>rd_adapter := a\<rparr>
                     | (Inr p, a) \<Rightarrow> s\<lparr>rd_adapter := a, rd_taken := Some p\<rparr>))"
| "ride_exec L E OpAdmit s =
     Some (case rd_taken s of
             None \<Rightarrow> s
           | Some p \<Rightarrow> (case worker_admit E p (rd_adapter s) of
                         PublishedLive c d t p' \<Rightarrow> s\<lparr>rd_taken := None, rd_handed := p' # rd_handed s\<rparr>
                       | _ \<Rightarrow> s\<lparr>rd_taken := None\<rparr>))"
| "ride_exec L E OpRedis s = Some (s\<lparr>rd_adapter := snd (runRedisWorker_turn L E (rd_adapter s))\<rparr>)"
| "ride_exec L E OpAck s = Some (s\<lparr>rd_adapter := (rd_adapter s)\<lparr>a_ackQueue := tl (a_ackQueue (rd_adapter s))\<rparr>\<rparr>)"
| "ride_exec L E OpStop s =
     Some (case Stop_begin E (rd_adapter s) of (r, a) \<Rightarrow> s\<lparr>rd_adapter := a, rd_stopping := Some r\<rparr>)"
| "ride_exec L E OpStopped s =
     Some (case rd_stopping s of
             None \<Rightarrow> s
           | Some (client, topic) \<Rightarrow> s\<lparr>rd_adapter := Stop_finish client topic (rd_adapter s), rd_stopping := None\<rparr>)"

definition ride_init :: "Adapter \<Rightarrow> ride" where
  "ride_init a = \<lparr>rd_adapter = snd (Start a), rd_run = (if fst (Start a) then Awaiting [] else Ended), rd_connects = [],
     rd_stopping = None, rd_taken = None, rd_handed = []\<rparr>"

inductive ride_reachable :: "golib \<Rightarrow> ride \<Rightarrow> bool" for L where
  start: "NewAdapter cfg redis random = Inr a \<Longrightarrow> ride_reachable L (ride_init a)"
| step: "ride_reachable L s \<Longrightarrow> ride_exec L E op s = Some s' \<Longrightarrow> ride_reachable L s'"

text \<open>A run: critical sections one after the other, each at its own instant.\<close>

fun ride_run :: "golib \<Rightarrow> (env \<times> ride_op) list \<Rightarrow> ride \<Rightarrow> ride option" where
  "ride_run L [] s = Some s"
| "ride_run L ((E, op) # ops) s = Option.bind (ride_exec L E op s) (ride_run L ops)"

end
