(* ===== verification/Ride_Gates.thy ===== *)
theory Ride_Gates
  imports Ride_System
begin

text \<open>
  When the adapter shares positions.  \<open>gates\<close> is the part of the state that decides about it: the settings,
  the consent journal, the activity of the vehicle and the grant.  Most operations leave it alone
  (\<open>gate_simps\<close>); \<open>gates_inv\<close> is what the others keep: a grant exists only while everything that it needs
  holds, and all its pointers are set, so that no operation dereferences nil.
\<close>

named_theorems gate_simps

section \<open>Following the control flow\<close>

text \<open>
  A predicate on what an operation returns is carried along the branches, bindings and calls of an operation; what is
  left are the updates.
\<close>

locale carried =
  fixes I :: "'a \<Rightarrow> bool"
begin

lemma carried_if: "(c \<Longrightarrow> I x) \<Longrightarrow> (\<not> c \<Longrightarrow> I y) \<Longrightarrow> I (if c then x else y)"
  by simp

lemma carried_let: "I v \<Longrightarrow> (\<And>x. I x \<Longrightarrow> I (f x)) \<Longrightarrow> I (Let v f)"
  by (simp add: Let_def)

lemma carried_value: "(\<And>x. x = v \<Longrightarrow> I (f x)) \<Longrightarrow> I (Let v f)"
  by (simp add: Let_def)

lemma carried_option:
  "(x = None \<Longrightarrow> I n) \<Longrightarrow> (\<And>y. x = Some y \<Longrightarrow> I (s y)) \<Longrightarrow> I (case x of None \<Rightarrow> n | Some y \<Rightarrow> s y)"
  by (cases x) simp_all

lemma carried_sum:
  "(\<And>e. x = Inl e \<Longrightarrow> I (l e)) \<Longrightarrow> (\<And>y. x = Inr y \<Longrightarrow> I (r y)) \<Longrightarrow> I (case x of Inl e \<Rightarrow> l e | Inr y \<Rightarrow> r y)"
  by (cases x) simp_all

lemma carried_call: "I (snd p) \<Longrightarrow> (\<And>b x. p = (b, x) \<Longrightarrow> I x \<Longrightarrow> I (f b x)) \<Longrightarrow> I (case p of (b, x) \<Rightarrow> f b x)"
  by (cases p) simp

lemma carried_bool: "I x \<Longrightarrow> I y \<Longrightarrow> I (case b of True \<Rightarrow> x | False \<Rightarrow> y)"
  by (cases b) simp_all

lemma carried_snd:
  "(c \<Longrightarrow> I (snd p)) \<Longrightarrow> (\<not> c \<Longrightarrow> I (snd q)) \<Longrightarrow> I (snd (if c then p else q))"
  "(\<And>x. x = v \<Longrightarrow> I (snd (g x))) \<Longrightarrow> I (snd (Let v g))"
  "(o1 = None \<Longrightarrow> I (snd q)) \<Longrightarrow> (\<And>y. o1 = Some y \<Longrightarrow> I (snd (s y))) \<Longrightarrow> I (snd (case o1 of None \<Rightarrow> q | Some y \<Rightarrow> s y))"
  "I (snd r) \<Longrightarrow> (\<And>b x. r = (b, x) \<Longrightarrow> I x \<Longrightarrow> I (snd (f b x))) \<Longrightarrow> I (snd (case r of (b, x) \<Rightarrow> f b x))"
  "I (snd p) \<Longrightarrow> I (snd q) \<Longrightarrow> I (snd (case t of True \<Rightarrow> p | False \<Rightarrow> q))"
  "I x \<Longrightarrow> I (snd (u, x))"
  by (auto simp: Let_def split: option.split prod.split bool.split)

lemma carried_pair:
  "(\<And>b x. p = (b, x) \<Longrightarrow> I (f b x)) \<Longrightarrow> I (case p of (b, x) \<Rightarrow> f b x)"
  "(\<And>b x. r = (b, x) \<Longrightarrow> I (snd (g b x))) \<Longrightarrow> I (snd (case r of (b, x) \<Rightarrow> g b x))"
  by (auto split: prod.split)

lemma carried_let_pair: "I (snd p) \<Longrightarrow> (\<And>b x. I x \<Longrightarrow> I (f b x)) \<Longrightarrow> I (let (b, x) = p in f b x)"
  by (cases p) simp

lemmas rules = carried_let_pair carried_if carried_option carried_sum carried_call carried_bool carried_snd carried_pair

end

section \<open>The gates\<close>

definition gates ::
    "Adapter \<Rightarrow> nat \<times> (bool \<times> bool \<times> bool) \<times> (bool \<times> bool \<times> LocalStopV2 option) \<times> (Activity option \<times> Activity option)
              \<times> (Control option \<times> ControlV2 option) \<times> (duration \<times> bool) \<times> Control option" where
  "gates a = (a_protocolVersion a, (a_settingsReady a, a_blocked a, a_localStopPending a),
     (a_journalReady a, a_journalBlockedV2 a, a_journalStateV2 a), (a_activity a, a_activityV2 a), (a_grant a, a_grantV2 a),
     (a_grantTTL a, a_grantActive a), a_lastCleared a)"

lemma gates_update [simp]:
  "gates (a\<lparr>a_Enabled := x_Enabled\<rparr>) = gates a"
  "gates (a\<lparr>a_Identifier := x_Identifier\<rparr>) = gates a"
  "gates (a\<lparr>a_redis := x_redis\<rparr>) = gates a"
  "gates (a\<lparr>a_ctx_done := x_ctx_done\<rparr>) = gates a"
  "gates (a\<lparr>a_random := x_random\<rparr>) = gates a"
  "gates (a\<lparr>a_mqttWorker := x_mqttWorker\<rparr>) = gates a"
  "gates (a\<lparr>a_redisWorker := x_redisWorker\<rparr>) = gates a"
  "gates (a\<lparr>a_ackWorker := x_ackWorker\<rparr>) = gates a"
  "gates (a\<lparr>a_mqttWake := x_mqttWake\<rparr>) = gates a"
  "gates (a\<lparr>a_mqttPending := x_mqttPending\<rparr>) = gates a"
  "gates (a\<lparr>a_mqttOrder := x_mqttOrder\<rparr>) = gates a"
  "gates (a\<lparr>a_mqttClosing := x_mqttClosing\<rparr>) = gates a"
  "gates (a\<lparr>a_redisQueue := x_redisQueue\<rparr>) = gates a"
  "gates (a\<lparr>a_ackQueue := x_ackQueue\<rparr>) = gates a" "gates (a\<lparr>a_mqtt := x_mqtt\<rparr>) = gates a"
  "gates (a\<lparr>a_connecting := x_connecting\<rparr>) = gates a"
  "gates (a\<lparr>a_connectAttempt := x_connectAttempt\<rparr>) = gates a"
  "gates (a\<lparr>a_connection := x_connection\<rparr>) = gates a"
  "gates (a\<lparr>a_lastHelloAt := x_lastHelloAt\<rparr>) = gates a"
  "gates (a\<lparr>a_bootNonce := x_bootNonce\<rparr>) = gates a"
  "gates (a\<lparr>a_stopSequence := x_stopSequence\<rparr>) = gates a"
  "gates (a\<lparr>a_activityAt := x_activityAt\<rparr>) = gates a"
  "gates (a\<lparr>a_activityBootNonce := x_activityBootNonce\<rparr>) = gates a"
  "gates (a\<lparr>a_activitySequence := x_activitySequence\<rparr>) = gates a"
  "gates (a\<lparr>a_challenges := x_challenges\<rparr>) = gates a"
  "gates (a\<lparr>a_grantAt := x_grantAt\<rparr>) = gates a"
  "gates (a\<lparr>a_cadence := x_cadence\<rparr>) = gates a"
  "gates (a\<lparr>a_positionSeq := x_positionSeq\<rparr>) = gates a"
  "gates (a\<lparr>a_positionStreamID := x_positionStreamID\<rparr>) = gates a"
  "gates (a\<lparr>a_positionSessionID := x_positionSessionID\<rparr>) = gates a"
  "gates (a\<lparr>a_positionEpoch := x_positionEpoch\<rparr>) = gates a"
  "gates (a\<lparr>a_positionGeneration := x_positionGeneration\<rparr>) = gates a"
  "gates (a\<lparr>a_lastPositionAt := x_lastPositionAt\<rparr>) = gates a"
  "gates (a\<lparr>a_gpsObservedAt := x_gpsObservedAt\<rparr>) = gates a"
  "gates (a\<lparr>a_peerStreams := x_peerStreams\<rparr>) = gates a"
  "gates (a\<lparr>a_peerScope := x_peerScope\<rparr>) = gates a"
  "gates (a\<lparr>a_estimator := x_estimator\<rparr>) = gates a"
  "gates (a\<lparr>a_lastClearedV2 := x_lastClearedV2\<rparr>) = gates a"
  "gates (a\<lparr>a_lastAuthorityV2 := x_lastAuthorityV2\<rparr>) = gates a"
  "gates (a\<lparr>a_journalIPCEpochV2 := x_journalIPCEpochV2\<rparr>) = gates a"
  "gates (a\<lparr>a_journalProbesV2 := x_journalProbesV2\<rparr>) = gates a"
  "gates (a\<lparr>a_localAttemptsV2 := x_localAttemptsV2\<rparr>) = gates a"
  "gates (a\<lparr>a_usedLocalChallenges := x_usedLocalChallenges\<rparr>) = gates a"
  "gates (a\<lparr>a_pendingQueryV2 := x_pendingQueryV2\<rparr>) = gates a"
  "gates (a\<lparr>a_lastSourceStatusV2 := x_lastSourceStatusV2\<rparr>) = gates a"
  "gates (a\<lparr>a_sourceSequenceV2 := x_sourceSequenceV2\<rparr>) = gates a"
  "gates (a\<lparr>a_noFixClosedV2 := x_noFixClosedV2\<rparr>) = gates a"
  "gates (a\<lparr>a_sourceStatusRetryAt := x_sourceStatusRetryAt\<rparr>) = gates a"
  "gates (a\<lparr>a_probeTimesV2 := x_probeTimesV2\<rparr>) = gates a"
  "gates (a\<lparr>a_offerPermitV2 := x_offerPermitV2\<rparr>) = gates a"
  "gates (a\<lparr>a_fixAvailablePendingV2 := x_fixAvailablePendingV2\<rparr>) = gates a"
  "gates (a\<lparr>a_recoveryFixAfterV2 := x_recoveryFixAfterV2\<rparr>) = gates a"
  "gates (a\<lparr>a_sourceStatusGeneration := x_sourceStatusGeneration\<rparr>) = gates a"
  by (simp_all add: gates_def)


text \<open>The egress.\<close>

interpretation g: carried "\<lambda>b. gates b = gs" for gs .

lemma gates_egress [gate_simps]:
  "gates (startMQTTWorker a) = gates a" "gates (startRedisWorker a) = gates a" "gates (startAckWorker a) = gates a"
  "gates (startWorkers a) = gates a" "gates (dropPendingPosition a) = gates a" "gates (dropPendingV2Source a) = gates a"
  by (simp_all add: startMQTTWorker_def startRedisWorker_def startAckWorker_def startWorkers_def dropPendingPosition_def
      dropPendingV2Source_def)

lemma gates_queue [gate_simps]:
  "gates (queueMQTTPublication pub a) = gates a" "gates (queueRedisPublication E ch payload age a) = gates a"
  "gates (queueAck m a) = gates a" "gates (stopMQTTWorker c t a) = gates a"
  by (simp_all add: queueMQTTPublication_def queueRedisPublication_def queueAck_def stopMQTTWorker_def gate_simps Let_def
      split: option.split)

lemma gates_draw [gate_simps]: "draw_UUID a = (u, b) \<Longrightarrow> gates b = gates a"
  by (auto simp: draw_UUID_def split: list.splits)

lemma gates_worker [gate_simps]:
  "gates (snd (nextMQTTPublicationLocked a)) = gates a" "gates (snd (worker_take a)) = gates a"
  "gates (snd (runRedisWorker_turn L E a)) = gates a"
  by (auto simp: nextMQTTPublicationLocked_def worker_take_def runRedisWorker_turn_def Let_def split: option.split list.split prod.split)

lemma gates_invalidate [gate_simps]:
  "gates (invalidatePositionPublicationsLocked a) = gates a" "gates (invalidateLocalAttemptsV2Locked a) = gates a"
  "gates (pruneChallengesLocked E now a) = gates a" "gates (consumeProbeV2Locked E probe payload a) = gates a"
  by (simp_all add: invalidatePositionPublicationsLocked_def invalidateLocalAttemptsV2Locked_def pruneChallengesLocked_def
      consumeProbeV2Locked_def gate_simps)

lemma gates_replay [gate_simps]: "setPeerReplayScopeLocked session peers a = Some b \<Longrightarrow> gates b = gates a"
  by (auto simp: setPeerReplayScopeLocked_def Let_def split: option.splits Option.bind_splits)

text \<open>Version 2.\<close>

lemma gates_publishHelloV2 [gate_simps]: "gates (publishHelloV2Locked L E c a) = gates a"
  by (auto simp: publishHelloV2Locked_def gate_simps Let_def split: option.split prod.split)

lemma gates_publishActivityV2 [gate_simps]: "gates (publishActivityV2Locked L E act a) = gates a"
  by (auto simp: publishActivityV2Locked_def gate_simps split: option.split)

lemma gates_probe [gate_simps]: "gates (snd (issueLocalProbeV2Locked L E purpose q a)) = gates a"
  by (auto simp: issueLocalProbeV2Locked_def gate_simps Let_def split: option.split prod.split)

lemma gates_send_stop [gate_simps]: "gates (snd (sendStopV2Locked L E op n fence c mode d a)) = gates a"
  by (auto simp: sendStopV2Locked_def gate_simps Let_def split: option.split)

lemma gates_offer [gate_simps]: "gates (maybeSendOfferV2Locked L E control a) = gates a"
  by (auto simp: maybeSendOfferV2Locked_def gate_simps split: option.split)

lemma gates_maybe_probe [gate_simps]: "gates (maybeIssueReconciliationProbeV2Locked L E a) = gates a"
  by (simp add: maybeIssueReconciliationProbeV2Locked_def gate_simps)

lemma gates_finalize [gate_simps]: "gates (finalizeApplyConfirmationV2Locked L E state probe a) = gates a"
  unfolding finalizeApplyConfirmationV2Locked_def
  by (rule g.rules refl | simp only: gates_update gates_send_stop)+

lemma gates_queued_activity [gate_simps]: "gates (publishQueuedV2ActivityLocked L E a) = gates a"
  by (simp add: publishQueuedV2ActivityLocked_def gate_simps split: option.split)

lemma gates_react [gate_simps]: "gates (react_to_phase L E state probe a) = gates a"
  by (auto simp: react_to_phase_def gate_simps split: option.split)

text \<open>Source status and positions.\<close>

lemma gates_source_value [gate_simps]: "gates (snd (publishSourceStatusValueV2Locked L E status a)) = gates a"
  by (simp add: publishSourceStatusValueV2Locked_def gate_simps Let_def split: option.split)

lemma gates_no_fix [gate_simps]: "gates (publishNoFixStatusV2Locked L E a) = gates a"
  unfolding publishNoFixStatusV2Locked_def
  by (rule g.rules g.carried_value refl | assumption | simp only: gates_update gates_source_value)+

lemma gates_source_status [gate_simps]: "gates (snd (publishSourceStatusV2Locked L E state captured a)) = gates a"
  unfolding publishSourceStatusV2Locked_def
  by (rule g.rules g.carried_value refl | assumption | simp only: gates_update gates_source_value)+

lemma gates_retry [gate_simps]: "gates (retryNoFixStatusV2Locked L E now a) = gates a"
  by (auto simp: retryNoFixStatusV2Locked_def gate_simps Let_def split: option.split)

lemma gates_close_fix [gate_simps]: "gates (closeSourceFixV2Locked L E a) = gates a"
  by (simp add: closeSourceFixV2Locked_def gate_simps)

lemma gates_withdraw [gate_simps]: "gates (withdraw_source L E a) = gates a" "gates (withdraw_positions a) = gates a"
  by (simp_all add: withdraw_source_def withdraw_positions_def gate_simps)

text \<open>Peers.\<close>

lemma gates_peers_v2 [gate_simps]: "gates (handlePeerV2 L E payload a) = gates a" "gates (handlePeerStatusV2 L E payload a) = gates a"
  by (auto simp: handlePeerV2_def handlePeerStatusV2_def gate_simps Let_def split: option.split sum.split)

text \<open>Version 1.\<close>

lemma gates_if: "gates x = g \<Longrightarrow> gates y = g \<Longrightarrow> gates (if c then x else y) = g"
  by simp

lemma gates_hello [gate_simps]: "gates (publishHelloLocked E a) = gates a"
  unfolding publishHelloLocked_def Let_def by (simp add: gates_queue)

lemma gates_activity [gate_simps]: "gates (publishActivityQoSLocked E act qos a) = gates a"
  unfolding publishActivityQoSLocked_def Let_def by (intro gates_if gates_queue refl)

lemma gates_inactive [gate_simps]:
  "gates (publishActivityLocked E act a) = gates a" "gates (publishInactiveLocked E a) = gates a"
  by (simp_all add: publishActivityLocked_def publishInactiveLocked_def gates_activity Let_def gates_draw split: prod.split option.split)

section \<open>When there is a grant\<close>

definition bound_grant :: "'c Control_scheme \<Rightarrow> bool" where
  "bound_grant g = (ctl_SessionID g \<noteq> None \<and> ctl_MemberID g \<noteq> None \<and> ctl_StreamID g \<noteq> None)"

definition paired :: "'m Activity_scheme \<Rightarrow> bool" where
  "paired act = ((act_SessionID act = None) = (act_MemberID act = None))"

definition grant_match :: "'c Control_scheme \<Rightarrow> 'm Activity_scheme \<Rightarrow> bool" where
  "grant_match g act = (act_SessionID act = ctl_SessionID g \<and> act_MemberID act = ctl_MemberID g)"

text \<open>A grant of either version with its activity, and the lease that is left of it.\<close>

definition granted :: "'c Control_scheme option \<Rightarrow> Activity option \<Rightarrow> bool \<Rightarrow> duration \<Rightarrow> bool \<Rightarrow> bool" where
  "granted go ao blocked ttl active =
     (case go of None \<Rightarrow> True
      | Some g \<Rightarrow> bound_grant g \<and> \<not> blocked \<and> 0 < ttl \<and> ttl \<le> leaseDuration
           \<and> (case ao of None \<Rightarrow> False
              | Some act \<Rightarrow> act_Active act \<and> \<not> act_LocalStop act \<and> (active \<longrightarrow> grant_match g act)))"

lemma granted_simps [simp]:
  "granted None ao blocked ttl active"
  "granted (Some g) ao blocked ttl active \<longleftrightarrow> bound_grant g \<and> \<not> blocked \<and> 0 < ttl \<and> ttl \<le> leaseDuration
     \<and> (\<exists>act. ao = Some act \<and> act_Active act \<and> \<not> act_LocalStop act \<and> (active \<longrightarrow> grant_match g act))"
  by (auto simp: granted_def split: option.split)

definition gates_inv :: "bool \<Rightarrow> Adapter \<Rightarrow> bool" where
  "gates_inv stop a =
     ((a_protocolVersion a = 1 \<or> a_protocolVersion a = 2)
      \<and> (if a_protocolVersion a = 2 then a_grant a = None \<and> a_activity a = None \<and> a_lastCleared a = None
         else a_grantV2 a = None \<and> a_activityV2 a = None)
      \<and> pred_option paired (a_activity a) \<and> pred_option (\<lambda>act. paired act \<and> \<not> act_LocalStop act) (a_activityV2 a)
      \<and> pred_option bound_grant (a_lastCleared a)
      \<and> granted (a_grant a) (a_activity a) (a_blocked a) (a_grantTTL a) (a_grantActive a) \<and> (a_grant a \<noteq> None \<longrightarrow> \<not> a_localStopPending a)
      \<and> (stop \<longrightarrow> a_localStopPending a) \<and> granted (a_grantV2 a) (a_activityV2 a) (a_blocked a) (a_grantTTL a) (a_grantActive a)
      \<and> (a_grantV2 a \<noteq> None \<longrightarrow> a_journalReady a \<and> \<not> a_journalBlockedV2 a \<and> idle_journal a))"

lemma gates_inv_cong:
  assumes "gates a = gates b"
  shows "gates_inv stop a = gates_inv stop b"
proof -
  have "a_protocolVersion a = a_protocolVersion b" "a_settingsReady a = a_settingsReady b" "a_blocked a = a_blocked b"
    "a_localStopPending a = a_localStopPending b" "a_journalReady a = a_journalReady b"
    "a_journalBlockedV2 a = a_journalBlockedV2 b" "a_journalStateV2 a = a_journalStateV2 b" "a_activity a = a_activity b"
    "a_activityV2 a = a_activityV2 b" "a_grant a = a_grant b" "a_grantV2 a = a_grantV2 b" "a_grantTTL a = a_grantTTL b"
    "a_grantActive a = a_grantActive b" "a_lastCleared a = a_lastCleared b"
    using assms by (simp_all add: gates_def)
  note eqs = this
  show ?thesis unfolding gates_inv_def idle_journal_def eqs by (rule refl)
qed

lemma gates_fields:
  assumes "gates a = gates b"
  shows "a_protocolVersion a = a_protocolVersion b" "a_settingsReady a = a_settingsReady b" "a_blocked a = a_blocked b"
    "a_localStopPending a = a_localStopPending b" "a_grant a = a_grant b" "a_grantV2 a = a_grantV2 b" "a_activity a = a_activity b"
    "a_activityV2 a = a_activityV2 b"
  using assms by (simp_all add: gates_def)

text \<open>An operation that closes gates is, on them, a plain update.\<close>

lemma gates_clear_v2: "gates (clearGrantV2Locked a) = gates (a\<lparr>a_grantV2 := None, a_grantActive := False, a_grantTTL := 0\<rparr>)"
  by (simp add: clearGrantV2Locked_def dropPendingV2Source_def dropPendingPosition_def gates_def)

lemma gates_clear:
  "gates (clearGrantLocked a) = gates (a\<lparr>a_grant := None, a_grantV2 := None, a_grantActive := False, a_grantTTL := 0\<rparr>)"
  unfolding clearGrantLocked_def gates_clear_v2 by (simp add: invalidatePositionPublicationsLocked_def dropPendingPosition_def gates_def)

lemma gates_reset:
  "gates (resetConnectionLocked client conn a) =
   gates (a\<lparr>a_activity := None, a_journalReady := False, a_activityV2 := None, a_grant := None, a_grantV2 := None,
            a_journalStateV2 := None, a_journalBlockedV2 := False, a_grantActive := False, a_grantTTL := 0\<rparr>)"
  unfolding resetConnectionLocked_def Let_def gates_clear by (simp add: invalidateLocalAttemptsV2Locked_def gates_def)

lemma gates_inhibit:
  "gates (inhibitJournalV2Locked a) =
   gates (a\<lparr>a_journalReady := False, a_journalBlockedV2 := True, a_activityV2 := None, a_activity := None, a_grantV2 := None,
            a_grantActive := False, a_grantTTL := 0\<rparr>)"
  unfolding inhibitJournalV2Locked_def Let_def gates_clear_v2 by (simp add: invalidateLocalAttemptsV2Locked_def gates_def)

lemmas gates_closing = gates_clear_v2 gates_clear gates_reset gates_inhibit

text \<open>What withdrawing keeps, whatever else was changed before it.\<close>

lemma gates_inv_clear: "gates_inv stop a \<Longrightarrow> gates_inv stop (clearGrantLocked a)"
  by (subst gates_inv_cong [OF gates_clear]) (simp add: gates_inv_def split: if_splits)

lemma gates_inv_reset: "gates_inv stop a \<Longrightarrow> gates_inv stop (resetConnectionLocked client conn a)"
  by (subst gates_inv_cong [OF gates_reset]) (simp add: gates_inv_def split: if_splits)

lemma gates_inv_inhibit: "gates_inv stop a \<Longrightarrow> a_protocolVersion a = 2 \<Longrightarrow> gates_inv stop (inhibitJournalV2Locked a)"
  by (subst gates_inv_cong [OF gates_inhibit]) (simp add: gates_inv_def)

section \<open>Version 2 keeps the gates\<close>

text \<open>What an operation of version 2 has to keep.\<close>

definition kept2 :: "bool \<Rightarrow> Adapter \<Rightarrow> bool" where
  "kept2 stop a = (gates_inv stop a \<and> a_protocolVersion a = 2)"

lemma kept2_cong: "gates a = gates b \<Longrightarrow> kept2 stop a = kept2 stop b"
  unfolding kept2_def by (metis gates_inv_cong gates_fields(1))

interpretation k2: carried "kept2 stop" for stop .

lemma kept2_iff:
  "kept2 stop a \<longleftrightarrow> a_protocolVersion a = 2 \<and> a_grant a = None \<and> a_activity a = None \<and> a_lastCleared a = None
     \<and> pred_option (\<lambda>act. paired act \<and> \<not> act_LocalStop act) (a_activityV2 a)
     \<and> granted (a_grantV2 a) (a_activityV2 a) (a_blocked a) (a_grantTTL a) (a_grantActive a)
     \<and> (a_grantV2 a \<noteq> None \<longrightarrow> a_journalReady a \<and> \<not> a_journalBlockedV2 a \<and> idle_journal a)
     \<and> (stop \<longrightarrow> a_localStopPending a)"
  unfolding kept2_def gates_inv_def by auto

lemma kept2_inhibit: "kept2 stop a \<Longrightarrow> kept2 stop (inhibitJournalV2Locked a)"
  using gates_fields(1) [OF gates_inhibit] by (simp add: kept2_def gates_inv_inhibit)

lemma kept2_clear: "kept2 stop a \<Longrightarrow> kept2 stop (clearGrantV2Locked a)"
  by (subst kept2_cong [OF gates_clear_v2]) (simp add: kept2_iff)

lemma kept2_journal:
  assumes "kept2 stop a"
    and "gates b = gates (a\<lparr>a_journalStateV2 := Some state, a_journalBlockedV2 := ls_Blocked state,
           a_journalReady := (ls_Phase state = ''idle'' \<and> \<not> ls_Blocked state)\<rparr>)"
  shows "kept2 stop (if ls_Blocked state \<or> ls_Phase state \<noteq> ''idle'' then clearGrantV2Locked b else b)"
proof (cases "ls_Blocked state \<or> ls_Phase state \<noteq> ''idle''")
  case True
  have "gates (clearGrantV2Locked b) = gates (a\<lparr>a_journalStateV2 := Some state, a_journalBlockedV2 := ls_Blocked state,
          a_journalReady := False, a_grantV2 := None, a_grantActive := False, a_grantTTL := 0\<rparr>)"
    unfolding gates_clear_v2 using assms(2) True by (auto simp: gates_def)
  from kept2_cong [OF this] show ?thesis using True assms(1) by (simp add: kept2_iff)
next
  case False
  have "kept2 stop (a\<lparr>a_journalStateV2 := Some state, a_journalBlockedV2 := ls_Blocked state,
          a_journalReady := (ls_Phase state = ''idle'' \<and> \<not> ls_Blocked state)\<rparr>)"
    using False assms(1) unfolding kept2_iff idle_journal_def by simp
  with kept2_cong [OF assms(2)] False show ?thesis by simp
qed

lemma kept2_answer:
  assumes "kept2 stop a"
  shows "kept2 stop (answer_probe L E state probe canonical a)"
proof -
  let ?b = "(consumeProbeV2Locked E probe canonical a)\<lparr>a_journalStateV2 := Some state,
                  a_journalBlockedV2 := ls_Blocked state, a_journalReady := (ls_Phase state = ''idle'' \<and> \<not> ls_Blocked state)\<rparr>"
  have "gates ?b = gates (a\<lparr>a_journalStateV2 := Some state, a_journalBlockedV2 := ls_Blocked state,
           a_journalReady := (ls_Phase state = ''idle'' \<and> \<not> ls_Blocked state)\<rparr>)"
    using gates_invalidate(4) [of E probe canonical a] by (simp add: gates_def)
  from kept2_journal [OF assms this] show ?thesis
    by (simp only: answer_probe_def Let_def kept2_cong [OF gates_finalize] kept2_cong [OF gates_react] if_distrib [of "kept2 stop"] if_cancel)
qed

lemma kept2_snapshot: "kept2 stop a \<Longrightarrow> kept2 stop (handleLocalStopSnapshotV2 L E state a)"
  by (simp add: handleLocalStopSnapshotV2_def Let_def kept2_cong [OF gates_maybe_probe] kept2_cong [OF gates_invalidate(4)]
      kept2_inhibit kept2_answer split: option.split)

lemmas kept2_simps =
  gates_update [THEN kept2_cong] gates_egress [THEN kept2_cong] gates_queue [THEN kept2_cong] gates_invalidate [THEN kept2_cong]
  gates_publishHelloV2 [THEN kept2_cong] gates_publishActivityV2 [THEN kept2_cong] gates_probe [THEN kept2_cong]
  gates_send_stop [THEN kept2_cong] gates_offer [THEN kept2_cong] gates_maybe_probe [THEN kept2_cong] gates_no_fix [THEN kept2_cong]
  gates_retry [THEN kept2_cong] gates_withdraw [THEN kept2_cong] gates_peers_v2 [THEN kept2_cong] gates_source_status [THEN kept2_cong]

lemma kept2_stop_status: "kept2 stop a \<Longrightarrow> kept2 stop (handleStopStatusV2Locked L E control result a)"
  unfolding handleStopStatusV2Locked_def
  by (assumption | rule k2.rules k2.carried_let k2.carried_value kept2_inhibit | simp only: kept2_simps)+

text \<open>
  The next activity of the vehicle keeps the match with an active grant, because an activity that moves to
  another session is refused; both pointers it compares are set together.
\<close>

definition moved_v2 :: "Activity \<Rightarrow> Adapter \<Rightarrow> bool" where
  "moved_v2 act a =
     (case a_activityV2 a of None \<Rightarrow> False
      | Some cur \<Rightarrow> act_Active act \<and> act_SessionID cur \<noteq> None
                  \<and> (act_SessionID act \<noteq> act_SessionID cur \<or> act_MemberID act \<noteq> act_MemberID cur))"

lemma moved_v2_defined:
  assumes "kept2 stop a" and "paired act"
  shows "(case a_activityV2 a of
            None \<Rightarrow> Some False
          | Some cur \<Rightarrow>
              if act_Active act \<and> act_SessionID cur \<noteq> None \<and> act_SessionID act \<noteq> None then
                any_of [Some (act_SessionID cur \<noteq> act_SessionID act), ptr_neq (act_MemberID cur) (act_MemberID act)]
              else Some (act_Active act \<and> act_SessionID cur \<noteq> None \<and> act_SessionID act = None)) = Some (moved_v2 act a)"
  using assms by (auto simp: kept2_iff moved_v2_def paired_def ptr_neq_def ptr_eq_def split: option.splits)

lemma kept2_activity:
  assumes "kept2 stop a" and "paired act" and "\<not> act_LocalStop act" and "\<not> moved_v2 act a"
    and "gates a1 = gates (a\<lparr>a_activityV2 := Some act, a_activity := None\<rparr>)"
    and "a2 = (if act_Active act then a1 else clearGrantV2Locked a1)"
  shows "\<exists>same. (case a_grantV2 a2 of
                  None \<Rightarrow> Some False
                | Some g \<Rightarrow> if ctl_SessionID g \<noteq> None \<and> act_SessionID act \<noteq> None \<and> ctl_SessionID g = act_SessionID act
                           then ptr_eq (ctl_MemberID g) (act_MemberID act) else Some False) = Some same
           \<and> kept2 stop (if same then a2\<lparr>a_grantActive := True\<rparr> else a2)"
proof (cases "act_Active act")
  case False
  with assms(6) have a2: "gates a2 = gates (a\<lparr>a_activityV2 := Some act, a_activity := None, a_grantV2 := None,
      a_grantActive := False, a_grantTTL := 0\<rparr>)"
    using assms(5) by (auto simp: gates_clear_v2) (simp add: gates_def)
  then have "a_grantV2 a2 = None" by (simp add: gates_def)
  moreover have "kept2 stop a2" using assms(1-3) by (subst kept2_cong [OF a2]) (simp add: kept2_iff)
  ultimately show ?thesis by (intro exI [of _ False]) simp
next
  case True
  with assms(6) have a2: "gates a2 = gates (a\<lparr>a_activityV2 := Some act, a_activity := None\<rparr>)" using assms(5) by simp
  then have g2: "a_grantV2 a2 = a_grantV2 a" by (simp add: gates_def)
  show ?thesis
  proof (cases "a_grantV2 a")
    case None
    moreover have "kept2 stop a2" using assms(1-3) None by (subst kept2_cong [OF a2]) (simp add: kept2_iff)
    ultimately show ?thesis using g2 by (intro exI [of _ False]) simp
  next
    case (Some g)
    obtain cur where g: "bound_grant g" "a_activityV2 a = Some cur" "a_grantActive a \<longrightarrow> grant_match g cur"
      using assms(1) Some by (auto simp: kept2_iff)
    have keep: "a_grantActive a \<longrightarrow> grant_match g act"
      using g assms(4) True by (auto simp: moved_v2_def grant_match_def bound_grant_def)
    have "kept2 stop a2" using assms(1-3) Some True keep by (subst kept2_cong [OF a2]) (auto simp: kept2_iff idle_journal_def)
    moreover have "kept2 stop (a2\<lparr>a_grantActive := True\<rparr>)" if "grant_match g act"
    proof -
      have "gates (a2\<lparr>a_grantActive := True\<rparr>) = gates (a\<lparr>a_activityV2 := Some act, a_activity := None, a_grantActive := True\<rparr>)"
        using a2 by (simp add: gates_def)
      from kept2_cong [OF this] show ?thesis using assms(1-3) Some True that by (auto simp: kept2_iff idle_journal_def)
    qed
    moreover obtain session member where "ctl_SessionID g = Some session" "ctl_MemberID g = Some member"
      using g(1) by (auto simp: bound_grant_def)
    ultimately show ?thesis
      using assms(2) unfolding g2 Some
      by (cases "act_SessionID act"; cases "act_MemberID act") (auto simp: paired_def ptr_eq_def grant_match_def ex_bool_eq)
  qed
qed

text \<open>The operations that may panic.\<close>

definition returns2 :: "bool \<Rightarrow> Adapter option \<Rightarrow> bool" where
  "returns2 stop r = (case r of None \<Rightarrow> False | Some b \<Rightarrow> kept2 stop b)"

lemma returns2_simps [simp]: "returns2 stop (Some b) = kept2 stop b" "\<not> returns2 stop None"
  by (simp_all add: returns2_def)

lemma accept_returns2:
  assumes "kept2 stop a" and "paired act" and "\<not> act_LocalStop act"
  shows "returns2 stop (acceptActivityV2 L E act a)"
proof -
  let ?a1 = "a\<lparr>a_activityV2 := Some act, a_activity := None, a_activityBootNonce := act_BootNonce act,
               a_activitySequence := act_Sequence act, a_activityAt := e_now E\<rparr>"
  have "gates ?a1 = gates (a\<lparr>a_activityV2 := Some act, a_activity := None\<rparr>)" by (simp add: gates_def)
  note act = kept2_activity [OF assms _ this refl]
  show ?thesis
    unfolding acceptActivityV2_def moved_v2_defined [OF assms(1,2)] Let_def
    using act assms(1) by (auto simp: kept2_simps)
qed

lemma activityV2_returns2: "kept2 stop a \<Longrightarrow> returns2 stop (handleActivityV2 L E payload a)"
  unfolding handleActivityV2_def
  by (auto simp: kept2_snapshot ParseActivityV2_def validateActivityV2_def validateActivityFieldsV2_def paired_def
      intro!: accept_returns2 split: option.split sum.split if_splits option.splits)

lemma kept2_clear_control: "kept2 stop a \<Longrightarrow> kept2 stop (clear_v2 E payload control a)"
proof -
  assume a: "kept2 stop a"
  have "gates ((clearGrantV2Locked (a\<lparr>a_lastClearedV2 := Some control\<rparr>))\<lparr>a_activityV2 := None, a_activityAt := 0\<rparr>)
      = gates (a\<lparr>a_grantV2 := None, a_grantActive := False, a_grantTTL := 0, a_activityV2 := None\<rparr>)"
    using gates_clear_v2 [of "a\<lparr>a_lastClearedV2 := Some control\<rparr>"] by (simp add: gates_def)
  from kept2_cong [OF this] have "kept2 stop ((clearGrantV2Locked (a\<lparr>a_lastClearedV2 := Some control\<rparr>))\<lparr>a_activityV2 := None, a_activityAt := 0\<rparr>)"
    using a by (simp add: kept2_iff)
  then show ?thesis using a by (auto simp: clear_v2_def Let_def kept2_simps split: option.split)
qed

lemma control_bound:
  assumes "ParseControlV2 L payload = Inr c" and "ctl_Action c = ''grant'' \<or> ctl_Action c = ''renew''"
  shows "bound_grant c" and "1 \<le> ctl_LeaseTTLMS c" and "ctl_LeaseTTLMS c \<le> 10000" and "ctl_CadenceMS c \<noteq> None"
proof -
  have "validateControlV2 c True = None"
    using assms(1) by (auto simp: ParseControlV2_def split: option.splits if_splits)
  then have v: "bound_control c \<and> 1 \<le> ctl_LeaseTTLMS c \<and> ctl_LeaseTTLMS c \<le> 10000 \<and> ctl_CadenceMS c \<noteq> None"
    using assms(2) by (auto simp: validateControlV2_def split: option.splits if_splits)
  then show "bound_grant c" by (auto simp: bound_control_def bound_grant_def validUUIDPtr_def split: option.splits)
  show "1 \<le> ctl_LeaseTTLMS c" "ctl_LeaseTTLMS c \<le> 10000" "ctl_CadenceMS c \<noteq> None" using v by auto
qed

lemma kept2_expire: "kept2 stop a \<Longrightarrow> kept2 stop (expireV2LeaseLocked now a)"
proof -
  assume a: "kept2 stop a"
  have "kept2 stop (clearGrantV2Locked (a\<lparr>a_activityV2 := None, a_activity := None, a_activityAt := 0, a_challenges := []\<rparr>))"
    by (subst kept2_cong [OF gates_clear_v2]) (use a in \<open>simp add: kept2_iff\<close>)
  then show ?thesis
    unfolding expireV2LeaseLocked_def using a
    by (auto simp: Let_def kept2_simps kept2_clear)
qed

lemma publish_returns2: "kept2 stop a \<Longrightarrow> returns2 stop (publish_position_v2 L E sample a)"
proof -
  assume a: "kept2 stop a"
  show ?thesis
  proof (cases "grantCurrentV2Locked E (e_now E) a")
    case False
    then show ?thesis using a by (simp add: publish_position_v2_def Let_def)
  next
    case True
    then obtain g where g: "a_grantV2 a = Some g" by (auto simp: grantCurrentV2Locked_def)
    with a obtain s m st where "ctl_SessionID g = Some s" "ctl_MemberID g = Some m" "ctl_StreamID g = Some st"
      by (auto simp: kept2_iff bound_grant_def)
    then show ?thesis using a g by (auto simp: publish_position_v2_def Let_def kept2_simps split: option.split)
  qed
qed

lemma gps_returns2: "kept2 stop a \<Longrightarrow> returns2 stop (handleGPSV2 L E payload a)"
proof -
  assume a: "kept2 stop a"
  have s: "publishSourceStatusV2Locked L E st c b = (t, d) \<Longrightarrow> kept2 stop b \<Longrightarrow> kept2 stop d" for st c b t d
    by (metis gates_source_status kept2_cong snd_conv)
  show ?thesis
    using a by (auto simp: handleGPSV2_def Let_def kept2_simps publish_returns2 dest: s split: option.split sum.split prod.split bool.split)
qed

text \<open>A grant needs a challenge that was sent less than a lease ago; its own lease is what is left.\<close>

lemma kept2_installed:
  assumes "kept2 stop a" and "grantableV2Locked E a" and "a_activityV2 a = Some act" and "bound_grant control"
    and "0 < ttl" and "ttl \<le> leaseDuration" and "active \<longrightarrow> grant_match control act"
    and "gates b = gates (a\<lparr>a_grantV2 := Some control, a_grantTTL := ttl, a_grantActive := active\<rparr>)"
  shows "kept2 stop b"
  using assms(1-7) by (subst kept2_cong [OF assms(8)]) (auto simp: kept2_iff grantableV2Locked_def idle_journal_def)

lemma challenge_sent:
  assumes "grantChallengeCurrentV2Locked E challenge a"
  obtains sentAt act where "map_of (a_challenges a) challenge = Some sentAt" "0 \<le> elapsedSince E sentAt"
    "elapsedSince E sentAt < leaseDuration" "a_activityV2 a = Some act" "act_Active act"
  using assms that by (auto simp: grantChallengeCurrentV2Locked_def within_lease_def elapsedSince_def split: option.splits)

lemma any_of_defined: "None \<notin> set cs \<Longrightarrow> any_of cs = Some (Some True \<in> set cs)"
proof (induction cs)
  case (Cons c cs)
  then obtain b where "c = Some b" by (cases c) auto
  with Cons show ?case by (cases b) auto
qed simp

lemma ptr_neq_defined: "p \<noteq> None \<Longrightarrow> q \<noteq> None \<Longrightarrow> ptr_neq p q = Some (p \<noteq> q)"
  by (auto simp: ptr_neq_def ptr_eq_def)

lemma ptr_eq_defined: "p \<noteq> None \<Longrightarrow> q \<noteq> None \<Longrightarrow> ptr_eq p q = Some (p = q)"
  by (auto simp: ptr_eq_def)

lemma refused_defined:
  assumes "pred_option bound_grant (a_grantV2 a)" and "bound_grant control"
  obtains refused where "grant_refused_v2 control act a = Some refused"
proof -
  have "case a_grantV2 a of None \<Rightarrow> True | Some g \<Rightarrow> ptr_neq (ctl_StreamID control) (ctl_StreamID g) \<noteq> None"
    using assms by (auto simp: bound_grant_def ptr_neq_defined split: option.split)
  then show thesis using that
    unfolding grant_refused_v2_def by (subst (asm) any_of_defined) (auto simp: any_of_defined split: option.splits)
qed

lemma restart_gates:
  assumes "bound_grant control"
  obtains b where "restart_stream_v2 control a = Some b" "gates b = gates a"
  using assms that
  by (auto simp: restart_stream_v2_def bound_grant_def Let_def gates_def dropPendingV2Source_def dropPendingPosition_def)

lemma install_gates:
  assumes "bound_grant control" and "ctl_CadenceMS control \<noteq> None"
  obtains b where "install_v2 L E control act remaining a = Some b"
    "gates b = gates (a\<lparr>a_grantV2 := Some control, a_grantTTL := remaining,
       a_grantActive := (act_SessionID act \<noteq> None \<and> act_SessionID act = ctl_SessionID control
                         \<and> act_MemberID act = ctl_MemberID control)\<rparr>)"
proof -
  obtain a1 where a1: "(if new_stream_v2 control a then restart_stream_v2 control a else Some a) = Some a1" "gates a1 = gates a"
    using restart_gates [OF assms(1)] by (metis)
  obtain cadence session where c: "ctl_CadenceMS control = Some cadence" "ctl_SessionID control = Some session"
    using assms by (auto simp: bound_grant_def)
  let ?a2 = "a1\<lparr>a_grantV2 := Some control, a_lastAuthorityV2 := Some control, a_lastClearedV2 := None, a_grantAt := e_now E,
                  a_grantTTL := remaining,
                  a_grantActive := (act_SessionID act \<noteq> None \<and> act_SessionID act = ctl_SessionID control
                                    \<and> act_MemberID act = ctl_MemberID control),
                  a_cadence := (if cadence * Millisecond < Second then Second else cadence * Millisecond)\<rparr>"
  obtain a3 where a3: "setPeerReplayScopeLocked (ctl_SessionID control) (peers_of control) ?a2 = Some a3"
    using c(2) by (simp add: setPeerReplayScopeLocked_def Let_def)
  let ?b = "if a_noFixClosedV2 a3 then publishNoFixStatusV2Locked L E a3 else a3"
  have "install_v2 L E control act remaining a = Some ?b"
    unfolding install_v2_def a1(1) bind.bind_lunit c(1) a3 by simp
  moreover have "gates ?b = gates ?a2" using gates_replay [OF a3] by (simp add: gates_no_fix)
  moreover have "gates ?a2 = gates (a\<lparr>a_grantV2 := Some control, a_grantTTL := remaining,
       a_grantActive := (act_SessionID act \<noteq> None \<and> act_SessionID act = ctl_SessionID control
                         \<and> act_MemberID act = ctl_MemberID control)\<rparr>)"
    using a1(2) by (simp add: gates_def)
  ultimately show thesis using that by simp
qed

lemma grant_returns2:
  assumes "kept2 stop a" and "bound_grant control" and "ctl_LeaseTTLMS control \<le> 10000" and "ctl_CadenceMS control \<noteq> None"
  shows "returns2 stop (grant_v2 L E payload control a)"
proof (cases "grantChallengeCurrentV2Locked E (ctl_Challenge control) a \<and> grantableV2Locked E a")
  case False
  then show ?thesis using assms(1) by (auto simp: grant_v2_def)
next
  case True
  then obtain sentAt act where c: "map_of (a_challenges a) (ctl_Challenge control) = Some sentAt" "0 \<le> elapsedSince E sentAt"
    "a_activityV2 a = Some act" by (blast elim: challenge_sent)
  have "pred_option bound_grant (a_grantV2 a)" using assms(1) by (cases "a_grantV2 a") (auto simp: kept2_iff)
  then obtain refused where r: "grant_refused_v2 control act a = Some refused" using refused_defined [OF _ assms(2)] by blast
  let ?ttl = "ctl_LeaseTTLMS control * Millisecond - elapsedSince E sentAt"
  have ttl: "?ttl \<le> leaseDuration" using assms(3) c(2) by (simp add: leaseDuration_def)
  obtain b where b: "install_v2 L E control act ?ttl a = Some b"
    "gates b = gates (a\<lparr>a_grantV2 := Some control, a_grantTTL := ?ttl,
       a_grantActive := (act_SessionID act \<noteq> None \<and> act_SessionID act = ctl_SessionID control
                         \<and> act_MemberID act = ctl_MemberID control)\<rparr>)"
    using install_gates [OF assms(2,4)] by blast
  have "kept2 stop b" if "0 < ?ttl"
    by (rule kept2_installed [OF assms(1) conjunct2 [OF True] c(3) assms(2) that ttl _ b(2)]) (simp add: grant_match_def)
  then show ?thesis
    using True c r b(1) assms(1) by (simp add: grant_v2_def Let_def kept2_simps)
qed

lemma control_returns2: "kept2 stop a \<Longrightarrow> returns2 stop (handleControlV2 L E payload a)"
  by (auto simp: handleControlV2_def kept2_simps kept2_stop_status kept2_clear_control
      intro!: grant_returns2 dest: control_bound split: sum.split option.split)

end
