(* ===== verification/Ride_Safety.thy ===== *)
theory Ride_Safety
  imports Ride_Gates
begin

text \<open>
  The operations of version 1 keep the gates, and so does every critical section of the whole adapter; no
  reachable one dereferences nil.  Then what follows for the vehicle: when positions are shared, and when
  no longer.
\<close>

section \<open>Version 1 keeps the gates\<close>

definition kept1 :: "bool \<Rightarrow> Adapter \<Rightarrow> bool" where
  "kept1 stop a = (gates_inv stop a \<and> a_protocolVersion a = 1)"

lemma kept1_cong: "gates a = gates b \<Longrightarrow> kept1 stop a = kept1 stop b"
  unfolding kept1_def by (metis gates_inv_cong gates_fields(1))

lemma kept1_iff:
  "kept1 stop a \<longleftrightarrow> a_protocolVersion a = 1 \<and> a_grantV2 a = None \<and> a_activityV2 a = None
     \<and> pred_option paired (a_activity a) \<and> pred_option bound_grant (a_lastCleared a)
     \<and> granted (a_grant a) (a_activity a) (a_blocked a) (a_grantTTL a) (a_grantActive a)
     \<and> (a_grant a \<noteq> None \<longrightarrow> \<not> a_localStopPending a) \<and> (stop \<longrightarrow> a_localStopPending a)"
  unfolding kept1_def gates_inv_def by auto

lemmas kept1_simps =
  gates_update [THEN kept1_cong] gates_egress [THEN kept1_cong] gates_queue [THEN kept1_cong] gates_invalidate [THEN kept1_cong]
  gates_hello [THEN kept1_cong] gates_activity [THEN kept1_cong] gates_inactive [THEN kept1_cong] gates_withdraw [THEN kept1_cong]

definition returns1 :: "bool \<Rightarrow> Adapter option \<Rightarrow> bool" where
  "returns1 stop r = (case r of None \<Rightarrow> False | Some b \<Rightarrow> kept1 stop b)"

lemma returns1_simps [simp]: "returns1 stop (Some b) = kept1 stop b" "\<not> returns1 stop None"
  by (simp_all add: returns1_def)

lemma gates_local_stop:
  "gates (publishLocalStopLocked E a) = gates a \<or> gates (publishLocalStopLocked E a) = gates (a\<lparr>a_localStopPending := True\<rparr>)"
proof (cases "\<not> link_up E a \<or> a_connection a = ''''")
  case False
  obtain u b where d: "draw_UUID a = (u, b)" by (cases "draw_UUID a")
  then have "gates b = gates a" by (rule gates_draw)
  then have "gates (b\<lparr>a_stopSequence := n, a_localStopPending := True\<rparr>) = gates (a\<lparr>a_localStopPending := True\<rparr>)" for n
    by (simp add: gates_def)
  with False d \<open>gates b = gates a\<close> show ?thesis
    by (simp add: publishLocalStopLocked_def Let_def gates_activity split: option.split)
qed (simp add: publishLocalStopLocked_def)

lemma kept1_local_stop: "kept1 stop a \<Longrightarrow> a_grant a = None \<Longrightarrow> kept1 stop (publishLocalStopLocked E a)"
  by (rule disjE [OF gates_local_stop [of E a]]; drule kept1_cong [where stop = stop]) (simp_all add: kept1_iff)

lemma kept1_end_activity:
  assumes "kept1 stop a" and "paired act"
  shows "kept1 stop (end_activity E act a)"
proof -
  let ?a = "a\<lparr>a_activity := Some act, a_activityAt := e_now E, a_activityBootNonce := act_BootNonce act,
                 a_activitySequence := act_Sequence act, a_challenges := []\<rparr>"
  let ?b = "if act_LocalStop act then (clearGrantLocked ?a)\<lparr>a_localStopPending := True\<rparr> else clearGrantLocked ?a"
  have g: "gates (clearGrantLocked ?a) = gates (a\<lparr>a_activity := Some act, a_grant := None, a_grantV2 := None,
      a_grantActive := False, a_grantTTL := 0\<rparr>)"
    unfolding gates_clear by (simp add: gates_def)
  then have g': "gates ((clearGrantLocked ?a)\<lparr>a_localStopPending := True\<rparr>) = gates (a\<lparr>a_activity := Some act, a_grant := None,
      a_grantV2 := None, a_grantActive := False, a_grantTTL := 0, a_localStopPending := True\<rparr>)"
    by (simp add: gates_def)
  have "kept1 stop ?b" using assms kept1_cong [OF g] kept1_cong [OF g'] by (simp add: kept1_iff)
  then show ?thesis unfolding end_activity_def Let_def by (simp add: kept1_simps)
qed

text \<open>An activity of another session, or of none, is refused while there is a grant.\<close>

lemma other_session_defined:
  assumes "kept1 stop a" and "paired act"
  shows "other_session act a = Some (case a_grant a of None \<Rightarrow> False | Some g \<Rightarrow> \<not> grant_match g act)"
proof (cases "a_grant a")
  case (Some g)
  with assms(1) obtain s m where "ctl_SessionID g = Some s" "ctl_MemberID g = Some m" by (auto simp: kept1_iff bound_grant_def)
  with Some assms(2) show ?thesis
    by (cases "act_SessionID act"; cases "act_MemberID act")
       (auto simp: other_session_def grant_match_def paired_def ptr_neq_def ptr_eq_def)
qed (simp add: other_session_def)

lemma take_returns1:
  assumes "kept1 stop a" and "paired act" and "act_Active act" and "\<not> act_LocalStop act"
    and m: "case a_grant a of None \<Rightarrow> True | Some g \<Rightarrow> grant_match g act"
  shows "returns1 stop (take_activity E act a)"
proof -
  have g: "\<not> a_blocked a \<and> \<not> a_localStopPending a \<or> a_grant a = None"
    using assms(1) by (cases "a_grant a") (auto simp: kept1_iff)
  let ?a1 = "a\<lparr>a_activity := Some act, a_activityBootNonce := act_BootNonce act, a_activitySequence := act_Sequence act\<rparr>"
  have "gates ?a1 = gates (a\<lparr>a_activity := Some act\<rparr>)" "gates (?a1\<lparr>a_grantActive := x\<rparr>) = gates (a\<lparr>a_activity := Some act, a_grantActive := x\<rparr>)" for x
    by (simp_all add: gates_def)
  note c = this [THEN kept1_cong]
  have k: "kept1 stop ?a1" "kept1 stop (?a1\<lparr>a_grantActive := True\<rparr>)"
    using assms g by (auto simp: c kept1_iff simp del: One_nat_def split: option.splits)
  have same: "(case a_grant ?a1 of None \<Rightarrow> Some False
      | Some g \<Rightarrow> all_of [Some (ctl_SessionID g \<noteq> None), Some (act_SessionID act \<noteq> None),
                         Some (act_SessionID act = ctl_SessionID g), ptr_eq (act_MemberID act) (ctl_MemberID g)]) = Some (a_grant a \<noteq> None)"
    using assms(1) m by (cases "a_grant a") (auto simp: kept1_iff bound_grant_def grant_match_def ptr_eq_def)
  show ?thesis unfolding take_activity_def same bind.bind_lunit Let_def using k by (simp add: kept1_simps)
qed

lemma activity_returns1: "kept1 stop a \<Longrightarrow> returns1 stop (handleActivity L E payload a)"
proof (cases "ParseActivity L payload")
  case (Inr act)
  assume a: "kept1 stop a"
  have p: "paired act" using Inr by (auto simp: ParseActivity_def validActivity_def paired_def split: option.splits if_splits)
  have "a_blocked a \<or> a_localStopPending a \<Longrightarrow> a_grant a = None" using a by (cases "a_grant a") (auto simp: kept1_iff)
  then have stop: "a_blocked a \<or> a_localStopPending a \<Longrightarrow>
      kept1 stop (publishLocalStopLocked E (a\<lparr>a_activityBootNonce := act_BootNonce act, a_activitySequence := act_Sequence act\<rparr>))"
    using a by (simp add: kept1_local_stop kept1_simps)
  have take: "returns1 stop (if \<not> (case a_grant a of None \<Rightarrow> True | Some g \<Rightarrow> grant_match g act) then Some a else take_activity E act a)"
    if "act_Active act" "\<not> act_LocalStop act"
    using take_returns1 [OF a p that] a by simp
  have other: "other_session act a = Some (\<not> (case a_grant a of None \<Rightarrow> True | Some g \<Rightarrow> grant_match g act))"
    using other_session_defined [OF a p] by (simp split: option.split)
  show ?thesis
    unfolding handleActivity_def Inr sum.case other bind.bind_lunit
    using a stop take kept1_end_activity [OF a p] by simp
qed (simp add: handleActivity_def)

lemma control_bound_v1:
  assumes "ParseControl L payload = Inr c"
  shows "ctl_Action c = ''grant'' \<or> ctl_Action c = ''renew'' \<Longrightarrow>
           bound_grant c \<and> 1 \<le> ctl_LeaseTTLMS c \<and> ctl_LeaseTTLMS c \<le> 10000 \<and> ctl_CadenceMS c \<noteq> None"
    and "ctl_Action c = ''clear'' \<Longrightarrow> bound_grant c"
proof -
  have v: "validControl c" using assms by (auto simp: ParseControl_def split: option.splits if_splits)
  show "ctl_Action c = ''grant'' \<or> ctl_Action c = ''renew'' \<Longrightarrow>
      bound_grant c \<and> 1 \<le> ctl_LeaseTTLMS c \<and> ctl_LeaseTTLMS c \<le> 10000 \<and> ctl_CadenceMS c \<noteq> None"
    using v by (auto simp: validControl_def bound_grant_def validUUIDPtr_def split: option.splits)
  show "ctl_Action c = ''clear'' \<Longrightarrow> bound_grant c"
    using v by (auto simp: validControl_def bound_grant_def validUUIDPtr_def split: option.splits)
qed

lemma all_of_defined: "None \<notin> set cs \<Longrightarrow> all_of cs = Some (Some False \<notin> set cs)"
proof (induction cs)
  case (Cons c cs)
  then obtain b where "c = Some b" by (cases c) auto
  with Cons show ?case by (cases b) auto
qed simp

lemma ignored_defined:
  assumes "pred_option bound_grant (a_grant a)" and "pred_option bound_grant (a_lastCleared a)" and "bound_grant control"
  obtains ignored where "clear_ignored control a = Some ignored"
  using assms that
  by (cases "a_grant a"; cases "a_lastCleared a"; cases "a_localStopPending a")
     (auto simp: clear_ignored_def any_of_defined ptr_neq_defined bound_grant_def simp del: any_of.simps)

lemma refused_defined_v1:
  assumes "pred_option bound_grant (a_grant a)" and "pred_option bound_grant (a_lastCleared a)" and "bound_grant control"
    and "a_activity a = Some act" and "paired act"
  obtains refused where "grant_refused control a = Some refused"
    and "refused \<or> act_SessionID act = None \<or> grant_match control act"
proof -
  have 1: "(case a_lastCleared a of None \<Rightarrow> Some False
        | Some c \<Rightarrow>
            all_of [Some (ctl_SessionID control \<noteq> None), Some (ctl_MemberID control \<noteq> None),
                    ptr_eq (ctl_SessionID control) (ctl_SessionID c), ptr_eq (ctl_MemberID control) (ctl_MemberID c),
                    Some (ctl_Revision control < ctl_Revision c \<or> ctl_TransportEpoch control < ctl_TransportEpoch c
                          \<or> (ctl_Revision control = ctl_Revision c \<and> ctl_TransportEpoch control = ctl_TransportEpoch c))]) \<noteq> None"
    using assms(2,3) by (cases "a_lastCleared a") (auto simp: all_of_defined ptr_eq_defined bound_grant_def simp del: all_of.simps)
  have 2: "(case a_grant a of None \<Rightarrow> Some False
        | Some g \<Rightarrow>
            any_of [Some (ctl_SessionID g = None \<or> ctl_MemberID g = None \<or> ctl_StreamID g = None),
                    ptr_neq (ctl_SessionID control) (ctl_SessionID g), ptr_neq (ctl_MemberID control) (ctl_MemberID g),
                    Some (ctl_TransportEpoch control < ctl_TransportEpoch g \<or> ctl_Revision control < ctl_Revision g),
                    if ctl_TransportEpoch control = ctl_TransportEpoch g then ptr_neq (ctl_StreamID control) (ctl_StreamID g)
                    else Some False]) \<noteq> None"
    using assms(1,3) by (cases "a_grant a") (auto simp: any_of_defined ptr_neq_defined bound_grant_def simp del: any_of.simps)
  have 3: "(if act_SessionID act = None then Some False
            else any_of [ptr_neq (act_SessionID act) (ctl_SessionID control), ptr_neq (act_MemberID act) (ctl_MemberID control)])
         = Some (\<not> (act_SessionID act = None \<or> grant_match control act))"
    using assms(3,5) by (auto simp: any_of_defined ptr_neq_defined bound_grant_def paired_def grant_match_def simp del: any_of.simps)
  show thesis
    using that 1 2 unfolding grant_refused_def assms(4) option.case 3
    by (cases "act_SessionID act"; subst (asm) any_of_defined) auto
qed

lemma install_gates_v1:
  assumes "pred_option bound_grant (a_grant a)" and "bound_grant control" and "ctl_CadenceMS control \<noteq> None"
    and "a_activity a = Some act" and "paired act"
  obtains b where "install_grant E control remaining a = Some b"
    "gates b = gates (a\<lparr>a_grant := Some control, a_lastCleared := None, a_grantTTL := remaining,
       a_grantActive := grant_match control act\<rparr>)"
proof -
  obtain s m st cad where c: "ctl_SessionID control = Some s" "ctl_MemberID control = Some m" "ctl_StreamID control = Some st"
    "ctl_CadenceMS control = Some cad" using assms(2,3) by (auto simp: bound_grant_def)
  define a1 where "a1 = (if a_positionStreamID a \<noteq> st \<or> a_positionSessionID a \<noteq> s \<or> a_positionEpoch a \<noteq> ctl_TransportEpoch control
                 then a\<lparr>a_positionSeq := 0, a_positionStreamID := st, a_positionSessionID := s,
                        a_positionEpoch := ctl_TransportEpoch control\<rparr> else a)"
  have a1: "gates a1 = gates a" by (simp add: a1_def)
  obtain changed where ch: "(case a_grant a1 of None \<Rightarrow> Some True
      | Some g \<Rightarrow> any_of [ptr_neq (ctl_SessionID g) (Some s), ptr_neq (ctl_MemberID g) (Some m), ptr_neq (ctl_StreamID g) (Some st),
                         Some (ctl_Revision g \<noteq> ctl_Revision control \<or> ctl_TransportEpoch g \<noteq> ctl_TransportEpoch control)]) = Some changed"
    using assms(1,2) gates_fields(5) [OF a1]
    by (cases "a_grant a") (auto simp: any_of_defined ptr_neq_defined bound_grant_def simp del: any_of.simps)
  define a2 where "a2 = (if changed then invalidatePositionPublicationsLocked a1 else a1)"
  have a2: "gates a2 = gates a" using a1 by (simp add: a2_def gates_invalidate)
  obtain a3 where a3: "setPeerReplayScopeLocked (Some s) (peers_of control) a2 = Some a3"
    by (simp add: setPeerReplayScopeLocked_def Let_def)
  have g3: "gates a3 = gates a" using gates_replay [OF a3] a2 by simp
  then have act: "a_activity a3 = Some act" using gates_fields(7) assms(4) by metis
  have active: "all_of [Some (act_SessionID act \<noteq> None), Some (act_MemberID act \<noteq> None), ptr_eq (act_SessionID act) (Some s),
      ptr_eq (act_MemberID act) (Some m)] = Some (grant_match control act)"
    using c assms(5) by (cases "act_SessionID act"; cases "act_MemberID act") (auto simp: grant_match_def ptr_eq_def paired_def)
  have "install_grant E control remaining a = Some (a3\<lparr>a_grant := Some control, a_lastCleared := None, a_grantAt := e_now E,
      a_grantTTL := remaining, a_grantActive := grant_match control act, a_cadence := cad * Millisecond\<rparr>)"
    unfolding install_grant_def Let_def c bind.bind_lunit a1_def [symmetric] ch a2_def [symmetric] a3 act active by simp
  moreover have "gates (a3\<lparr>a_grant := Some control, a_lastCleared := None, a_grantAt := e_now E, a_grantTTL := remaining,
        a_grantActive := grant_match control act, a_cadence := cad * Millisecond\<rparr>)
      = gates (a\<lparr>a_grant := Some control, a_lastCleared := None, a_grantTTL := remaining, a_grantActive := grant_match control act\<rparr>)"
    using g3 by (simp add: gates_def)
  ultimately show thesis using that by blast
qed

lemma kept1_clear:
  assumes "kept1 stop a" and "bound_grant control"
  shows "kept1 stop (clearGrantLocked (a\<lparr>a_lastCleared := Some control\<rparr>))"
proof -
  have "gates (clearGrantLocked (a\<lparr>a_lastCleared := Some control\<rparr>)) = gates (a\<lparr>a_lastCleared := Some control, a_grant := None,
      a_grantV2 := None, a_grantActive := False, a_grantTTL := 0\<rparr>)"
    unfolding gates_clear by (simp add: gates_def)
  from kept1_cong [OF this] show ?thesis using assms by (simp add: kept1_iff)
qed

lemma control_returns1:
  assumes a: "kept1 stop a"
  shows "returns1 stop (handleControl L E payload a)"
proof (cases "ParseControl L payload")
  case (Inr control)
  note bound = control_bound_v1 [OF Inr]
  have g: "pred_option bound_grant (a_grant a)" "pred_option bound_grant (a_lastCleared a)"
    using a by (cases "a_grant a"; simp add: kept1_iff)+
  have clear: "returns1 stop (do { ignored \<leftarrow> clear_ignored control a;
      if ignored then Some a
      else do { let a1 = (if a_grant a \<noteq> None then clearGrantLocked (a\<lparr>a_lastCleared := Some control\<rparr>) else a);
                Some (queueRedisPublication E ''ride-group:control'' payload 0 (a1\<lparr>a_challenges := []\<rparr>)) } })"
    if c: "ctl_Action control = ''clear''"
  proof -
    obtain ignored where i: "clear_ignored control a = Some ignored" using ignored_defined [OF g bound(2) [OF c]] by blast
    show ?thesis unfolding i bind.bind_lunit Let_def using a kept1_clear [OF a bound(2) [OF c]] by (simp add: kept1_simps)
  qed
  have install: "returns1 stop (do { refused \<leftarrow> grant_refused control a;
      let remaining = ctl_LeaseTTLMS control * Millisecond - elapsedSince E sentAt;
      if refused \<or> remaining \<le> 0 then Some a
      else map_option (\<lambda>b. queueRedisPublication E ''ride-group:control'' payload (leaseDuration - elapsedSince E sentAt)
                          (b\<lparr>a_challenges := gm_del (ctl_Challenge control) (a_challenges b)\<rparr>)) (install_grant E control remaining a) })"
    if c: "ctl_Action control = ''grant'' \<or> ctl_Action control = ''renew''" and open1: "\<not> (a_blocked a \<or> a_localStopPending a)"
      and lease: "within_lease (e_now E) sentAt" and act: "a_activity a = Some act" "act_Active act" "\<not> act_LocalStop act" for sentAt act
  proof -
    have p: "paired act" using a act(1) by (simp add: kept1_iff)
    obtain refused where r: "grant_refused control a = Some refused" "refused \<or> act_SessionID act = None \<or> grant_match control act"
      using refused_defined_v1 [OF g _ act(1) p] bound(1) [OF c] by blast
    let ?ttl = "ctl_LeaseTTLMS control * Millisecond - elapsedSince E sentAt"
    obtain b where b: "install_grant E control ?ttl a = Some b"
      "gates b = gates (a\<lparr>a_grant := Some control, a_lastCleared := None, a_grantTTL := ?ttl,
         a_grantActive := grant_match control act\<rparr>)"
      using install_gates_v1 [OF g(1) _ _ act(1) p] bound(1) [OF c] by blast
    have "?ttl \<le> leaseDuration" using bound(1) [OF c] lease by (simp add: leaseDuration_def within_lease_def elapsedSince_def)
    then have "kept1 stop b" if "0 < ?ttl"
      using a bound(1) [OF c] that open1 act by (subst kept1_cong [OF b(2)]) (auto simp: kept1_iff)
    then show ?thesis unfolding r(1) bind.bind_lunit Let_def b(1) using a by (simp add: kept1_simps)
  qed
  show ?thesis
    unfolding handleControl_def Inr sum.case
    using a clear install by (auto simp: kept1_simps Let_def split: option.split)
qed (simp add: handleControl_def a)

lemma scope_returns1:
  assumes "kept1 stop a" and "in_current_grant_v1 session revision epoch stream E a"
  obtains b where "replay_scope a = Some b" "kept1 stop b"
proof -
  obtain g where g: "a_grant a = Some g" "ctl_SessionID g = Some session"
    using assms(2) by (auto simp: in_current_grant_v1_def split: option.splits)
  then obtain b where b: "replay_scope a = Some b" "setPeerReplayScopeLocked (Some session) (peers_of g) a = Some b"
    by (simp add: replay_scope_def setPeerReplayScopeLocked_def Let_def)
  show thesis using that [OF b(1)] kept1_cong [OF gates_replay [OF b(2)]] assms(1) by blast
qed

lemma peer_returns1: "kept1 stop a \<Longrightarrow> returns1 stop (handlePeer L E payload a)"
  by (auto simp: handlePeer_def kept1_simps elim: scope_returns1 split: sum.split option.split)

lemma peerStatus_returns1: "kept1 stop a \<Longrightarrow> returns1 stop (handlePeerStatus L E payload a)"
  by (auto simp: handlePeerStatus_def kept1_simps Let_def elim: scope_returns1 split: sum.split option.split)

lemma any_of_first: "any_of (Some True # cs) = Some True"
  by simp

lemma publish_returns1:
  assumes "kept1 stop a"
  shows "returns1 stop (publish_position L E sample a)"
proof (cases "grantCurrentLocked E (e_now E) a")
  case True
  then obtain g act where g: "a_grant a = Some g" "a_activity a = Some act"
    by (auto simp: grantCurrentLocked_def split: option.splits)
  with assms obtain s m st where p: "ctl_SessionID g = Some s" "ctl_MemberID g = Some m" "ctl_StreamID g = Some st"
    by (auto simp: kept1_iff bound_grant_def)
  obtain refused where r: "sharing_refused E sample g act a = Some refused"
    using p by (cases "act_SessionID act = None \<or> act_MemberID act = None")
      (auto simp: sharing_refused_def any_of_defined ptr_neq_defined simp del: any_of.simps(2) intro: any_of_first)
  show ?thesis
    using assms True unfolding publish_position_def g bind.bind_lunit r p Let_def
    by (auto simp: kept1_simps split: option.split)
qed (simp add: publish_position_def assms)

lemma gps_returns1: "kept1 stop a \<Longrightarrow> returns1 stop (handleGPS L E payload a)"
  by (auto simp: handleGPS_def Let_def kept1_simps publish_returns1 split: option.split sum.split prod.split)

section \<open>Every critical section keeps the gates\<close>

definition returns :: "bool \<Rightarrow> Adapter option \<Rightarrow> bool" where
  "returns stop r = (case r of None \<Rightarrow> False | Some b \<Rightarrow> gates_inv stop b)"

lemma returns_simps [simp]: "returns stop (Some b) = gates_inv stop b" "\<not> returns stop None"
  by (simp_all add: returns_def)

lemma inv_cases:
  assumes "gates_inv stop a"
  obtains (v1) "kept1 stop a" | (v2) "kept2 stop a"
  using assms that by (auto simp: gates_inv_def kept1_def kept2_def)

lemma kept_inv: "kept1 stop a \<Longrightarrow> gates_inv stop a" "kept2 stop a \<Longrightarrow> gates_inv stop a"
  by (simp_all add: kept1_def kept2_def)

lemma kept_version: "kept1 stop a \<Longrightarrow> a_protocolVersion a = 1" "kept2 stop a \<Longrightarrow> a_protocolVersion a = 2"
  by (simp_all add: kept1_def kept2_def)

lemma returns_kept: "returns1 stop r \<Longrightarrow> returns stop r" "returns2 stop r \<Longrightarrow> returns stop r"
  by (auto simp: returns_def returns1_def returns2_def kept_inv split: option.splits)

lemma inv_failClosed:
  assumes "gates_inv stop a"
  shows "gates_inv stop (failClosed E a)"
proof -
  let ?p = "if (case a_activity a of None \<Rightarrow> False | Some act \<Rightarrow> act_Active act) then publishInactiveLocked E a else a"
  have p: "gates ?p = gates a" by (simp add: gates_inactive)
  have "gates (failClosed E a) = gates ((if a_protocolVersion a = 2
      then a\<lparr>a_settingsReady := False, a_activity := None, a_activityV2 := None, a_journalReady := False,
             a_journalBlockedV2 := True, a_journalStateV2 := None\<rparr>
      else a\<lparr>a_settingsReady := False, a_activity := None, a_activityV2 := None\<rparr>)
      \<lparr>a_grant := None, a_grantV2 := None, a_grantActive := False, a_grantTTL := 0\<rparr>)"
    unfolding failClosed_def Let_def gates_clear using p by (simp add: gates_def invalidateLocalAttemptsV2Locked_def)
  from gates_inv_cong [OF this] show ?thesis using assms by (auto simp: gates_inv_def)
qed

lemma inv_expire:
  assumes "gates_inv stop a"
  shows "gates_inv stop (expireLease L E a)"
  using assms
proof (cases rule: inv_cases)
  case v1
  have "gates (clearGrantLocked (a\<lparr>a_activity := None, a_activityAt := 0, a_challenges := []\<rparr>)) =
        gates (a\<lparr>a_activity := None, a_grant := None, a_grantV2 := None, a_grantActive := False, a_grantTTL := 0\<rparr>)"
    unfolding gates_clear by (simp add: gates_def)
  from kept1_cong [OF this] have "kept1 stop (clearGrantLocked (a\<lparr>a_activity := None, a_activityAt := 0, a_challenges := []\<rparr>))"
    using v1 by (simp add: kept1_iff)
  then have "gates_inv stop (clearGrantLocked (a\<lparr>a_activity := None, a_activityAt := 0, a_challenges := []\<rparr>))" by (rule kept_inv)
  then show ?thesis using assms kept_version(1) [OF v1] unfolding expireLease_def Let_def by (simp add: gates_inv_clear)
next
  case v2
  let ?a = "retryNoFixStatusV2Locked L E (e_now E) (expireV2LeaseLocked (e_now E) a)"
  have k: "kept2 stop ?a" using v2 by (simp add: kept2_simps kept2_expire)
  then have "a_activity ?a = None" "a_grant ?a = None" by (simp_all add: kept2_iff)
  then show ?thesis using kept_version(2) [OF v2] kept_inv(2) [OF k] unfolding expireLease_def Let_def by simp
qed

lemma inv_refresh_v2:
  assumes "kept2 stop a"
  shows "kept2 stop (snd (refreshBlocked L E (Inr found) a))"
proof -
  define blocked where "blocked = blocked_value (case found of None \<Rightarrow> '''' | Some value \<Rightarrow> value)"
  define b where "b = a\<lparr>a_blocked := blocked, a_settingsReady := True\<rparr>"
  define c where "c = (if \<not> a_settingsReady a \<and> link_up E b
      then snd (issueLocalProbeV2Locked L E ProbeReconcileV2 None (publishHelloV2Locked L E '''' b)) else b)"
  have c: "gates c = gates b" by (simp add: c_def gates_probe gates_publishHelloV2)
  let ?closed = "maybeIssueReconciliationProbeV2Locked L E ((invalidateLocalAttemptsV2Locked (inhibitJournalV2Locked c))
      \<lparr>a_journalIPCEpochV2 := Suc (a_journalIPCEpochV2 (invalidateLocalAttemptsV2Locked (inhibitJournalV2Locked c)))\<rparr>)"
  have r: "snd (refreshBlocked L E (Inr found) a) = (if blocked \<or> a_blocked a then ?closed else c)"
    using kept_version(2) [OF assms]
    unfolding refreshBlocked_def Let_def sum.case blocked_def [symmetric] b_def [symmetric] c_def [symmetric]
    by (simp add: b_def)
  have "gates ?closed = gates (a\<lparr>a_blocked := blocked, a_settingsReady := True, a_journalReady := False, a_journalBlockedV2 := True,
      a_activityV2 := None, a_activity := None, a_grantV2 := None, a_grantActive := False, a_grantTTL := 0\<rparr>)"
    by (simp add: gate_simps gates_inhibit) (use c in \<open>simp add: gates_def b_def\<close>)
  from kept2_cong [OF this] have "kept2 stop ?closed" using assms by (simp add: kept2_iff)
  moreover have "kept2 stop c" if "\<not> blocked" "\<not> a_blocked a"
    using that assms by (subst kept2_cong [OF c]) (auto simp: b_def kept2_iff idle_journal_def)
  ultimately show ?thesis unfolding r by simp
qed

lemma inv_refresh_v1:
  assumes "kept1 stop a"
  shows "kept1 stop (snd (refreshBlocked L E (Inr found) a))"
proof -
  define blocked where "blocked = blocked_value (case found of None \<Rightarrow> '''' | Some value \<Rightarrow> value)"
  let ?c = "clearGrantLocked (a\<lparr>a_blocked := True, a_settingsReady := True, a_localStopPending := True, a_activity := None,
              a_activityAt := 0, a_challenges := []\<rparr>)"
  have g: "gates ?c = gates (a\<lparr>a_blocked := True, a_settingsReady := True, a_localStopPending := True, a_activity := None,
      a_grant := None, a_grantV2 := None, a_grantActive := False, a_grantTTL := 0\<rparr>)"
    unfolding gates_clear by (simp add: gates_def)
  from kept1_cong [OF this] have c: "kept1 stop ?c" using assms by (simp add: kept1_iff)
  have n: "a_grant ?c = None" using gates_fields(5) [OF g] by simp
  have "gates (a\<lparr>a_blocked := False, a_settingsReady := True, a_activity := None, a_activityAt := 0\<rparr>)
      = gates (a\<lparr>a_blocked := False, a_settingsReady := True, a_activity := None\<rparr>)" by (simp add: gates_def)
  from kept1_cong [OF this] have o1: "a_blocked a \<Longrightarrow> kept1 stop (a\<lparr>a_blocked := False, a_settingsReady := True, a_activity := None, a_activityAt := 0\<rparr>)"
    using assms by (cases "a_grant a") (simp_all add: kept1_iff)
  have o2: "\<not> a_blocked a \<Longrightarrow> kept1 stop (a\<lparr>a_blocked := False, a_settingsReady := True\<rparr>)"
    using assms by (simp add: kept1_iff)
  show ?thesis
    using kept_version(1) [OF assms] c o1 o2 kept1_local_stop [OF c n, of E]
    by (cases blocked) (simp_all add: refreshBlocked_def Let_def blocked_def [symmetric])
qed

lemma inv_refresh:
  assumes "gates_inv stop a"
  shows "gates_inv stop (snd (refreshBlocked L E hget a))"
proof (cases hget)
  case (Inr found)
  show ?thesis
    using assms unfolding Inr by (cases rule: inv_cases) (simp_all add: kept_inv inv_refresh_v1 inv_refresh_v2)
qed (simp add: refreshBlocked_def assms)

section \<open>Connections\<close>

lemma inv_update: "gates a = gates b \<Longrightarrow> gates_inv stop b \<Longrightarrow> gates_inv stop a"
  using gates_inv_cong by blast

lemma inv_subscribed:
  assumes "gates_inv stop a"
  shows "gates_inv stop (OnConnected_subscribed L E client attempt nonce a)"
proof -
  let ?r = "resetConnectionLocked (Some client) nonce (a\<lparr>a_connecting := False\<rparr>)"
  let ?a = "?r\<lparr>a_lastCleared := None\<rparr>"
  have g: "gates ?a = gates (a\<lparr>a_activity := None, a_journalReady := False, a_activityV2 := None, a_grant := None, a_grantV2 := None,
      a_journalStateV2 := None, a_journalBlockedV2 := False, a_grantActive := False, a_grantTTL := 0, a_lastCleared := None\<rparr>)"
    using gates_reset [of "Some client" nonce "a\<lparr>a_connecting := False\<rparr>"] by (simp add: gates_def)
  have i: "gates_inv stop ?a" using assms by (subst gates_inv_cong [OF g]) (simp add: gates_inv_def split: if_splits)
  define b where "b = ?a"
  have n: "a_grant b = None" using gates_fields(5) [OF g] by (simp add: b_def)
  have "gates_inv stop (if a_protocolVersion b = 2 then
                (let a2 = publishHelloV2Locked L E '''' b
                 in if a_settingsReady a2 then snd (issueLocalProbeV2Locked L E ProbeReconcileV2 None a2) else a2)
              else let a2 = publishHelloLocked E b
                   in if a_blocked a2 \<or> a_localStopPending a2 then publishLocalStopLocked E a2 else a2)"
    using i [folded b_def]
  proof (cases rule: inv_cases)
    case v1
    have "a_grant (publishHelloLocked E b) = None" using gates_fields(5) [OF gates_hello] n by simp
    moreover have "kept1 stop (publishHelloLocked E b)" using v1 by (simp add: kept1_simps)
    ultimately show ?thesis using kept_version(1) [OF v1] kept1_local_stop by (simp add: Let_def kept_inv(1))
  next
    case v2
    then show ?thesis using kept_version(2) [OF v2] by (simp add: Let_def kept_inv(2) kept2_simps)
  qed
  then show ?thesis using assms unfolding OnConnected_subscribed_def Let_def b_def [symmetric] by simp
qed

lemma inv_connection:
  "gates_inv stop a \<Longrightarrow> gates_inv stop (snd (OnConnected_begin E client a))" "gates_inv stop a \<Longrightarrow> gates_inv stop (OnConnected_abandon attempt a)"
  "gates_inv stop a \<Longrightarrow> gates_inv stop (snd (OnConnected_nonce attempt a))" "gates_inv stop a \<Longrightarrow> gates_inv stop (OnDisconnected c a)"
  "gates_inv stop a \<Longrightarrow> gates_inv stop (snd (Stop_begin E a))" "gates_inv stop a \<Longrightarrow> gates_inv stop (Stop_finish c topic a)"
  "gates_inv stop a \<Longrightarrow> gates_inv stop (snd (Start a))"
proof -
  assume a: "gates_inv stop a"
  have u: "gates_inv stop (a\<lparr>a_connecting := x\<rparr>)" "gates_inv stop (a\<lparr>a_connectAttempt := n, a_connecting := x\<rparr>)"
    "gates_inv stop (a\<lparr>a_connecting := x, a_connectAttempt := n\<rparr>)" for x n
    by (rule inv_update [OF _ a], simp add: gates_def)+
  show "gates_inv stop (snd (OnConnected_begin E client a))" "gates_inv stop (OnConnected_abandon attempt a)"
    using a u by (auto simp: OnConnected_begin_def OnConnected_abandon_def)
  obtain d b where "draw_UUID a = (d, b)" by (cases "draw_UUID a")
  moreover from this have "gates b = gates a" by (rule gates_draw)
  ultimately show "gates_inv stop (snd (OnConnected_nonce attempt a))"
    by (intro inv_update [OF _ a]) (simp add: OnConnected_nonce_def OnConnected_abandon_def split: option.split)
  show "gates_inv stop (OnDisconnected c a)"
    using a u by (auto simp: OnDisconnected_def Let_def gates_inv_reset)
  have "gates_inv stop (b\<lparr>a_mqtt := None\<rparr>) = gates_inv stop b" for b by (rule gates_inv_cong) simp
  then show "gates_inv stop (snd (Stop_begin E a))"
    using u by (simp add: Stop_begin_def gates_inv_clear)
  show "gates_inv stop (Stop_finish c topic a)"
    by (rule inv_update [OF _ a]) (simp add: Stop_finish_def gates_queue)
  show "gates_inv stop (snd (Start a))"
    by (rule inv_update [OF _ a]) (simp add: Start_def gates_egress)
qed

section \<open>The whole adapter\<close>

lemma inv_redis_message:
  assumes "gates_inv stop a"
  shows "returns stop (map_option snd (handleRedisMessage L E channel payload a))"
proof -
  have "returns stop (if a_protocolVersion a = 2 then handleActivityV2 L E payload a else handleActivity L E payload a)"
    "returns stop (if a_protocolVersion a = 2 then handleGPSV2 L E payload a else handleGPS L E payload a)"
    using assms by (cases rule: inv_cases;
        simp add: kept_version returns_kept activityV2_returns2 activity_returns1 gps_returns2 gps_returns1)+
  then show ?thesis using assms by (simp add: handleRedisMessage_def option.map_comp comp_def option.map_ident)
qed

lemma inv_downlink:
  assumes "gates_inv stop a"
  shows "returns stop (handleDownlink L E message a)"
proof -
  have d: "returns stop (dispatch_downlink L E type payload a)" for type payload
    using assms
  proof (cases rule: inv_cases)
    case v1
    then show ?thesis
      by (simp add: dispatch_downlink_def kept_version(1) kept_inv(1) returns_kept control_returns1 peer_returns1 peerStatus_returns1)
  next
    case v2
    then show ?thesis
      by (simp add: dispatch_downlink_def kept_version(2) kept_inv(2) returns_kept control_returns2 kept2_simps)
  qed
  have q: "gates_inv stop (queueAck m b) = gates_inv stop b" for m b by (rule gates_inv_cong [OF gates_queue(3)])
  show ?thesis
  proof (cases message)
    case (Some m)
    have "returns stop r \<Longrightarrow> returns stop (map_option (queueAck message) r)" for r by (auto simp: returns_def q split: option.splits)
    then show ?thesis using Some d assms by (simp add: handleDownlink_def split: option.split)
  qed (simp add: handleDownlink_def assms)
qed

lemma inv_recovery:
  assumes "gates_inv stop a"
  shows "gates_inv stop (snd (completeRedisRecovery_step L E input phase a))"
proof -
  have f: "gates_inv stop (snd (run_failed E b))" if "gates_inv stop b" for b using that by (simp add: run_failed_def inv_failClosed)
  have r: "refreshBlocked L E hget a = (ok, b) \<Longrightarrow> gates_inv stop b" for hget ok b
    using inv_refresh [OF assms, of L E hget] by simp
  have p: "gates_inv stop (snd (issueLocalProbeV2Locked L E ProbeReconcileV2 None a))"
    using assms gates_inv_cong [OF gates_probe] by simp
  show ?thesis
    using assms f r p
    by (auto simp: completeRedisRecovery_step_def split: run_phase.split run_input.split option.split bool.split prod.split)
qed

lemma inv_run:
  assumes "gates_inv stop a"
  shows "returns stop (map_option snd (run_step L E input phase a))"
proof -
  have f: "gates_inv stop (snd (run_failed E b))" if "gates_inv stop b" for b using that by (simp add: run_failed_def inv_failClosed)
  have r: "gates_inv stop (snd (case refreshBlocked L E hget a of (True, a1) \<Rightarrow> (Serving, a1) | (False, a1) \<Rightarrow> run_failed E a1))" for hget
    using inv_refresh [OF assms, of L E hget] f by (cases "refreshBlocked L E hget a") (auto split: bool.split)
  have m: "returns stop (map_option snd (map_option (\<lambda>(again, a1). (if again then Refreshing else Serving, a1))
      (handleRedisMessage L E channel payload a)))" for channel payload
    using inv_redis_message [OF assms] by (simp add: option.map_comp comp_def case_prod_unfold)
  have begin1: "gates_inv stop (snd (completeRedisRecovery_begin a))"
    using assms by (simp add: completeRedisRecovery_begin_def gates_inv_def idle_journal_def)
  show ?thesis
  proof (cases phase)
    case Serving
    then show ?thesis unfolding run_step_def
      using assms f [OF assms] m by (auto simp: inv_expire simp del: option.map_comp split: run_input.split redis_event.split)
  next
    case (Awaiting subscribed)
    then show ?thesis unfolding run_step_def
      using assms f [OF assms] begin1 by (auto simp: Let_def inv_expire split: run_input.split redis_event.split)
  next
    case Refreshing
    then show ?thesis unfolding run_step_def using assms r by (auto split: run_input.split)
  qed (use assms in \<open>simp_all add: run_step_def inv_recovery split: run_input.split\<close>)
qed

lemma ride_exec_inv:
  assumes "gates_inv stop (rd_adapter s)"
  obtains s' where "ride_exec L E op s = Some s'" "gates_inv stop (rd_adapter s')"
proof -
  have k: "gates_inv stop b" if "gates b = gates (rd_adapter s)" for b using inv_update [OF that assms] .
  have d: "OnConnected_begin E c (rd_adapter s) = (x, b) \<Longrightarrow> gates_inv stop b"
    "OnConnected_nonce n (rd_adapter s) = (y, b) \<Longrightarrow> gates_inv stop b"
    "worker_take (rd_adapter s) = (w, b) \<Longrightarrow> gates_inv stop b"
    "Stop_begin E (rd_adapter s) = (z, b) \<Longrightarrow> gates_inv stop b" for c n x y z w b
    using inv_connection [OF assms] k gates_worker(2) by (metis snd_conv)+
  have "\<exists>s'. ride_exec L E op s = Some s' \<and> gates_inv stop (rd_adapter s')"
  proof (cases op)
    case (OpRun input)
    show ?thesis
      using inv_run [OF assms, of L E input "rd_run s"] OpRun by (auto simp: returns_def split: option.splits prod.split)
  next
    case (OpDownlink message)
    then show ?thesis using inv_downlink [OF assms, of L E message] by (auto simp: returns_def split: option.splits)
  qed (use assms k d inv_subscribed inv_connection in
      \<open>auto simp: gates_worker split: option.split prod.split worker_action.split sum.split\<close>)
  then show thesis using that by blast
qed

end
