(* ===== verification/Ride_Walk.thy ===== *)
theory Ride_Walk
  imports Ride_Gates
begin

text \<open>
  What keeps an invariant of the adapter.  A predicate that depends only on the queues, the connection and the
  generation (\<open>core\<close>), and that the few operations that change these keep, is kept by every handler: the
  locale \<open>adapter_invariant\<close> follows each of them along its branches once, for all such predicates.
\<close>

named_theorems keep_rules

section \<open>What an invariant may depend on\<close>

definition publication_kinds :: "string list" where
  "publication_kinds = [''hello'', ''activity'', ''position'', ''v2_hello'', ''v2_activity'', ''v2_position'', ''v2_source_status'',
     ''v2_stop'', ''unsubscribe'']"

definition is_position :: "string \<Rightarrow> bool" where
  "is_position kind = (kind = ''position'' \<or> kind = ''v2_position'')"

definition core where
  "core a = ((a_mqttPending a, a_mqttOrder a, a_positionGeneration a, a_mqttWake a, a_redisQueue a, a_ackQueue a),
     (a_challenges a, a_journalProbesV2 a, a_localAttemptsV2 a, a_usedLocalChallenges a, a_probeTimesV2 a),
     (a_mqtt a, a_connecting a, a_connectAttempt a))"

text \<open>A publication as the handlers make them: for the current connection and, if it is a position, the current generation.\<close>

definition current_publication :: "mqttPublication \<Rightarrow> Adapter \<Rightarrow> bool" where
  "current_publication pub a =
     (mp_client pub = a_mqtt a \<and> mp_kind pub \<in> set publication_kinds \<and> mp_unsubscribe pub = ''''
      \<and> (if is_position (mp_kind pub) then mp_positionGeneration pub = a_positionGeneration a else True))"

lemma draw_fields: "draw_UUID a = (u, b) \<Longrightarrow> a_journalProbesV2 b = a_journalProbesV2 a \<and> a_probeTimesV2 b = a_probeTimesV2 a"
  by (auto simp: draw_UUID_def split: list.splits)

lemma restart_challenges: "restart_stream_v2 control a = Some b \<Longrightarrow> a_challenges b = a_challenges a"
  by (auto simp: restart_stream_v2_def Let_def dropPendingV2Source_def dropPendingPosition_def split: Option.bind_splits)

text \<open>Installing a grant leaves the challenge it answers.\<close>

interpretation qc: carried "\<lambda>b. a_challenges b = cs" for cs .

lemma mqtt_challenges: "a_challenges (queueMQTTPublication pub a) = a_challenges a"
  unfolding queueMQTTPublication_def startMQTTWorker_def Let_def by (rule qc.rules refl | simp)+

lemma source_value_challenges: "a_challenges (snd (publishSourceStatusValueV2Locked L E status a)) = a_challenges a"
  unfolding publishSourceStatusValueV2Locked_def
  by (rule qc.rules qc.carried_value refl | simp add: mqtt_challenges dropPendingV2Source_def)+

lemma no_fix_challenges: "a_challenges (publishNoFixStatusV2Locked L E a) = a_challenges a"
  unfolding publishNoFixStatusV2Locked_def
  by (rule qc.rules qc.carried_value refl | assumption | simp only: source_value_challenges | simp)+

lemma install_challenges:
  assumes "install_v2 L E control act remaining a = Some b"
  shows "a_challenges b = a_challenges a"
proof -
  have r: "setPeerReplayScopeLocked session peers x = Some y \<Longrightarrow> a_challenges y = a_challenges x" for session peers x y
    by (auto simp: setPeerReplayScopeLocked_def Let_def split: Option.bind_splits)
  show ?thesis
    using assms by (auto simp: install_v2_def Let_def no_fix_challenges dest!: r restart_challenges split: Option.bind_splits if_splits)
qed

section \<open>The interface\<close>

locale adapter_invariant = carried I for I :: "Adapter \<Rightarrow> bool" +
  assumes same_core: "core a = core b \<Longrightarrow> I a \<Longrightarrow> I b"
    and keeps_mqtt: "I a \<Longrightarrow> current_publication pub a \<Longrightarrow> I (queueMQTTPublication pub a)"
    and keeps_drop: "I a \<Longrightarrow> I (dropPendingPosition a)" "I a \<Longrightarrow> I (dropPendingV2Source a)"
    and keeps_advance: "I a \<Longrightarrow> I (dropPendingPosition (a\<lparr>a_positionGeneration := Suc (a_positionGeneration a)\<rparr>))"
    and keeps_redis: "I a \<Longrightarrow> I (queueRedisPublication E ch payload age a)"
    and keeps_ack: "I a \<Longrightarrow> I (queueAck m a)"
    and keeps_fields: "I a \<Longrightarrow> I (a\<lparr>a_challenges := []\<rparr>)" "I a \<Longrightarrow> I (a\<lparr>a_challenges := gm_del c (a_challenges a)\<rparr>)"
      "I a \<Longrightarrow> I (a\<lparr>a_journalProbesV2 := filter P (a_journalProbesV2 a)\<rparr>)"
      "I a \<Longrightarrow> I (a\<lparr>a_probeTimesV2 := filter Q (a_probeTimesV2 a)\<rparr>)"
      "I a \<Longrightarrow> I (a\<lparr>a_localAttemptsV2 := filter R (a_localAttemptsV2 a)\<rparr>)"
      "I a \<Longrightarrow> I (invalidateLocalAttemptsV2Locked a)"
    and keeps_prune: "I a \<Longrightarrow> I (pruneChallengesLocked E now (a\<lparr>a_challenges := cs\<rparr>))"
    and keeps_consume: "I a \<Longrightarrow> I (consumeProbeV2Locked E probe payload a)"
    and keeps_put: "I a \<Longrightarrow> length (a_localAttemptsV2 a) < 10 \<Longrightarrow> I (a\<lparr>a_localAttemptsV2 := gm_put k x (a_localAttemptsV2 a)\<rparr>)"
      "I a \<Longrightarrow> map_of (a_localAttemptsV2 a) k = Some y \<Longrightarrow> I (a\<lparr>a_localAttemptsV2 := gm_put k x (a_localAttemptsV2 a)\<rparr>)"
      "I a \<Longrightarrow> map_of (a_challenges a) k = Some t \<Longrightarrow> I (a\<lparr>a_challenges := gm_put k t' (a_challenges a)\<rparr>)"
      "I a \<Longrightarrow> length (a_journalProbesV2 a) < 1 \<Longrightarrow> length (a_probeTimesV2 a) < 10 \<Longrightarrow>
        I (a\<lparr>a_journalProbesV2 := gm_put k z (a_journalProbesV2 a), a_probeTimesV2 := a_probeTimesV2 a @ [now]\<rparr>)"

sublocale adapter_invariant \<subseteq> opt: carried "pred_option I" .

section \<open>The handlers\<close>

context adapter_invariant
begin

lemma keeps_update [simp]:
  "I (a\<lparr>a_Enabled := x_Enabled\<rparr>) = I a"
  "I (a\<lparr>a_Identifier := x_Identifier\<rparr>) = I a"
  "I (a\<lparr>a_protocolVersion := x_protocolVersion\<rparr>) = I a"
  "I (a\<lparr>a_redis := x_redis\<rparr>) = I a"
  "I (a\<lparr>a_ctx_done := x_ctx_done\<rparr>) = I a"
  "I (a\<lparr>a_random := x_random\<rparr>) = I a"
  "I (a\<lparr>a_mqttWorker := x_mqttWorker\<rparr>) = I a"
  "I (a\<lparr>a_redisWorker := x_redisWorker\<rparr>) = I a"
  "I (a\<lparr>a_ackWorker := x_ackWorker\<rparr>) = I a"
  "I (a\<lparr>a_mqttClosing := x_mqttClosing\<rparr>) = I a"
  "I (a\<lparr>a_connection := x_connection\<rparr>) = I a"
  "I (a\<lparr>a_lastHelloAt := x_lastHelloAt\<rparr>) = I a"
  "I (a\<lparr>a_bootNonce := x_bootNonce\<rparr>) = I a"
  "I (a\<lparr>a_stopSequence := x_stopSequence\<rparr>) = I a"
  "I (a\<lparr>a_activity := x_activity\<rparr>) = I a"
  "I (a\<lparr>a_activityAt := x_activityAt\<rparr>) = I a"
  "I (a\<lparr>a_activityBootNonce := x_activityBootNonce\<rparr>) = I a"
  "I (a\<lparr>a_activitySequence := x_activitySequence\<rparr>) = I a"
  "I (a\<lparr>a_grant := x_grant\<rparr>) = I a"
  "I (a\<lparr>a_grantAt := x_grantAt\<rparr>) = I a"
  "I (a\<lparr>a_grantTTL := x_grantTTL\<rparr>) = I a"
  "I (a\<lparr>a_grantActive := x_grantActive\<rparr>) = I a"
  "I (a\<lparr>a_lastCleared := x_lastCleared\<rparr>) = I a"
  "I (a\<lparr>a_cadence := x_cadence\<rparr>) = I a"
  "I (a\<lparr>a_positionSeq := x_positionSeq\<rparr>) = I a"
  "I (a\<lparr>a_positionStreamID := x_positionStreamID\<rparr>) = I a"
  "I (a\<lparr>a_positionSessionID := x_positionSessionID\<rparr>) = I a"
  "I (a\<lparr>a_positionEpoch := x_positionEpoch\<rparr>) = I a"
  "I (a\<lparr>a_lastPositionAt := x_lastPositionAt\<rparr>) = I a"
  "I (a\<lparr>a_gpsObservedAt := x_gpsObservedAt\<rparr>) = I a"
  "I (a\<lparr>a_blocked := x_blocked\<rparr>) = I a"
  "I (a\<lparr>a_localStopPending := x_localStopPending\<rparr>) = I a"
  "I (a\<lparr>a_settingsReady := x_settingsReady\<rparr>) = I a"
  "I (a\<lparr>a_peerStreams := x_peerStreams\<rparr>) = I a"
  "I (a\<lparr>a_peerScope := x_peerScope\<rparr>) = I a"
  "I (a\<lparr>a_estimator := x_estimator\<rparr>) = I a"
  "I (a\<lparr>a_activityV2 := x_activityV2\<rparr>) = I a"
  "I (a\<lparr>a_grantV2 := x_grantV2\<rparr>) = I a"
  "I (a\<lparr>a_lastClearedV2 := x_lastClearedV2\<rparr>) = I a"
  "I (a\<lparr>a_lastAuthorityV2 := x_lastAuthorityV2\<rparr>) = I a"
  "I (a\<lparr>a_journalReady := x_journalReady\<rparr>) = I a"
  "I (a\<lparr>a_journalStateV2 := x_journalStateV2\<rparr>) = I a"
  "I (a\<lparr>a_journalBlockedV2 := x_journalBlockedV2\<rparr>) = I a"
  "I (a\<lparr>a_journalIPCEpochV2 := x_journalIPCEpochV2\<rparr>) = I a"
  "I (a\<lparr>a_pendingQueryV2 := x_pendingQueryV2\<rparr>) = I a"
  "I (a\<lparr>a_lastSourceStatusV2 := x_lastSourceStatusV2\<rparr>) = I a"
  "I (a\<lparr>a_sourceSequenceV2 := x_sourceSequenceV2\<rparr>) = I a"
  "I (a\<lparr>a_noFixClosedV2 := x_noFixClosedV2\<rparr>) = I a"
  "I (a\<lparr>a_sourceStatusRetryAt := x_sourceStatusRetryAt\<rparr>) = I a"
  "I (a\<lparr>a_offerPermitV2 := x_offerPermitV2\<rparr>) = I a"
  "I (a\<lparr>a_fixAvailablePendingV2 := x_fixAvailablePendingV2\<rparr>) = I a"
  "I (a\<lparr>a_recoveryFixAfterV2 := x_recoveryFixAfterV2\<rparr>) = I a"
  "I (a\<lparr>a_sourceStatusGeneration := x_sourceStatusGeneration\<rparr>) = I a"
  by (rule iffI; erule same_core [rotated]; simp add: core_def)+

lemma keeps_invalidate: "I a \<Longrightarrow> I (invalidatePositionPublicationsLocked a)"
  using keeps_advance by (simp add: invalidatePositionPublicationsLocked_def)

lemma keeps_clear_v2: "I a \<Longrightarrow> I (clearGrantV2Locked a)"
  using keeps_drop(2) [OF keeps_advance] by (simp add: clearGrantV2Locked_def keeps_update)

lemma keeps_clear: "I a \<Longrightarrow> I (clearGrantLocked a)"
  unfolding clearGrantLocked_def by (rule keeps_clear_v2) (simp add: keeps_invalidate keeps_update)

lemmas [keep_rules] = keeps_redis keeps_drop keeps_clear_v2 keeps_clear keeps_invalidate keeps_fields keeps_consume

lemma keeps_draw: "draw_UUID a = (u, b) \<Longrightarrow> I a \<Longrightarrow> I b"
  by (auto simp: draw_UUID_def split: list.splits)

lemma keeps_draw_snd [keep_rules]: "I a \<Longrightarrow> I (snd (draw_UUID a))"
  using keeps_draw [of a] by (cases "draw_UUID a") simp

lemma keeps_hello_v2 [keep_rules]: "I a \<Longrightarrow> I (publishHelloV2Locked L E c a)"
  unfolding publishHelloV2Locked_def
  by (rule rules carried_let carried_value keep_rules keeps_mqtt | assumption | simp only: keeps_update snd_conv
      | simp add: current_publication_def zero_publication_def publication_kinds_def is_position_def)+

lemma keeps_activity_v2 [keep_rules]: "I a \<Longrightarrow> I (publishActivityV2Locked L E act a)"
  unfolding publishActivityV2Locked_def
  by (rule rules carried_let carried_value keep_rules keeps_mqtt | assumption | simp only: keeps_update
      | simp add: current_publication_def zero_publication_def publication_kinds_def is_position_def)+

lemma keeps_probe [keep_rules]: "I a \<Longrightarrow> I (snd (issueLocalProbeV2Locked L E purpose query a))"
  unfolding issueLocalProbeV2Locked_def
  by (rule rules carried_let carried_value keep_rules keeps_put(4) | assumption | simp only: keeps_update snd_conv
      | (drule draw_fields, simp add: not_le))+

lemma keeps_maybe_probe [keep_rules]: "I a \<Longrightarrow> I (maybeIssueReconciliationProbeV2Locked L E a)"
  by (simp add: maybeIssueReconciliationProbeV2Locked_def keep_rules)

lemma keeps_inhibit [keep_rules]: "I a \<Longrightarrow> I (inhibitJournalV2Locked a)"
  unfolding inhibitJournalV2Locked_def
  by (rule rules carried_let keep_rules | assumption | simp only: keeps_update)+

lemma keeps_send_stop [keep_rules]: "I a \<Longrightarrow> I (snd (sendStopV2Locked L E op m fence c mode d a))"
  unfolding sendStopV2Locked_def
  by (rule rules carried_value keep_rules keeps_put(1) keeps_mqtt | assumption | simp only: keeps_update snd_conv
      | simp add: current_publication_def zero_publication_def publication_kinds_def is_position_def)+

lemma keeps_offer [keep_rules]: "I a \<Longrightarrow> I (maybeSendOfferV2Locked L E control a)"
  unfolding maybeSendOfferV2Locked_def by (rule rules keep_rules | assumption | simp only: keeps_update)+

lemma keeps_stop_status [keep_rules]: "I a \<Longrightarrow> I (handleStopStatusV2Locked L E control result a)"
  unfolding handleStopStatusV2Locked_def
  by (rule rules carried_let carried_value keep_rules keeps_put(2) | assumption | simp only: keeps_update)+

lemma keeps_finalize [keep_rules]: "I a \<Longrightarrow> I (finalizeApplyConfirmationV2Locked L E state probe a)"
  unfolding finalizeApplyConfirmationV2Locked_def by (rule rules keep_rules | assumption | simp only: keeps_update)+

lemma keeps_queued_activity [keep_rules]: "I a \<Longrightarrow> I (publishQueuedV2ActivityLocked L E a)"
  unfolding publishQueuedV2ActivityLocked_def by (rule rules keep_rules | assumption)+

lemma keeps_react [keep_rules]: "I a \<Longrightarrow> I (react_to_phase L E state probe a)"
  unfolding react_to_phase_def by (rule rules keep_rules | assumption | simp only: keeps_update)+

lemma keeps_answer [keep_rules]: "I a \<Longrightarrow> I (answer_probe L E state probe canonical a)"
  unfolding answer_probe_def by (rule rules carried_let keep_rules | assumption | simp only: keeps_update)+

lemma keeps_snapshot [keep_rules]: "I a \<Longrightarrow> I (handleLocalStopSnapshotV2 L E state a)"
  unfolding handleLocalStopSnapshotV2_def by (rule rules carried_let keep_rules | assumption | simp only: keeps_update)+

section \<open>Operations that may panic\<close>

lemma keeps_option:
  "I b \<Longrightarrow> pred_option (I) (Some b)"
  "(\<And>x. m = Some x \<Longrightarrow> pred_option (I) (f x)) \<Longrightarrow> pred_option (I) (Option.bind m f)"
  "pred_option (I) r \<Longrightarrow> (\<And>b. I b \<Longrightarrow> pred_option (I) (h b)) \<Longrightarrow> pred_option (I) (Option.bind r h)"
  "pred_option (I) r \<Longrightarrow> (\<And>b. r = Some b \<Longrightarrow> I b \<Longrightarrow> I (k b)) \<Longrightarrow> pred_option (I) (map_option k r)"
  "I v \<Longrightarrow> (\<And>b. I b \<Longrightarrow> pred_option (I) (h b)) \<Longrightarrow> pred_option (I) (Let v h)"
  "I (snd p) \<Longrightarrow> (\<And>c x. p = (c, x) \<Longrightarrow> I x \<Longrightarrow> pred_option (I) (l c x)) \<Longrightarrow>
     pred_option (I) (case p of (c, x) \<Rightarrow> l c x)"
  by (cases m; cases r; cases p; simp)+

lemmas walk = keeps_option(6) opt.rules rules keeps_option(3,1) carried_let keeps_option(5)

lemma keeps_accept [keep_rules]: "I a \<Longrightarrow> pred_option (I) (acceptActivityV2 L E act a)"
  unfolding acceptActivityV2_def
  by (rule walk keep_rules keeps_prune keeps_option(2) opt.carried_value | assumption | simp only: keeps_update)+

lemma keeps_handle_activity_v2 [keep_rules]: "I a \<Longrightarrow> pred_option (I) (handleActivityV2 L E payload a)"
  unfolding handleActivityV2_def by (rule walk keep_rules | assumption)+

text \<open>Sources, positions and grants of version 2.\<close>

lemma keeps_source_value [keep_rules]: "I a \<Longrightarrow> I (snd (publishSourceStatusValueV2Locked L E status a))"
  unfolding publishSourceStatusValueV2Locked_def
  by (rule walk keep_rules keeps_mqtt carried_value | assumption | simp only: keeps_update
      | simp add: current_publication_def source_publication_def zero_publication_def publication_kinds_def is_position_def)+

lemma keeps_no_fix [keep_rules]: "I a \<Longrightarrow> I (publishNoFixStatusV2Locked L E a)"
  unfolding publishNoFixStatusV2Locked_def by (rule walk keep_rules carried_value | assumption | simp only: keeps_update)+

lemma keeps_source_status [keep_rules]: "I a \<Longrightarrow> I (snd (publishSourceStatusV2Locked L E state c a))"
  unfolding publishSourceStatusV2Locked_def by (rule walk keep_rules carried_value | assumption | simp only: keeps_update)+

lemma keeps_retry [keep_rules]: "I a \<Longrightarrow> I (retryNoFixStatusV2Locked L E now a)"
  unfolding retryNoFixStatusV2Locked_def
  by (rule walk keep_rules keeps_mqtt carried_value | assumption | simp only: keeps_update
      | simp add: current_publication_def source_publication_def zero_publication_def publication_kinds_def is_position_def)+

lemma keeps_close_fix [keep_rules]: "I a \<Longrightarrow> I (closeSourceFixV2Locked L E a)"
  unfolding closeSourceFixV2Locked_def by (rule walk keep_rules | assumption | simp only: keeps_update)+

lemma keeps_withdraw_source [keep_rules]: "I a \<Longrightarrow> I (withdraw_source L E a)"
  unfolding withdraw_source_def by (rule walk keep_rules | assumption | simp only: keeps_update)+

lemma keeps_position_v2 [keep_rules]: "I a \<Longrightarrow> pred_option (I) (publish_position_v2 L E sample a)"
  unfolding publish_position_v2_def
  by (rule walk keep_rules keeps_mqtt keeps_option(2) opt.carried_value | assumption | simp only: keeps_update
      | simp add: current_publication_def zero_publication_def publication_kinds_def is_position_def)+

lemma keeps_gps_v2 [keep_rules]: "I a \<Longrightarrow> pred_option (I) (handleGPSV2 L E payload a)"
  unfolding handleGPSV2_def
  by (rule walk keep_rules opt.carried_value | assumption | simp only: keeps_update)+

lemma keeps_clear_control [keep_rules]: "I a \<Longrightarrow> I (clear_v2 E payload control a)"
  unfolding clear_v2_def Let_def by (rule walk keep_rules | assumption | simp only: keeps_update)+

lemma keeps_restart [keep_rules]:
  assumes "I a"
  shows "pred_option (I) (restart_stream_v2 control a)"
proof -
  have "I (dropPendingV2Source (dropPendingPosition (a\<lparr>a_positionSeq := 0, a_sourceSequenceV2 := 0,
          a_positionGeneration := Suc (a_positionGeneration a)\<rparr>)))"
    using keeps_drop(2) [OF keeps_advance [of "a\<lparr>a_positionSeq := 0, a_sourceSequenceV2 := 0\<rparr>"]] assms by simp
  then show ?thesis
    unfolding restart_stream_v2_def Let_def by (auto split: Option.bind_splits)
qed

lemma keeps_install [keep_rules]: "I a \<Longrightarrow> pred_option (I) (install_v2 L E control act remaining a)"
proof -
  assume a: "I a"
  have 1: "pred_option (I) (if new_stream_v2 control a then restart_stream_v2 control a else Some a)"
    using keeps_restart [OF a] a by simp
  have 2: "pred_option (I) (setPeerReplayScopeLocked session peers b)" if "I b" for session peers b
    using that by (auto simp: setPeerReplayScopeLocked_def Let_def split: Option.bind_splits)
  show ?thesis
    unfolding install_v2_def Let_def
    by (rule keeps_option(3) [OF 1], rule keeps_option(2), rule keeps_option(3) [OF 2])
       (simp_all add: keeps_no_fix)
qed

lemma keeps_grant [keep_rules]:
  assumes "I a"
  shows "pred_option (I) (grant_v2 L E payload control a)"
proof (cases "grantChallengeCurrentV2Locked E (ctl_Challenge control) a")
  case True
  then obtain sentAt where c: "map_of (a_challenges a) (ctl_Challenge control) = Some sentAt" by (rule challenge_sent)
  have put: "I (b\<lparr>a_challenges := gm_put (ctl_Challenge control) t (a_challenges b)\<rparr>)"
    if "install_v2 L E control act remaining a = Some b" "I b" for act remaining b t
    using keeps_put(3) [OF that(2)] c install_challenges [OF that(1)] by simp
  show ?thesis
    unfolding grant_v2_def Let_def
    by (rule opt.rules keeps_option(1,2,4) keep_rules put assms | assumption)+
qed (simp add: grant_v2_def assms)

lemma keeps_control_v2 [keep_rules]: "I a \<Longrightarrow> pred_option (I) (handleControlV2 L E payload a)"
  unfolding handleControlV2_def by (rule walk keep_rules | assumption)+

lemma keeps_peers_v2 [keep_rules]:
  "I a \<Longrightarrow> I (handlePeerV2 L E payload a)" "I a \<Longrightarrow> I (handlePeerStatusV2 L E payload a)"
  unfolding handlePeerV2_def handlePeerStatusV2_def
  by (rule rules carried_value keep_rules | assumption | simp only: keeps_update)+

lemma keeps_expire_v2 [keep_rules]: "I a \<Longrightarrow> I (expireV2LeaseLocked now a)"
proof -
  assume a: "I a"
  have c: "I (clearGrantV2Locked (a\<lparr>a_activityV2 := None, a_activity := None, a_activityAt := 0, a_challenges := []\<rparr>))"
    by (rule keeps_clear_v2, rule keeps_fields(1)) (simp only: keeps_update a)
  have f: "I (b\<lparr>a_journalProbesV2 := filter P (a_journalProbesV2 b), a_localAttemptsV2 := filter R (a_localAttemptsV2 b)\<rparr>)"
    if "I b" for b P R
    using keeps_fields(5) [OF keeps_fields(3) [OF that], of R P] by simp
  show ?thesis
    unfolding expireV2LeaseLocked_def Let_def by (intro f carried_if keeps_clear_v2 c a)
qed

section \<open>Version 1\<close>

lemma keeps_hello [keep_rules]: "I a \<Longrightarrow> I (publishHelloLocked E a)"
  unfolding publishHelloLocked_def
  by (rule rules carried_value keep_rules keeps_mqtt | assumption | simp only: keeps_update
      | simp add: current_publication_def zero_publication_def publication_kinds_def is_position_def)+

lemma keeps_activity [keep_rules]:
  "I a \<Longrightarrow> I (publishActivityQoSLocked E act qos a)" "I a \<Longrightarrow> I (publishActivityLocked E act a)"
proof -
  show p: "I (publishActivityQoSLocked E act qos a)" if "I a" for qos
    using that unfolding publishActivityQoSLocked_def
    by - (rule rules carried_value keep_rules keeps_mqtt | assumption
        | simp add: current_publication_def zero_publication_def publication_kinds_def is_position_def)+
  then show "I a \<Longrightarrow> I (publishActivityLocked E act a)" by (simp add: publishActivityLocked_def)
qed

lemma keeps_stop [keep_rules]:
  "I a \<Longrightarrow> I (publishInactiveLocked E a)" "I a \<Longrightarrow> I (publishLocalStopLocked E a)"
  unfolding publishInactiveLocked_def publishLocalStopLocked_def
  by (rule rules carried_let keep_rules | assumption | simp only: keeps_update)+

lemma keeps_end_activity [keep_rules]: "I a \<Longrightarrow> I (end_activity E act a)"
  unfolding end_activity_def
  by (rule rules carried_let keep_rules | assumption | simp only: keeps_update)+

lemma keeps_take_activity [keep_rules]: "I a \<Longrightarrow> pred_option (I) (take_activity E act a)"
  unfolding take_activity_def
  by (rule walk keeps_prune keep_rules keeps_option(2) opt.carried_value | assumption | simp only: keeps_update)+

lemma keeps_handle_activity [keep_rules]: "I a \<Longrightarrow> pred_option (I) (handleActivity L E payload a)"
  unfolding handleActivity_def
  by (rule walk keep_rules keeps_option(2) | assumption | simp only: keeps_update)+

lemma keeps_scope [keep_rules]: "I a \<Longrightarrow> pred_option (I) (setPeerReplayScopeLocked session peers a)"
  by (auto simp: setPeerReplayScopeLocked_def Let_def split: Option.bind_splits)

lemma keeps_install_v1 [keep_rules]: "I a \<Longrightarrow> pred_option (I) (install_grant E control remaining a)"
  unfolding install_grant_def
  by (rule walk keep_rules keeps_option(2) | assumption | simp only: keeps_update)+

lemma keeps_control [keep_rules]: "I a \<Longrightarrow> pred_option (I) (handleControl L E payload a)"
  unfolding handleControl_def
  by (rule walk keep_rules keeps_option(2,4) opt.carried_value | assumption | simp only: keeps_update)+

lemma keeps_replay [keep_rules]: "I a \<Longrightarrow> pred_option (I) (replay_scope a)"
  unfolding replay_scope_def by (rule keeps_option(2) keep_rules | assumption)+

lemma keeps_peers [keep_rules]:
  "I a \<Longrightarrow> pred_option (I) (handlePeer L E payload a)"
  "I a \<Longrightarrow> pred_option (I) (handlePeerStatus L E payload a)"
  unfolding handlePeer_def handlePeerStatus_def
  by (rule walk keep_rules opt.carried_value | assumption | simp only: keeps_update)+

lemma keeps_withdraw_positions [keep_rules]: "I a \<Longrightarrow> I (withdraw_positions a)"
  by (simp add: withdraw_positions_def keeps_invalidate)

lemma keeps_position [keep_rules]: "I a \<Longrightarrow> pred_option (I) (publish_position L E sample a)"
  unfolding publish_position_def
  by (rule walk keeps_mqtt keeps_option(2) opt.carried_value | assumption | simp only: keeps_update
      | simp add: current_publication_def zero_publication_def publication_kinds_def is_position_def)+

lemma keeps_gps [keep_rules]: "I a \<Longrightarrow> pred_option (I) (handleGPS L E payload a)"
  unfolding handleGPS_def by (rule walk keep_rules opt.carried_value | assumption | simp only: keeps_update)+

section \<open>Turns of the goroutines\<close>

lemma keeps_failClosed [keep_rules]: "I a \<Longrightarrow> I (failClosed E a)"
  unfolding failClosed_def
  by (rule rules carried_let keep_rules | assumption | simp only: keeps_update)+

lemma keeps_expire [keep_rules]: "I a \<Longrightarrow> I (expireLease L E a)"
  unfolding expireLease_def
  by (rule rules carried_let carried_value keep_rules | assumption | simp only: keeps_update)+

lemma keeps_refresh [keep_rules]: "I a \<Longrightarrow> I (snd (refreshBlocked L E hget a))"
  unfolding refreshBlocked_def Let_def
  by (cases hget; simp only: sum.case snd_conv) (rule rules keep_rules | assumption | simp only: keeps_update)+

lemma keeps_redis_message: "I a \<Longrightarrow> handleRedisMessage L E channel payload a = Some (again, b) \<Longrightarrow> I b"
  using keeps_handle_activity_v2 [of a L E payload] keeps_handle_activity [of a L E payload] keeps_gps_v2 [of a L E payload]
    keeps_gps [of a L E payload]
  by (auto simp: handleRedisMessage_def split: if_splits)

lemma keeps_downlink: "I a \<Longrightarrow> pred_option (I) (handleDownlink L E message a)"
proof -
  assume a: "I a"
  have "pred_option (I) (dispatch_downlink L E type payload a)" for type payload
    unfolding dispatch_downlink_def by (rule walk keep_rules a)+
  then show ?thesis using a unfolding handleDownlink_def by - (rule walk keeps_option(4) keeps_ack | assumption)+
qed

lemma keeps_run: "I a \<Longrightarrow> run_step L E input phase a = Some (phase', b) \<Longrightarrow> I b"
proof -
  assume a: "I a"
  have f: "I (snd (run_failed E b))" if "I b" for b using that by (simp add: run_failed_def keeps_failClosed)
  have r: "refreshBlocked L E hget a = (ok, b) \<Longrightarrow> I b" for hget ok b
    using keeps_refresh [OF a, of L E hget] by simp
  have c: "I (snd (completeRedisRecovery_step L E i ph a))" for i ph
    using a f r keeps_probe [OF a]
    by (auto simp: completeRedisRecovery_step_def split: run_phase.split run_input.split option.split bool.split prod.split)
  have s: "pred_option (I) (map_option snd (run_step L E input phase a))"
  proof -
    have g: "refreshBlocked L E hget a = (ok, b) \<Longrightarrow> I (snd (case ok of True \<Rightarrow> (Serving, b) | False \<Rightarrow> run_failed E b))" for hget ok b
      using r f by (auto split: bool.split)
    have m: "pred_option (I) (map_option snd (map_option (\<lambda>(again, a1). (if again then Refreshing else Serving, a1))
        (handleRedisMessage L E channel payload a)))" for channel payload
      using keeps_redis_message [OF a, of L E channel payload] by (cases "handleRedisMessage L E channel payload a") auto
    have begin1: "I (snd (completeRedisRecovery_begin a))" using a by (simp add: completeRedisRecovery_begin_def)
    show ?thesis
    proof (cases phase)
      case Serving
      then show ?thesis unfolding run_step_def
        using a f [OF a] m by (auto simp: keeps_expire simp del: option.map_comp split: run_input.split redis_event.split)
    next
      case (Awaiting subscribed)
      then show ?thesis unfolding run_step_def
        using a f [OF a] begin1 by (auto simp: Let_def keeps_expire split: run_input.split redis_event.split)
    next
      case Refreshing
      then show ?thesis unfolding run_step_def using a g by (auto split: run_input.split prod.split)
    qed (use a c in \<open>simp_all add: run_step_def split: run_input.split\<close>)
  qed
  assume "run_step L E input phase a = Some (phase', b)"
  with s show ?thesis by simp
qed

end

end
