(* ===== verification/Ride_Queues.thy ===== *)
theory Ride_Queues
  imports Ride_Safety Ride_Walk
begin

text \<open>
  What the adapter holds on to: publications, messages for Redis, acknowledgements, challenges, probes and
  attempts.  \<open>queues_inv\<close> bounds all of them and ties a pending position to the current generation; every
  critical section keeps it, and generations only grow.
\<close>

section \<open>The invariant\<close>

definition pending_inv :: "Adapter \<Rightarrow> bool" where
  "pending_inv a =
     (gm_wf (a_mqttPending a)
      \<and> (\<forall>(kind, p) \<in> set (a_mqttPending a). kind \<in> set publication_kinds \<and> mp_kind p = kind \<and> mp_order p \<le> a_mqttOrder a
           \<and> (is_position kind \<longrightarrow> mp_positionGeneration p = a_positionGeneration a))
      \<and> inj_on (\<lambda>(kind, p). mp_order p) (set (a_mqttPending a)))"

definition queues_inv :: "nat \<Rightarrow> Adapter \<Rightarrow> bool" where
  "queues_inv n a =
     (n \<le> a_positionGeneration a \<and> pending_inv a \<and> length (a_mqttWake a) \<le> 1
      \<and> length (a_redisQueue a) \<le> redisEgressQueueSize \<and> length (a_ackQueue a) \<le> redisEgressQueueSize
      \<and> length (a_challenges a) \<le> 9 \<and> length (a_journalProbesV2 a) \<le> 1 \<and> length (a_localAttemptsV2 a) \<le> 10
      \<and> length (a_usedLocalChallenges a) \<le> 10 \<and> length (a_probeTimesV2 a) \<le> 10)"

lemma queues_link [simp]:
  "queues_inv n (a\<lparr>a_mqtt := client\<rparr>) = queues_inv n a" "queues_inv n (a\<lparr>a_connecting := c\<rparr>) = queues_inv n a"
  "queues_inv n (a\<lparr>a_connectAttempt := k\<rparr>) = queues_inv n a" "queues_inv n (a\<lparr>a_mqttWorker := w\<rparr>) = queues_inv n a"
  by (simp_all add: queues_inv_def pending_inv_def)

section \<open>Publications\<close>

lemma pending_wf_put: "gm_wf m \<Longrightarrow> set (gm_put k v m) = insert (k, v) {(k', v') \<in> set m. k' \<noteq> k}"
  by (induction m) (auto simp: image_iff)

text \<open>A new publication gets an order above all others.\<close>

lemma pending_put:
  assumes "pending_inv a" and "mp_kind p \<in> set publication_kinds" and "is_position (mp_kind p) \<longrightarrow> mp_positionGeneration p = a_positionGeneration a"
  shows "pending_inv (a\<lparr>a_mqttOrder := Suc (a_mqttOrder a),
           a_mqttPending := gm_put (mp_kind p) (p\<lparr>mp_order := Suc (a_mqttOrder a)\<rparr>) (a_mqttPending a)\<rparr>)"
proof -
  let ?m = "a_mqttPending a" and ?o = "Suc (a_mqttOrder a)"
  have wf: "gm_wf ?m" and old: "\<forall>(kind, p) \<in> set ?m. mp_order p \<le> a_mqttOrder a" and inj: "inj_on (\<lambda>(kind, p). mp_order p) (set ?m)"
    using assms(1) by (auto simp: pending_inv_def)
  have "inj_on (\<lambda>(kind, p). mp_order p) {(k', v') \<in> set ?m. k' \<noteq> mp_kind p}" using inj by (rule inj_on_subset) auto
  moreover have "?o \<notin> (\<lambda>(kind, p). mp_order p) ` set ?m" using old by force
  ultimately have "inj_on (\<lambda>(kind, p). mp_order p) (set (gm_put (mp_kind p) (p\<lparr>mp_order := ?o\<rparr>) ?m))"
    unfolding pending_wf_put [OF wf] by (subst inj_on_insert) force
  with assms wf show ?thesis by (auto simp: pending_inv_def pending_wf_put)
qed

lemma queues_mqtt:
  assumes "queues_inv n a" and "mp_kind pub \<in> set publication_kinds" and "mp_unsubscribe pub = ''''"
    and "is_position (mp_kind pub) \<longrightarrow> mp_positionGeneration pub = a_positionGeneration a"
  shows "queues_inv n (queueMQTTPublication pub a)"
proof -
  have w: "length (wake_worker w) \<le> 1" if "length w \<le> 1" for w using that by (auto simp: wake_worker_def chan_try_def)
  have k: "queues_inv n (b\<lparr>a_mqttWake := wake_worker (a_mqttWake b)\<rparr>) = queues_inv n b" if "length (a_mqttWake b) \<le> 1" for b
    using w [OF that] that by (simp add: queues_inv_def pending_inv_def)
  have p: "pending_inv (a\<lparr>a_mqttWorker := True\<rparr>)" "a_mqttOrder (a\<lparr>a_mqttWorker := True\<rparr>) = a_mqttOrder a"
    using assms(1) by (simp_all add: queues_inv_def pending_inv_def)
  have put: "queues_inv n (a\<lparr>a_mqttWorker := True, a_mqttOrder := Suc (a_mqttOrder a),
      a_mqttPending := gm_put (mp_kind pub) (pub\<lparr>mp_order := Suc (a_mqttOrder a)\<rparr>) (a_mqttPending a)\<rparr>)"
    using pending_put [OF p(1) assms(2)] assms(1,4) by (simp add: queues_inv_def)
  have "length (a_mqttWake a) \<le> 1" using assms(1) by (simp add: queues_inv_def)
  then show ?thesis
    using assms(1,3) put unfolding queueMQTTPublication_def startMQTTWorker_def Let_def
    by (simp add: k)
qed

lemma pending_subset:
  assumes "pending_inv a" and "gm_wf m" and "set m \<subseteq> set (a_mqttPending a)"
  shows "pending_inv (a\<lparr>a_mqttPending := m\<rparr>)"
  using assms inj_on_subset [OF _ assms(3), of "\<lambda>(kind, p). mp_order p"] by (auto simp: pending_inv_def)

lemma pending_without: "set (gm_del k m) = {(k', v) \<in> set m. k' \<noteq> k}"
  by (induction m) auto

lemma pending_wfD: "pending_inv a \<Longrightarrow> gm_wf (a_mqttPending a)"
  by (simp add: pending_inv_def)

lemma queues_drop:
  assumes "queues_inv n a"
  shows "queues_inv n (dropPendingPosition a)" "queues_inv n (dropPendingV2Source a)"
    "queues_inv n (snd (nextMQTTPublicationLocked a))" "queues_inv n (snd (worker_take a))"
proof -
  have k: "queues_inv n (a\<lparr>a_mqttPending := m\<rparr>)" if "gm_wf m" "set m \<subseteq> set (a_mqttPending a)" for m
    using pending_subset [OF _ that] assms by (simp add: queues_inv_def)
  have w: "gm_wf (a_mqttPending a)" using assms by (simp add: queues_inv_def pending_wfD)
  show "queues_inv n (dropPendingPosition a)" "queues_inv n (dropPendingV2Source a)"
    using w by (auto simp: dropPendingPosition_def dropPendingV2Source_def pending_without intro!: k)
  show taken: "queues_inv n (snd (nextMQTTPublicationLocked a))"
    using w assms by (auto simp: nextMQTTPublicationLocked_def pending_without intro!: k split: option.split)
  show "queues_inv n (snd (worker_take a))"
    using taken by (auto simp: worker_take_def split: prod.split option.split)
qed

text \<open>Advancing the generation withdraws the positions.\<close>

lemma queues_advance:
  assumes "queues_inv n a"
  shows "queues_inv n (dropPendingPosition (a\<lparr>a_positionGeneration := Suc (a_positionGeneration a)\<rparr>))"
proof -
  let ?m = "gm_del ''v2_position'' (gm_del ''position'' (a_mqttPending a))"
  have "pending_inv (a\<lparr>a_mqttPending := ?m\<rparr>)"
    using assms by (intro pending_subset) (auto simp: queues_inv_def pending_without pending_wfD)
  then have "pending_inv (a\<lparr>a_positionGeneration := Suc (a_positionGeneration a), a_mqttPending := ?m\<rparr>)"
    by (auto simp: pending_inv_def is_position_def pending_without)
  then show ?thesis using assms by (simp add: dropPendingPosition_def queues_inv_def)
qed

section \<open>The other queues\<close>

lemma queues_redis: "queues_inv n a \<Longrightarrow> queues_inv n (queueRedisPublication E ch payload age a)"
  by (auto simp: queueRedisPublication_def startRedisWorker_def chan_try_def Let_def queues_inv_def pending_inv_def redisEgressQueueSize_def)

lemma queues_ack: "queues_inv n a \<Longrightarrow> queues_inv n (queueAck m a)"
  by (auto simp: queueAck_def startAckWorker_def chan_try_def Let_def queues_inv_def pending_inv_def redisEgressQueueSize_def
      split: option.split)

lemma queues_redis_turn: "queues_inv n a \<Longrightarrow> queues_inv n (snd (runRedisWorker_turn L E a))"
  by (auto simp: runRedisWorker_turn_def Let_def queues_inv_def pending_inv_def split: list.split)

lemma queues_fields:
  "queues_inv n a \<Longrightarrow> queues_inv n (a\<lparr>a_challenges := []\<rparr>)"
  "queues_inv n a \<Longrightarrow> queues_inv n (a\<lparr>a_challenges := gm_del c (a_challenges a)\<rparr>)"
  "queues_inv n a \<Longrightarrow> queues_inv n (a\<lparr>a_journalProbesV2 := filter P (a_journalProbesV2 a)\<rparr>)"
  "queues_inv n a \<Longrightarrow> queues_inv n (a\<lparr>a_probeTimesV2 := filter Q (a_probeTimesV2 a)\<rparr>)"
  "queues_inv n a \<Longrightarrow> queues_inv n (a\<lparr>a_localAttemptsV2 := filter R (a_localAttemptsV2 a)\<rparr>)"
  "queues_inv n a \<Longrightarrow> queues_inv n (a\<lparr>a_ackQueue := tl (a_ackQueue a)\<rparr>)"
  "queues_inv n a \<Longrightarrow> queues_inv n (invalidateLocalAttemptsV2Locked a)"
  by (auto simp: queues_inv_def pending_inv_def invalidateLocalAttemptsV2Locked_def
      intro: le_trans [OF length_filter_le] le_trans [OF length_delete_le])

text \<open>Challenges.\<close>

lemma drop_oldest_length: "length (drop_oldest rot m) \<le> 9"
proof (induction rot m rule: drop_oldest.induct)
  case (1 rot m)
  then show ?case by (subst drop_oldest.simps) auto
qed

lemma drop_any_length: "length (drop_any rot m) \<le> 10"
proof (induction rot m rule: drop_any.induct)
  case (1 rot m)
  then show ?case by (subst drop_any.simps) auto
qed

lemma queues_prune:
  assumes "queues_inv n a"
  shows "queues_inv n (pruneChallengesLocked E now (a\<lparr>a_challenges := c\<rparr>))"
  using assms by (simp add: pruneChallengesLocked_def drop_oldest_length queues_inv_def pending_inv_def)

lemma queues_consume: "queues_inv n a \<Longrightarrow> queues_inv n (consumeProbeV2Locked E probe payload a)"
  by (auto simp: consumeProbeV2Locked_def queues_inv_def pending_inv_def drop_any_length intro: le_trans [OF length_delete_le])

lemma queues_put:
  "queues_inv n a \<Longrightarrow> length (a_localAttemptsV2 a) < 10 \<Longrightarrow> queues_inv n (a\<lparr>a_localAttemptsV2 := gm_put c x (a_localAttemptsV2 a)\<rparr>)"
  "queues_inv n a \<Longrightarrow> map_of (a_localAttemptsV2 a) c = Some y \<Longrightarrow> queues_inv n (a\<lparr>a_localAttemptsV2 := gm_put c x (a_localAttemptsV2 a)\<rparr>)"
  "queues_inv n a \<Longrightarrow> map_of (a_challenges a) c = Some t \<Longrightarrow> queues_inv n (a\<lparr>a_challenges := gm_put c t' (a_challenges a)\<rparr>)"
  "queues_inv n a \<Longrightarrow> length (a_journalProbesV2 a) < 1 \<Longrightarrow> length (a_probeTimesV2 a) < 10 \<Longrightarrow>
     queues_inv n (a\<lparr>a_journalProbesV2 := gm_put c z (a_journalProbesV2 a), a_probeTimesV2 := a_probeTimesV2 a @ [now]\<rparr>)"
  by (simp_all add: queues_inv_def pending_inv_def gm_put_length gm_has_def)

section \<open>The handlers keep it\<close>

lemma pending_core: "core a = core b \<Longrightarrow> pending_inv a = pending_inv b"
  by (simp add: core_def pending_inv_def)

interpretation ql: adapter_invariant "queues_inv n" for n
proof (unfold_locales, goal_cases)
  case (1 a b)
  then show ?case using pending_core [of a b] by (simp add: queues_inv_def core_def)
next
  case (2 a pub)
  then show ?case by (intro queues_mqtt) (simp_all add: current_publication_def split: if_splits)
qed (rule queues_drop queues_advance queues_redis queues_ack queues_fields queues_prune queues_consume queues_put; assumption)+

section \<open>Connections\<close>

lemma queues_reset [keep_rules]: "queues_inv n a \<Longrightarrow> queues_inv n (resetConnectionLocked client conn a)"
proof -
  assume "queues_inv n a"
  from queues_fields(7) [OF queues_fields(1) [OF this]]
  show ?thesis unfolding resetConnectionLocked_def Let_def
    by (intro ql.keeps_clear) (simp add: queues_inv_def pending_inv_def invalidateLocalAttemptsV2Locked_def)
qed

lemma queues_subscribed [keep_rules]: "queues_inv n a \<Longrightarrow> queues_inv n (OnConnected_subscribed L E client attempt nonce a)"
  unfolding OnConnected_subscribed_def
  by (rule ql.rules ql.carried_let keep_rules | assumption | simp only: ql.keeps_update queues_link)+

lemma queues_connection:
  assumes "queues_inv n a"
  shows "queues_inv n (snd (OnConnected_begin E client a))" "queues_inv n (OnConnected_abandon attempt a)"
    "queues_inv n (snd (OnConnected_nonce attempt a))" "queues_inv n (OnDisconnected c a)" "queues_inv n (snd (Stop_begin E a))"
    "queues_inv n (Stop_finish c topic a)" "queues_inv n (snd (Start a))"
proof -
  show "queues_inv n (snd (OnConnected_begin E client a))" "queues_inv n (snd (Start a))"
    using assms by (auto simp: OnConnected_begin_def Start_def startWorkers_def startAckWorker_def startRedisWorker_def startMQTTWorker_def)
  have ab: "queues_inv n (OnConnected_abandon attempt b)" if "queues_inv n b" for b
    using that by (simp add: OnConnected_abandon_def)
  then show "queues_inv n (OnConnected_abandon attempt a)" using assms .
  show "queues_inv n (snd (OnConnected_nonce attempt a))"
    using ql.keeps_draw_snd [OF assms] ab by (auto simp: OnConnected_nonce_def split: prod.split option.split)
  show "queues_inv n (OnDisconnected c a)"
    using assms by (simp add: OnDisconnected_def Let_def queues_reset)
  show "queues_inv n (snd (Stop_begin E a))" using assms by (simp add: Stop_begin_def ql.keeps_clear)
  have "pending_inv (a\<lparr>a_mqttOrder := Suc (a_mqttOrder a), a_mqttPending := [(''unsubscribe'', p\<lparr>mp_kind := ''unsubscribe'', mp_order := Suc (a_mqttOrder a)\<rparr>)]\<rparr>)"
    "pending_inv (a\<lparr>a_mqttPending := []\<rparr>)" for p
    by (simp_all add: pending_inv_def publication_kinds_def is_position_def)
  then show "queues_inv n (Stop_finish c topic a)"
    using assms
    by (auto simp: Stop_finish_def stopMQTTWorker_def startMQTTWorker_def Let_def queues_inv_def pending_inv_def wake_worker_def
        chan_try_def publication_kinds_def is_position_def zero_publication_def split: option.split)
qed

lemma queues_exec:
  assumes "queues_inv n (rd_adapter s)" and "ride_exec L E op s = Some s'"
  shows "queues_inv n (rd_adapter s')"
proof (cases op)
  case (OpRun input)
  with assms(2) obtain phase b where "run_step L E input (rd_run s) (rd_adapter s) = Some (phase, b)" "rd_adapter s' = b" by auto
  with ql.keeps_run [OF assms(1)] show ?thesis by simp
next
  case (OpDownlink message)
  with assms(2) ql.keeps_downlink [OF assms(1), of L E message] show ?thesis by auto
next
  case OpTake
  with assms queues_drop(4) [OF assms(1)] show ?thesis by (auto split: option.splits prod.splits sum.splits)
next
  case OpAdmit
  with assms show ?thesis by (auto split: option.splits worker_action.splits)
next
  case OpStop
  with assms queues_connection(5) [OF assms(1), of E] show ?thesis by (auto split: prod.splits)
next
  case (OpConnected client)
  with assms queues_connection(1) [OF assms(1), of E client] show ?thesis by (auto split: prod.splits option.splits)
next
  case (OpNonce i)
  have "queues_inv n (snd (OnConnected_nonce attempt (rd_adapter s)))" for attempt by (rule queues_connection(3) [OF assms(1)])
  with OpNonce assms show ?thesis by (auto split: prod.splits option.splits if_splits) (metis snd_conv)+
next
  case (OpSubscribed i ok)
  with assms queues_connection(2) [OF assms(1)] queues_subscribed [OF assms(1)] show ?thesis by (auto split: prod.splits option.splits if_splits)
qed (use assms queues_connection [OF assms(1)] queues_redis_turn [OF assms(1)] queues_fields(6) [OF assms(1)] in
    \<open>auto split: option.splits prod.splits\<close>)

end
