(* ===== verification/Ride_Scenario.thy ===== *)
theory Ride_Scenario
  imports Ride_System Ride_Roundtrip
begin

text \<open>
  A concrete run of the ride-group adapter in version 1, from its construction to a position that waits to be
  sent: Redis is subscribed, the settings are read, the cloud connects, the vehicle reports an activity, the
  cloud grants the session, the receiver reports a fix.  Every message is a text that the program parses.
  The run shows that the states that the properties speak of are reached.
\<close>

section \<open>The messages\<close>

definition sample_time :: instant where
  "sample_time = 62135596810000000000"

lemma parse_time: "Parse_RFC3339 ''1970-01-01T00:00:10Z'' = Some sample_time"
  unfolding sample_time_def by code_simp

lemma sample_milli: "UnixMilli sample_time = 10000" "0 < sample_time"
  by (simp_all add: sample_time_def UnixMilli_def UnixNano_def)

lemma nonces: "newUUID (Some (replicate 16 0)) = Some (sample_uuid (CHR ''0''))"
  "newUUID (Some (replicate 4 17 @ replicate 12 0)) = Some (sample_uuid (CHR ''1''))"
  by code_simp+

definition sample_activity :: Activity where
  "sample_activity = \<lparr>act_Version = 1, act_Type = ''ride_group_activity'', act_BootNonce = sample_uuid (CHR ''7''), act_Sequence = 1,
     act_Active = True, act_LocalStop = False, act_SessionID = Some (sample_uuid (CHR ''2'')),
     act_MemberID = Some (sample_uuid (CHR ''3'')), act_Challenge = sample_uuid (CHR ''5'')\<rparr>"

definition sample_grant :: Control where
  "sample_grant = (Control.truncate zero_Control)\<lparr>ctl_Version := 1, ctl_Type := ''ride_group_control'',
     ctl_ConnectionNonce := sample_uuid (CHR ''1''), ctl_Action := ''grant'', ctl_SessionID := Some (sample_uuid (CHR ''2'')),
     ctl_MemberID := Some (sample_uuid (CHR ''3'')), ctl_Revision := 1, ctl_TransportEpoch := 1,
     ctl_StreamID := Some (sample_uuid (CHR ''4'')), ctl_Challenge := sample_uuid (CHR ''5''), ctl_ServerTimeMS := 9,
     ctl_LeaseTTLMS := 10000, ctl_CadenceMS := Some 2000, ctl_Peers := Some []\<rparr>"

definition sample_fix :: json where
  "sample_fix = JObj [(''latitude'', JStr ''0''), (''longitude'', JStr ''0''), (''timestamp'', JStr ''1970-01-01T00:00:10Z''),
     (''active'', JBool True), (''connected'', JBool True), (''state'', JStr ''fix-established''), (''fix'', JStr ''3d'')]"

definition activity_text :: string where "activity_text = print_json (enc_Activity sample_activity)"
definition grant_text :: string where "grant_text = print_json (enc_Control sample_grant)"
definition fix_text :: string where "fix_text = print_json sample_fix"

lemma sample_uuids:
  assumes "c \<in> set ''0123457''"
  shows "validUUID (sample_uuid c)" "list_all plain_ascii (sample_uuid c)" "length (sample_uuid c) = 36"
proof -
  have "lower_hex c" using assms by (auto simp: lower_hex_def)
  then show "validUUID (sample_uuid c)" "list_all plain_ascii (sample_uuid c)" "length (sample_uuid c) = 36"
    by (simp_all add: sample_uuid_ok)
qed

lemma decodeExact_print:
  assumes "wf_json j" and "depth j \<le> 3" and "uniqueJSONValue j" and "length (print_json j) \<le> MaxEnvelopeBytes"
    and "print_json j \<noteq> []"
  shows "decodeExact tab keys r0 (print_json j) = decode_fields tab keys r0 j"
proof -
  have d: "depth j \<le> maxNestingDepth" using assms(2) by (simp add: maxNestingDepth_def)
  show ?thesis
    using assms json_escape.parse_print [OF assms(1) d] json_scalar.print_validJSONScalars [OF assms(1)]
    by (simp add: decodeExact_def rejectDuplicateKeys_def)
qed

lemma activity_tree:
  "let j = enc_Activity sample_activity in wf_json j \<and> depth j \<le> 3 \<and> uniqueJSONValue j
     \<and> length (print_json j) \<le> MaxEnvelopeBytes \<and> print_json j \<noteq> []"
  using sample_uuids(2,3)
  by (simp add: enc_Activity_def sample_activity_def enc_ptr_def enc_int_def sample_numbers sample_number_words
      plain_facts MaxEnvelopeBytes_def Let_def plain_ascii_def)

lemma activity_parses: "ParseActivity sample_lib activity_text = Inr sample_activity"
proof -
  let ?j = "enc_Activity sample_activity"
  from activity_tree have t: "wf_json ?j" "depth ?j \<le> 3" "uniqueJSONValue ?j" "length (print_json ?j) \<le> MaxEnvelopeBytes"
    "print_json ?j \<noteq> []" by (simp_all add: Let_def)
  have "decode_fields (activity_table sample_lib) activity_keys (Activity.truncate zero_Activity) ?j = Some sample_activity"
    by (simp add: decode_fields_def json_fields_def enc_Activity_def activity_keys_def gm_has_def dec_simps activity_table_def
        sample_activity_def zero_Activity_def Activity.truncate_def set_int_def enc_ptr_def enc_int_def sample_lib_def number_in_def
        ParseInt_show_int_iff set_str_ptr_def)
  moreover have "fields_have_types activity_types ?j"
    by (simp add: fields_have_types_def json_fields_def activity_types_def enc_Activity_def json_kind_def sample_activity_def
        enc_int_def sample_numbers)
  moreover have "validActivity sample_activity"
    using sample_uuids(1) by (simp add: validActivity_def sample_activity_def maxSafeInteger_def validUUIDPtr_def)
  ultimately show ?thesis
    by (simp add: ParseActivity_def activity_text_def decodeExact_print [OF t] printed_tree(2) [OF t])
qed

lemma grant_tree:
  "let j = enc_Control sample_grant in wf_json j \<and> depth j \<le> 3 \<and> uniqueJSONValue j
     \<and> length (print_json j) \<le> MaxEnvelopeBytes \<and> print_json j \<noteq> []"
  using sample_uuids(2,3)
  by (simp add: enc_Control_def sample_grant_def zero_Control_def Control.truncate_def enc_ptr_def enc_slice_def enc_int_def sample_numbers sample_number_words
      plain_facts MaxEnvelopeBytes_def Let_def plain_ascii_def)

lemma grant_parses: "ParseControl sample_lib grant_text = Inr sample_grant"
proof -
  let ?j = "enc_Control sample_grant"
  from grant_tree have t: "wf_json ?j" "depth ?j \<le> 3" "uniqueJSONValue ?j" "length (print_json ?j) \<le> MaxEnvelopeBytes"
    "print_json ?j \<noteq> []" by (simp_all add: Let_def)
  have "decode_fields (control_table sample_lib) control_keys (Control.truncate zero_Control) ?j = Some sample_grant"
    by (simp add: decode_fields_def json_fields_def enc_Control_def control_keys_def gm_has_def dec_simps control_table_def
        sample_grant_def zero_Control_def Control.truncate_def set_int_def set_int_ptr_def enc_ptr_def enc_int_def sample_lib_def
        number_in_def ParseInt_show_int_iff set_slice_def enc_slice_def set_str_ptr_def)
  moreover have "fields_have_types control_types ?j"
    by (simp add: fields_have_types_def json_fields_def control_types_def enc_Control_def json_kind_def enc_slice_def
        sample_grant_def zero_Control_def Control.truncate_def enc_int_def sample_numbers)
  moreover have "validateControlPeers sample_lib (print_json ?j) (peers_of sample_grant)"
    unfolding validateControlPeers_def printed_tree(3) [OF t]
    by (simp add: enc_Control_def json_fields_def enc_slice_def sample_grant_def
        zero_Control_def Control.truncate_def)
  moreover have "validControl sample_grant"
    using sample_uuids(1) by (simp add: validControl_def sample_grant_def zero_Control_def Control.truncate_def safePositive_def
        maxSafeInteger_def validUUIDPtr_def)
  ultimately show ?thesis
    by (simp add: ParseControl_def grant_text_def decodeExact_print [OF t] printed_tree(2) [OF t])
qed

definition fix_read :: GPSFix where
  "fix_read = zero_GPSFix\<lparr>fix_Latitude := ''0'', fix_Longitude := ''0'', fix_Timestamp := ''1970-01-01T00:00:10Z'', fix_Active := True,
     fix_Connected := True, fix_State := ''fix-established'', fix_Fix := ''3d''\<rparr>"

lemma other_names:
  "list_all (\<lambda>k. fold_name ''timestamp'' \<noteq> fold_name k) [''latitude'', ''longitude'', ''active'', ''connected'', ''state'', ''fix'']"
  by code_simp

lemma fix_parses: "ParseGPSFix sample_lib fix_text = Inr fix_read" "parseGPSTimestamp fix_text = Some sample_time"
proof -
  have w: "wf_json sample_fix" "depth sample_fix \<le> maxNestingDepth"
    by (simp_all add: sample_fix_def plain_valid plain_ascii_def maxNestingDepth_def)
  have l: "length fix_text \<le> MaxEnvelopeBytes * 4" "fix_text \<noteq> []"
    by (simp_all add: fix_text_def sample_fix_def plain_facts plain_ascii_def MaxEnvelopeBytes_def)
  have p: "parse_json fix_text = Some sample_fix" unfolding fix_text_def by (rule json_escape.parse_print [OF w])
  have d: "decode_struct False (gpsFix_table sample_lib) sample_fix zero_GPSFix = Some fix_read"
    "decode_struct False [(''timestamp'', set_str (\<lambda>x r. x))] sample_fix '''' = Some ''1970-01-01T00:00:10Z''"
    using other_names
    by (simp_all add: sample_fix_def decode_struct_def find_field_def set_str_def gpsFix_table_def set_bool_def fix_read_def zero_GPSFix_def)
  have "validCoordinates (Fin 0) (Fin 0)" by (simp add: validCoordinates_def f64_le_def f64_less_def)
  then show "ParseGPSFix sample_lib fix_text = Inr fix_read"
    using l p d(1) by (simp add: ParseGPSFix_def fix_read_def established_def sample_lib_def parse_time)
  show "parseGPSTimestamp fix_text = Some sample_time" using p d(2) by (simp add: parseGPSTimestamp_def parse_time)
qed

lemma fix_observed:
  "Observe sample_lib fix_read sample_time None =
     (Some \<lparr>smp_Latitude = Fin 0, smp_Longitude = Fin 0, smp_CapturedAt = sample_time, smp_AccuracyM = None,
            smp_HeadingDeg = None, smp_SpeedMPS = None, smp_MotionSource = ''unknown''\<rparr>,
      Some \<lparr>pt_Latitude = Fin 0, pt_Longitude = Fin 0, pt_CapturedAt = sample_time, pt_AccuracyM = None\<rparr>)"
proof -
  have "validCoordinates (Fin 0) (Fin 0)" by (simp add: validCoordinates_def f64_le_def f64_less_def)
  then show ?thesis
    by (simp add: Observe_def fix_read_def zero_GPSFix_def parse_time established_def time_Sub_def minInt64_def maxInt64_def
        sample_lib_def Let_def)
qed

section \<open>The run\<close>

definition sample_env :: env where
  "sample_env = \<lparr>e_now = sample_time, e_wall = sample_time, e_up = (\<lambda>_. True), e_rot = 0\<rparr>"

definition sample_start :: ride where
  "sample_start = ride_init (projr (NewAdapter \<lparr>rc_Enabled = True, rc_Identifier = ''mdb-1'', rc_ProtocolVersion = 1\<rparr> True
     [Some (replicate 16 0), Some (replicate 4 17 @ replicate 12 0)]))"

definition sample_ops :: "ride_op list" where
  "sample_ops = map (\<lambda>c. OpRun (Event (RedisSubscription ''subscribe'' c))) run_channels
     @ [OpRun (Drained []), OpRun (Hget (Inr None)), OpRun (Drained []), OpConnected 7, OpNonce 0, OpSubscribed 0 True,
        OpRun (Event (RedisMessage activityChannel activity_text)),
        OpDownlink (Some \<lparr>mi_payload = grant_text, mi_retained = False, mi_qos = 0\<rparr>),
        OpRun (Event (RedisMessage gpsChannel fix_text))]"

lemma sample_reachable: "ride_reachable L sample_start"
  by (simp add: sample_start_def NewAdapter_def nonces ride_reachable.start [of "\<lparr>rc_Enabled = True, rc_Identifier = ''mdb-1'', rc_ProtocolVersion = 1\<rparr>" True
     "[Some (replicate 16 0), Some (replicate 4 17 @ replicate 12 0)]"])

lemma run_append: "ride_run L (xs @ ys) s = Option.bind (ride_run L xs s) (ride_run L ys)"
proof (induction L xs s rule: ride_run.induct)
  case (2 L E op ops s)
  then show ?case by (cases "ride_exec L E op s") simp_all
qed simp

text \<open>Connected and recovered, with nothing granted yet.\<close>

definition stage :: "Activity option \<Rightarrow> instant \<Rightarrow> (string, instant) go_map \<Rightarrow> Control option \<Rightarrow> Adapter \<Rightarrow> bool" where
  "stage act since challenges g a =
     (a_protocolVersion a = 1 \<and> a_settingsReady a \<and> \<not> a_blocked a \<and> \<not> a_localStopPending a \<and> \<not> a_mqttClosing a
      \<and> a_mqtt a = Some 7 \<and> a_connection a = sample_uuid (CHR ''1'') \<and> a_lastCleared a = None \<and> a_gpsObservedAt a = 0
      \<and> a_positionSeq a = 0 \<and> a_lastPositionAt a = 0 \<and> a_estimator a = None \<and> map_of (a_mqttPending a) ''position'' = None
      \<and> a_activity a = act \<and> a_activityAt a = since \<and> a_challenges a = challenges \<and> a_grant a = g)"

definition ready :: "Adapter \<Rightarrow> bool" where
  "ready a = (stage None 0 [] None a \<and> a_activityBootNonce a = '''')"

lemma stage_queue:
  assumes "stage act since challenges g a" and "mp_kind pub \<noteq> ''position''" and "mp_unsubscribe pub = ''''"
  shows "stage act since challenges g (queueMQTTPublication pub a)"
  using assms by (simp add: queueMQTTPublication_def startMQTTWorker_def stage_def update_conv Let_def)

lemma stage_hello: "stage act since challenges g a \<Longrightarrow> stage act since challenges g (publishHelloLocked E a)"
proof -
  have h: "stage act since challenges g (b\<lparr>a_lastHelloAt := x\<rparr>) = stage act since challenges g b" for b x by (simp add: stage_def)
  show "stage act since challenges g a \<Longrightarrow> ?thesis"
    unfolding publishHelloLocked_def Let_def by (simp add: h stage_queue zero_publication_def)
qed

lemma not_blocked: "\<not> blocked_value ''''"
  by code_simp

lemma sample_recovery:
  assumes "rd_run s = Awaiting []" and "a_protocolVersion (rd_adapter s) = 1" and "\<not> a_blocked (rd_adapter s)"
  shows "ride_run sample_lib (map (Pair sample_env) (take 6 sample_ops)) s =
    Some (s\<lparr>rd_run := Serving, rd_adapter := (rd_adapter s)\<lparr>a_settingsReady := True, a_blocked := False\<rparr>\<rparr>)"
  using assms
  by (simp add: sample_ops_def run_channels_def run_step_def containsChannel_def completeRedisRecovery_begin_def activityChannel_def
      gpsChannel_def settingsChannel_def completeRedisRecovery_step_def refreshBlocked_def not_blocked Let_def)

lemma subscribed_ready:
  assumes "a_protocolVersion a = 1" and "a_settingsReady a" and "\<not> a_blocked a" and "\<not> a_localStopPending a" and "\<not> a_mqttClosing a"
    and "a_activityBootNonce a = ''''" and "a_gpsObservedAt a = 0" and "a_mqttPending a = []"
  shows "ready (OnConnected_subscribed sample_lib sample_env 7 (a_connectAttempt a) (sample_uuid (CHR ''1'')) a)"
proof -
  let ?r = "(resetConnectionLocked (Some 7) (sample_uuid (CHR ''1'')) (a\<lparr>a_connecting := False\<rparr>))\<lparr>a_lastCleared := None\<rparr>"
  have r: "stage None 0 [] None ?r" "a_activityBootNonce ?r = ''''"
    using assms
    by (simp_all add: stage_def resetConnectionLocked_def clearGrantLocked_def clearGrantV2Locked_def invalidatePositionPublicationsLocked_def
        dropPendingPosition_def dropPendingV2Source_def invalidateLocalAttemptsV2Locked_def Let_def)
  moreover have "a_activityBootNonce (publishHelloLocked sample_env ?r) = a_activityBootNonce ?r"
    by (simp add: publishHelloLocked_def queueMQTTPublication_def startMQTTWorker_def Let_def)
  ultimately have h: "ready (publishHelloLocked sample_env ?r)" using stage_hello by (simp add: ready_def)
  moreover have "a_protocolVersion ?r = 1" using r(1) by (simp add: stage_def)
  ultimately show ?thesis by (simp add: OnConnected_subscribed_def Let_def ready_def stage_def)
qed

lemma sample_connect:
  assumes "rd_connects s = []" and "a = rd_adapter s" and "a_Enabled a" and "\<not> a_ctx_done a" and "a_mqtt a = None" and "\<not> a_connecting a"
    and "a_random a = [Some (replicate 4 17 @ replicate 12 0)]" and "a_protocolVersion a = 1" and "a_settingsReady a"
    and "\<not> a_blocked a" and "\<not> a_localStopPending a" and "\<not> a_mqttClosing a" and "a_activityBootNonce a = ''''"
    and "a_gpsObservedAt a = 0" and "a_mqttPending a = []"
  shows "\<exists>s'. ride_run sample_lib (map (Pair sample_env) (take 3 (drop 6 sample_ops))) s = Some s' \<and> rd_run s' = rd_run s
    \<and> rd_taken s' = rd_taken s \<and> rd_handed s' = rd_handed s \<and> ready (rd_adapter s')"
proof -
  let ?b = "a\<lparr>a_connecting := True, a_connectAttempt := Suc (a_connectAttempt a), a_random := []\<rparr>"
  have "ready (OnConnected_subscribed sample_lib sample_env 7 (Suc (a_connectAttempt a)) (sample_uuid (CHR ''1'')) ?b)"
    using assms subscribed_ready [of ?b] by simp
  with assms show ?thesis
    by (simp add: sample_ops_def run_channels_def OnConnected_begin_def OnConnected_nonce_def draw_UUID_def nonces(2))
      (simp add: sample_env_def)
qed

lemma sample_ready:
  obtains s where "ride_run sample_lib (map (Pair sample_env) (take 9 sample_ops)) sample_start = Some s"
    "rd_run s = Serving" "rd_taken s = None" "rd_handed s = []" "ready (rd_adapter s)"
proof -
  have t: "take 9 sample_ops = take 6 sample_ops @ take 3 (drop 6 sample_ops)" by (simp add: sample_ops_def run_channels_def)
  note start = sample_start_def NewAdapter_def nonces ride_init_def Start_def startWorkers_def startAckWorker_def startRedisWorker_def
    startMQTTWorker_def
  let ?a = "(rd_adapter sample_start)\<lparr>a_settingsReady := True, a_blocked := False\<rparr>"
  have r: "ride_run sample_lib (map (Pair sample_env) (take 6 sample_ops)) sample_start =
      Some (sample_start\<lparr>rd_run := Serving, rd_adapter := ?a\<rparr>)"
    by (rule sample_recovery) (simp_all add: start Let_def)
  have "\<exists>s'. ride_run sample_lib (map (Pair sample_env) (take 3 (drop 6 sample_ops))) (sample_start\<lparr>rd_run := Serving, rd_adapter := ?a\<rparr>) = Some s'
    \<and> rd_run s' = rd_run (sample_start\<lparr>rd_run := Serving, rd_adapter := ?a\<rparr>)
    \<and> rd_taken s' = rd_taken (sample_start\<lparr>rd_run := Serving, rd_adapter := ?a\<rparr>)
    \<and> rd_handed s' = rd_handed (sample_start\<lparr>rd_run := Serving, rd_adapter := ?a\<rparr>) \<and> ready (rd_adapter s')"
    by (rule sample_connect [OF _ refl]) (simp_all add: start Let_def)
  then show thesis using that r unfolding t map_append run_append by (auto simp: sample_start_def ride_init_def)
qed

text \<open>The activity of the vehicle and its challenge.\<close>

definition sample_challenges :: "(string, instant) go_map" where
  "sample_challenges = [(sample_uuid (CHR ''5''), sample_time)]"

lemma stage_activity:
  "stage act since challenges g a \<Longrightarrow> stage act since challenges g (publishActivityLocked E x a)"
  unfolding publishActivityLocked_def publishActivityQoSLocked_def Let_def by (simp add: stage_queue zero_publication_def)

lemma other_nonce: "sample_uuid c \<noteq> ''''" "sample_uuid c = sample_uuid d \<longleftrightarrow> c = d"
  by (auto simp: sample_uuid_def)

lemma activity_taken:
  assumes "ready a"
  shows "\<exists>b. handleActivity sample_lib sample_env activity_text a = Some b \<and> stage (Some sample_activity) sample_time sample_challenges None b"
proof -
  have n: "e_now sample_env = sample_time" "e_up sample_env c" "sample_time \<noteq> 0" for c using sample_milli(2) by (simp_all add: sample_env_def)
  let ?a2 = "a\<lparr>a_activity := Some sample_activity, a_activityBootNonce := act_BootNonce sample_activity,
     a_activitySequence := act_Sequence sample_activity, a_activityAt := sample_time\<rparr>"
  have s2: "stage (Some sample_activity) sample_time [] None ?a2" using assms by (simp add: ready_def stage_def)
  have p: "stage (Some sample_activity) sample_time sample_challenges None
      (pruneChallengesLocked sample_env sample_time (b\<lparr>a_challenges := gm_put (act_Challenge sample_activity) sample_time (a_challenges b)\<rparr>))"
    if "stage (Some sample_activity) sample_time [] None b" for b
  proof -
    have "drop_oldest 0 sample_challenges = sample_challenges" by (subst drop_oldest.simps) (simp add: sample_challenges_def)
    then show ?thesis using that
      by (simp add: pruneChallengesLocked_def stage_def sample_activity_def sample_challenges_def time_Sub_def leaseDuration_def
          sample_env_def minInt64_def maxInt64_def)
  qed
  have "\<exists>b. take_activity sample_env sample_activity a = Some b \<and> stage (Some sample_activity) sample_time sample_challenges None b"
    using assms s2 by (simp add: take_activity_def n ready_def stage_def [of None] p stage_activity stage_hello Let_def)
  then show ?thesis
    using assms n
    by (simp add: handleActivity_def activity_parses ready_def stage_def [of None] sample_activity_def [THEN arg_cong, of act_BootNonce]
        sample_activity_def [THEN arg_cong, of act_Challenge] gm_has_def sample_activity_def [THEN arg_cong, of act_Active]
        sample_activity_def [THEN arg_cong, of act_LocalStop] sample_activity_def [THEN arg_cong, of act_SessionID] link_up_def time_IsZero_def
        sample_activity_def [THEN arg_cong, of act_MemberID] other_session_def other_nonce)
qed

text \<open>The grant of the cloud.\<close>

definition sharing :: "Adapter \<Rightarrow> bool" where
  "sharing a = (stage (Some sample_activity) sample_time [] (Some sample_grant) a \<and> a_grantAt a = sample_time
     \<and> a_grantTTL a = leaseDuration \<and> a_grantActive a)"

lemma type_names:
  "list_all (\<lambda>k. fold_name k \<noteq> fold_name ''type'') (filter (\<lambda>k. k \<noteq> ''type'') control_keys)"
  unfolding control_keys_def by code_simp

lemma grant_envelope: "envelope_type grant_text = Some ''ride_group_control''" "length grant_text \<le> MaxEnvelopeBytes"
proof -
  let ?j = "enc_Control sample_grant"
  from grant_tree have t: "wf_json ?j" "depth ?j \<le> 3" "uniqueJSONValue ?j" "length (print_json ?j) \<le> MaxEnvelopeBytes"
    "print_json ?j \<noteq> []" by (simp_all add: Let_def)
  have "type_only ?j ''ride_group_control''"
    using type_names by (simp add: control_keys_def type_only_def enc_Control_def sample_grant_def zero_Control_def Control.truncate_def)
  then show "envelope_type grant_text = Some ''ride_group_control''" unfolding grant_text_def by (rule printed_tree(4) [OF t])
  show "length grant_text \<le> MaxEnvelopeBytes" using t(4) by (simp add: grant_text_def)
qed

lemma grant_installed:
  assumes "stage (Some sample_activity) sample_time sample_challenges None a"
  shows "\<exists>b. handleDownlink sample_lib sample_env (Some \<lparr>mi_payload = grant_text, mi_retained = False, mi_qos = 0\<rparr>) a = Some b \<and> sharing b"
proof -
  have c: "ctl_ConnectionNonce sample_grant = sample_uuid (CHR ''1'')" "ctl_Action sample_grant = ''grant''"
    "ctl_SessionID sample_grant = act_SessionID sample_activity" "ctl_MemberID sample_grant = act_MemberID sample_activity"
    "act_SessionID sample_activity = Some (sample_uuid (CHR ''2''))" "act_MemberID sample_activity = Some (sample_uuid (CHR ''3''))"
    "ctl_StreamID sample_grant = Some (sample_uuid (CHR ''4''))" "ctl_Challenge sample_grant = sample_uuid (CHR ''5'')"
    "ctl_LeaseTTLMS sample_grant = 10000" "ctl_CadenceMS sample_grant = Some 2000" "peers_of sample_grant = []"
    "act_Active sample_activity" "\<not> act_LocalStop sample_activity"
    by (simp_all add: sample_grant_def sample_activity_def zero_Control_def Control.truncate_def)
  have n: "e_now sample_env = sample_time" "e_up sample_env x" "within_lease sample_time sample_time" "elapsedSince sample_env sample_time = 0" for x
    by (simp_all add: sample_env_def within_lease_def elapsedSince_def time_Sub_def leaseDuration_def minInt64_def maxInt64_def)
  have q: "sharing (queueRedisPublication E ch payload age b) = sharing b" for E ch payload age b
    by (simp add: queueRedisPublication_def startRedisWorker_def sharing_def stage_def Let_def split: option.split)
  have "\<exists>b. install_grant sample_env sample_grant leaseDuration a = Some b \<and> sharing (b\<lparr>a_challenges := gm_del (ctl_Challenge sample_grant) (a_challenges b)\<rparr>)"
    using assms by (simp add: install_grant_def c setPeerReplayScopeLocked_def invalidatePositionPublicationsLocked_def dropPendingPosition_def
        ptr_eq_def sharing_def stage_def n sample_challenges_def delete_conv' Let_def)
  moreover have "\<not> a_blocked a" "\<not> a_localStopPending a" "link_up sample_env a" "a_connection a = sample_uuid (CHR ''1'')"
    "a_challenges a = [(sample_uuid (CHR ''5''), sample_time)]" "a_activity a = Some sample_activity" "a_activityAt a = sample_time"
    "a_grant a = None" "a_lastCleared a = None" "a_protocolVersion a = 1"
    using assms n(2) by (simp_all add: stage_def sample_challenges_def link_up_def)
  ultimately have "\<exists>b. handleControl sample_lib sample_env grant_text a = Some b \<and> sharing b"
    by (auto simp: handleControl_def grant_parses n c grant_refused_def ptr_neq_def ptr_eq_def leaseDuration_def q Let_def)
  then show ?thesis
    using grant_envelope \<open>a_protocolVersion a = 1\<close> by (auto simp: handleDownlink_def dispatch_downlink_def queueAck_def)
qed

text \<open>The fix becomes a position.\<close>

definition sample_shared :: Position where
  "sample_shared = \<lparr>pos_Version = 1, pos_Type = ''ride_group_position'', pos_SessionID = sample_uuid (CHR ''2''), pos_Revision = 1,
     pos_TransportEpoch = 1, pos_StreamID = sample_uuid (CHR ''4''), pos_Sequence = 1, pos_CapturedAtMS = 10000,
     pos_TimestampSource = ''producer_fix'', pos_Latitude = Fin 0, pos_Longitude = Fin 0, pos_AccuracyM = None, pos_HeadingDeg = None,
     pos_SpeedMPS = None, pos_MotionSource = ''unknown''\<rparr>"

lemma shared_text: "\<exists>encoded. marshal_position sample_lib sample_shared = Some encoded \<and> length encoded \<le> MaxEnvelopeBytes"
  using sample_uuids(2,3)
  by (simp add: marshal_position_def enc_Position_def sample_shared_def enc_ptr_def enc_float_def sample_lib_def enc_int_def sample_numbers
      plain_facts MaxEnvelopeBytes_def Let_def plain_ascii_def)

lemma position_published:
  assumes "sharing a"
  shows "\<exists>b p. handleGPS sample_lib sample_env fix_text a = Some b \<and> map_of (a_mqttPending b) ''position'' = Some p
    \<and> mp_kind p = ''position'' \<and> still_authorized p sample_env b"
proof -
  have c: "ctl_SessionID sample_grant = act_SessionID sample_activity" "ctl_MemberID sample_grant = act_MemberID sample_activity"
    "act_SessionID sample_activity = Some (sample_uuid (CHR ''2''))" "act_MemberID sample_activity = Some (sample_uuid (CHR ''3''))"
    "ctl_StreamID sample_grant = Some (sample_uuid (CHR ''4''))" "ctl_Revision sample_grant = 1" "ctl_TransportEpoch sample_grant = 1"
    "act_Active sample_activity" "\<not> act_LocalStop sample_activity"
    by (simp_all add: sample_grant_def sample_activity_def zero_Control_def Control.truncate_def)
  have n: "e_now sample_env = sample_time" "e_up sample_env x" "time_Sub sample_time sample_time = 0" "within_lease sample_time sample_time"
    "fresh sample_time sample_time" "\<not> time_IsZero sample_time" "time_IsZero 0" "(0 :: int) < leaseDuration" for x
    using sample_milli(2) by (simp_all add: sample_env_def within_lease_def time_Sub_def leaseDuration_def minInt64_def maxInt64_def
        fresh_def time_IsZero_def)
  obtain encoded where e: "marshal_position sample_lib sample_shared = Some encoded" "length encoded \<le> MaxEnvelopeBytes"
    using shared_text by blast
  from assms show ?thesis
    using n(8) sample_milli e
    by (simp add: handleGPS_def fix_parses fix_observed n c sharing_def stage_def publish_position_def grantCurrentLocked_def link_up_def
        sharing_refused_def ptr_neq_def ptr_eq_def sample_shared_def queueMQTTPublication_def startMQTTWorker_def zero_publication_def
        update_conv still_authorized_def mqttPublicationAuthorizedLocked_def position_bound_def Let_def)
qed

section \<open>The run as a whole\<close>

lemma sample_run:
  obtains s p where "ride_run sample_lib (map (Pair sample_env) sample_ops) sample_start = Some s"
    "rd_run s = Serving" "rd_taken s = None" "rd_handed s = []"
    "map_of (a_mqttPending (rd_adapter s)) ''position'' = Some p" "mp_kind p = ''position''" "still_authorized p sample_env (rd_adapter s)"
proof -
  obtain s where s: "ride_run sample_lib (map (Pair sample_env) (take 9 sample_ops)) sample_start = Some s"
    "rd_run s = Serving" "rd_taken s = None" "rd_handed s = []" "ready (rd_adapter s)" by (rule sample_ready)
  obtain a where a: "handleActivity sample_lib sample_env activity_text (rd_adapter s) = Some a"
    "stage (Some sample_activity) sample_time sample_challenges None a" using activity_taken [OF s(5)] by blast
  obtain b where b: "handleDownlink sample_lib sample_env (Some \<lparr>mi_payload = grant_text, mi_retained = False, mi_qos = 0\<rparr>) a = Some b"
    "sharing b" using grant_installed [OF a(2)] by blast
  obtain c p where c: "handleGPS sample_lib sample_env fix_text b = Some c" "map_of (a_mqttPending c) ''position'' = Some p"
    "mp_kind p = ''position''" "still_authorized p sample_env c" using position_published [OF b(2)] by blast
  have v: "a_protocolVersion (rd_adapter s) = 1" "a_protocolVersion b = 1"
    using s(5) b(2) by (simp_all add: ready_def sharing_def stage_def)
  have t: "sample_ops = take 9 sample_ops @ drop 9 sample_ops" by (rule append_take_drop_id [symmetric])
  have d: "drop 9 sample_ops = [OpRun (Event (RedisMessage activityChannel activity_text)),
        OpDownlink (Some \<lparr>mi_payload = grant_text, mi_retained = False, mi_qos = 0\<rparr>),
        OpRun (Event (RedisMessage gpsChannel fix_text))]" by (simp add: sample_ops_def run_channels_def)
  have "ride_run sample_lib (map (Pair sample_env) (drop 9 sample_ops)) s = Some (s\<lparr>rd_adapter := c\<rparr>)"
    using s(2) a(1) b(1) c(1) v unfolding d by (simp add: run_step_def handleRedisMessage_def activityChannel_def gpsChannel_def)
  then have "ride_run sample_lib (map (Pair sample_env) sample_ops) sample_start = Some (s\<lparr>rd_adapter := c\<rparr>)"
    by (subst t) (simp only: map_append run_append s(1) bind.bind_lunit)
  with s c show thesis by (intro that [of "s\<lparr>rd_adapter := c\<rparr>" p]) simp_all
qed

end
