(* ===== verification/Ride_Consent.thy ===== *)
theory Ride_Consent
  imports Ride_Scenario
begin

text \<open>
  A concrete run of the ride-group adapter in version 2, the version that the service speaks: Redis is
  subscribed, the settings are read, the cloud connects, the consent journal answers the probe that the
  adapter sends it, the vehicle reports an activity, the cloud grants the session, and the receiver reports a
  fix that becomes a position.
\<close>

section \<open>The messages\<close>

definition idle_state :: LocalStopV2 where
  "idle_state = zero_LocalStop\<lparr>ls_Version := 2, ls_Type := ''ride_group_local_stop'', ls_JournalRevision := 1, ls_Phase := ''idle'',
     ls_Challenge := sample_uuid (CHR ''7'')\<rparr>"

definition riding :: Activity where
  "riding = sample_activity\<lparr>act_Version := 2\<rparr>"

definition idle_text :: string where "idle_text = print_json (enc_LocalStop idle_state)"
definition riding_text :: string where "riding_text = print_json (enc_Activity riding)"
definition consent_text :: string where "consent_text = print_json (enc_ControlV2 (sample_control ''Ada''))"

text \<open>The nonces of the probe and of the hello.\<close>

lemma consent_nonces:
  "newUUID (Some (replicate 4 136 @ replicate 12 0)) = Some (sample_uuid (CHR ''8''))"
  "newUUID (Some (replicate 4 119 @ replicate 12 0)) = Some (sample_uuid (CHR ''7''))"
  by code_simp+

lemma probe_encodes: "MarshalCanonicalV2 sample_lib (VLocalStopProbe sample_probe) \<noteq> None"
proof -
  let ?j = "enc_LocalStopProbe sample_probe" let ?d = "print_json ?j"
  have t: "wf_json ?j" "depth ?j \<le> 3" "uniqueJSONValue ?j" "length ?d \<le> MaxEnvelopeBytes" "?d \<noteq> []"
    "length (print_with esc_canon ?j) \<le> MaxEnvelopeBytes"
    using sample_uuids(2,3) by (simp_all add: enc_LocalStopProbe_def sample_probe_def enc_int_def sample_numbers sample_number_words
        plain_facts MaxEnvelopeBytes_def plain_ascii_def)
  note p = printed_tree [OF t(1-5)]
  have ty: "envelope_type ?d = Some ''ride_group_local_stop_probe''"
    using p(4) type_only_enc [of sample_lib "VLocalStopProbe sample_probe"] by (simp add: sample_probe_def)
  have v: "validLocalStopProbeV2 sample_probe" using sample_uuids(1) by (simp add: validLocalStopProbeV2_def sample_probe_def oneOf_def)
  have "decode_fields (localStopProbe_table sample_lib) [''v'', ''type'', ''adapter'', ''challenge''] zero_LocalStopProbe ?j = Some sample_probe"
    by (simp add: decode_fields_def json_fields_def enc_LocalStopProbe_def gm_has_def dec_simps localStopProbe_table_def sample_probe_def
        zero_LocalStopProbe_def set_int_def enc_int_def sample_lib_def number_in_def ParseInt_show_int_iff)
  moreover have "fields_have_types [(''v'', ''integer''), (''type'', ''string''), (''adapter'', ''string''), (''challenge'', ''string'')] ?j"
    by (simp add: fields_have_types_def json_fields_def enc_LocalStopProbe_def json_kind_def sample_probe_def enc_int_def sample_numbers)
  ultimately have "ParseLocalStopProbeV2 sample_lib ?d = Inr sample_probe"
    using v by (simp add: ParseLocalStopProbeV2_def p(1,2))
  then have "ParseV2Message sample_lib ?d = Inr (VLocalStopProbe sample_probe)" by (simp add: ParseV2Message_def p(5) ty)
  then show ?thesis using v t(6) by (simp add: MarshalCanonicalV2_def p(6) Let_def)
qed

lemma idle_parses: "ParseLocalStopV2 sample_lib idle_text = Inr idle_state" "envelope_type idle_text = Some ''ride_group_local_stop''"
  "MarshalCanonicalV2 sample_lib (VLocalStop idle_state) \<noteq> None"
proof -
  let ?j = "enc_LocalStop idle_state" let ?d = "print_json ?j"
  have t: "wf_json ?j" "depth ?j \<le> 3" "uniqueJSONValue ?j" "length ?d \<le> MaxEnvelopeBytes" "?d \<noteq> []"
    "length (print_with esc_canon ?j) \<le> MaxEnvelopeBytes"
    using sample_uuids(2,3) by (simp_all add: enc_LocalStop_def idle_state_def zero_LocalStop_def enc_int_def enc_ptr_def sample_numbers
        sample_number_words plain_facts MaxEnvelopeBytes_def plain_ascii_def)
  note p = printed_tree [OF t(1-5)]
  show ty: "envelope_type idle_text = Some ''ride_group_local_stop''"
    using p(4) type_only_enc [of sample_lib "VLocalStop idle_state"] by (simp add: idle_state_def zero_LocalStop_def idle_text_def)
  have v: "validLocalStopV2Value idle_state" "validLocalStopPhase idle_state"
    using sample_uuids(1) by (simp_all add: validLocalStopV2Value_def validLocalStopPhase_def idle_state_def zero_LocalStop_def
        safeNonnegative_def maxSafeInteger_def validOptionalGeneration_def)
  have "nullableJSONFieldType ?d ''expected_generation'' ''integer''" "nullableJSONFieldType ?d ''committed_generation'' ''integer''"
    unfolding nullableJSONFieldType_def p(3)
    by (simp_all add: enc_LocalStop_def json_fields_def idle_state_def zero_LocalStop_def enc_ptr_def)
  moreover have "fields_have_types localStop_types ?j"
    by (simp add: fields_have_types_def json_fields_def localStop_types_def json_kind_def enc_LocalStop_def idle_state_def zero_LocalStop_def
        enc_int_def sample_numbers)
  moreover have "decode_fields (localStop_table sample_lib) [''v'', ''type'', ''operation_id'', ''journal_revision'', ''phase'', ''blocked'',
      ''expected_generation'', ''committed_generation'', ''challenge''] zero_LocalStop ?j = Some idle_state"
    by (simp add: decode_fields_def json_fields_def enc_LocalStop_def idle_state_def gm_has_def dec_simps localStop_table_def zero_LocalStop_def
        set_int_def set_int_ptr_def set_str_ptr_def set_bool_def enc_ptr_def enc_int_def number_in_def ParseInt_show_int_iff sample_lib_def)
  ultimately show "ParseLocalStopV2 sample_lib idle_text = Inr idle_state"
    using v by (simp add: ParseLocalStopV2_def p(1,2) localStop_types_def idle_text_def)
  then have "ParseV2Message sample_lib ?d = Inr (VLocalStop idle_state)"
    using ty by (simp add: ParseV2Message_def p(5) idle_text_def)
  then show "MarshalCanonicalV2 sample_lib (VLocalStop idle_state) \<noteq> None"
    using v t(6) by (simp add: MarshalCanonicalV2_def p(6) Let_def)
qed

lemma riding_parses: "ParseActivityV2 sample_lib riding_text = Inr riding" "envelope_type riding_text = Some ''ride_group_activity''"
proof -
  let ?j = "enc_Activity riding" let ?d = "print_json ?j"
  have t: "wf_json ?j" "depth ?j \<le> 3" "uniqueJSONValue ?j" "length ?d \<le> MaxEnvelopeBytes" "?d \<noteq> []"
    using sample_uuids(2,3) by (simp_all add: enc_Activity_def riding_def sample_activity_def enc_int_def enc_ptr_def sample_numbers
        sample_number_words plain_facts MaxEnvelopeBytes_def plain_ascii_def)
  note p = printed_tree [OF t]
  show "envelope_type riding_text = Some ''ride_group_activity''"
    using p(4) type_only_enc [of sample_lib "VActivity riding"] by (simp add: riding_def sample_activity_def riding_text_def)
  have "fields_have_types activity_types ?j"
    by (simp add: fields_have_types_def json_fields_def activity_types_def json_kind_def enc_Activity_def riding_def sample_activity_def
        enc_int_def sample_numbers)
  moreover have "validateActivityV2 riding = None"
    using sample_uuids(1) by (simp add: validateActivityV2_def validateActivityFieldsV2_def riding_def sample_activity_def safePositive_def
        maxSafeInteger_def validUUIDPtr_def)
  moreover have "decode_fields (activity_table sample_lib) activity_keys (Activity.truncate zero_Activity) ?j = Some riding"
    by (simp add: decode_fields_def json_fields_def enc_Activity_def activity_keys_def gm_has_def dec_simps activity_table_def riding_def
        sample_activity_def zero_Activity_def Activity.truncate_def set_int_def enc_ptr_def enc_int_def sample_lib_def number_in_def
        ParseInt_show_int_iff set_str_ptr_def)
  ultimately show "ParseActivityV2 sample_lib riding_text = Inr riding"
    by (simp add: ParseActivityV2_def p(1,2) activity_types_def riding_text_def)
qed

lemma consent_parses: "ParseControlV2 sample_lib consent_text = Inr (sample_control ''Ada'')"
  "envelope_type consent_text = Some ''ride_group_control''" "length consent_text \<le> MaxEnvelopeBytes"
proof -
  have a: "list_all plain_ascii ''Ada''" "length ''Ada'' \<le> 32" by (simp_all add: plain_ascii_def)
  show "ParseControlV2 sample_lib consent_text = Inr (sample_control ''Ada'')" "envelope_type consent_text = Some ''ride_group_control''"
    "length consent_text \<le> MaxEnvelopeBytes"
    using sample_control_parses(1,2) [OF a] sample_tree [OF a] by (simp_all add: consent_text_def Let_def)
qed

section \<open>The steps\<close>

definition consent_start :: ride where
  "consent_start = ride_init (projr (NewAdapter \<lparr>rc_Enabled = True, rc_Identifier = ''mdb-1'', rc_ProtocolVersion = 2\<rparr> True
     [Some (replicate 16 0), Some (replicate 4 17 @ replicate 12 0), Some (replicate 4 136 @ replicate 12 0),
      Some (replicate 4 119 @ replicate 12 0)]))"

lemma consent_reachable: "ride_reachable L consent_start"
  by (simp add: consent_start_def NewAdapter_def nonces ride_reachable.start [of "\<lparr>rc_Enabled = True, rc_Identifier = ''mdb-1'', rc_ProtocolVersion = 2\<rparr>" True
     "[Some (replicate 16 0), Some (replicate 4 17 @ replicate 12 0), Some (replicate 4 136 @ replicate 12 0),
      Some (replicate 4 119 @ replicate 12 0)]"])

text \<open>Connected, with what is known of the journal, the activity, the challenges and the grant.\<close>

definition consent_phase ::
    "(string, localProbeV2) go_map \<Rightarrow> LocalStopV2 option \<Rightarrow> Activity option \<Rightarrow> (string, instant) go_map \<Rightarrow> ControlV2 option \<Rightarrow> Adapter \<Rightarrow> bool" where
  "consent_phase probes journal act challenges g a =
     (a_protocolVersion a = 2 \<and> a_redis a \<and> a_settingsReady a \<and> \<not> a_blocked a \<and> \<not> a_mqttClosing a \<and> a_mqtt a = Some 7
      \<and> a_connection a = sample_uuid (CHR ''1'') \<and> a_lastClearedV2 a = None \<and> a_lastAuthorityV2 a = g \<and> \<not> a_noFixClosedV2 a
      \<and> a_gpsObservedAt a = 0 \<and> a_lastPositionAt a = 0 \<and> a_estimator a = None \<and> a_sourceSequenceV2 a = 0
      \<and> map_of (a_mqttPending a) ''v2_position'' = None
      \<and> a_journalProbesV2 a = probes \<and> a_journalStateV2 a = journal \<and> a_journalReady a = (journal \<noteq> None) \<and> \<not> a_journalBlockedV2 a
      \<and> a_activityV2 a = act \<and> a_activityAt a = (case act of None \<Rightarrow> 0 | Some _ \<Rightarrow> sample_time) \<and> a_challenges a = challenges \<and> a_grantV2 a = g
      \<and> (case journal of None \<Rightarrow> a_usedLocalChallenges a = [] | Some _ \<Rightarrow> True) \<and> (case act of None \<Rightarrow> a_activityBootNonce a = '''' | Some _ \<Rightarrow> True))"

text \<open>What a phase depends on.\<close>

definition consent_view where
  "consent_view a =
     ((a_protocolVersion a, a_redis a, a_settingsReady a, a_blocked a, a_mqttClosing a, a_mqtt a, a_connection a),
      (a_lastClearedV2 a, a_lastAuthorityV2 a, a_noFixClosedV2 a, a_gpsObservedAt a, a_lastPositionAt a, a_estimator a, a_sourceSequenceV2 a),
      map_of (a_mqttPending a) ''v2_position'', (a_journalProbesV2 a, a_journalStateV2 a, a_journalReady a, a_journalBlockedV2 a),
      (a_activityV2 a, a_activityAt a, a_challenges a, a_grantV2 a, a_usedLocalChallenges a, a_activityBootNonce a))"

lemma phase_view:
  "consent_view b = consent_view a \<Longrightarrow> consent_phase probes journal act challenges g a \<Longrightarrow> consent_phase probes journal act challenges g b"
  by (auto simp: consent_view_def consent_phase_def split: option.splits)

lemma view_queue:
  "mp_kind pub \<noteq> ''v2_position'' \<Longrightarrow> mp_unsubscribe pub = '''' \<Longrightarrow> consent_view (queueMQTTPublication pub a) = consent_view a"
  "consent_view (queueRedisPublication E ch payload age a) = consent_view a"
  "consent_view (a\<lparr>a_lastHelloAt := t\<rparr>) = consent_view a" "consent_view (a\<lparr>a_random := r\<rparr>) = consent_view a"
  by (simp_all add: queueMQTTPublication_def startMQTTWorker_def queueRedisPublication_def startRedisWorker_def consent_view_def update_conv
      Let_def split: option.split)

lemma phase_queue:
  assumes "consent_phase probes journal act challenges g a"
  shows "mp_unsubscribe pub = '''' \<Longrightarrow> mp_kind pub \<noteq> ''v2_position'' \<Longrightarrow> consent_phase probes journal act challenges g (queueMQTTPublication pub a)"
    "consent_phase probes journal act challenges g (queueRedisPublication E ch payload age a)"
    "consent_phase probes journal act challenges g (a\<lparr>a_lastHelloAt := t\<rparr>)" "consent_phase probes journal act challenges g (a\<lparr>a_random := r\<rparr>)"
  using phase_view [OF view_queue(1) assms, of pub] phase_view [OF view_queue(2) assms] phase_view [OF view_queue(3) assms]
    phase_view [OF view_queue(4) assms] by blast+

lemma phase_hello: "consent_phase probes journal act challenges g a \<Longrightarrow> consent_phase probes journal act challenges g (publishHelloV2Locked L E c a)"
proof -
  have d: "consent_phase probes journal act challenges g b" if "draw_UUID a = (u, b)" "consent_phase probes journal act challenges g a" for u b
    using that phase_queue(4) [OF that(2)] by (auto simp: draw_UUID_def split: list.splits)
  assume a: "consent_phase probes journal act challenges g a"
  show ?thesis
    unfolding publishHelloV2Locked_def Let_def
    using a d [OF _ a] by (auto intro!: phase_queue(1,3) simp: zero_publication_def split: option.split prod.split)
qed

lemma phase_activity: "consent_phase probes journal act challenges g a \<Longrightarrow> consent_phase probes journal act challenges g (publishActivityV2Locked L E x a)"
  by (auto simp: publishActivityV2Locked_def zero_publication_def intro!: phase_queue(1) split: option.split)

text \<open>Nothing is sent before the cloud is connected.\<close>

lemma consent_recovery:
  assumes "rd_run s = Awaiting []" and "a_protocolVersion (rd_adapter s) = 2" and "\<not> a_blocked (rd_adapter s)" and "a_mqtt (rd_adapter s) = None"
  shows "ride_run sample_lib (map (Pair sample_env) (take 6 sample_ops)) s =
    Some (s\<lparr>rd_run := Serving, rd_adapter := (rd_adapter s)\<lparr>a_settingsReady := True, a_blocked := False\<rparr>\<rparr>)"
  using assms
  by (simp add: sample_ops_def run_channels_def run_step_def containsChannel_def completeRedisRecovery_begin_def activityChannel_def
      gpsChannel_def settingsChannel_def completeRedisRecovery_step_def refreshBlocked_def not_blocked link_up_def
      issueLocalProbeV2Locked_def Let_def)

definition journal_asked :: "localProbeV2 \<Rightarrow> Adapter \<Rightarrow> bool" where
  "journal_asked probe a = (consent_phase [(sample_uuid (CHR ''7''), probe)] None None [] None a \<and> probe_answered sample_env probe a
     \<and> lp_challenge probe = sample_uuid (CHR ''7'') \<and> lp_purpose probe = ProbeReconcileV2)"

lemma env_facts: "e_now sample_env = sample_time" "e_up sample_env c" "link_up sample_env a = (a_mqtt a \<noteq> None)" "e_rot sample_env = 0"
  "time_Sub sample_time sample_time = 0" "within_lease sample_time sample_time" "\<not> time_IsZero sample_time" "time_IsZero 0"
  "elapsedSince sample_env sample_time = 0"
  using sample_milli(2) by (simp_all add: sample_env_def link_up_def time_Sub_def within_lease_def leaseDuration_def minInt64_def maxInt64_def
      time_IsZero_def elapsedSince_def split: option.split)

lemma hello_random:
  assumes "a_random a = r # rs" and "newUUID r = Some u" and "link_up E a" and "a_connection a \<noteq> ''''"
  shows "a_random (publishHelloV2Locked L E '''' a) = rs" "a_probeTimesV2 (publishHelloV2Locked L E '''' a) = a_probeTimesV2 a"
  using assms by (simp_all add: publishHelloV2Locked_def draw_UUID_def queueMQTTPublication_def startMQTTWorker_def Let_def split: option.split)

lemma probe_issued:
  assumes "consent_phase [] None None [] None a" and "a_random a = [Some (replicate 4 119 @ replicate 12 0)]" and "a_probeTimesV2 a = []"
  shows "\<exists>probe. journal_asked probe (snd (issueLocalProbeV2Locked sample_lib sample_env ProbeReconcileV2 None a))"
proof -
  let ?p = "\<lparr>lp_challenge = sample_uuid (CHR ''7''), lp_connection = a_connection a, lp_issuedAt = sample_time,
    lp_deadline = sample_time + v2AttemptLifetime, lp_purpose = ProbeReconcileV2, lp_operationID = '''', lp_revision = 0, lp_fence = None,
    lp_ipcEpoch = a_journalIPCEpochV2 a, lp_consumed = False\<rparr>"
  let ?b = "a\<lparr>a_random := [], a_journalProbesV2 := [(sample_uuid (CHR ''7''), ?p)], a_probeTimesV2 := [sample_time]\<rparr>"
  obtain payload where m: "MarshalCanonicalV2 sample_lib (VLocalStopProbe \<lparr>lsp_Version = 2, lsp_Type = ''ride_group_local_stop_probe'',
       lsp_Adapter = ''uplink'', lsp_Challenge = sample_uuid (CHR ''7'')\<rparr>) = Some payload"
    using probe_encodes by (auto simp: sample_probe_def)
  have b: "consent_phase [(sample_uuid (CHR ''7''), ?p)] None None [] None ?b" using assms(1) by (simp add: consent_phase_def)
  have "snd (issueLocalProbeV2Locked sample_lib sample_env ProbeReconcileV2 None a) =
      queueRedisPublication sample_env ''ride-group:control'' payload v2AttemptLifetime ?b"
    using assms m by (simp add: issueLocalProbeV2Locked_def env_facts draw_UUID_def consent_nonces other_nonce consent_phase_def Let_def)
  moreover have "probe_answered sample_env ?p (queueRedisPublication E ch payload age ?b)" for E ch age
    using assms(1) by (simp add: probe_answered_def env_facts v2AttemptLifetime_def queueRedisPublication_def startRedisWorker_def consent_phase_def
        Let_def split: option.split)
  ultimately show ?thesis using phase_queue(2) [OF b] by (intro exI [of _ ?p]) (simp add: journal_asked_def)
qed

text \<open>The cloud connects: the adapter says hello and asks the journal.\<close>

lemma connected_asked:
  assumes "a_protocolVersion a = 2" and "a_redis a" and "a_settingsReady a" and "\<not> a_blocked a" and "\<not> a_mqttClosing a"
    and "a_activityBootNonce a = ''''" and "a_gpsObservedAt a = 0" and "\<not> a_noFixClosedV2 a" and "a_sourceSequenceV2 a = 0"
    and "a_probeTimesV2 a = []"
    and "a_random a = [Some (replicate 4 136 @ replicate 12 0), Some (replicate 4 119 @ replicate 12 0)]"
  shows "\<exists>probe. journal_asked probe (OnConnected_subscribed sample_lib sample_env 7 (a_connectAttempt a) (sample_uuid (CHR ''1'')) a)"
proof -
  let ?r = "(resetConnectionLocked (Some 7) (sample_uuid (CHR ''1'')) (a\<lparr>a_connecting := False\<rparr>))\<lparr>a_lastCleared := None\<rparr>"
  let ?h = "publishHelloV2Locked sample_lib sample_env '''' ?r"
  have r: "consent_phase [] None None [] None ?r" "a_random ?r = a_random a" "a_probeTimesV2 ?r = []" "a_mqtt ?r = Some 7"
    using assms
    by (simp_all add: consent_phase_def resetConnectionLocked_def clearGrantLocked_def clearGrantV2Locked_def invalidatePositionPublicationsLocked_def
        dropPendingPosition_def dropPendingV2Source_def invalidateLocalAttemptsV2Locked_def delete_conv' Let_def)
  have l: "link_up sample_env ?r" "a_connection ?r \<noteq> ''''" using r(1,4) by (simp_all add: consent_phase_def env_facts other_nonce)
  have h: "consent_phase [] None None [] None ?h" using r(1) by (rule phase_hello)
  have "a_random ?h = [Some (replicate 4 119 @ replicate 12 0)]" "a_probeTimesV2 ?h = []"
    using hello_random [OF _ consent_nonces(1) l, of "[Some (replicate 4 119 @ replicate 12 0)]" sample_lib] r(2,3) assms(11) by simp_all
  from probe_issued [OF h this] obtain probe
    where "journal_asked probe (snd (issueLocalProbeV2Locked sample_lib sample_env ProbeReconcileV2 None ?h))" ..
  moreover have "a_protocolVersion ?r = 2" "a_settingsReady ?h" using r(1) h by (simp_all add: consent_phase_def)
  ultimately show ?thesis by (auto simp: OnConnected_subscribed_def Let_def)
qed

text \<open>The journal answers the probe: it is idle.\<close>

lemma journal_answered:
  assumes "journal_asked probe a"
  shows "consent_phase [] (Some idle_state) None [] None (handleLocalStopSnapshotV2 sample_lib sample_env idle_state a)"
proof -
  obtain canonical where m: "MarshalCanonicalV2 sample_lib (VLocalStop idle_state) = Some canonical" using idle_parses(3) by blast
  have i: "ls_Phase idle_state = ''idle''" "\<not> ls_Blocked idle_state" "ls_Challenge idle_state = sample_uuid (CHR ''7'')"
    by (simp_all add: idle_state_def zero_LocalStop_def)
  have p: "a_journalProbesV2 a = [(sample_uuid (CHR ''7''), probe)]" "a_usedLocalChallenges a = []" "a_journalStateV2 a = None"
    "lp_challenge probe = sample_uuid (CHR ''7'')" "lp_purpose probe = ProbeReconcileV2" "probe_answered sample_env probe a"
    using assms by (simp_all add: journal_asked_def consent_phase_def)
  have "handleLocalStopSnapshotV2 sample_lib sample_env idle_state a = answer_probe sample_lib sample_env idle_state probe canonical a"
    by (simp add: handleLocalStopSnapshotV2_def m i p acceptJournalRevisionV2Locked_def)
  moreover have "answer_probe sample_lib sample_env idle_state probe canonical a = (consumeProbeV2Locked sample_env probe canonical a)
      \<lparr>a_journalStateV2 := Some idle_state, a_journalBlockedV2 := False, a_journalReady := True\<rparr>"
    using assms by (simp add: answer_probe_def i p react_to_phase_def publishQueuedV2ActivityLocked_def consumeProbeV2Locked_def journal_asked_def
        consent_phase_def Let_def)
  ultimately show ?thesis using assms by (simp add: consumeProbeV2Locked_def journal_asked_def consent_phase_def p)
qed

text \<open>The vehicle rides.\<close>

lemma riding_facts: "act_BootNonce riding = sample_uuid (CHR ''7'')" "act_Sequence riding = 1" "act_Active riding"
  "act_Challenge riding = sample_uuid (CHR ''5'')" "act_SessionID riding = Some (sample_uuid (CHR ''2''))"
  "act_MemberID riding = Some (sample_uuid (CHR ''3''))"
  by (simp_all add: riding_def sample_activity_def)

lemma riding_accepted:
  assumes "consent_phase [] (Some idle_state) None [] None a"
  shows "\<exists>b. acceptActivityV2 sample_lib sample_env riding a = Some b \<and> consent_phase [] (Some idle_state) (Some riding) sample_challenges None b"
proof -
  let ?b = "a\<lparr>a_activityV2 := Some riding, a_activity := None, a_activityBootNonce := sample_uuid (CHR ''7''), a_activitySequence := 1,
    a_activityAt := sample_time\<rparr>"
  let ?c = "pruneChallengesLocked sample_env sample_time (?b\<lparr>a_challenges := gm_put (sample_uuid (CHR ''5'')) sample_time (a_challenges ?b)\<rparr>)"
  have "drop_oldest 0 sample_challenges = sample_challenges" by (subst drop_oldest.simps) (simp add: sample_challenges_def)
  then have c: "consent_phase [] (Some idle_state) (Some riding) sample_challenges None ?c"
    using assms by (simp add: pruneChallengesLocked_def consent_phase_def sample_challenges_def env_facts leaseDuration_def)
  have "idle_journal a" using assms by (simp add: idle_journal_def consent_phase_def idle_state_def)
  then have "acceptActivityV2 sample_lib sample_env riding a = Some (publishActivityV2Locked sample_lib sample_env riding
      (publishHelloV2Locked sample_lib sample_env (sample_uuid (CHR ''5'')) ?c))"
    using assms by (simp add: acceptActivityV2_def riding_facts env_facts consent_phase_def gm_has_def other_nonce Let_def)
  with phase_activity [OF phase_hello [OF c]] show ?thesis by simp
qed

text \<open>The cloud grants the session.\<close>

definition consent_given :: "Adapter \<Rightarrow> bool" where
  "consent_given a = (consent_phase [] (Some idle_state) (Some riding) sample_challenges (Some (sample_control ''Ada'')) a \<and> a_grantAt a = sample_time
     \<and> a_grantTTL a = leaseDuration \<and> a_grantActive a \<and> a_cadence a = 2 * Second)"

lemma control_facts: "ctl_ConnectionNonce (sample_control label) = sample_uuid (CHR ''1'')" "ctl_Action (sample_control label) = ''grant''"
  "ctl_SessionID (sample_control label) = Some (sample_uuid (CHR ''2''))" "ctl_MemberID (sample_control label) = Some (sample_uuid (CHR ''3''))"
  "ctl_StreamID (sample_control label) = Some (sample_uuid (CHR ''4''))" "ctl_Challenge (sample_control label) = sample_uuid (CHR ''5'')"
  "ctl_LeaseTTLMS (sample_control label) = 10000" "ctl_CadenceMS (sample_control label) = Some 2000"
  "ctl_Revision (sample_control label) = 1" "ctl_TransportEpoch (sample_control label) = 1"
  by (simp_all add: sample_control_def zero_Control_def)

lemma consent_granted:
  assumes "consent_phase [] (Some idle_state) (Some riding) sample_challenges None a"
  shows "\<exists>b. handleDownlink sample_lib sample_env (Some \<lparr>mi_payload = consent_text, mi_retained = False, mi_qos = 0\<rparr>) a = Some b \<and> consent_given b"
proof -
  let ?c = "sample_control ''Ada''"
  have f: "a_protocolVersion a = 2" "a_settingsReady a" "\<not> a_blocked a" "a_journalReady a" "\<not> a_journalBlockedV2 a"
    "a_journalStateV2 a = Some idle_state" "a_activityV2 a = Some riding" "a_activityAt a = sample_time" "a_challenges a = sample_challenges"
    "a_grantV2 a = None" "a_lastClearedV2 a = None" "a_lastAuthorityV2 a = None"
    using assms by (simp_all add: consent_phase_def)
  have g: "grantChallengeCurrentV2Locked sample_env (sample_uuid (CHR ''5'')) a" "grantableV2Locked sample_env a" "new_stream_v2 ?c a"
    "grant_refused_v2 ?c riding a = Some False"
    by (simp_all add: f grantChallengeCurrentV2Locked_def grantableV2Locked_def idle_journal_def idle_state_def new_stream_v2_def
        grant_refused_v2_def sample_challenges_def env_facts riding_facts control_facts)
  obtain r where r: "restart_stream_v2 ?c a = Some r" "consent_phase [] (Some idle_state) (Some riding) sample_challenges None r"
    using assms by (auto simp: restart_stream_v2_def control_facts consent_phase_def dropPendingV2Source_def dropPendingPosition_def delete_conv' Let_def)
  let ?i = "r\<lparr>a_grantV2 := Some ?c, a_lastAuthorityV2 := Some ?c, a_lastClearedV2 := None, a_grantAt := sample_time,
    a_grantTTL := leaseDuration, a_grantActive := True, a_cadence := 2 * Second\<rparr>"
  have i: "consent_given ?i" using r(2) by (simp add: consent_given_def consent_phase_def)
  obtain b where b: "setPeerReplayScopeLocked (Some (sample_uuid (CHR ''2''))) (peers_of ?c) ?i = Some b"
    by (auto simp: setPeerReplayScopeLocked_def Let_def)
  with i have "consent_given b" by (auto simp: setPeerReplayScopeLocked_def consent_given_def consent_phase_def Let_def split: if_splits)
  with b have "\<exists>b. install_v2 sample_lib sample_env ?c riding leaseDuration a = Some b \<and> consent_given b"
    by (simp add: install_v2_def g(3) r(1) control_facts riding_facts env_facts consent_given_def consent_phase_def Let_def)
  then obtain b where b: "install_v2 sample_lib sample_env ?c riding leaseDuration a = Some b" "consent_given b" by blast
  have "consent_given (queueRedisPublication E ch payload age b)" "consent_given (b\<lparr>a_challenges := sample_challenges\<rparr>)" if "consent_given b" for E ch payload age b
    using that by (simp_all add: consent_given_def consent_phase_def queueRedisPublication_def startRedisWorker_def Let_def split: option.split)
  moreover have "a_challenges b = sample_challenges" using b(2) by (simp add: consent_given_def consent_phase_def)
  ultimately have "\<exists>b. grant_v2 sample_lib sample_env consent_text ?c a = Some b \<and> consent_given b"
    using assms b g by (simp add: grant_v2_def control_facts consent_phase_def sample_challenges_def env_facts leaseDuration_def)
  then have "\<exists>b. handleControlV2 sample_lib sample_env consent_text a = Some b \<and> consent_given b"
    using assms by (simp add: handleControlV2_def consent_parses control_facts env_facts consent_phase_def)
  moreover have "a_protocolVersion a = 2" using assms by (simp add: consent_phase_def)
  moreover have "consent_given (queueAck m b)" if "consent_given b" for m b
    using that by (simp add: queueAck_def startAckWorker_def consent_given_def consent_phase_def Let_def split: option.split)
  ultimately show ?thesis
    using consent_parses by (auto simp: handleDownlink_def dispatch_downlink_def)
qed

text \<open>The fix becomes a position.\<close>

lemma consent_position:
  assumes "consent_given a"
  shows "\<exists>b p. handleGPSV2 sample_lib sample_env fix_text a = Some b \<and> map_of (a_mqttPending b) ''v2_position'' = Some p
    \<and> mp_kind p = ''v2_position'' \<and> still_authorized p sample_env b"
proof -
  let ?s = "\<lparr>smp_Latitude = Fin 0, smp_Longitude = Fin 0, smp_CapturedAt = sample_time, smp_AccuracyM = None, smp_HeadingDeg = None,
    smp_SpeedMPS = None, smp_MotionSource = ''unknown''\<rparr>"
  obtain e where o: "Observe sample_lib fix_read sample_time None = (Some ?s, e)" using fix_observed by blast
  let ?a = "a\<lparr>a_gpsObservedAt := sample_time, a_estimator := e\<rparr>"
  obtain encoded where m: "MarshalCanonicalV2 sample_lib (VPosition sample_position) = Some encoded" using sample_position_encodes by blast
  have pos: "\<lparr>pos_Version = 2, pos_Type = ''ride_group_position'', pos_SessionID = sample_uuid (CHR ''2''), pos_Revision = 1,
      pos_TransportEpoch = 1, pos_StreamID = sample_uuid (CHR ''4''), pos_Sequence = 1, pos_CapturedAtMS = 10000,
      pos_TimestampSource = ''producer_fix'', pos_Latitude = Fin 0, pos_Longitude = Fin 0, pos_AccuracyM = None, pos_HeadingDeg = None,
      pos_SpeedMPS = None, pos_MotionSource = ''unknown''\<rparr> = sample_position" "pos_Sequence sample_position = 1"
    by (simp_all add: sample_position_def zero_Position_def)
  have c: "grantCurrentV2Locked sample_env sample_time ?a" "activityMatchesGrantV2Locked ?a"
    using assms by (simp_all add: grantCurrentV2Locked_def activityMatchesGrantV2Locked_def consent_given_def consent_phase_def idle_state_def env_facts
        riding_facts control_facts leaseDuration_def)
  have g: "handleGPSV2 sample_lib sample_env fix_text a = publish_position_v2 sample_lib sample_env ?s ?a"
    using assms sample_milli(2) o by (simp add: handleGPSV2_def fix_parses env_facts consent_given_def consent_phase_def Let_def)
  let ?p = "zero_publication\<lparr>mp_client := Some 7, mp_connection := sample_uuid (CHR ''1''), mp_topic := topic_up a, mp_payload := encoded,
     mp_expiresAt := e_wall sample_env + 5 * Second, mp_priority := 1, mp_kind := ''v2_position'', mp_positionSessionID := sample_uuid (CHR ''2''),
     mp_positionMemberID := sample_uuid (CHR ''3''), mp_positionStreamID := sample_uuid (CHR ''4''), mp_positionRevision := 1,
     mp_positionEpoch := 1, mp_positionGeneration := a_positionGeneration a, mp_positionCapturedAt := sample_time, mp_sourceSequence := 1\<rparr>"
  have h: "publish_position_v2 sample_lib sample_env ?s ?a =
      Some ((queueMQTTPublication ?p ?a)\<lparr>a_sourceSequenceV2 := 1, a_lastPositionAt := sample_time\<rparr>)"
    using assms c m by (simp add: publish_position_v2_def env_facts consent_given_def consent_phase_def control_facts sample_milli(1) pos topic_up_def Let_def)
  show ?thesis
    unfolding g h
    using assms c
    by (simp add: queueMQTTPublication_def startMQTTWorker_def zero_publication_def update_conv still_authorized_def
        mqttPublicationAuthorizedLocked_def position_bound_def grantCurrentV2Locked_def consent_given_def consent_phase_def env_facts fresh_def
        control_facts riding_facts Let_def)
qed

section \<open>The run as a whole\<close>

definition consent_ops :: "ride_op list" where
  "consent_ops = take 9 sample_ops @ [OpRun (Event (RedisMessage activityChannel idle_text)),
     OpRun (Event (RedisMessage activityChannel riding_text)), OpDownlink (Some \<lparr>mi_payload = consent_text, mi_retained = False, mi_qos = 0\<rparr>)]"

lemma consent_connected:
  obtains s probe where "ride_run sample_lib (map (Pair sample_env) (take 9 sample_ops)) consent_start = Some s" "rd_run s = Serving"
    "rd_taken s = None" "rd_handed s = []" "journal_asked probe (rd_adapter s)"
proof -
  have t: "take 9 sample_ops = take 6 sample_ops @ take 3 (drop 6 sample_ops)" by (simp add: sample_ops_def run_channels_def)
  note start = consent_start_def NewAdapter_def nonces ride_init_def Start_def startWorkers_def startAckWorker_def startRedisWorker_def
    startMQTTWorker_def
  let ?a = "(rd_adapter consent_start)\<lparr>a_settingsReady := True, a_blocked := False\<rparr>"
  have r: "ride_run sample_lib (map (Pair sample_env) (take 6 sample_ops)) consent_start =
      Some (consent_start\<lparr>rd_run := Serving, rd_adapter := ?a\<rparr>)"
    by (rule consent_recovery) (simp_all add: start Let_def)
  let ?b = "?a\<lparr>a_connecting := True, a_connectAttempt := 1,
    a_random := [Some (replicate 4 136 @ replicate 12 0), Some (replicate 4 119 @ replicate 12 0)]\<rparr>"
  let ?c = "OnConnected_subscribed sample_lib sample_env 7 1 (sample_uuid (CHR ''1'')) ?b"
  have a: "a_Enabled ?a" "\<not> a_ctx_done ?a" "a_mqtt ?a = None" "\<not> a_connecting ?a" "a_connectAttempt ?a = 0" "rd_connects consent_start = []"
    "a_random ?a = [Some (replicate 4 17 @ replicate 12 0), Some (replicate 4 136 @ replicate 12 0), Some (replicate 4 119 @ replicate 12 0)]"
    by (simp_all add: start Let_def)
  have "ride_run sample_lib (map (Pair sample_env) (take 3 (drop 6 sample_ops))) (consent_start\<lparr>rd_run := Serving, rd_adapter := ?a\<rparr>) =
      Some (consent_start\<lparr>rd_run := Serving, rd_connects := [], rd_adapter := ?c\<rparr>)"
    using a by (simp add: sample_ops_def run_channels_def OnConnected_begin_def OnConnected_nonce_def draw_UUID_def nonces(2) env_facts)
  then have run: "ride_run sample_lib (map (Pair sample_env) (take 9 sample_ops)) consent_start =
      Some (consent_start\<lparr>rd_run := Serving, rd_connects := [], rd_adapter := ?c\<rparr>)"
    unfolding t map_append run_append r by simp
  have "\<exists>probe. journal_asked probe (OnConnected_subscribed sample_lib sample_env 7 (a_connectAttempt ?b) (sample_uuid (CHR ''1'')) ?b)"
    by (rule connected_asked) (simp_all add: start Let_def)
  then obtain probe where "journal_asked probe ?c" by auto
  then show thesis by (intro that [OF run]) (simp_all add: consent_start_def ride_init_def)
qed

lemma consent_run:
  obtains s where "ride_run sample_lib (map (Pair sample_env) consent_ops) consent_start = Some s" "rd_run s = Serving"
    "consent_given (rd_adapter s)"
proof -
  obtain s probe where s: "ride_run sample_lib (map (Pair sample_env) (take 9 sample_ops)) consent_start = Some s" "rd_run s = Serving"
    "journal_asked probe (rd_adapter s)" by (rule consent_connected)
  let ?b = "handleLocalStopSnapshotV2 sample_lib sample_env idle_state (rd_adapter s)"
  note b = journal_answered [OF s(3)]
  obtain c where c: "acceptActivityV2 sample_lib sample_env riding ?b = Some c" "consent_phase [] (Some idle_state) (Some riding) sample_challenges None c"
    using riding_accepted [OF b] by blast
  obtain d where d: "handleDownlink sample_lib sample_env (Some \<lparr>mi_payload = consent_text, mi_retained = False, mi_qos = 0\<rparr>) c = Some d"
    "consent_given d" using consent_granted [OF c(2)] by blast
  have v: "a_protocolVersion (rd_adapter s) = 2" "a_protocolVersion ?b = 2" using s(3) b by (simp_all add: journal_asked_def consent_phase_def)
  have "ride_run sample_lib (map (Pair sample_env) [OpRun (Event (RedisMessage activityChannel idle_text)),
     OpRun (Event (RedisMessage activityChannel riding_text)),
     OpDownlink (Some \<lparr>mi_payload = consent_text, mi_retained = False, mi_qos = 0\<rparr>)]) s = Some (s\<lparr>rd_adapter := d\<rparr>)"
    using s(2) c(1) d(1) v
    by (simp add: run_step_def handleRedisMessage_def handleActivityV2_def idle_parses riding_parses)
  then have "ride_run sample_lib (map (Pair sample_env) consent_ops) consent_start = Some (s\<lparr>rd_adapter := d\<rparr>)"
    unfolding consent_ops_def map_append run_append s(1) by simp
  then show thesis by (rule that) (simp_all add: s(2) d(2))
qed

lemma consent_shared:
  obtains s p where "ride_run sample_lib (map (Pair sample_env) (consent_ops @ [OpRun (Event (RedisMessage gpsChannel fix_text))])) consent_start = Some s"
    "map_of (a_mqttPending (rd_adapter s)) ''v2_position'' = Some p" "mp_kind p = ''v2_position''" "still_authorized p sample_env (rd_adapter s)"
proof -
  obtain s where s: "ride_run sample_lib (map (Pair sample_env) consent_ops) consent_start = Some s" "rd_run s = Serving"
    "consent_given (rd_adapter s)" by (rule consent_run)
  obtain b p where b: "handleGPSV2 sample_lib sample_env fix_text (rd_adapter s) = Some b" "map_of (a_mqttPending b) ''v2_position'' = Some p"
    "mp_kind p = ''v2_position''" "still_authorized p sample_env b" using consent_position [OF s(3)] by blast
  have "a_protocolVersion (rd_adapter s) = 2" using s(3) by (simp add: consent_given_def consent_phase_def)
  then have "ride_run sample_lib (map (Pair sample_env) [OpRun (Event (RedisMessage gpsChannel fix_text))]) s = Some (s\<lparr>rd_adapter := b\<rparr>)"
    using s(2) b(1) by (simp add: run_step_def handleRedisMessage_def activityChannel_def gpsChannel_def)
  then have "ride_run sample_lib (map (Pair sample_env) (consent_ops @ [OpRun (Event (RedisMessage gpsChannel fix_text))])) consent_start =
      Some (s\<lparr>rd_adapter := b\<rparr>)" by (simp only: map_append run_append s(1) bind.bind_lunit)
  then show thesis by (rule that [of "s\<lparr>rd_adapter := b\<rparr>" p]) (simp_all add: b(2-4))
qed

end
