(* ===== verification/Ride_Properties.thy ===== *)
theory Ride_Properties
  imports Ride_Queues Ride_Consent
begin

text \<open>
  What holds of the ride-group adapter in every state that any interleaving of its goroutines reaches:
  it never panics, shares only with the consent of the vehicle, bounds what it holds, and never sends a
  position after it was withdrawn.  A run is a sequence of critical sections, each at its own instant.
\<close>

section \<open>Runs and reachable states\<close>

lemma start_inv:
  assumes "NewAdapter cfg redis random = Inr a"
  shows "gates_inv False (rd_adapter (ride_init a))" "queues_inv 0 (rd_adapter (ride_init a))" "rd_taken (ride_init a) = None"
    "rd_handed (ride_init a) = []"
  using assms by (auto simp: NewAdapter_def Let_def gates_inv_def queues_inv_def pending_inv_def ride_init_def Start_def startWorkers_def
      startMQTTWorker_def startRedisWorker_def startAckWorker_def leaseDuration_def split: option.splits if_splits)

lemma exec_gates: "ride_exec L E op s = Some s' \<Longrightarrow> gates_inv stop (rd_adapter s) \<Longrightarrow> gates_inv stop (rd_adapter s')"
  by (rule ride_exec_inv [of stop s L E op]) simp_all

lemma reachable_gates: "ride_reachable L s \<Longrightarrow> gates_inv False (rd_adapter s)"
  by (induction rule: ride_reachable.induct) (blast intro: start_inv exec_gates)+

lemma reachable_queues: "ride_reachable L s \<Longrightarrow> queues_inv 0 (rd_adapter s)"
  by (induction rule: ride_reachable.induct) (blast intro: start_inv queues_exec)+

text \<open>What every critical section keeps, a run keeps.\<close>

lemma run_keeps:
  assumes "\<And>E op s s'. ride_exec L E op s = Some s' \<Longrightarrow> P s \<Longrightarrow> P s'"
  shows "ride_run L ops s = Some s' \<Longrightarrow> P s \<Longrightarrow> P s'"
proof (induction ops arbitrary: s)
  case (Cons eop ops)
  obtain E op where "eop = (E, op)" by (cases eop)
  with Cons(2) obtain s1 where "ride_exec L E op s = Some s1" "ride_run L ops s1 = Some s'" by (auto split: bind_splits)
  with Cons(1,3) assms show ?case by blast
qed simp

lemma reachable_run: "ride_run L ops s = Some s' \<Longrightarrow> ride_reachable L s \<Longrightarrow> ride_reachable L s'"
  by (rule run_keeps [of L "ride_reachable L"]) (blast intro: ride_reachable.step)+

lemma run_gates: "ride_run L ops s = Some s' \<Longrightarrow> gates_inv stop (rd_adapter s) \<Longrightarrow> gates_inv stop (rd_adapter s')"
  by (rule run_keeps [of L "\<lambda>s. gates_inv stop (rd_adapter s)"]) (blast intro: exec_gates)+

lemma run_queues: "ride_run L ops s = Some s' \<Longrightarrow> queues_inv n (rd_adapter s) \<Longrightarrow> queues_inv n (rd_adapter s')"
  by (rule run_keeps [of L "\<lambda>s. queues_inv n (rd_adapter s)"]) (blast intro: queues_exec)+

section \<open>Withdrawn positions\<close>

text \<open>The publications that the worker has taken, and those the live transport was given and asks about again.\<close>

definition held :: "ride \<Rightarrow> mqttPublication set" where
  "held s = set_option (rd_taken s) \<union> set (rd_handed s)"

definition pending :: "ride \<Rightarrow> mqttPublication set" where
  "pending s = snd ` set (a_mqttPending (rd_adapter s))"

lemma pending_iff: "p \<in> pending s \<longleftrightarrow> (\<exists>k. (k, p) \<in> set (a_mqttPending (rd_adapter s)))"
  by (force simp: pending_def)

text \<open>A position that was made for the generation \<open>n\<close> or an earlier one.\<close>

definition older :: "nat \<Rightarrow> mqttPublication \<Rightarrow> bool" where
  "older n p = (is_position (mp_kind p) \<longrightarrow> mp_positionGeneration p \<le> n)"

lemma least_order_in: "least_order best m = Some kp \<Longrightarrow> kp \<in> set m \<or> best = Some kp"
  by (induction best m rule: least_order.induct) (fastforce split: option.splits if_splits)+

lemma taken_pending: "worker_take a = (Inr p, b) \<Longrightarrow> \<exists>k. (k, p) \<in> set (a_mqttPending a)"
  using least_order_in [of None "a_mqttPending a"]
  by (auto simp: worker_take_def nextMQTTPublicationLocked_def split: option.splits)

lemma held_exec: "ride_exec L E op s = Some s' \<Longrightarrow> held s' \<subseteq> held s \<union> pending s"
  by (cases op) (auto simp: held_def pending_iff worker_admit_def dest!: taken_pending
    split: option.splits prod.splits sum.splits worker_action.splits if_splits)

lemma pending_older: "queues_inv n (rd_adapter s) \<Longrightarrow> p \<in> pending s \<Longrightarrow> older (a_positionGeneration (rd_adapter s)) p"
  by (auto simp: queues_inv_def pending_inv_def pending_def older_def)

lemma queues_now: "queues_inv n a \<Longrightarrow> queues_inv (a_positionGeneration a) a"
  by (simp add: queues_inv_def)

lemma queues_least: "queues_inv n a \<Longrightarrow> n \<le> a_positionGeneration a"
  by (simp add: queues_inv_def)

text \<open>Whatever the worker holds is for the current generation or an earlier one.\<close>

lemma held_older: "ride_reachable L s \<Longrightarrow> p \<in> held s \<Longrightarrow> older (a_positionGeneration (rd_adapter s)) p"
proof (induction arbitrary: p rule: ride_reachable.induct)
  case (start cfg redis random a)
  then show ?case using start_inv(3,4) by (simp add: held_def)
next
  case (step s E op s')
  have q: "queues_inv 0 (rd_adapter s)" using step(1) by (rule reachable_queues)
  have "older (a_positionGeneration (rd_adapter s)) p"
    using held_exec [OF step(2)] step(3,4) pending_older [OF q] by blast
  moreover have "a_positionGeneration (rd_adapter s) \<le> a_positionGeneration (rd_adapter s')"
    using queues_exec [OF queues_now [OF q] step(2)] by (rule queues_least)
  ultimately show ?case by (auto simp: older_def)
qed

lemma authorized_generation:
  "mqttPublicationAuthorizedLocked E p a \<Longrightarrow> is_position (mp_kind p) \<Longrightarrow> mp_positionGeneration p = a_positionGeneration a"
  by (auto simp: mqttPublicationAuthorizedLocked_def is_position_def Let_def split: option.splits prod.splits if_splits)

text \<open>
  What withdraws: the end of the adapter or of the connection, the loss of Redis, and the owner's choice not
  to share.
\<close>

definition withdraws :: "ride_op \<Rightarrow> ride \<Rightarrow> bool" where
  "withdraws op s =
     (let reading = (rd_run s = Recovering \<or> rd_run s = Refreshing)
      in case op of
           OpStop \<Rightarrow> True
         | OpDisconnected client \<Rightarrow> client = a_mqtt (rd_adapter s)
         | OpRun (Event RedisClosed) \<Rightarrow> (case rd_run s of Awaiting _ \<Rightarrow> True | Serving \<Rightarrow> True | _ \<Rightarrow> False)
         | OpRun (Hget (Inl e)) \<Rightarrow> reading
         | OpRun (Hget (Inr (Some value))) \<Rightarrow> reading \<and> blocked_value value
         | _ \<Rightarrow> False)"

lemma advance_clear_v2: "queues_inv n a \<Longrightarrow> queues_inv (Suc n) (clearGrantV2Locked a)"
  using ql.keeps_clear_v2 [of n a] by (simp add: queues_inv_def clearGrantV2Locked_def dropPendingPosition_def dropPendingV2Source_def)

lemma advance_clear: "queues_inv n a \<Longrightarrow> queues_inv (Suc n) (clearGrantLocked a)"
  unfolding clearGrantLocked_def by (rule advance_clear_v2) (simp add: ql.keeps_invalidate)

lemma advance_reset: "queues_inv n a \<Longrightarrow> queues_inv (Suc n) (resetConnectionLocked client conn a)"
proof -
  assume "queues_inv n a"
  from queues_fields(7) [OF queues_fields(1) [OF this]]
  show ?thesis unfolding resetConnectionLocked_def Let_def
    by (intro advance_clear) (simp add: queues_inv_def pending_inv_def invalidateLocalAttemptsV2Locked_def)
qed

lemma advance_inhibit: "queues_inv n a \<Longrightarrow> queues_inv (Suc n) (inhibitJournalV2Locked a)"
  unfolding inhibitJournalV2Locked_def Let_def
  by (intro advance_clear_v2) (simp add: queues_inv_def pending_inv_def invalidateLocalAttemptsV2Locked_def)

lemma advance_failClosed: "queues_inv n a \<Longrightarrow> queues_inv (Suc n) (failClosed E a)"
  unfolding failClosed_def Let_def
  by (rule advance_clear) (rule ql.rules keep_rules | assumption | simp only: ql.keeps_update)+

lemma advance_refresh:
  assumes "queues_inv n a" and "blocked_value value"
  shows "queues_inv (Suc n) (snd (refreshBlocked L E (Inr (Some value)) a))"
proof -
  have k: "queues_inv n (a\<lparr>a_blocked := True, a_settingsReady := True\<rparr>)" using assms(1) by simp
  show ?thesis unfolding refreshBlocked_def Let_def sum.case option.case snd_conv
    using assms(2) by (simp only: simp_thms if_True) (rule ql.rules advance_clear advance_inhibit keep_rules k assms(1) | assumption | simp only: ql.keeps_update)+
qed

lemma withdraws_advances:
  assumes "queues_inv n (rd_adapter s)" and "withdraws op s" and "ride_exec L E op s = Some s'"
  shows "queues_inv (Suc n) (rd_adapter s')"
proof -
  note a = assms(1)
  have f: "queues_inv (Suc n) (snd (run_failed E b))" if "queues_inv n b" for b
    using that by (simp add: run_failed_def advance_failClosed)
  show ?thesis
  proof (cases op)
    case OpStop
    with a assms(3) show ?thesis by (auto simp: Stop_begin_def intro!: advance_clear)
  next
    case (OpDisconnected client)
    with assms show ?thesis by (auto simp: withdraws_def OnDisconnected_def Let_def intro!: advance_reset)
  next
    case (OpRun input)
    then show ?thesis
    proof (cases input)
      case (Event e)
      with OpRun assms(2,3) f [OF a] show ?thesis
        by (auto simp: withdraws_def run_step_def split: redis_event.splits run_phase.splits)
    next
      case (Hget r)
      with OpRun assms(2) have reading: "rd_run s = Recovering \<or> rd_run s = Refreshing" by (auto simp: withdraws_def Let_def split: sum.splits option.splits)
      show ?thesis
      proof (cases r)
        case (Inl e)
        have "refreshBlocked L E r (rd_adapter s) = (False, rd_adapter s)" using Inl by (simp add: refreshBlocked_def)
        with Hget OpRun reading assms(3) f [OF a] show ?thesis by (auto simp: run_step_def completeRedisRecovery_step_def)
      next
        case (Inr found)
        with OpRun Hget assms(2) obtain w where v: "r = Inr (Some w)" "blocked_value w"
          by (auto simp: withdraws_def Let_def split: option.splits)
        obtain b where b: "refreshBlocked L E r (rd_adapter s) = (True, b)" using v(1) by (simp add: refreshBlocked_def Let_def)
        then have "queues_inv (Suc n) b" using advance_refresh [OF a v(2), of L E] v(1) by simp
        with Hget OpRun reading assms(3) b show ?thesis by (auto simp: run_step_def completeRedisRecovery_step_def)
      qed
    qed (use OpRun assms(2) in \<open>simp_all add: withdraws_def\<close>)
  qed (use assms(2) in \<open>simp_all add: withdraws_def\<close>)
qed

text \<open>
  C4: Withdrawal is final.  After the adapter is stopped, its connection ends, Redis is lost or the owner
  blocks sharing, no position that was pending, taken by the worker or handed to the live transport before
  is authorised for sending ever again, whatever happens afterwards: neither a new connection nor a new
  grant revives it.
\<close>

theorem withdrawal_is_final:
  assumes "ride_reachable L s" and "withdraws op s" and "ride_run L ((E, op) # ops) s = Some s'"
    and "p \<in> pending s \<union> held s" and "is_position (mp_kind p)"
  shows "\<not> still_authorized p E' (rd_adapter s') \<and> p \<notin> pending s'"
proof -
  let ?n = "a_positionGeneration (rd_adapter s)"
  obtain s1 where s1: "ride_exec L E op s = Some s1" "ride_run L ops s1 = Some s'" using assms(3) by (auto split: bind_splits)
  note q = reachable_queues [OF assms(1)]
  have "queues_inv (Suc ?n) (rd_adapter s')"
    using run_queues [OF s1(2)] withdraws_advances [OF queues_now [OF q] assms(2) s1(1)] by blast
  then have "?n < a_positionGeneration (rd_adapter s')" and q': "queues_inv 0 (rd_adapter s')" by (simp_all add: queues_inv_def)
  moreover have "older ?n p" using assms(4) pending_older [OF q] held_older [OF assms(1)] by blast
  ultimately have less: "mp_positionGeneration p < a_positionGeneration (rd_adapter s')" using assms(5) by (simp add: older_def)
  then have "\<not> still_authorized p E' (rd_adapter s')" using authorized_generation assms(5) by (fastforce simp: still_authorized_def)
  moreover have "p \<notin> pending s'" using q' less assms(5) by (auto simp: queues_inv_def pending_inv_def pending_iff)
  ultimately show ?thesis ..
qed

theorem withdrawal_is_final_witness:
  "\<exists>s p s'. ride_run sample_lib (map (Pair sample_env) sample_ops) sample_start = Some s \<and> p \<in> pending s
    \<and> still_authorized p sample_env (rd_adapter s) \<and> ride_run sample_lib [(sample_env, OpStop)] s = Some s'
    \<and> \<not> still_authorized p sample_env (rd_adapter s') \<and> p \<notin> pending s'"
proof -
  obtain s p where s: "ride_run sample_lib (map (Pair sample_env) sample_ops) sample_start = Some s"
    "map_of (a_mqttPending (rd_adapter s)) ''position'' = Some p" "mp_kind p = ''position''" "still_authorized p sample_env (rd_adapter s)"
    by (rule sample_run)
  have p: "p \<in> pending s" using map_of_SomeD [OF s(2)] by (auto simp: pending_iff)
  obtain s' where s': "ride_run sample_lib [(sample_env, OpStop)] s = Some s'" by simp
  have "\<not> still_authorized p sample_env (rd_adapter s') \<and> p \<notin> pending s'"
    using withdrawal_is_final [OF reachable_run [OF s(1) sample_reachable] _ s'] p s(3) by (simp add: withdraws_def is_position_def)
  with s p s' show ?thesis by blast
qed

section \<open>Sharing needs consent\<close>

text \<open>
  C6: The adapter never dereferences a nil pointer: from every reachable state every sequence of critical
  sections runs to its end, whatever messages the cloud, Redis and the receiver send, whatever order the
  goroutines take the locks in and whatever the clocks show.
\<close>

theorem adapter_never_panics:
  assumes "ride_reachable L s"
  shows "\<exists>s'. ride_run L ops s = Some s'"
  using assms
proof (induction ops arbitrary: s)
  case (Cons eop ops)
  obtain E op where eop: "eop = (E, op)" by (cases eop)
  obtain s1 where "ride_exec L E op s = Some s1" using ride_exec_inv [OF reachable_gates [OF Cons(2)], of L E op] by blast
  with eop Cons(1) [OF ride_reachable.step [OF Cons(2)]] show ?case by simp
qed simp

theorem adapter_never_panics_witness: "\<exists>s'. ride_run sample_lib (map (Pair sample_env) sample_ops) sample_start = Some s'"
  by (rule adapter_never_panics [OF sample_reachable])

text \<open>The activity of the vehicle, in the version that is spoken.\<close>

definition current_activity :: "Adapter \<Rightarrow> Activity option" where
  "current_activity a = (if a_protocolVersion a = 2 then a_activityV2 a else a_activity a)"

lemma gates_invD:
  assumes "gates_inv stop a"
  shows "a_protocolVersion a = 1 \<or> a_protocolVersion a = 2"
    "a_grant a = Some g \<Longrightarrow> a_protocolVersion a = 1 \<and> \<not> a_localStopPending a \<and> a_grantTTL a \<le> leaseDuration"
    "a_grantV2 a = Some h \<Longrightarrow> a_protocolVersion a = 2 \<and> a_journalReady a \<and> \<not> a_journalBlockedV2 a \<and> idle_journal a \<and> \<not> a_blocked a
       \<and> a_grantTTL a \<le> leaseDuration \<and> bound_grant h
       \<and> (\<exists>act. a_activityV2 a = Some act \<and> act_Active act \<and> \<not> act_LocalStop act \<and> (a_grantActive a \<longrightarrow> grant_match h act))"
  using assms by (auto simp: gates_inv_def split: if_splits)

definition lease_left :: "instant \<Rightarrow> Adapter \<Rightarrow> bool" where
  "lease_left now a = (a_grantAt a \<le> now \<and> now < a_grantAt a + a_grantTTL a \<and> a_grantTTL a \<le> leaseDuration)"

lemma lease_leftI:
  "a_grantAt a \<le> now \<Longrightarrow> time_Sub now (a_grantAt a) < a_grantTTL a \<Longrightarrow> a_grantTTL a \<le> leaseDuration \<Longrightarrow> lease_left now a"
  by (auto simp: lease_left_def time_Sub_def leaseDuration_def maxInt64_def split: if_splits)

text \<open>What the owner of the vehicle is promised about a position that leaves it.\<close>

definition consented :: "env \<Rightarrow> mqttPublication \<Rightarrow> Adapter \<Rightarrow> bool" where
  "consented E p a =
     ((case current_activity a of
         None \<Rightarrow> False
       | Some act \<Rightarrow> act_Active act \<and> \<not> act_LocalStop act \<and> act_SessionID act = Some (mp_positionSessionID p)
                    \<and> act_MemberID act = Some (mp_positionMemberID p))
      \<and> a_settingsReady a \<and> \<not> a_blocked a \<and> lease_left (e_now E) a \<and> fresh (e_now E) (mp_positionCapturedAt p)
      \<and> (if a_protocolVersion a = 2 then a_journalReady a \<and> \<not> a_journalBlockedV2 a \<and> idle_journal a else \<not> a_localStopPending a))"

text \<open>
  C5: Sharing needs consent.  A position that is authorised for sending, now or when the transport asks
  again, belongs to the session and member of the vehicle's own active activity, the owner does not block
  sharing, no local stop is pending, the journal is idle, the lease has not run out and is at most ten
  seconds long, and the fix is at most five seconds old.  The activity and the lease were checked when they
  were taken over; this is what makes the check that is repeated here sufficient.
\<close>

theorem sharing_needs_consent:
  assumes "ride_reachable L s" and "still_authorized p E (rd_adapter s)" and "is_position (mp_kind p)"
  shows "consented E p (rd_adapter s)"
proof -
  define a where "a = rd_adapter s"
  note inv = gates_invD [OF reachable_gates [OF assms(1)], folded a_def]
  have auth: "mqttPublicationAuthorizedLocked E p a" using assms(2) by (simp add: still_authorized_def a_def)
  have "consented E p a"
  proof (cases "mp_kind p = ''position''")
    case True
    with auth obtain g act where c: "a_grant a = Some g" "a_activity a = Some act" "a_settingsReady a" "\<not> a_blocked a"
      "act_Active act" "\<not> act_LocalStop act" "position_bound p g act" "fresh (e_now E) (mp_positionCapturedAt p)"
      "0 \<le> time_Sub (e_now E) (a_grantAt a)" "time_Sub (e_now E) (a_grantAt a) < a_grantTTL a"
      by (auto simp: mqttPublicationAuthorizedLocked_def Let_def split: option.splits)
    with inv(2) [OF c(1)] show ?thesis
      by (auto simp: consented_def current_activity_def position_bound_def time_Sub_nonneg intro: lease_leftI)
  next
    case False
    with assms(3) have "mp_kind p = ''v2_position''" by (simp add: is_position_def)
    with auth obtain h act where c: "a_grantV2 a = Some h" "a_activityV2 a = Some act" "a_settingsReady a" "act_Active act"
      "position_bound p h act" "fresh (e_now E) (mp_positionCapturedAt p)" "a_grantAt a \<le> e_now E"
      "time_Sub (e_now E) (a_grantAt a) < a_grantTTL a"
      by (auto simp: mqttPublicationAuthorizedLocked_def grantCurrentV2Locked_def Let_def split: option.splits)
    with inv(3) [OF c(1)] show ?thesis
      by (auto simp: consented_def current_activity_def position_bound_def intro: lease_leftI)
  qed
  then show ?thesis by (simp add: a_def)
qed

theorem sharing_needs_consent_witness:
  "\<exists>s p. ride_run sample_lib (map (Pair sample_env) (consent_ops @ [OpRun (Event (RedisMessage gpsChannel fix_text))])) consent_start = Some s
    \<and> p \<in> pending s \<and> still_authorized p sample_env (rd_adapter s) \<and> consented sample_env p (rd_adapter s)"
proof -
  obtain s p where s: "ride_run sample_lib (map (Pair sample_env) (consent_ops @ [OpRun (Event (RedisMessage gpsChannel fix_text))])) consent_start = Some s"
    "map_of (a_mqttPending (rd_adapter s)) ''v2_position'' = Some p" "mp_kind p = ''v2_position''" "still_authorized p sample_env (rd_adapter s)"
    by (rule consent_shared)
  from sharing_needs_consent [OF reachable_run [OF s(1) consent_reachable] s(4)] s(3) map_of_SomeD [OF s(2)] s(1,4) show ?thesis
    by (auto simp: is_position_def pending_iff)
qed

lemma lease_left_iff:
  "a_grantTTL a \<le> leaseDuration \<Longrightarrow>
   lease_left now a \<longleftrightarrow> \<not> now < a_grantAt a \<and> time_Sub now (a_grantAt a) < a_grantTTL a"
  by (auto simp: lease_left_def time_Sub_def leaseDuration_def maxInt64_def minInt64_def split: if_splits)

text \<open>
  C7: Of the conditions that the program checks again and again before it uses a version 2 grant, those about
  the protocol version, the owner's choice, the journal, the activity and its match with the grant are
  implied in every reachable state: the grant itself stands for them, because whatever ends one of them
  also withdraws the grant.  What is left are the link, the settings, the flag and the two leases.
\<close>

theorem grant_stands_for_consent:
  assumes "ride_reachable L s"
  defines "a \<equiv> rd_adapter s"
  shows "(grantCurrentV2Locked E now a \<and> activityMatchesGrantV2Locked a) =
    (a_grantV2 a \<noteq> None \<and> a_settingsReady a \<and> link_up E a \<and> a_grantActive a \<and> \<not> time_IsZero (a_grantAt a)
     \<and> lease_left now a \<and> within_lease now (a_activityAt a))"
proof (cases "a_grantV2 a")
  case (Some h)
  note inv = gates_invD(3) [OF reachable_gates [OF assms(1)], folded a_def, OF Some]
  then obtain act where act: "a_activityV2 a = Some act" "act_Active act" "a_grantActive a \<longrightarrow> grant_match h act" by blast
  have "activityMatchesGrantV2Locked a" if "a_grantActive a"
    using that act Some inv by (auto simp: activityMatchesGrantV2Locked_def grant_match_def bound_grant_def)
  then show ?thesis
    using inv act Some by (auto simp: grantCurrentV2Locked_def idle_journal_def within_lease_def lease_left_iff)
qed (simp add: grantCurrentV2Locked_def)

theorem grant_stands_for_consent_witness:
  "\<exists>s. ride_run sample_lib (map (Pair sample_env) consent_ops) consent_start = Some s
    \<and> grantCurrentV2Locked sample_env sample_time (rd_adapter s) \<and> activityMatchesGrantV2Locked (rd_adapter s)"
proof -
  obtain s where s: "ride_run sample_lib (map (Pair sample_env) consent_ops) consent_start = Some s" "consent_given (rd_adapter s)"
    by (rule consent_run)
  have "a_grantV2 (rd_adapter s) \<noteq> None" "a_settingsReady (rd_adapter s)" "link_up sample_env (rd_adapter s)" "a_grantActive (rd_adapter s)"
    "\<not> time_IsZero (a_grantAt (rd_adapter s))" "lease_left sample_time (rd_adapter s)" "within_lease sample_time (a_activityAt (rd_adapter s))"
    using s(2) by (simp_all add: consent_given_def consent_phase_def env_facts lease_left_def leaseDuration_def)
  with grant_stands_for_consent [OF reachable_run [OF s(1) consent_reachable], of sample_env sample_time] s(1) show ?thesis by blast
qed

section \<open>What the adapter holds\<close>



text \<open>The scan over the pending publications finds one with the smallest order.\<close>

lemma least_order_least:
  "least_order best m = Some kp \<Longrightarrow> x \<in> set m \<or> best = Some x \<Longrightarrow> mp_order (snd kp) \<le> mp_order (snd x)"
proof (induction best m arbitrary: x rule: least_order.induct)
  case (2 best kp' rest)
  show ?case
  proof (cases "x \<in> set rest")
    case False
    let ?next = "case best of None \<Rightarrow> Some kp' | Some next \<Rightarrow> if mp_order (snd kp') < mp_order (snd next) then Some kp' else best"
    have "\<exists>y. ?next = Some y \<and> mp_order (snd y) \<le> mp_order (snd x)" using False 2(3) by (cases best; cases kp') auto
    then obtain y where y: "?next = Some y" "mp_order (snd y) \<le> mp_order (snd x)" by blast
    with 2(1) [of y] 2(2) show ?thesis by auto
  qed (use 2 in auto)
qed simp

lemma least_order_None: "least_order best m = None \<longleftrightarrow> m = [] \<and> best = None"
  by (induction best m rule: least_order.induct) (auto split: option.splits)



section \<open>Stopping for good, and the lease\<close>

definition blocked_ops :: "ride_op list" where
  "blocked_ops = map (\<lambda>c. OpRun (Event (RedisSubscription ''subscribe'' c))) run_channels
     @ [OpRun (Drained []), OpRun (Hget (Inr (Some ''1''))), OpRun (Drained [])]"

definition unblocked_ops :: "ride_op list" where
  "unblocked_ops = [OpRun (Event (RedisMessage settingsChannel ''ride-group.blocked'')), OpRun (Hget (Inr (Some ''0'')))]"

text \<open>The owner blocks sharing before the cloud is connected, and later takes it back.\<close>

lemma blocked_run:
  assumes "rd_run s = Awaiting []" and "a_protocolVersion (rd_adapter s) = 1" and "\<not> a_blocked (rd_adapter s)" and "a_mqtt (rd_adapter s) = None"
  shows "\<exists>s'. ride_run sample_lib (map (Pair sample_env) blocked_ops) s = Some s' \<and> rd_run s' = Serving
    \<and> a_protocolVersion (rd_adapter s') = 1 \<and> a_localStopPending (rd_adapter s')"
proof -
  have "blocked_value ''1''" by (simp add: blocked_value_def)
  then show ?thesis
    using assms
    by (simp add: blocked_ops_def run_channels_def run_step_def containsChannel_def completeRedisRecovery_begin_def activityChannel_def
        gpsChannel_def settingsChannel_def completeRedisRecovery_step_def refreshBlocked_def Let_def link_up_def clearGrantLocked_def
        clearGrantV2Locked_def invalidatePositionPublicationsLocked_def dropPendingPosition_def dropPendingV2Source_def)
qed

lemma unblocked_run:
  assumes "rd_run s = Serving" and "a_protocolVersion (rd_adapter s) = 1"
  shows "\<exists>s'. ride_run sample_lib (map (Pair sample_env) unblocked_ops) s = Some s' \<and> \<not> a_blocked (rd_adapter s')"
proof -
  have "\<not> blocked_value ''0''" "names_blocked ''ride-group.blocked''" by code_simp+
  then show ?thesis
    using assms by (simp add: unblocked_ops_def run_step_def handleRedisMessage_def settingsChannel_def activityChannel_def gpsChannel_def
        refreshBlocked_def Let_def)
qed

text \<open>
  C13: A local stop of version 1 is never taken back.  Once one is pending, because the vehicle reported it or
  because the owner blocked sharing, it stays pending: no later choice of the owner, activity, connection
  or message of the cloud leads to a version 1 grant again, and no version 1 position is authorised until
  the program is restarted.
\<close>

theorem local_stop_is_permanent:
  assumes "ride_reachable L s" and "a_localStopPending (rd_adapter s)" and "ride_run L ops s = Some s'"
  shows "a_localStopPending (rd_adapter s') \<and> a_grant (rd_adapter s') = None
    \<and> \<not> still_authorized (p\<lparr>mp_kind := ''position''\<rparr>) E (rd_adapter s')"
proof -
  have "gates_inv True (rd_adapter s)" using reachable_gates [OF assms(1)] assms(2) by (simp add: gates_inv_def)
  from run_gates [OF assms(3) this] have "a_localStopPending (rd_adapter s')" "a_grant (rd_adapter s') = None"
    by (auto simp: gates_inv_def)
  then show ?thesis by (simp add: still_authorized_def mqttPublicationAuthorizedLocked_def)
qed

theorem local_stop_is_permanent_witness:
  "\<exists>s s'. ride_run sample_lib (map (Pair sample_env) blocked_ops) sample_start = Some s \<and> \<not> a_localStopPending (rd_adapter sample_start)
    \<and> ride_run sample_lib (map (Pair sample_env) unblocked_ops) s = Some s' \<and> \<not> a_blocked (rd_adapter s')
    \<and> a_localStopPending (rd_adapter s')"
proof -
  note start = sample_start_def NewAdapter_def nonces ride_init_def Start_def startWorkers_def startAckWorker_def startRedisWorker_def
    startMQTTWorker_def Let_def
  have a: "rd_run sample_start = Awaiting []" "a_protocolVersion (rd_adapter sample_start) = 1" "\<not> a_blocked (rd_adapter sample_start)"
    "a_mqtt (rd_adapter sample_start) = None" "\<not> a_localStopPending (rd_adapter sample_start)" by (simp_all add: start)
  obtain s where s: "ride_run sample_lib (map (Pair sample_env) blocked_ops) sample_start = Some s" "rd_run s = Serving"
    "a_protocolVersion (rd_adapter s) = 1" "a_localStopPending (rd_adapter s)"
    using blocked_run [OF a(1-4)] by blast
  obtain s' where s': "ride_run sample_lib (map (Pair sample_env) unblocked_ops) s = Some s'" "\<not> a_blocked (rd_adapter s')"
    using unblocked_run [OF s(2,3)] by blast
  have "a_localStopPending (rd_adapter s')"
    using local_stop_is_permanent [OF reachable_run [OF s(1) sample_reachable] s(4) s'(1)] by blast
  with s s' a(5) show ?thesis by blast
qed

interpretation at: carried "\<lambda>b. a_grantAt b = t" for t .

lemma at_queue: "a_grantAt (queueMQTTPublication pub a) = a_grantAt a" "a_grantAt (dropPendingV2Source a) = a_grantAt a"
  "a_grantAt (queueRedisPublication E ch payload age a) = a_grantAt a"
  by (simp_all add: queueMQTTPublication_def startMQTTWorker_def dropPendingV2Source_def queueRedisPublication_def startRedisWorker_def
      Let_def split: option.split)

lemma at_no_fix: "a_grantAt (publishNoFixStatusV2Locked L E a) = a_grantAt a"
  by (auto simp: publishNoFixStatusV2Locked_def publishSourceStatusValueV2Locked_def at_queue Let_def split: option.split prod.split bool.split)

lemma installed_lease:
  assumes "install_v2 L E control act remaining a = Some b"
  shows "a_grantV2 b = Some control" "a_grantAt b = e_now E" "a_grantTTL b = remaining"
  using assms gates_fields(6) [OF gates_no_fix] gates_no_fix [THEN arg_cong [where f = "\<lambda>g. fst (fst (snd (snd (snd (snd (snd g))))))"]]
  by (auto simp: install_v2_def setPeerReplayScopeLocked_def at_no_fix gates_def Let_def split: bind_splits if_splits)

text \<open>An adapter of version 2 that waits for the answer to a challenge it sent four seconds ago.\<close>

definition offered :: Adapter where
  "offered = (rd_adapter sample_start)\<lparr>a_protocolVersion := 2, a_settingsReady := True, a_journalReady := True,
     a_journalStateV2 := Some (zero_LocalStop\<lparr>ls_Phase := ''idle''\<rparr>), a_activityV2 := Some sample_activity,
     a_activityAt := sample_time - 4 * Second, a_challenges := [(sample_uuid (CHR ''5''), sample_time - 4 * Second)]\<rparr>"

lemma offer_granted: "\<exists>b. grant_v2 sample_lib sample_env payload (sample_control label) offered = Some b \<and> b \<noteq> offered"
proof -
  note start = sample_start_def NewAdapter_def nonces ride_init_def Start_def startWorkers_def startAckWorker_def startRedisWorker_def
    startMQTTWorker_def Let_def
  have o: "a_grantV2 offered = None" "a_lastClearedV2 offered = None" "a_lastAuthorityV2 offered = None" "\<not> a_noFixClosedV2 offered"
    "grantableV2Locked sample_env offered" "grantChallengeCurrentV2Locked sample_env (sample_uuid (CHR ''5'')) offered"
    "map_of (a_challenges offered) (sample_uuid (CHR ''5'')) = Some (sample_time - 4 * Second)" "a_activityV2 offered = Some sample_activity"
    by (simp_all add: offered_def start grantableV2Locked_def grantChallengeCurrentV2Locked_def idle_journal_def within_lease_def sample_env_def
        time_Sub_def leaseDuration_def minInt64_def maxInt64_def sample_activity_def)
  have c: "ctl_Challenge (sample_control label) = sample_uuid (CHR ''5'')" "ctl_LeaseTTLMS (sample_control label) = 10000"
    "ctl_CadenceMS (sample_control label) = Some 2000" "ctl_SessionID (sample_control label) = act_SessionID sample_activity"
    "ctl_MemberID (sample_control label) = act_MemberID sample_activity" "ctl_StreamID (sample_control label) = Some (sample_uuid (CHR ''4''))"
    "act_SessionID sample_activity = Some (sample_uuid (CHR ''2''))" "act_MemberID sample_activity = Some (sample_uuid (CHR ''3''))"
    by (simp_all add: sample_control_def zero_Control_def sample_activity_def)
  have e: "elapsedSince sample_env (sample_time - 4000000000) = 4000000000"
    by (simp add: elapsedSince_def sample_env_def time_Sub_def minInt64_def maxInt64_def)
  have r: "grant_refused_v2 (sample_control label) sample_activity offered = Some False" by (simp add: grant_refused_v2_def o c)
  have n: "new_stream_v2 (sample_control label) offered" by (simp add: new_stream_v2_def o)
  obtain b where b: "install_v2 sample_lib sample_env (sample_control label) sample_activity (6 * Second) offered = Some b"
    unfolding install_v2_def if_P [OF n] restart_stream_v2_def setPeerReplayScopeLocked_def by (simp add: c Let_def)
  have "a_grantV2 b = Some (sample_control label)" by (rule installed_lease(1) [OF b])
  then have "a_grantV2 (queueRedisPublication E ch payload age (b\<lparr>a_challenges := x\<rparr>)) \<noteq> a_grantV2 offered" for E ch payload age x
    using gates_queue(2) o(1) by (simp add: gates_def)
  moreover have "grant_v2 sample_lib sample_env payload (sample_control label) offered =
      Some (queueRedisPublication sample_env ''ride-group:control'' payload (leaseDuration - 4 * Second)
        (b\<lparr>a_challenges := gm_put (sample_uuid (CHR ''5'')) (sample_time - 4 * Second) (a_challenges b)\<rparr>))"
    using b by (simp add: grant_v2_def o c e r Let_def)
  ultimately show ?thesis by metis
qed

text \<open>
  C8: The lease of a version 2 grant counts from the moment the vehicle sent the challenge that the grant
  answers.  A message that changes anything answers a challenge that was sent less than ten seconds ago and
  is not in the future; the lease that it installs ends exactly the granted time after that moment, has not
  ended yet, and is never longer than ten seconds.
\<close>

theorem lease_counts_from_challenge:
  assumes "ParseControlV2 L payload = Inr control" and "ctl_Action control = ''grant'' \<or> ctl_Action control = ''renew''"
    and "grant_v2 L E payload control a = Some b" and "b \<noteq> a"
  shows "\<exists>sentAt. map_of (a_challenges a) (ctl_Challenge control) = Some sentAt \<and> sentAt \<le> e_now E
    \<and> e_now E < sentAt + leaseDuration \<and> a_grantV2 b = Some control
    \<and> a_grantAt b + a_grantTTL b = sentAt + ctl_LeaseTTLMS control * Millisecond \<and> lease_left (e_now E) b"
proof -
  obtain act refused sentAt remaining c where c: "grantChallengeCurrentV2Locked E (ctl_Challenge control) a"
    "map_of (a_challenges a) (ctl_Challenge control) = Some sentAt" "0 \<le> elapsedSince E sentAt" "elapsedSince E sentAt < leaseDuration"
    "remaining = ctl_LeaseTTLMS control * Millisecond - elapsedSince E sentAt" "0 < remaining"
    "install_v2 L E control act remaining a = Some c"
    "b = queueRedisPublication E ''ride-group:control'' payload (leaseDuration - elapsedSince E sentAt)
                            (c\<lparr>a_challenges := gm_put (ctl_Challenge control) sentAt (a_challenges c)\<rparr>)"
    using assms(3,4) by (auto simp: grant_v2_def Let_def not_le elim!: challenge_sent split: if_splits bind_splits)
  have now: "sentAt \<le> e_now E" "e_now E < sentAt + leaseDuration" "elapsedSince E sentAt = e_now E - sentAt"
    using c(3,4) by (auto simp: elapsedSince_def time_Sub_def leaseDuration_def maxInt64_def minInt64_def split: if_splits)
  have b: "a_grantV2 b = Some control" "a_grantAt b = e_now E" "a_grantTTL b = remaining"
    using installed_lease [OF c(7)] gates_queue(2) by (simp_all add: c(8) at_queue gates_def)
  have "ctl_LeaseTTLMS control \<le> 10000" using control_bound(3) [OF assms(1,2)] .
  with c(5,6) now b show ?thesis by (intro exI [of _ sentAt]) (simp add: c(2) lease_left_def leaseDuration_def)
qed

theorem lease_counts_from_challenge_witness:
  "\<exists>payload b. ParseControlV2 sample_lib payload = Inr (sample_control ''Ada'')
    \<and> grant_v2 sample_lib sample_env payload (sample_control ''Ada'') offered = Some b
    \<and> a_grantAt b + a_grantTTL b = (sample_time - 4 * Second) + 10 * Second \<and> lease_left sample_time b"
proof -
  let ?d = "print_json (enc_ControlV2 (sample_control ''Ada''))"
  have p: "ParseControlV2 sample_lib ?d = Inr (sample_control ''Ada'')" by (rule sample_control_parses) (simp_all add: plain_ascii_def)
  have f: "ctl_Action (sample_control ''Ada'') = ''grant''" "ctl_Challenge (sample_control ''Ada'') = sample_uuid (CHR ''5'')"
    "ctl_LeaseTTLMS (sample_control ''Ada'') = 10000"
    by (simp_all add: sample_control_def zero_Control_def)
  obtain b where b: "grant_v2 sample_lib sample_env ?d (sample_control ''Ada'') offered = Some b" "b \<noteq> offered"
    using offer_granted by blast
  have "map_of (a_challenges offered) (sample_uuid (CHR ''5'')) = Some (sample_time - 4 * Second)" by (simp add: offered_def)
  with lease_counts_from_challenge [OF p _ b] f p b(1) show ?thesis by (auto simp: sample_env_def)
qed

section \<open>Peers\<close>

lemma redis_peers: "a_peerStreams (queueRedisPublication E ch payload age a) = a_peerStreams a"
  by (simp add: queueRedisPublication_def startRedisWorker_def Let_def split: option.split)


end
