(* ===== verification/Ride_Sessions.thy ===== *)
theory Ride_Sessions
  imports Ride_Properties
begin

text \<open>
  The ride-group adapter and the sessions of the connection manager, as the status call-back of
  \<^verbatim>\<open>main.go\<close> joins them: every session has a handle of its own, the adapter is told when a session begins and
  when it has ended, and everything else interleaves.  What is made in one session is never sent in another.
\<close>

section \<open>Whose publication it is\<close>

definition client_upto :: "nat \<Rightarrow> nat option \<Rightarrow> bool" where
  "client_upto k c = (case c of None \<Rightarrow> True | Some n \<Rightarrow> n \<le> k)"

lemma client_upto_simps [simp]: "client_upto k None" "client_upto k (Some n) = (n \<le> k)"
  by (simp_all add: client_upto_def)

definition pending_upto :: "nat \<Rightarrow> (string, mqttPublication) go_map \<Rightarrow> bool" where
  "pending_upto k m = list_all (\<lambda>(kind, p). client_upto k (mp_client p)) m"

text \<open>The connection of the adapter is \<open>l\<close>, and nothing pending is for a handle above \<open>k\<close>.\<close>

definition clients_inv :: "nat option \<times> bool \<times> nat \<Rightarrow> nat \<Rightarrow> Adapter \<Rightarrow> bool" where
  "clients_inv l k a =
     ((a_mqtt a, a_connecting a, a_connectAttempt a) = l \<and> client_upto k (a_mqtt a) \<and> pending_upto k (a_mqttPending a))"

lemma pending_upto_nil [simp]: "pending_upto k []"
  by (simp add: pending_upto_def)

lemma pending_upto_del: "pending_upto k m \<Longrightarrow> pending_upto k (gm_del x m)"
  by (auto simp: pending_upto_def list_all_iff pending_without)

lemma pending_upto_put: "pending_upto k m \<Longrightarrow> client_upto k (mp_client p) \<Longrightarrow> pending_upto k (gm_put x p m)"
  using set_put [of x p m] by (auto simp: pending_upto_def list_all_iff)

lemma clients_queue: "clients_inv l k a \<Longrightarrow> client_upto k (mp_client pub) \<Longrightarrow> clients_inv l k (queueMQTTPublication pub a)"
  by (auto simp: queueMQTTPublication_def startMQTTWorker_def clients_inv_def pending_upto_put Let_def)

lemma clients_drop:
  assumes "clients_inv l k a"
  shows "clients_inv l k (dropPendingPosition a)" "clients_inv l k (dropPendingV2Source a)"
    "clients_inv l k (dropPendingPosition (a\<lparr>a_positionGeneration := g\<rparr>))"
    "clients_inv l k (snd (worker_take a))"
  using assms
  by (simp_all add: clients_inv_def dropPendingPosition_def dropPendingV2Source_def worker_take_def nextMQTTPublicationLocked_def
      pending_upto_del split: option.split prod.split)

interpretation lk: adapter_invariant "clients_inv l k" for l k
proof (unfold_locales, goal_cases)
  case (1 a b)
  then show ?case by (simp add: clients_inv_def core_def)
next
  case (2 a pub)
  then show ?case by (intro clients_queue) (auto simp: current_publication_def clients_inv_def)
qed (simp_all add: clients_drop, simp_all add: clients_inv_def queueRedisPublication_def startRedisWorker_def queueAck_def startAckWorker_def
    invalidateLocalAttemptsV2Locked_def pruneChallengesLocked_def consumeProbeV2Locked_def Let_def split: option.split)

section \<open>The adapter in the service\<close>

text \<open>
  The life of a session in the manager: there is none, it is authenticated and \<open>StatusCallback\<close> is due, it
  serves, it has ended or could not be made and \<open>StatusCallback\<close> is due.  The manager makes the next one only
  after that, and it does not read before the first call has returned.
\<close>

datatype link_phase = LinkDown | LinkRaised | LinkUp | LinkLost

text \<open>\<open>vh_client\<close> is \<open>liveClient\<close>: the handles are numbered from 1, and 0 is the nil pointer.\<close>

record vehicle =
  vh_ride :: ride
  vh_client :: nat
  vh_link :: link_phase

datatype vehicle_op =
    SessionUp
  | SessionDown
  | StatusCallback
  | AdapterSection ride_op

text \<open>The part of the call-back that concerns the adapter.\<close>

definition status_callback :: "bool \<Rightarrow> nat \<Rightarrow> nat \<times> ride_op" where
  "status_callback isConnected liveClient =
     (if isConnected then (Suc liveClient, OpConnected (Suc liveClient)) else (liveClient, OpDisconnected (Some liveClient)))"

text \<open>Only the handle of the session that serves is connected.\<close>

definition session_env :: "link_phase \<Rightarrow> nat \<Rightarrow> env \<Rightarrow> env" where
  "session_env link liveClient E = E\<lparr>e_up := (\<lambda>c. link = LinkUp \<and> c = liveClient)\<rparr>"

definition run_callback :: "golib \<Rightarrow> env \<Rightarrow> bool \<Rightarrow> link_phase \<Rightarrow> vehicle \<Rightarrow> vehicle option" where
  "run_callback L E isConnected link v =
     (case status_callback isConnected (vh_client v) of
        (client, op) \<Rightarrow>
          map_option (\<lambda>s. v\<lparr>vh_ride := s, vh_client := client, vh_link := link\<rparr>) (ride_exec L (session_env link client E) op (vh_ride v)))"

fun vehicle_exec :: "golib \<Rightarrow> env \<Rightarrow> vehicle_op \<Rightarrow> vehicle \<Rightarrow> vehicle option" where
  "vehicle_exec L E SessionUp v = Some (if vh_link v = LinkDown then v\<lparr>vh_link := LinkRaised\<rparr> else v)"
| "vehicle_exec L E SessionDown v =
     Some (if vh_link v = LinkDown \<or> vh_link v = LinkUp \<and> rd_connects (vh_ride v) = [] then v\<lparr>vh_link := LinkLost\<rparr> else v)"
| "vehicle_exec L E StatusCallback v =
     (case vh_link v of
        LinkRaised \<Rightarrow> run_callback L E True LinkUp v
      | LinkLost \<Rightarrow> run_callback L E False LinkDown v
      | _ \<Rightarrow> Some v)"
| "vehicle_exec L E (AdapterSection op) v =
     (case op of
        OpConnected client \<Rightarrow> Some v
      | OpDisconnected client \<Rightarrow> Some v
      | _ \<Rightarrow> map_option (\<lambda>s. v\<lparr>vh_ride := s\<rparr>) (ride_exec L (session_env (vh_link v) (vh_client v) E) op (vh_ride v)))"

fun vehicle_run :: "golib \<Rightarrow> (env \<times> vehicle_op) list \<Rightarrow> vehicle \<Rightarrow> vehicle option" where
  "vehicle_run L [] v = Some v"
| "vehicle_run L ((E, op) # ops) v = Option.bind (vehicle_exec L E op v) (vehicle_run L ops)"

definition vehicle_init :: "Adapter \<Rightarrow> vehicle" where
  "vehicle_init a = \<lparr>vh_ride = ride_init a, vh_client = 0, vh_link = LinkDown\<rparr>"

inductive vehicle_reachable :: "golib \<Rightarrow> vehicle \<Rightarrow> bool" for L where
  start: "NewAdapter cfg redis random = Inr a \<Longrightarrow> vehicle_reachable L (vehicle_init a)"
| step: "vehicle_reachable L v \<Longrightarrow> vehicle_exec L E op v = Some v' \<Longrightarrow> vehicle_reachable L v'"

section \<open>The invariant of the sessions\<close>

definition sessions_inv :: "vehicle \<Rightarrow> bool" where
  "sessions_inv v =
     (let r = vh_ride v; a = rd_adapter r; k = vh_client v
      in pending_upto k (a_mqttPending a) \<and> (\<forall>p \<in> held r. client_upto k (mp_client p))
       \<and> pred_option (\<lambda>(c, topic). client_upto k c) (rd_stopping r)
       \<and> (a_mqtt a = None \<or> a_mqtt a = Some k \<and> (vh_link v = LinkUp \<or> vh_link v = LinkLost))
       \<and> (rd_connects r = [] \<and> \<not> a_connecting a
          \<or> (\<exists>attempt nonce. rd_connects r = [(k, attempt, nonce)] \<and> vh_link v = LinkUp
               \<and> (a_connecting a \<longrightarrow> a_connectAttempt a = attempt))))"

lemma reset_clients:
  assumes "clients_inv l k a" and "client_upto k client"
  shows "clients_inv (client, snd l) k (resetConnectionLocked client conn a)"
  unfolding resetConnectionLocked_def Let_def
  by (intro lk.keeps_clear) (use assms in \<open>auto simp: clients_inv_def invalidateLocalAttemptsV2Locked_def\<close>)

lemma subscribed_clients:
  assumes "clients_inv (c, w, attempt) k a"
  shows "clients_inv (Some k, False, attempt) k (OnConnected_subscribed L E k attempt conn a)"
proof -
  have "clients_inv (c, False, attempt) k (a\<lparr>a_connecting := False\<rparr>)" using assms by (auto simp: clients_inv_def)
  from reset_clients [OF this, of "Some k" conn]
  have r: "clients_inv (Some k, False, attempt) k (resetConnectionLocked (Some k) conn (a\<lparr>a_connecting := False\<rparr>))" by simp
  have "a_connectAttempt a = attempt" using assms by (simp add: clients_inv_def)
  then show ?thesis
    unfolding OnConnected_subscribed_def if_not_P [OF not_not [THEN iffD2]]
    by - (rule lk.rules lk.carried_let keep_rules r | assumption | simp only: lk.keeps_update refl simp_thms if_False)+
qed

text \<open>The sections that do not concern the connection.\<close>

definition keeps_link :: "ride_op \<Rightarrow> bool" where
  "keeps_link op = (case op of OpRun i \<Rightarrow> True | OpDownlink m \<Rightarrow> True | OpTake \<Rightarrow> True | OpAdmit \<Rightarrow> True | OpRedis \<Rightarrow> True | OpAck \<Rightarrow> True | _ \<Rightarrow> False)"

lemma clients_fields:
  "clients_inv l k a \<Longrightarrow> clients_inv l k (a\<lparr>a_ackQueue := q\<rparr>)"
  "clients_inv l k a \<Longrightarrow> clients_inv l k (snd (runRedisWorker_turn L E a))"
  by (auto simp: clients_inv_def runRedisWorker_turn_def Let_def split: list.split)

lemma clients_exec:
  assumes "clients_inv l k (rd_adapter s)" and "ride_exec L E op s = Some s'" and "keeps_link op"
  shows "clients_inv l k (rd_adapter s') \<and> rd_connects s' = rd_connects s \<and> rd_stopping s' = rd_stopping s"
proof (cases op)
  case (OpRun input)
  with assms(2) obtain phase b where "run_step L E input (rd_run s) (rd_adapter s) = Some (phase, b)" "s' = s\<lparr>rd_run := phase, rd_adapter := b\<rparr>" by auto
  with lk.keeps_run [OF assms(1)] show ?thesis by simp
next
  case (OpDownlink message)
  with assms(2) lk.keeps_downlink [OF assms(1), of L E message] show ?thesis by auto
next
  case OpTake
  with assms clients_drop(4) [OF assms(1)] show ?thesis by (auto split: option.splits prod.splits sum.splits)
next
  case OpAdmit
  with assms show ?thesis by (auto split: option.splits worker_action.splits)
qed (use assms clients_fields [OF assms(1)] in \<open>auto simp: keeps_link_def\<close>)

lemma sessions_inv_alt:
  "sessions_inv v \<longleftrightarrow>
     (\<exists>c w attempt. clients_inv (c, w, attempt) (vh_client v) (rd_adapter (vh_ride v))
       \<and> (\<forall>p \<in> held (vh_ride v). client_upto (vh_client v) (mp_client p))
       \<and> pred_option (\<lambda>(c, topic). client_upto (vh_client v) c) (rd_stopping (vh_ride v))
       \<and> (c = None \<or> c = Some (vh_client v) \<and> (vh_link v = LinkUp \<or> vh_link v = LinkLost))
       \<and> (rd_connects (vh_ride v) = [] \<and> \<not> w
          \<or> (\<exists>opened nonce. rd_connects (vh_ride v) = [(vh_client v, opened, nonce)] \<and> vh_link v = LinkUp \<and> (w \<longrightarrow> attempt = opened))))"
  by (auto simp: sessions_inv_def clients_inv_def Let_def)

lemma held_upto:
  assumes "clients_inv l k (rd_adapter s)" and "\<forall>p \<in> held s. client_upto k (mp_client p)" and "ride_exec L E op s = Some s'"
  shows "\<forall>p \<in> held s'. client_upto k (mp_client p)"
proof -
  have "\<forall>p \<in> pending s. client_upto k (mp_client p)"
    using assms(1) by (auto simp: clients_inv_def pending_upto_def list_all_iff pending_def)
  with held_exec [OF assms(3)] assms(2) show ?thesis by blast
qed

lemma client_upto_mono: "client_upto k c \<Longrightarrow> k \<le> k' \<Longrightarrow> client_upto k' c"
  by (auto simp: client_upto_def split: option.splits)

lemma clients_mono: "clients_inv l k a \<Longrightarrow> k \<le> k' \<Longrightarrow> clients_inv l k' a"
  using client_upto_mono by (fastforce simp: clients_inv_def pending_upto_def list_all_iff)

lemma stop_clients:
  assumes "clients_inv (c, w, attempt) k a"
  shows "clients_inv (None, False, Suc attempt) k (snd (Stop_begin E a))" "client_upto k (fst (fst (Stop_begin E a)))"
    "client_upto k client \<Longrightarrow> clients_inv (c, w, attempt) k (Stop_finish client topic a)"
proof -
  have "clients_inv (c, False, Suc attempt) k (clearGrantLocked (a\<lparr>a_connectAttempt := Suc (a_connectAttempt a), a_connecting := False\<rparr>))"
    by (rule lk.keeps_clear) (use assms in \<open>auto simp: clients_inv_def\<close>)
  then show "clients_inv (None, False, Suc attempt) k (snd (Stop_begin E a))"
    by (simp add: Stop_begin_def clients_inv_def)
  show "client_upto k (fst (fst (Stop_begin E a)))" using assms by (auto simp: Stop_begin_def clients_inv_def)
  show "client_upto k client \<Longrightarrow> clients_inv (c, w, attempt) k (Stop_finish client topic a)"
    using assms
    by (auto simp: Stop_finish_def stopMQTTWorker_def startMQTTWorker_def Let_def clients_inv_def pending_upto_def zero_publication_def)
qed

lemma abandon_clients:
  assumes "clients_inv (c, w, attempt) k a"
  shows "\<exists>w'. clients_inv (c, w', attempt) k (OnConnected_abandon n a) \<and> \<not> (w' \<and> attempt = n) \<and> (w' \<longrightarrow> w)"
  using assms by (auto simp: OnConnected_abandon_def clients_inv_def)

lemma nonce_clients:
  assumes "clients_inv (c, w, attempt) k a" and "OnConnected_nonce n a = (r, b)"
  shows "if r = None then \<exists>w'. clients_inv (c, w', attempt) k b \<and> \<not> (w' \<and> attempt = n) \<and> (w' \<longrightarrow> w) else clients_inv (c, w, attempt) k b"
proof -
  obtain u a1 where d: "draw_UUID a = (u, a1)" by (cases "draw_UUID a")
  from lk.keeps_draw [OF d assms(1)] have "clients_inv (c, w, attempt) k a1" .
  with assms(2) d abandon_clients show ?thesis by (auto simp: OnConnected_nonce_def split: option.splits)
qed

lemma sessions_invI:
  assumes "clients_inv (c, w, attempt) (vh_client v) (rd_adapter (vh_ride v))" and "\<forall>p \<in> held (vh_ride v). client_upto (vh_client v) (mp_client p)"
    and "pred_option (\<lambda>(c, topic). client_upto (vh_client v) c) (rd_stopping (vh_ride v))"
    and "c = None \<or> c = Some (vh_client v) \<and> (vh_link v = LinkUp \<or> vh_link v = LinkLost)"
    and "rd_connects (vh_ride v) = [] \<and> \<not> w
          \<or> (\<exists>opened nonce. rd_connects (vh_ride v) = [(vh_client v, opened, nonce)] \<and> vh_link v = LinkUp \<and> (w \<longrightarrow> attempt = opened))"
  shows "sessions_inv v"
  using assms unfolding sessions_inv_alt by blast

text \<open>Each section keeps the invariant; first the sections of \<open>OnConnected\<close> that are still to come.\<close>

lemma connect_sessions:
  assumes "sessions_inv v" and "ride_exec L E op (vh_ride v) = Some s'" and "op = OpNonce n \<or> op = OpSubscribed n ok"
  shows "sessions_inv (v\<lparr>vh_ride := s'\<rparr>)"
proof (cases "s' = vh_ride v")
  case True
  with assms(1) show ?thesis by simp
next
  case False
  let ?k = "vh_client v" and ?s = "vh_ride v"
  obtain c w attempt where i: "clients_inv (c, w, attempt) ?k (rd_adapter ?s)" "\<forall>p \<in> held ?s. client_upto ?k (mp_client p)"
    "pred_option (\<lambda>(c, topic). client_upto ?k c) (rd_stopping ?s)" "c = None \<or> c = Some ?k \<and> (vh_link v = LinkUp \<or> vh_link v = LinkLost)"
    "rd_connects ?s = [] \<and> \<not> w \<or> (\<exists>opened nonce. rd_connects ?s = [(?k, opened, nonce)] \<and> vh_link v = LinkUp \<and> (w \<longrightarrow> attempt = opened))"
    using assms(1) unfolding sessions_inv_alt by blast
  note h = held_upto [OF i(1,2) assms(2)]
  obtain opened nonce where o: "rd_connects ?s = [(?k, opened, nonce)]" "vh_link v = LinkUp" "w \<longrightarrow> attempt = opened" "n = 0"
    using False assms(2,3) i(5) by (cases n) auto
  show ?thesis
  proof (cases nonce)
    case None
    obtain r b where b: "OnConnected_nonce opened (rd_adapter ?s) = (r, b)" by fastforce
    with None o False assms(2,3) have s: "op = OpNonce 0" by auto
    note j = nonce_clients [OF i(1) b]
    show ?thesis
    proof (cases r)
      case None: None
      with j obtain w' where "clients_inv (c, w', attempt) ?k b" "\<not> (w' \<and> attempt = opened)" "w' \<longrightarrow> w" by auto
      moreover from None s o \<open>nonce = None\<close> b assms(2) have "s' = ?s\<lparr>rd_adapter := b, rd_connects := []\<rparr>" by simp
      ultimately show ?thesis using i(3,4) o(3) h by (intro sessions_invI [of c w' attempt]) auto
    next
      case (Some u)
      with s o \<open>nonce = None\<close> b assms(2) have "s' = ?s\<lparr>rd_adapter := b, rd_connects := [(?k, opened, Some u)]\<rparr>" by simp
      with j Some i(3,4) o h show ?thesis by (intro sessions_invI [of c w attempt]) auto
    qed
  next
    case (Some u)
    with o False assms(2,3) have op: "op = OpSubscribed 0 ok" by auto
    let ?b = "if ok then OnConnected_subscribed L E ?k opened u (rd_adapter ?s) else OnConnected_abandon opened (rd_adapter ?s)"
    have s: "s' = ?s\<lparr>rd_adapter := ?b, rd_connects := []\<rparr>" using op Some o assms(2) by simp
    show ?thesis
    proof (cases "ok \<and> attempt = opened")
      case True
      then have "clients_inv (Some ?k, False, opened) ?k ?b" using subscribed_clients [of c w opened] i(1) by simp
      with i(3) o(2) h show ?thesis unfolding s by (intro sessions_invI [of "Some ?k" False opened]) auto
    next
      case False
      then obtain w' where "clients_inv (c, w', attempt) ?k ?b" "\<not> w'"
        using abandon_clients [OF i(1), of opened] o(3) i(1)
        by (cases ok) (auto simp: OnConnected_subscribed_def clients_inv_def)
      with i(3,4) h show ?thesis unfolding s by (intro sessions_invI [of c w' attempt]) auto
    qed
  qed
qed

lemma section_sessions:
  assumes "sessions_inv v" and "ride_exec L E op (vh_ride v) = Some s'" and "\<And>c. op \<noteq> OpConnected c" "\<And>c. op \<noteq> OpDisconnected c"
  shows "sessions_inv (v\<lparr>vh_ride := s'\<rparr>)"
proof -
  let ?k = "vh_client v" and ?s = "vh_ride v"
  obtain c w attempt where i: "clients_inv (c, w, attempt) ?k (rd_adapter ?s)" "\<forall>p \<in> held ?s. client_upto ?k (mp_client p)"
    "pred_option (\<lambda>(c, topic). client_upto ?k c) (rd_stopping ?s)" "c = None \<or> c = Some ?k \<and> (vh_link v = LinkUp \<or> vh_link v = LinkLost)"
    "rd_connects ?s = [] \<and> \<not> w \<or> (\<exists>opened nonce. rd_connects ?s = [(?k, opened, nonce)] \<and> vh_link v = LinkUp \<and> (w \<longrightarrow> attempt = opened))"
    using assms(1) unfolding sessions_inv_alt by blast
  note h = held_upto [OF i(1,2) assms(2)]
  consider "keeps_link op" | n ok where "op = OpNonce n \<or> op = OpSubscribed n ok" | "op = OpStop"
    | client topic where "op = OpStopped" "rd_stopping ?s = Some (client, topic)" | "op = OpStopped" "rd_stopping ?s = None"
    using assms(3,4) by (cases op; cases "rd_stopping ?s") (auto simp: keeps_link_def)
  then show ?thesis
  proof cases
    case 1
    with clients_exec [OF i(1) assms(2)] i(3-5) h show ?thesis by (intro sessions_invI [of c w attempt]) simp_all
  next
    case 2
    with connect_sessions [OF assms(1,2)] show ?thesis by blast
  next
    case 3
    with assms(2) have "s' = ?s\<lparr>rd_adapter := snd (Stop_begin E (rd_adapter ?s)), rd_stopping := Some (fst (Stop_begin E (rd_adapter ?s)))\<rparr>"
      by (auto split: prod.splits)
    with stop_clients(1,2) [OF i(1), of E] i(5) h show ?thesis
      by (intro sessions_invI [of None False "Suc attempt"]) (auto split: prod.split)
  next
    case (4 client topic)
    with assms(2) have "s' = ?s\<lparr>rd_adapter := Stop_finish client topic (rd_adapter ?s), rd_stopping := None\<rparr>" by simp
    with 4 stop_clients(3) [OF i(1), of client topic] i(3-5) h show ?thesis by (intro sessions_invI [of c w attempt]) simp_all
  next
    case 5
    with assms(2) have "v\<lparr>vh_ride := s'\<rparr> = v" by simp
    with assms(1) show ?thesis by simp
  qed
qed

text \<open>A session begins and ends.\<close>

lemma begin_clients:
  assumes "clients_inv (None, False, attempt) k a"
  shows "\<exists>w attempt'. clients_inv (None, w, attempt') k (snd (OnConnected_begin E client a))
    \<and> (case fst (OnConnected_begin E client a) of None \<Rightarrow> \<not> w | Some n \<Rightarrow> attempt' = n)"
  using assms by (auto simp: OnConnected_begin_def clients_inv_def)

lemma end_clients:
  assumes "clients_inv (c, False, attempt) k a" and "c = None \<or> c = Some client"
  shows "\<exists>attempt'. clients_inv (None, False, attempt') k (OnDisconnected (Some client) a)"
proof -
  have "clients_inv (c, False, Suc attempt) k (a\<lparr>a_connectAttempt := Suc (a_connectAttempt a), a_connecting := False\<rparr>)"
    using assms(1) by (auto simp: clients_inv_def)
  from reset_clients [OF this, of None "''''"]
  have "clients_inv (None, False, Suc attempt) k
      (resetConnectionLocked None '''' (a\<lparr>a_connectAttempt := Suc (a_connectAttempt a), a_connecting := False\<rparr>))" by simp
  with assms show ?thesis by (auto simp: OnDisconnected_def clients_inv_def Let_def)
qed

lemma callback_up_sessions:
  assumes "sessions_inv v" and "run_callback L E True LinkUp v = Some v'" and "vh_link v = LinkRaised"
  shows "sessions_inv v'"
proof -
  let ?k = "vh_client v" and ?s = "vh_ride v" and ?E = "session_env LinkUp (Suc (vh_client v)) E"
  obtain attempt where i: "clients_inv (None, False, attempt) ?k (rd_adapter ?s)" "\<forall>p \<in> held ?s. client_upto ?k (mp_client p)"
    "pred_option (\<lambda>(c, topic). client_upto ?k c) (rd_stopping ?s)" "rd_connects ?s = []"
    using assms(1,3) unfolding sessions_inv_alt by auto
  obtain s' where s': "ride_exec L ?E (OpConnected (Suc ?k)) ?s = Some s'" "v' = v\<lparr>vh_ride := s', vh_client := Suc ?k, vh_link := LinkUp\<rparr>"
    using assms(2) by (auto simp: run_callback_def status_callback_def)
  obtain r b where b: "OnConnected_begin ?E (Suc ?k) (rd_adapter ?s) = (r, b)" by fastforce
  from begin_clients [OF i(1), of ?E "Suc ?k"] obtain w attempt'
    where c0: "clients_inv (None, w, attempt') ?k b" "case r of None \<Rightarrow> \<not> w | Some n \<Rightarrow> attempt' = n"
    unfolding b fst_conv snd_conv by blast
  then have c: "clients_inv (None, w, attempt') (Suc ?k) b" by (simp add: clients_mono [of _ ?k])
  have h: "\<forall>p \<in> held s'. client_upto (Suc ?k) (mp_client p)" "pred_option (\<lambda>(c, topic). client_upto (Suc ?k) c) (rd_stopping ?s)"
    using held_upto [OF i(1,2) s'(1)] i(3) client_upto_mono [of ?k _ "Suc ?k"] by (auto simp: option.pred_set)
  show ?thesis unfolding s'(2)
    by (intro sessions_invI [of None w attempt']) (use s'(1) b c0(2) c h i(4) in \<open>auto split: option.splits\<close>)
qed

lemma callback_down_sessions:
  assumes "sessions_inv v" and "run_callback L E False LinkDown v = Some v'" and "vh_link v = LinkLost"
  shows "sessions_inv v'"
proof -
  let ?k = "vh_client v" and ?s = "vh_ride v" and ?E = "session_env LinkDown (vh_client v) E"
  obtain c attempt where i: "clients_inv (c, False, attempt) ?k (rd_adapter ?s)" "\<forall>p \<in> held ?s. client_upto ?k (mp_client p)"
    "pred_option (\<lambda>(c, topic). client_upto ?k c) (rd_stopping ?s)" "rd_connects ?s = []" "c = None \<or> c = Some ?k"
    using assms(1,3) unfolding sessions_inv_alt by auto
  obtain s' where s': "ride_exec L ?E (OpDisconnected (Some ?k)) ?s = Some s'" "v' = v\<lparr>vh_ride := s', vh_link := LinkDown\<rparr>"
    using assms(2) by (auto simp: run_callback_def status_callback_def)
  from end_clients [OF i(1,5)] obtain attempt' where "clients_inv (None, False, attempt') ?k (rd_adapter s')" using s'(1) by auto
  then show ?thesis unfolding s'(2)
    by (intro sessions_invI [of None False attempt']) (use s'(1) i(3,4) held_upto [OF i(1,2) s'(1)] in auto)
qed

lemma sessions_exec:
  assumes "sessions_inv v" and "vehicle_exec L E op v = Some v'"
  shows "sessions_inv v'"
proof (cases op)
  case SessionUp
  with assms show ?thesis by (cases "vh_link v = LinkDown") (auto simp: sessions_inv_def Let_def)
next
  case SessionDown
  with assms show ?thesis by (cases "vh_link v = LinkDown \<or> vh_link v = LinkUp \<and> rd_connects (vh_ride v) = []") (auto simp: sessions_inv_def Let_def)
next
  case StatusCallback
  with assms callback_up_sessions [OF assms(1)] callback_down_sessions [OF assms(1)] show ?thesis by (auto split: link_phase.splits)
next
  case (AdapterSection aop)
  show ?thesis
  proof (cases "v' = v")
    case False
    with AdapterSection assms(2) obtain s' where "ride_exec L (session_env (vh_link v) (vh_client v) E) aop (vh_ride v) = Some s'"
      "v' = v\<lparr>vh_ride := s'\<rparr>" "\<And>c. aop \<noteq> OpConnected c" "\<And>c. aop \<noteq> OpDisconnected c"
      by (cases aop) (simp_all, (blast | force)+)
    with section_sessions [OF assms(1)] show ?thesis by blast
  qed (use assms(1) in simp)
qed

lemma sessions_start: "NewAdapter cfg redis random = Inr a \<Longrightarrow> sessions_inv (vehicle_init a)"
  by (auto simp: NewAdapter_def Let_def sessions_inv_def vehicle_init_def ride_init_def Start_def startWorkers_def held_def
      startMQTTWorker_def startRedisWorker_def startAckWorker_def split: option.splits if_splits)

lemma reachable_sessions: "vehicle_reachable L v \<Longrightarrow> sessions_inv v"
  by (induction rule: vehicle_reachable.induct) (blast intro: sessions_start sessions_exec)+

section \<open>What the sessions guarantee\<close>

lemma sessions_run: "vehicle_run L ops v = Some v' \<Longrightarrow> sessions_inv v \<Longrightarrow> sessions_inv v'"
proof (induction ops arbitrary: v)
  case (Cons eop ops)
  then show ?case by (cases eop) (auto split: bind_splits dest: sessions_exec)
qed simp

lemma reachable_vehicle_run: "vehicle_run L ops v = Some v' \<Longrightarrow> vehicle_reachable L v \<Longrightarrow> vehicle_reachable L v'"
proof (induction ops arbitrary: v)
  case (Cons eop ops)
  obtain E op where eop: "eop = (E, op)" by (cases eop)
  with Cons(2) obtain v1 where "vehicle_exec L E op v = Some v1" "vehicle_run L ops v1 = Some v'" by (auto split: bind_splits)
  with Cons(1,3) vehicle_reachable.step show ?case by blast
qed simp

text \<open>A vehicle that speaks version 1 and has not connected yet.\<close>

definition parked :: vehicle where
  "parked = \<lparr>vh_ride = sample_start, vh_client = 0, vh_link = LinkDown\<rparr>"

lemma parked_reachable: "vehicle_reachable L parked"
  by (simp add: parked_def sample_start_def NewAdapter_def nonces vehicle_init_def [symmetric] vehicle_reachable.start [of "\<lparr>rc_Enabled = True, rc_Identifier = ''mdb-1'', rc_ProtocolVersion = 1\<rparr>" True
     "[Some (replicate 16 0), Some (replicate 4 17 @ replicate 12 0)]"])

definition joining :: "vehicle_op list" where
  "joining = [SessionUp, StatusCallback, AdapterSection (OpNonce 0), AdapterSection (OpSubscribed 0 True)]"

definition rejoining :: "vehicle_op list" where
  "rejoining = [SessionDown, StatusCallback, SessionUp, StatusCallback]"

lemma parked_facts:
  "rd_connects (vh_ride parked) = []" "vh_link parked = LinkDown" "vh_client parked = 0" "a_mqtt (rd_adapter (vh_ride parked)) = None"
  "a_Enabled (rd_adapter (vh_ride parked))" "\<not> a_ctx_done (rd_adapter (vh_ride parked))" "\<not> a_connecting (rd_adapter (vh_ride parked))"
  "a_random (rd_adapter (vh_ride parked)) = [Some (replicate 4 17 @ replicate 12 0)]" "a_protocolVersion (rd_adapter (vh_ride parked)) = 1"
  "a_mqttPending (rd_adapter (vh_ride parked)) = []" "\<not> a_mqttClosing (rd_adapter (vh_ride parked))"
  "\<not> a_blocked (rd_adapter (vh_ride parked))" "\<not> a_localStopPending (rd_adapter (vh_ride parked))"
  "a_connectAttempt (rd_adapter (vh_ride parked)) = 0"
  by (simp_all add: parked_def sample_start_def NewAdapter_def nonces ride_init_def Start_def startWorkers_def startAckWorker_def
      startRedisWorker_def startMQTTWorker_def Let_def)

lemma parked_opened:
  "vehicle_run sample_lib (map (Pair sample_env) (take 3 joining)) parked =
     Some (parked\<lparr>vh_client := 1, vh_link := LinkUp, vh_ride := (vh_ride parked)\<lparr>rd_connects := [(1, 1, Some (sample_uuid (CHR ''1'')))],
       rd_adapter := (rd_adapter (vh_ride parked))\<lparr>a_connecting := True, a_connectAttempt := 1, a_random := []\<rparr>\<rparr>\<rparr>)"
  using parked_facts
  by (simp add: joining_def run_callback_def status_callback_def OnConnected_begin_def OnConnected_nonce_def draw_UUID_def nonces(2)
      session_env_def)

lemma hello_pending:
  assumes "a_mqttPending a = []" and "\<not> a_mqttClosing a" and "a_protocolVersion a = 1" and "\<not> a_blocked a" and "\<not> a_localStopPending a"
    and "e_up E c" and "nonce \<noteq> ''''"
  shows "\<exists>p. (''hello'', p) \<in> set (a_mqttPending (OnConnected_subscribed L E c (a_connectAttempt a) nonce a)) \<and> mp_client p = Some c"
  using assms
  by (simp add: OnConnected_subscribed_def resetConnectionLocked_def clearGrantLocked_def clearGrantV2Locked_def
      invalidatePositionPublicationsLocked_def dropPendingPosition_def dropPendingV2Source_def invalidateLocalAttemptsV2Locked_def
      publishHelloLocked_def link_up_def queueMQTTPublication_def startMQTTWorker_def zero_publication_def Let_def)

lemma vehicle_run_append: "vehicle_run L (xs @ ys) v = Option.bind (vehicle_run L xs v) (vehicle_run L ys)"
proof (induction L xs v rule: vehicle_run.induct)
  case (2 L E op ops v)
  then show ?case by (cases "vehicle_exec L E op v") simp_all
qed simp

lemma parked_joined:
  obtains v p where "vehicle_run sample_lib (map (Pair sample_env) joining) parked = Some v" "p \<in> pending (vh_ride v)"
    "mp_client p = Some 1" "vh_client v = 1" "vh_link v = LinkUp" "rd_connects (vh_ride v) = []"
    "a_mqtt (rd_adapter (vh_ride v)) = Some 1"
proof -
  let ?b = "(rd_adapter (vh_ride parked))\<lparr>a_connecting := True, a_connectAttempt := 1, a_random := []\<rparr>"
  let ?E = "session_env LinkUp 1 sample_env"
  let ?c = "OnConnected_subscribed sample_lib ?E 1 (a_connectAttempt ?b) (sample_uuid (CHR ''1'')) ?b"
  have j: "joining = take 3 joining @ [AdapterSection (OpSubscribed 0 True)]" by (simp add: joining_def)
  have "vehicle_run sample_lib (map (Pair sample_env) joining) parked =
      Some (parked\<lparr>vh_client := 1, vh_link := LinkUp, vh_ride := (vh_ride parked)\<lparr>rd_connects := [], rd_adapter := ?c\<rparr>\<rparr>)"
    by (subst j) (simp only: map_append vehicle_run_append parked_opened, simp)
  moreover have "e_up ?E 1" by (simp add: session_env_def)
  from hello_pending [OF _ _ _ _ _ this, of ?b "sample_uuid (CHR ''1'')" sample_lib]
  obtain p where "(''hello'', p) \<in> set (a_mqttPending ?c)" "mp_client p = Some 1"
    using parked_facts other_nonce by auto
  moreover have "clients_inv (None, True, a_connectAttempt ?b) 1 ?b" using parked_facts by (simp add: clients_inv_def)
  from subscribed_clients [OF this] have "a_mqtt ?c = Some 1" by (simp add: clients_inv_def)
  ultimately show thesis by (intro that) (auto simp: pending_iff)
qed

text \<open>
  C9: Sessions do not leak into each other.  However the status call-back, the sections of the adapter and
  those of its worker interleave: once the manager has made a new session, whatever the adapter had queued,
  taken or handed over before is skipped by the worker; nothing of it that has a session is authorised.
\<close>

theorem sessions_isolated:
  assumes "vehicle_reachable L v" and "vehicle_run L ops v = Some v'" and "vh_client v < vh_client v'"
    and "p \<in> pending (vh_ride v) \<union> held (vh_ride v)"
  shows "worker_admit (session_env (vh_link v') (vh_client v') E) p (rd_adapter (vh_ride v')) = SkipPublication
    \<and> (mp_client p = None \<or> \<not> still_authorized p E' (rd_adapter (vh_ride v')))"
proof (cases "mp_client p")
  case (Some c)
  have "sessions_inv v" and i: "sessions_inv v'"
    using reachable_sessions [OF assms(1)] sessions_run [OF assms(2)] by blast+
  then have "c \<le> vh_client v"
    using assms(4) Some by (auto simp: sessions_inv_def pending_iff pending_upto_def list_all_iff Let_def)
  with assms(3) have c: "c < vh_client v'" by simp
  with i have "a_mqtt (rd_adapter (vh_ride v')) \<noteq> Some c" by (auto simp: sessions_inv_def Let_def)
  with c Some show ?thesis by (auto simp: worker_admit_def still_authorized_def session_env_def)
qed (simp add: worker_admit_def)

theorem sessions_isolated_witness:
  "\<exists>v v' p. vehicle_run sample_lib (map (Pair sample_env) joining) parked = Some v \<and> p \<in> pending (vh_ride v) \<and> mp_client p = Some 1
    \<and> vehicle_run sample_lib (map (Pair sample_env) rejoining) v = Some v' \<and> vh_client v' = 2
    \<and> worker_admit (session_env (vh_link v') (vh_client v') sample_env) p (rd_adapter (vh_ride v')) = SkipPublication
    \<and> \<not> still_authorized p sample_env (rd_adapter (vh_ride v'))"
proof -
  obtain v p where v: "vehicle_run sample_lib (map (Pair sample_env) joining) parked = Some v" "p \<in> pending (vh_ride v)"
    "mp_client p = Some 1" "vh_client v = 1" "vh_link v = LinkUp" "rd_connects (vh_ride v) = []"
    "a_mqtt (rd_adapter (vh_ride v)) = Some 1"
    by (rule parked_joined)
  obtain v' where v': "vehicle_run sample_lib (map (Pair sample_env) rejoining) v = Some v'" "vh_client v' = 2"
    using v(4-6) by (simp add: rejoining_def run_callback_def status_callback_def)
  from sessions_isolated [OF reachable_vehicle_run [OF v(1) parked_reachable] v'(1), of p sample_env sample_env] v v' show ?thesis
    by auto
qed

text \<open>Between the call-back and the end of the subscription, other goroutines run, but the adapter is not stopped.\<close>

definition joins :: "vehicle_op \<Rightarrow> bool" where
  "joins op = (case op of AdapterSection aop \<Rightarrow> keeps_link aop \<or> aop = OpNonce 0 | _ \<Rightarrow> False)"

definition opened :: "nat \<Rightarrow> nat \<Rightarrow> vehicle \<Rightarrow> bool" where
  "opened k n v =
     (vh_client v = k \<and> vh_link v = LinkUp
      \<and> (rd_connects (vh_ride v) = [] \<or> (\<exists>w. clients_inv (None, True, n) k (rd_adapter (vh_ride v)) \<and> rd_connects (vh_ride v) = [(k, n, w)])))"

lemma opened_exec:
  assumes "opened k n v" and "vehicle_exec L E op v = Some v'" and "joins op"
  shows "opened k n v'"
proof -
  obtain aop where op: "op = AdapterSection aop" "keeps_link aop \<or> aop = OpNonce 0" using assms(3) by (auto simp: joins_def split: vehicle_op.splits)
  obtain s' where s': "ride_exec L (session_env (vh_link v) (vh_client v) E) aop (vh_ride v) = Some s'" "v' = v\<lparr>vh_ride := s'\<rparr>"
    using assms(2) op by (cases aop) (auto simp: keeps_link_def)
  show ?thesis
  proof (cases "rd_connects (vh_ride v) = []")
    case True
    with s' op have "rd_connects s' = []" by (cases aop) (auto simp: keeps_link_def split: option.splits prod.splits sum.splits worker_action.splits)
    with assms(1) s' show ?thesis by (simp add: opened_def)
  next
    case False
    with assms(1) obtain w where w: "clients_inv (None, True, n) k (rd_adapter (vh_ride v))" "rd_connects (vh_ride v) = [(k, n, w)]"
      by (auto simp: opened_def)
    show ?thesis
    proof (cases "keeps_link aop")
      case True
      with clients_exec [OF w(1) s'(1)] w(2) assms(1) s'(2) show ?thesis by (simp add: opened_def)
    next
      case False
      obtain r b where b: "OnConnected_nonce n (rd_adapter (vh_ride v)) = (r, b)" by fastforce
      from nonce_clients [OF w(1) b] False op s' w b assms(1) show ?thesis
        by (cases w; cases r) (auto simp: opened_def)
    qed
  qed
qed

lemma opened_run: "vehicle_run L ops v = Some v' \<Longrightarrow> list_all (\<lambda>(E, op). joins op) ops \<Longrightarrow> opened k n v \<Longrightarrow> opened k n v'"
proof (induction ops arbitrary: v)
  case (Cons eop ops)
  then show ?case by (cases eop) (auto split: bind_splits dest: opened_exec)
qed simp

lemma callback_opens:
  assumes "sessions_inv v" and "vh_link v = LinkRaised" and "a_Enabled (rd_adapter (vh_ride v))" and "\<not> a_ctx_done (rd_adapter (vh_ride v))"
    and "vehicle_exec L E StatusCallback v = Some v'"
  shows "\<exists>n. opened (Suc (vh_client v)) n v' \<and> rd_connects (vh_ride v') = [(Suc (vh_client v), n, None)]"
proof -
  obtain attempt where i: "clients_inv (None, False, attempt) (vh_client v) (rd_adapter (vh_ride v))" "rd_connects (vh_ride v) = []"
    using assms(1,2) unfolding sessions_inv_alt by auto
  from clients_mono [OF i(1), of "Suc (vh_client v)"] i(2) assms(2-5) show ?thesis
    by (auto simp: run_callback_def status_callback_def OnConnected_begin_def session_env_def opened_def clients_inv_def)
qed

text \<open>
  C10: No session is missed.  When the manager has a new session, the adapter starts to subscribe in it, whatever
  became of the sessions before; and if the subscription succeeds, the session is the connection of the
  adapter, whatever Redis, the cloud, the ticker and the workers did meanwhile.
\<close>

theorem session_joined:
  assumes "vehicle_reachable L v" and "vh_link v = LinkRaised" and "a_Enabled (rd_adapter (vh_ride v))"
    and "\<not> a_ctx_done (rd_adapter (vh_ride v))" and "vehicle_exec L E StatusCallback v = Some v1"
    and "vehicle_run L ops v1 = Some v2" and "list_all (\<lambda>(E, op). joins op) ops" and "rd_connects (vh_ride v2) = [(c, n, Some nonce)]"
    and "vehicle_exec L E' (AdapterSection (OpSubscribed 0 True)) v2 = Some v3"
  shows "(\<exists>m. rd_connects (vh_ride v1) = [(Suc (vh_client v), m, None)]) \<and> c = Suc (vh_client v)
    \<and> vh_client v3 = c \<and> a_mqtt (rd_adapter (vh_ride v3)) = Some c"
proof -
  obtain m where m: "opened (Suc (vh_client v)) m v1" "rd_connects (vh_ride v1) = [(Suc (vh_client v), m, None)]"
    using callback_opens [OF reachable_sessions [OF assms(1)] assms(2-5)] by blast
  from opened_run [OF assms(6,7) m(1)] assms(8)
  have o: "vh_client v2 = c" "c = Suc (vh_client v)" "clients_inv (None, True, n) c (rd_adapter (vh_ride v2))" by (auto simp: opened_def)
  have "a_mqtt (OnConnected_subscribed L F c n nonce (rd_adapter (vh_ride v2))) = Some c" for F
    using subscribed_clients [OF o(3)] by (simp add: clients_inv_def)
  with assms(8,9) o m(2) show ?thesis by auto
qed

theorem session_joined_witness:
  "\<exists>v v1 v2 v3 c n nonce. vehicle_run sample_lib [(sample_env, SessionUp)] parked = Some v
    \<and> vehicle_exec sample_lib sample_env StatusCallback v = Some v1
    \<and> vehicle_run sample_lib [(sample_env, AdapterSection (OpNonce 0))] v1 = Some v2 \<and> rd_connects (vh_ride v2) = [(c, n, Some nonce)]
    \<and> vehicle_exec sample_lib sample_env (AdapterSection (OpSubscribed 0 True)) v2 = Some v3 \<and> a_mqtt (rd_adapter (vh_ride v3)) = Some 1"
proof -
  obtain v v1 v2 v3 where v: "vehicle_run sample_lib [(sample_env, SessionUp)] parked = Some v"
    "vehicle_exec sample_lib sample_env StatusCallback v = Some v1"
    "vehicle_run sample_lib [(sample_env, AdapterSection (OpNonce 0))] v1 = Some v2"
    "vehicle_exec sample_lib sample_env (AdapterSection (OpSubscribed 0 True)) v2 = Some v3"
    "rd_connects (vh_ride v2) = [(1, 1, Some (sample_uuid (CHR ''1'')))]"
    using parked_opened parked_facts by (auto simp: joining_def numeral_3_eq_3 split: bind_splits)
  have f: "vh_link v = LinkRaised" "a_Enabled (rd_adapter (vh_ride v))" "\<not> a_ctx_done (rd_adapter (vh_ride v))"
    using v(1) parked_facts by auto
  have "list_all (\<lambda>(E, op). joins op) [(sample_env, AdapterSection (OpNonce 0))]" by (simp add: joins_def)
  from session_joined [OF reachable_vehicle_run [OF v(1) parked_reachable] f v(2,3) this v(5,4)] v show ?thesis by auto
qed

end
