(* ===== verification/Spec2Isabelle.thy ===== *)
theory Spec2Isabelle
  imports Service Monitor Events Alarm Keycard Ride_Roundtrip Ride_Properties Ride_Sessions
begin

text \<open>
  The librescoot uplink service, \<^verbatim>\<open>cmd/uplink-service\<close> and \<^verbatim>\<open>internal/\<close>: the program on an electric
  scooter that keeps one WebSocket connection to the cloud, sends the state of the vehicle, reports
  events, executes remote commands and carries the messages of a ride group.  This library translates
  the program into HOL and proves what makes its parts correct.

  \<^bold>\<open>The program and its theories.\<close>  A part of the program is a group of definitions with the names of
  the source; the state of a part is a record, an operation is a function from the old state to the
  result and the new state, and goroutines that interleave are an inductive step relation.

  \<^item> \<open>Float64\<close>: IEEE binary64 arithmetic on exact rationals with rounding.
  \<^item> \<open>Prelude\<close>: Go maps, byte strings, decimal conversion, the dynamic type \<^verbatim>\<open>any\<close>, time, bounded
    channels, atomic file replacement; the simplification collections.
  \<^item> \<open>Clock\<close>: \<^verbatim>\<open>timeutil/clock.go\<close>; relative time stamps before the first synchronisation and their
    later projection onto real time.
  \<^item> \<open>Messages\<close>, \<open>Connection\<close>, \<open>Live\<close>, \<open>Session\<close>: \<^verbatim>\<open>protocol/messages.go\<close>, \<^verbatim>\<open>connection/manager.go\<close>
    and \<^verbatim>\<open>connection/live.go\<close>.  \<open>Connection\<close> has one definition per method and per loop iteration,
    \<open>Live\<close> the live queue, \<open>Session\<close> the interleaving of the loops with their clients.
  \<^item> \<open>Config\<close>, \<open>Reflect\<close>: \<^verbatim>\<open>config/config.go\<close> and \<^verbatim>\<open>config/reflect.go\<close>; defaults, durations, and the
    access to configuration fields by dotted paths through Go reflection.
  \<^item> \<open>Collector\<close>: \<^verbatim>\<open>telemetry/collector.go\<close> with \<^verbatim>\<open>modeminfo\<close> and \<^verbatim>\<open>hwid\<close>; the snapshot and its filter.
  \<^item> \<open>Buffer\<close>, \<open>Publisher\<close>: \<^verbatim>\<open>telemetry/buffer.go\<close>, \<^verbatim>\<open>telemetry/delta.go\<close>, \<^verbatim>\<open>geo/geo.go\<close>; the offline
    buffer and the full/delta publisher.
  \<^item> \<open>Monitor\<close>, \<open>Events\<close>: \<^verbatim>\<open>telemetry/monitor.go\<close>, \<^verbatim>\<open>telemetry/events.go\<close>; the deadlines by priority and
    the event detector with its durable queue.
  \<^item> \<open>Commands\<close>, \<open>Alarm\<close>, \<open>Keycard\<close>: \<^verbatim>\<open>commands/*.go\<close>; the dispatcher with all handlers, and two state
    machines for the handlers that run concurrently.
  \<^item> \<open>Json\<close>, \<open>Utf8\<close>, \<open>Envelope\<close>, \<open>Ride_Messages\<close>, \<open>Ride_Protocol\<close>, \<open>Ride_Roundtrip\<close>: \<^verbatim>\<open>ridegroup/protocol.go\<close>
    and \<^verbatim>\<open>ridegroup/protocol_v2.go\<close>; JSON with the decoding of structures, the envelopes of both protocol
    versions with all their checks, the canonical encoding and the fitting of labels.
  \<^item> \<open>Ride_Gps\<close>: \<^verbatim>\<open>ridegroup/gps.go\<close>; fixes, their time stamps, and the estimate of the motion.
  \<^item> \<open>Ride_Egress\<close>, \<open>Ride_Lease\<close>: \<^verbatim>\<open>ridegroup/egress.go\<close> and the shared part of \<^verbatim>\<open>ridegroup/adapter.go\<close>; the
    state of the adapter, its queues and workers, authorisation, withdrawal, challenges and replay.
  \<^item> \<open>Ride_V1\<close>, \<open>Ride_V2\<close>, \<open>Ride_Grant\<close>: the handlers of both protocol versions, \<^verbatim>\<open>ridegroup/adapter.go\<close>,
    \<^verbatim>\<open>ridegroup/protocol_v2_adapter.go\<close>, \<^verbatim>\<open>ridegroup/gps_v2.go\<close>, \<^verbatim>\<open>ridegroup/ipc_v2.go\<close>.
  \<^item> \<open>Ride_System\<close>: construction, connections, the Redis subscription with its recovery, and the
    interleaving of all critical sections of the adapter.
  \<^item> \<open>Ride_Gates\<close>, \<open>Ride_Safety\<close>: the invariant of the adapter that says when there is a grant and that no
    pointer is nil.  \<open>Ride_Walk\<close> follows every handler along its branches for any invariant that depends only
    on the queues and the connection; \<open>Ride_Queues\<close> is the invariant of what is queued.  \<open>Ride_Scenario\<close> is
    a concrete run of version 1 from the construction to a position that is shared, \<open>Ride_Consent\<close> one of
    version 2, with the probe of the consent journal; \<open>Ride_Properties\<close> holds what is true in every
    reachable state and along every run.
  \<^item> \<open>Ride_Sessions\<close>: the adapter under the status call-back of \<^verbatim>\<open>main.go\<close>, one handle per session of the
    connection manager.
  \<^item> \<open>Service\<close>: \<^verbatim>\<open>main.go\<close>; the composition of session, publisher and buffer, and the rest of the wiring.

  \<^bold>\<open>Interfaces.\<close>  The publisher, the buffer and the event detector use the connection through Go
  interfaces.  Each is a locale (\<open>bounded_outbox\<close> with \<open>telemetry_sink\<close>, \<open>batch_sink\<close> and \<open>event_sink\<close>
  above it): the client's lemmas are proved from the laws, and the interpretations \<open>mgr_tel\<close>,
  \<open>mgr_batch\<close>, \<open>mgr_event\<close>, \<open>mgr_change\<close> and \<open>mgr_resp\<close> discharge them for the connection manager.  The
  locale \<open>carried\<close> carries a predicate along the control flow of an operation; it is interpreted with each
  invariant of the ride-group adapter.  \<open>adapter_invariant\<close> extends it by what the operations on the queues
  and the connection have to keep, and gives every handler in return; \<open>ql\<close> interprets it with the invariant
  of the queues, \<open>lk\<close> with the one of the sessions.

  \<^bold>\<open>What is shown.\<close>  The session is a state machine whose flags agree with its phase and whose channels
  keep their bounds.  The publisher refines a receiver that replays its messages, and the composition
  shows that the server follows the publisher through disconnects.  Filtered settings and private
  vehicle states never leave the vehicle.  The buffer stays bounded, survives a restart and is flushed
  all or nothing.  Events are sent or queued, and replayed in order.  Refused commands are inert and
  accepted ones are answered once.  Configuration fields that were set are read back and nothing else
  changes.  Ride-group messages survive the wire.  The ride-group adapter, whatever its goroutines, clocks and
  messages do, never dereferences a nil pointer, shares a position only under a running lease that the
  vehicle consented to, never sends one after it was withdrawn, counts a lease from its challenge, passes a
  peer's position on once, and holds a bounded amount of everything.  It joins every session of the
  connection manager, and what it made in one session is never sent in another.  Theorems also pin down where the code does something else than its comments say; the text
  above each of them says so.

  \<^bold>\<open>Parameters.\<close>  \<open>golib\<close> (decimal float conversion, \<^verbatim>\<open>time.ParseDuration\<close>, \<^verbatim>\<open>time.Parse\<close>, the functions of
  \<^verbatim>\<open>math\<close>, Unicode case folding), the JSON and YAML codecs, the outcome of every file and Redis
  operation and the instants read from the clock are arguments of the definitions.  Theorems that need
  a property of such an argument name it as a hypothesis, and their witnesses instantiate it.

  \<^bold>\<open>Bounds and fuel.\<close>  Loops over channels and tickers are given by one iteration; loops over data recurse
  on it.  \<open>clock_sync\<close>, \<open>alarm_loop\<close> and \<open>locate_loop\<close> recurse on the list of answers the environment
  gives or on the number of rounds, so no fuel can run out unnoticed.

  \<^bold>\<open>Not modelled.\<close>  Log output and
  the text of the periodic statistics; command-line flags and signals; the implementation of TLS, WebSocket, Redis and
  \<^verbatim>\<open>mmcli\<close>, which lie outside the repository.
\<close>

end
